(* ===== verification/Prelude.thy ===== *)
theory Prelude
  imports Main "HOL-Library.AList" "HOL-Library.Sublist"
begin

text \<open>
  The shared base of the development: the collections of facts the component
  theories fill, Go maps and slices as lists that distinguish \<open>nil\<close> from empty,
  and the generic lemmas about association lists and prefixes the components use.

  A Go map has no order: a \<open>range\<close> loop visits the entries in any order. The
  model of a map is an association list, and the list order is the order one
  \<open>range\<close> loop takes, so a theorem for every list is a theorem for every order.
\<close>

named_theorems go_defs \<open>definitions of the string and map functions, for evaluation\<close>
named_theorems wp_simps \<open>equations of the weakest precondition\<close>
named_theorems emits_intros \<open>introduction rules for the calls a program may make\<close>

section \<open>Go maps and slices\<close>

text \<open>\<open>None\<close> is the nil map (or nil slice); reading it is allowed and finds nothing.\<close>

type_synonym ('k, 'v) gomap = "('k \<times> 'v) list option"
type_synonym smap = "(string, string) gomap"
type_synonym 'a slice = "'a list option"

definition entries :: "('k, 'v) gomap \<Rightarrow> ('k \<times> 'v) list" where
  "entries m = (case m of None \<Rightarrow> [] | Some xs \<Rightarrow> xs)"

definition elems :: "'a slice \<Rightarrow> 'a list" where
  "elems s = (case s of None \<Rightarrow> [] | Some xs \<Rightarrow> xs)"

text \<open>\<open>v, ok := m[k]\<close>\<close>

definition mlookup :: "('k, 'v) gomap \<Rightarrow> 'k \<Rightarrow> 'v option" where
  "mlookup m k = map_of (entries m) k"

text \<open>\<open>m[k]\<close> on a map of strings: the zero value when the key is absent.\<close>

definition mindex :: "smap \<Rightarrow> string \<Rightarrow> string" where
  "mindex m k = (case mlookup m k of None \<Rightarrow> '''' | Some v \<Rightarrow> v)"

text \<open>
  \<open>m[k] = v\<close> and \<open>delete(m, k)\<close> on a map that is not nil. Assigning to a nil map
  panics in Go; the operation takes the list of a map that was made, so every use
  shows the \<open>make\<close> before it.
\<close>

definition mput :: "('k \<times> 'v) list \<Rightarrow> 'k \<Rightarrow> 'v \<Rightarrow> ('k \<times> 'v) list" where
  "mput xs k v = AList.update k v xs"

definition mdelete :: "('k \<times> 'v) list \<Rightarrow> 'k \<Rightarrow> ('k \<times> 'v) list" where
  "mdelete xs k = AList.delete k xs"

text \<open>A Go map holds a key at most once.\<close>

definition map_ok :: "('k, 'v) gomap \<Rightarrow> bool" where
  "map_ok m \<longleftrightarrow> distinct (map fst (entries m))"

lemma entries_simps [simp]: "entries None = []" "entries (Some xs) = xs"
  by (simp_all add: entries_def)

lemma elems_simps [simp]: "elems None = []" "elems (Some xs) = xs"
  by (simp_all add: elems_def)

lemma mlookup_None [simp]: "mlookup None k = None"
  by (simp add: mlookup_def)

lemma mlookup_mput [simp]:
  "mlookup (Some (mput xs k v)) k' = (if k' = k then Some v else mlookup (Some xs) k')"
  by (simp add: mlookup_def mput_def update_conv')

lemma mlookup_mdelete [simp]:
  "mlookup (Some (mdelete xs k)) k' = (if k' = k then None else mlookup (Some xs) k')"
  by (simp add: mlookup_def mdelete_def delete_conv')

lemma map_ok_mput: "map_ok (Some xs) \<Longrightarrow> map_ok (Some (mput xs k v))"
  by (simp add: map_ok_def mput_def distinct_update)

lemma map_ok_mdelete: "map_ok (Some xs) \<Longrightarrow> map_ok (Some (mdelete xs k))"
  by (simp add: map_ok_def mdelete_def distinct_delete)

lemma mlookup_Some_iff: "map_ok m \<Longrightarrow> mlookup m k = Some v \<longleftrightarrow> (k, v) \<in> set (entries m)"
  by (simp add: mlookup_def map_ok_def)

lemma mlookup_None_iff: "mlookup m k = None \<longleftrightarrow> k \<notin> fst ` set (entries m)"
  by (simp add: mlookup_def map_of_eq_None_iff)

lemma mlookup_mem: "mlookup m k = Some v \<Longrightarrow> (k, v) \<in> set (entries m)"
  by (simp add: mlookup_def map_of_SomeD)

lemmas map_lookup_simps = mlookup_mput mlookup_mdelete mlookup_None

section \<open>Prefixes and lists\<close>

lemma prefix_append_iff: "length p \<le> length s \<Longrightarrow> prefix p (s @ t) \<longleftrightarrow> prefix p s"
  by (metis append_eq_append_conv_if prefix_def prefix_length_le prefix_order.dual_order.trans
      prefixI prefix_same_cases prefix_length_prefix)

lemma filter_fst_distinct:
  "distinct (map fst xs) \<Longrightarrow> distinct (map fst (filter P xs))"
  by (induction xs) auto

lemma takeWhile_append_stop:
  "\<forall>x \<in> set xs. P x \<Longrightarrow> \<not> P y \<Longrightarrow> takeWhile P (xs @ y # ys) = xs"
  by (induction xs) auto

lemma dropWhile_append_stop:
  "\<forall>x \<in> set xs. P x \<Longrightarrow> \<not> P y \<Longrightarrow> dropWhile P (xs @ y # ys) = y # ys"
  by (induction xs) auto

end
