(* ===== verification/Kube_Types.thy ===== *)
theory Kube_Types
  imports Prelude
begin

text \<open>
  The Kubernetes objects the driver reads and writes, with the fields it uses:
  pods (with containers, volumes, status), persistent volumes, and the patches
  it sends. The Go types are those of \<open>k8s.io/api/core/v1\<close>; the patch values are
  those of \<open>pkg/juicefs/k8sclient/client.go\<close>. Byte slices of JSON are kept as the
  values they encode.
\<close>

section \<open>Pods\<close>

datatype volume_source =
    HostPath string           \<comment> \<open>directory on the host, type DirectoryOrCreate\<close>
  | SecretVolume string       \<comment> \<open>secret name\<close>
  | PVCVolume string          \<comment> \<open>claim name\<close>
  | OtherVolume

record volume =
  vName :: string
  vSource :: volume_source

record volume_mount =
  vmName :: string
  vmMountPath :: string
  vmBidirectional :: bool

text \<open>Resource maps take a resource name to the text of a quantity.\<close>

record resource_requirements =
  Limits :: smap
  Requests :: smap

record container =
  cName :: string
  cImage :: string
  cCommand :: "string slice"
  cPrivileged :: bool
  cResources :: resource_requirements
  cEnv :: "(string \<times> string) list"
  cPorts :: "(string \<times> int) list"
  cVolumeMounts :: "volume_mount list"
  cPreStop :: "string slice"

record pod_spec =
  Containers :: "container list"
  Volumes :: "volume list"
  NodeName :: string
  NodeSelector :: smap
  RestartPolicy :: string

datatype pod_phase = PodPending | PodRunning | PodSucceeded | PodFailed | PodUnknown | NoPhase

record pod_condition =
  condType :: string
  condStatus :: string
  condReason :: string
  condMessage :: string

text \<open>A container state: the reason when it waits, the exit code when it terminated.\<close>

record container_status =
  csName :: string
  csReady :: bool
  csWaiting :: "string option"
  csTerminated :: "int option"

record pod_status_t =
  Phase :: pod_phase
  statusReason :: string
  statusMessage :: string
  Conditions :: "pod_condition list"
  ContainerStatuses :: "container_status list"
  InitContainerStatuses :: "container_status list"

record pod =
  pName :: string
  pNamespace :: string
  pUID :: string
  pResourceVersion :: string
  pLabels :: smap
  pAnnotations :: smap
  pFinalizers :: "string slice"
  pDeletionTimestamp :: "int option"
  pSpec :: pod_spec
  pStatus :: pod_status_t

text \<open>Zero values of the Go structs.\<close>

definition zero_status :: pod_status_t where
  "zero_status = \<lparr>Phase = NoPhase, statusReason = '''', statusMessage = '''', Conditions = [],
     ContainerStatuses = [], InitContainerStatuses = []\<rparr>"

definition zero_spec :: pod_spec where
  "zero_spec = \<lparr>Containers = [], Volumes = [], NodeName = '''', NodeSelector = None,
     RestartPolicy = ''''\<rparr>"

section \<open>Persistent volumes\<close>

record persistent_volume =
  pvStorageClassName :: string
  pvCSIDriver :: "string option"    \<comment> \<open>driver of the CSI source; None when there is none\<close>
  pvClaimNamespace :: "string option" \<comment> \<open>namespace of the claim reference, if any\<close>

section \<open>Patches\<close>

datatype patch_value =
    PatchMapValue string string smap
  | PatchStringValue string string string
  | PatchDelValue string string
  | PatchListValue string string "string slice"

datatype patch =
    JSONPatch "patch_value list"
  | StrategicMergeLabels smap        \<comment> \<open>metadata.labels\<close>
  | StrategicMergeAnnotations smap   \<comment> \<open>metadata.annotations\<close>

section \<open>The custom resource of the warm-up controller\<close>

text \<open>\<open>Cache\<close> of \<open>pkg/warmup/api/v1alpha1/cache_types.go\<close> and the claim it names.\<close>

record cache_object =
  cacheNamespace :: string
  cacheName :: string
  cacheDeletionTimestamp :: "int option"
  specPvcName :: string
  specPath :: string
  statusCached :: bool
  statusMsg :: string

record persistent_volume_claim =
  pvcStorageClassName :: "string option"  \<comment> \<open>a pointer in the Go type\<close>
  pvcVolumeName :: string

end
