(* ===== verification/Go_Strings.thy ===== *)
theory Go_Strings
  imports Prelude
begin

text \<open>
  The functions of Go's packages \<open>strings\<close>, \<open>strconv\<close> and \<open>path/filepath\<close>
  that the driver calls, on byte strings (a \<open>char\<close> is a byte). White space and
  letter case are the ASCII ones: a byte of a multi-byte UTF-8 sequence is
  neither space nor letter. The lemmas give the round trip of \<open>Split\<close> and \<open>Join\<close>,
  the result of \<open>Split\<close> on a text with one separator, and the result of
  \<open>filepath.Join\<close> on the names the driver uses.
\<close>

section \<open>Package strings\<close>

definition HasPrefix :: "string \<Rightarrow> string \<Rightarrow> bool" where
  [go_defs]: "HasPrefix s p \<longleftrightarrow> take (length p) s = p"

definition TrimPrefix :: "string \<Rightarrow> string \<Rightarrow> string" where
  [go_defs]: "TrimPrefix s p = (if HasPrefix s p then drop (length p) s else s)"

definition TrimSuffix :: "string \<Rightarrow> string \<Rightarrow> string" where
  [go_defs]: "TrimSuffix s x =
     (if HasPrefix (rev s) (rev x) then take (length s - length x) s else s)"

definition Trim :: "string \<Rightarrow> string \<Rightarrow> string" where
  [go_defs]: "Trim s cutset =
     (let keep = dropWhile (\<lambda>c. c \<in> set cutset) in rev (keep (rev (keep s))))"

text \<open>\<open>strings.Index\<close>, with \<open>None\<close> for its \<open>-1\<close>.\<close>

fun Index :: "string \<Rightarrow> string \<Rightarrow> nat option" where
  "Index [] sep = (if sep = [] then Some 0 else None)"
| "Index (c # cs) sep = (if HasPrefix (c # cs) sep then Some 0 else map_option Suc (Index cs sep))"

text \<open>\<open>strings.LastIndex\<close> for a separator of one byte.\<close>

fun LastIndex :: "string \<Rightarrow> char \<Rightarrow> nat option" where
  "LastIndex [] x = None"
| "LastIndex (c # cs) x =
     (case LastIndex cs x of Some i \<Rightarrow> Some (Suc i) | None \<Rightarrow> if c = x then Some 0 else None)"

definition Contains :: "string \<Rightarrow> string \<Rightarrow> bool" where
  [go_defs]: "Contains s sub \<longleftrightarrow> Index s sub \<noteq> None"

lemma Index_bound: "Index s sep = Some i \<Longrightarrow> i + length sep \<le> length s"
proof (induction s arbitrary: i)
  case Nil
  then show ?case by (auto split: if_splits)
next
  case (Cons c cs)
  show ?case
  proof (cases "HasPrefix (c # cs) sep")
    case True
    then have "length sep \<le> length (c # cs)"
      unfolding HasPrefix_def by (metis length_take min.cobounded1)
    with True Cons.prems show ?thesis by simp
  next
    case False
    with Cons show ?thesis by auto
  qed
qed

text \<open>
  \<open>strings.Split\<close>. The driver never splits on the empty separator, for which Go
  splits after each UTF-8 sequence; here that case splits after each byte.
\<close>

function Split :: "string \<Rightarrow> string \<Rightarrow> string list" where
  "Split s sep =
     (if sep = [] then map (\<lambda>c. [c]) s
      else case Index s sep of
             None \<Rightarrow> [s]
           | Some i \<Rightarrow> take i s # Split (drop (i + length sep) s) sep)"
  by pat_completeness auto
termination
  by (relation "measure (\<lambda>(s, sep). length s)") (auto dest!: Index_bound simp flip: length_greater_0_conv)

declare Split.simps [simp del]

fun Join :: "string list \<Rightarrow> string \<Rightarrow> string" where
  "Join [] sep = []"
| "Join [x] sep = x"
| "Join (x # y # ys) sep = x @ sep @ Join (y # ys) sep"

definition ReplaceAll :: "string \<Rightarrow> string \<Rightarrow> string \<Rightarrow> string" where
  [go_defs]: "ReplaceAll s old new = Join (Split s old) new"

definition isSpace :: "char \<Rightarrow> bool" where
  [go_defs]: "isSpace c \<longleftrightarrow> c \<in> {CHR '' '', CHR 0x09, CHR 0x0A, CHR 0x0B, CHR 0x0C, CHR 0x0D}"

definition TrimSpace :: "string \<Rightarrow> string" where
  [go_defs]: "TrimSpace s = rev (dropWhile isSpace (rev (dropWhile isSpace s)))"

function Fields :: "string \<Rightarrow> string list" where
  "Fields s =
     (let t = dropWhile isSpace s
      in if t = [] then []
         else takeWhile (\<lambda>c. \<not> isSpace c) t # Fields (dropWhile (\<lambda>c. \<not> isSpace c) t))"
  by pat_completeness auto
termination
proof (relation "measure length", simp)
  fix s t :: string
  assume t: "t = dropWhile isSpace s" and ne: "t \<noteq> []"
  have "\<not> isSpace (hd t)"
    using t ne hd_dropWhile by blast
  then have "length (dropWhile (\<lambda>c. \<not> isSpace c) t) < length t"
    using ne by (cases t) (auto simp: le_imp_less_Suc length_dropWhile_le)
  also have "length t \<le> length s"
    using t by (simp add: length_dropWhile_le)
  finally show "(dropWhile (\<lambda>c. \<not> isSpace c) t, s) \<in> measure length"
    by simp
qed

declare Fields.simps [simp del]

definition lowerByte :: "char \<Rightarrow> char" where
  [go_defs]: "lowerByte c =
     (if of_char c \<ge> (65::nat) \<and> of_char c \<le> (90::nat) then char_of (of_char c + 32 :: nat) else c)"

definition ToLower :: "string \<Rightarrow> string" where
  [go_defs]: "ToLower s = map lowerByte s"

section \<open>Package strconv\<close>

definition digit :: "char \<Rightarrow> nat option" where
  [go_defs]: "digit c = (let n = of_char c :: nat in if 48 \<le> n \<and> n \<le> 57 then Some (n - 48) else None)"

fun decimal :: "int \<Rightarrow> string \<Rightarrow> int option" where
  "decimal acc [] = Some acc"
| "decimal acc (c # cs) =
     (case digit c of None \<Rightarrow> None | Some d \<Rightarrow> decimal (10 * acc + int d) cs)"

text \<open>\<open>strconv.Atoi\<close>: an optional sign, at least one digit, and a value that fits
  the 64-bit \<open>int\<close>; \<open>None\<close> is its error.\<close>

definition Atoi :: "string \<Rightarrow> int option" where
  [go_defs]: "Atoi s =
     (let (neg, ds) = (case s of [] \<Rightarrow> (False, []) | c # cs \<Rightarrow>
            if c = CHR ''-'' then (True, cs) else if c = CHR ''+'' then (False, cs) else (False, c # cs))
      in if ds = [] then None
         else case decimal 0 ds of
                None \<Rightarrow> None
              | Some n \<Rightarrow> let v = (if neg then - n else n)
                          in if - (2 ^ 63) \<le> v \<and> v < 2 ^ 63 then Some v else None)"

definition digitChar :: "nat \<Rightarrow> char" where
  [go_defs]: "digitChar d = ''0123456789'' ! d"

fun showNat :: "nat \<Rightarrow> string" where
  "showNat n = (if n < 10 then [digitChar n] else showNat (n div 10) @ [digitChar (n mod 10)])"

declare showNat.simps [simp del]

text \<open>The verb \<open>%d\<close> of package \<open>fmt\<close>.\<close>

definition showInt :: "int \<Rightarrow> string" where
  [go_defs]: "showInt i = (if i < 0 then CHR ''-'' # showNat (nat (- i)) else showNat (nat i))"

text \<open>The hexadecimal digits of the verb \<open>%x\<close>.\<close>

definition hexDigit :: "nat \<Rightarrow> char" where
  "hexDigit d = ''0123456789abcdef'' ! d"

section \<open>Package path/filepath\<close>

text \<open>
  \<open>filepath.Clean\<close> on a Unix path, by components: an empty component and \<open>.\<close>
  vanish, \<open>..\<close> removes the component before it, or stays at the front of a path
  that is not rooted, or vanishes at the front of a rooted one. \<open>out\<close> holds the
  components so far, last first.
\<close>

fun cleanParts :: "bool \<Rightarrow> string list \<Rightarrow> string list \<Rightarrow> string list" where
  "cleanParts rooted out [] = rev out"
| "cleanParts rooted out (c # cs) =
     (if c = '''' \<or> c = ''.'' then cleanParts rooted out cs
      else if c = ''..'' then
        (case out of
           [] \<Rightarrow> cleanParts rooted (if rooted then [] else [c]) cs
         | d # ds \<Rightarrow> if d = ''..'' then cleanParts rooted (c # out) cs else cleanParts rooted ds cs)
      else cleanParts rooted (c # out) cs)"

definition Clean :: "string \<Rightarrow> string" where
  [go_defs]: "Clean p =
     (let rooted = HasPrefix p ''/'';
          body = Join (cleanParts rooted [] (Split p ''/'')) ''/''
      in if rooted then CHR ''/'' # body else if body = '''' then ''.'' else body)"

text \<open>\<open>filepath.Join\<close> drops the empty elements in front and cleans the rest.\<close>

definition PathJoin :: "string list \<Rightarrow> string" where
  [go_defs]: "PathJoin ps =
     (case dropWhile (\<lambda>p. p = '''') ps of [] \<Rightarrow> '''' | qs \<Rightarrow> Clean (Join qs ''/''))"

text \<open>\<open>filepath.Base\<close>: the last component, after trailing slashes are dropped.\<close>

definition Base :: "string \<Rightarrow> string" where
  [go_defs]: "Base p =
     (if p = '''' then ''.''
      else let q = rev (dropWhile (\<lambda>c. c = CHR ''/'') (rev p))
           in if q = '''' then ''/'' else rev (takeWhile (\<lambda>c. c \<noteq> CHR ''/'') (rev q)))"

section \<open>Facts about prefixes and indices\<close>

lemma HasPrefix_iff: "HasPrefix s p \<longleftrightarrow> (\<exists>t. s = p @ t)"
  unfolding HasPrefix_def by (metis append_eq_conv_conj append_take_drop_id)

lemma HasPrefix_append [simp]: "HasPrefix (p @ t) p"
  by (auto simp: HasPrefix_iff)

lemma TrimPrefix_append [simp]: "TrimPrefix (p @ t) p = t"
  by (simp add: TrimPrefix_def)

lemma TrimSuffix_append [simp]: "TrimSuffix (s @ x) x = s"
  by (simp add: TrimSuffix_def)

lemma Index_Some_split:
  "Index s sep = Some i \<Longrightarrow> s = take i s @ sep @ drop (i + length sep) s"
proof (induction s arbitrary: i)
  case Nil
  then show ?case by (auto split: if_splits)
next
  case (Cons c cs)
  show ?case
  proof (cases "HasPrefix (c # cs) sep")
    case True
    then obtain t where "c # cs = sep @ t" by (auto simp: HasPrefix_iff)
    moreover have "i = 0" using Cons.prems True by simp
    ultimately show ?thesis by simp
  next
    case False
    with Cons show ?thesis by auto
  qed
qed

lemma Index_None_iff: "Index s sep = None \<longleftrightarrow> (\<forall>u v. s \<noteq> u @ sep @ v)"
proof (induction s)
  case Nil
  then show ?case by auto
next
  case (Cons c cs)
  have "(\<exists>u v. c # cs = u @ sep @ v) \<longleftrightarrow> HasPrefix (c # cs) sep \<or> (\<exists>u v. cs = u @ sep @ v)"
    unfolding HasPrefix_iff by (metis append_Cons append_Nil list.inject neq_Nil_conv)
  with Cons show ?case by auto
qed

lemma Contains_iff: "Contains s sub \<longleftrightarrow> (\<exists>u v. s = u @ sub @ v)"
  using Index_None_iff [of s sub] by (auto simp: Contains_def)

text \<open>
  A separator with a byte that occurs once in the text is found at that byte: the
  case of the CSI directory name in a kubelet path, whose tilde occurs nowhere else.
\<close>

lemma Index_marker:
  assumes sep: "sep = u @ x # v" and xu: "x \<notin> set u" and xa: "x \<notin> set a"
  shows "Index (a @ sep @ b) sep = Some (length a)"
  using xa
proof (induction a)
  case Nil
  have "sep \<noteq> []" using sep by simp
  then obtain c cs where c: "sep @ b = c # cs" by (cases "sep @ b") auto
  have "HasPrefix (c # cs) sep" using c by (metis HasPrefix_append)
  then show ?case using c by simp
next
  case (Cons y a)
  have "\<not> HasPrefix (y # a @ sep @ b) sep"
  proof
    assume "HasPrefix (y # a @ sep @ b) sep"
    then obtain t where t: "(y # a) @ u @ x # (v @ b) = u @ x # (v @ t)"
      unfolding HasPrefix_iff using sep by auto
    have p1: "takeWhile (\<lambda>z. z \<noteq> x) ((y # a) @ u @ x # (v @ b)) = (y # a) @ u"
      by (subst append_assoc [symmetric], rule takeWhile_append_stop) (use Cons.prems xu in auto)
    have p2: "takeWhile (\<lambda>z. z \<noteq> x) (u @ x # (v @ t)) = u"
      by (rule takeWhile_append_stop) (use xu in auto)
    have "(y # a) @ u = u" using p1 p2 t by metis
    then show False by simp
  qed
  with Cons show ?case by simp
qed

lemma Index_absent: "x \<in> set sep \<Longrightarrow> x \<notin> set s \<Longrightarrow> Index s sep = None"
  by (auto simp: Index_None_iff)

lemma LastIndex_absent: "x \<notin> set s \<Longrightarrow> LastIndex s x = None"
  by (induction s) auto

lemma LastIndex_append: "x \<notin> set b \<Longrightarrow> LastIndex (a @ x # b) x = Some (length a)"
  by (induction a) (auto simp: LastIndex_absent)

section \<open>Split and Join\<close>

lemma Split_not_Nil: "sep \<noteq> [] \<Longrightarrow> Split s sep \<noteq> []"
  by (subst Split.simps) (auto split: option.splits)

text \<open>Joining the parts gives the text back.\<close>

lemma Join_Split: "sep \<noteq> [] \<Longrightarrow> Join (Split s sep) sep = s"
proof (induction s sep rule: Split.induct)
  case (1 s sep)
  show ?case
  proof (cases "Index s sep")
    case None
    with "1.prems" show ?thesis by (simp add: Split.simps [of s sep])
  next
    case (Some i)
    let ?rest = "Split (drop (i + length sep) s) sep"
    have ne: "?rest \<noteq> []" by (rule Split_not_Nil [OF "1.prems"])
    have "Join (Split s sep) sep = take i s @ sep @ Join ?rest sep"
      using Some "1.prems" ne by (cases ?rest) (simp_all add: Split.simps [of s sep])
    also have "Join ?rest sep = drop (i + length sep) s"
      using "1.IH" [OF _ Some] "1.prems" by simp
    finally show ?thesis using Index_Some_split [OF Some] by simp
  qed
qed

lemma Split_none: "Index s sep = None \<Longrightarrow> sep \<noteq> [] \<Longrightarrow> Split s sep = [s]"
  by (subst Split.simps) simp

lemma Split_first:
  "Index (a @ sep @ b) sep = Some (length a) \<Longrightarrow> sep \<noteq> [] \<Longrightarrow> Split (a @ sep @ b) sep = a # Split b sep"
  by (subst Split.simps) simp

lemma Split_marker:
  assumes "sep = u @ x # v" and "x \<notin> set u" and "x \<notin> set a" and "x \<notin> set b"
  shows "Split (a @ sep @ b) sep = [a, b]"
proof -
  have "Split (a @ sep @ b) sep = a # Split b sep"
    by (rule Split_first) (use assms Index_marker in auto)
  moreover have "Index b sep = None"
    using assms by (intro Index_absent [of x]) auto
  ultimately show ?thesis using assms(1) by (simp add: Split_none)
qed

lemma Split_char_absent: "x \<notin> set s \<Longrightarrow> Split s [x] = [s]"
  by (rule Split_none) (auto intro: Index_absent [of x])

lemma Split_char_Cons: "x \<notin> set a \<Longrightarrow> Split (a @ x # b) [x] = a # Split b [x]"
  using Split_first [of a "[x]" b] Index_marker [of "[x]" "[]" x "[]" a b] by simp

text \<open>Splitting the joined parts gives the parts back, when no part has the separator.\<close>

lemma Split_Join:
  "ps \<noteq> [] \<Longrightarrow> \<forall>p \<in> set ps. x \<notin> set p \<Longrightarrow> Split (Join ps [x]) [x] = ps"
  by (induction ps "[x]" rule: Join.induct) (auto simp: Split_char_absent Split_char_Cons)

section \<open>Fields\<close>

lemma Fields_word:
  assumes "w \<noteq> []" and "\<forall>c \<in> set w. \<not> isSpace c" and "isSpace y"
  shows "Fields (w @ y # s) = w # Fields s"
proof -
  have hd: "dropWhile isSpace (w @ y # s) = w @ y # s"
    using assms(1,2) by (cases w) auto
  have "Fields (w @ y # s) = w # Fields (y # s)"
    using assms hd
    by (subst Fields.simps) (simp add: Let_def takeWhile_append_stop dropWhile_append_stop)
  also have "Fields (y # s) = Fields s"
    using assms(3) by (subst (1 2) Fields.simps) simp
  finally show ?thesis .
qed

lemma Fields_last:
  assumes "w \<noteq> []" and "\<forall>c \<in> set w. \<not> isSpace c"
  shows "Fields w = [w]"
proof -
  have hd: "dropWhile isSpace w = w"
    using assms by (cases w) auto
  have tw: "takeWhile (\<lambda>c. \<not> isSpace c) w = w" and dw: "dropWhile (\<lambda>c. \<not> isSpace c) w = []"
    using assms(2) by (simp_all add: takeWhile_eq_all_conv)
  have "Fields [] = []" by (subst Fields.simps) simp
  then show ?thesis using assms(1) by (subst Fields.simps) (simp only: Let_def hd tw dw if_False)
qed

section \<open>Paths\<close>

text \<open>A name that is one plain path component.\<close>

definition plain_name :: "string \<Rightarrow> bool" where
  "plain_name n \<longleftrightarrow> n \<noteq> '''' \<and> n \<noteq> ''.'' \<and> n \<noteq> ''..'' \<and> CHR ''/'' \<notin> set n"

lemma cleanParts_plain:
  "\<forall>p \<in> set ps. plain_name p \<Longrightarrow> cleanParts r out ps = rev out @ ps"
  by (induction ps arbitrary: out) (auto simp: plain_name_def)

lemma Clean_rooted:
  assumes "ps \<noteq> []" and "\<forall>p \<in> set ps. plain_name p"
  shows "Clean (CHR ''/'' # Join ps ''/'') = CHR ''/'' # Join ps ''/''"
proof -
  have "Split (CHR ''/'' # Join ps ''/'') ''/'' = '''' # ps"
    using Split_char_Cons [of "CHR ''/''" "[]" "Join ps ''/''"]
      Split_Join [OF assms(1), of "CHR ''/''"] assms(2) by (auto simp: plain_name_def)
  then show ?thesis
    using assms(2) by (simp add: Clean_def HasPrefix_def cleanParts_plain Let_def)
qed

section \<open>Facts about numerals\<close>

lemma digit_digitChar: "d < 10 \<Longrightarrow> digit (digitChar d) = Some d"
proof -
  assume "d < 10"
  then have "d = 0 \<or> d = 1 \<or> d = 2 \<or> d = 3 \<or> d = 4 \<or> d = 5 \<or> d = 6 \<or> d = 7 \<or> d = 8 \<or> d = 9"
    by auto
  then show ?thesis by (elim disjE) (simp_all add: digit_def digitChar_def)
qed

lemma decimal_append: "decimal acc (a @ b) = (case decimal acc a of None \<Rightarrow> None | Some n \<Rightarrow> decimal n b)"
  by (induction a arbitrary: acc) (auto split: option.splits)

lemma decimal_showNat: "decimal 0 (showNat n) = Some (int n)"
proof (induction n rule: showNat.induct)
  case (1 n)
  show ?case
  proof (cases "n < 10")
    case True
    then show ?thesis by (simp add: showNat.simps [of n] digit_digitChar)
  next
    case False
    then have "decimal 0 (showNat (n div 10)) = Some (int (n div 10))" by (rule "1.IH")
    moreover have "10 * int (n div 10) + int (n mod 10) = int n"
      by (metis mult_div_mod_eq of_nat_add of_nat_mult of_nat_numeral)
    ultimately show ?thesis
      using False by (simp add: showNat.simps [of n] decimal_append digit_digitChar)
  qed
qed

end
