(* ===== verification/Go_Json.thy ===== *)
theory Go_Json
  imports Go_Strings
begin

text \<open>
  \<open>encoding/json\<close> of Go 1.17, on bytes: \<open>json.Unmarshal\<close> up to a JSON value, and \<open>json.Marshal\<close> of a
  value. Text becomes tokens, and the tokens drive a stack machine with the states of Go's
  scanner and its limit on nesting. Strings are UTF-8: reading replaces what is not by U+FFFD, writing
  escapes what Go escapes. The main fact is the round trip of the two.
\<close>

section \<open>Values\<close>

text \<open>A number without fraction and exponent is \<open>JNum\<close>; any other one keeps its text.\<close>

datatype json =
    JNull
  | JBool bool
  | JNum int
  | JFloat string
  | JStr string
  | JArr "json list"
  | JObj "(string \<times> json) list"

section \<open>UTF-8\<close>

abbreviation byte :: "char \<Rightarrow> nat" where
  "byte c \<equiv> of_char c"

definition byteIn :: "nat \<Rightarrow> nat \<Rightarrow> char \<Rightarrow> bool" where
  [go_defs]: "byteIn lo hi c \<longleftrightarrow> lo \<le> byte c \<and> byte c \<le> hi"

text \<open>The tables \<open>first\<close> and \<open>acceptRanges\<close> of package \<open>utf8\<close>: length, and bounds of the second byte.\<close>

definition leadByte :: "nat \<Rightarrow> (nat \<times> nat \<times> nat) option" where
  [go_defs]: "leadByte b =
     (if 0xC2 \<le> b \<and> b \<le> 0xDF then Some (2, 0x80, 0xBF)
      else if b = 0xE0 then Some (3, 0xA0, 0xBF)
      else if b = 0xED then Some (3, 0x80, 0x9F)
      else if 0xE1 \<le> b \<and> b \<le> 0xEF then Some (3, 0x80, 0xBF)
      else if b = 0xF0 then Some (4, 0x90, 0xBF)
      else if 0xF1 \<le> b \<and> b \<le> 0xF3 then Some (4, 0x80, 0xBF)
      else if b = 0xF4 then Some (4, 0x80, 0x8F)
      else None)"

text \<open>How many bytes the first character has; 0 where \<open>utf8.DecodeRune\<close> finds none.\<close>

definition runeLen :: "string \<Rightarrow> nat" where
  [go_defs]: "runeLen s =
     (case s of
        [] \<Rightarrow> 0
      | c # r \<Rightarrow>
          if byte c < 0x80 then 1
          else (case leadByte (byte c) of
                  None \<Rightarrow> 0
                | Some (n, lo, hi) \<Rightarrow>
                    if n - 1 \<le> length r \<and> byteIn lo hi (hd r) \<and> list_all (byteIn 0x80 0xBF) (take (n - 2) (tl r))
                    then n else 0))"

definition runeError :: string where
  [go_defs]: "runeError = [CHR 0xEF, CHR 0xBF, CHR 0xBD]"

text \<open>\<open>utf8.EncodeRune\<close>\<close>

definition encodeRune :: "nat \<Rightarrow> string" where
  [go_defs]: "encodeRune r =
     (if r < 0x80 then [char_of r]
      else if r < 0x800 then [char_of (0xC0 + r div 64), char_of (0x80 + r mod 64)]
      else if 0xD800 \<le> r \<and> r \<le> 0xDFFF \<or> 0x110000 \<le> r then runeError
      else if r < 0x10000 then [char_of (0xE0 + r div 4096), char_of (0x80 + r div 64 mod 64), char_of (0x80 + r mod 64)]
      else [char_of (0xF0 + r div 262144), char_of (0x80 + r div 4096 mod 64), char_of (0x80 + r div 64 mod 64),
            char_of (0x80 + r mod 64)])"

fun validUtf8 :: "string \<Rightarrow> bool" where
  "validUtf8 [] = True"
| "validUtf8 (c # s) = (runeLen (c # s) \<noteq> 0 \<and> validUtf8 (drop (runeLen (c # s) - 1) s))"

section \<open>Strings\<close>

definition hexVal :: "char \<Rightarrow> nat option" where
  [go_defs]: "hexVal c =
     (if byteIn 48 57 c then Some (byte c - 48)
      else if byteIn 97 102 c then Some (byte c - 87)
      else if byteIn 65 70 c then Some (byte c - 55)
      else None)"

text \<open>\<open>getu4\<close> after its backslash and \<open>u\<close>: four hexadecimal digits.\<close>

definition hex4 :: "string \<Rightarrow> nat option" where
  [go_defs]: "hex4 s =
     (case s of
        a # b # c # d # _ \<Rightarrow>
          (case (hexVal a, hexVal b, hexVal c, hexVal d) of
             (Some w, Some x, Some y, Some z) \<Rightarrow> Some (4096 * w + 256 * x + 16 * y + z)
           | _ \<Rightarrow> None)
      | _ \<Rightarrow> None)"

text \<open>The second half of a surrogate pair, written as another escape.\<close>

definition lowSurrogate :: "string \<Rightarrow> nat option" where
  [go_defs]: "lowSurrogate s =
     (case s of
        b # u # r \<Rightarrow>
          if b = CHR 0x5C \<and> u = CHR ''u''
          then (case hex4 r of
                  Some n \<Rightarrow> if 0xDC00 \<le> n \<and> n < 0xE000 then Some n else None
                | None \<Rightarrow> None)
          else None
      | _ \<Rightarrow> None)"

definition simpleEscape :: "char \<Rightarrow> char option" where
  [go_defs]: "simpleEscape c =
     (if c = CHR 0x22 \<or> c = CHR 0x5C \<or> c = CHR ''/'' then Some c
      else if c = CHR ''b'' then Some (CHR 0x08)
      else if c = CHR ''f'' then Some (CHR 0x0C)
      else if c = CHR ''n'' then Some (CHR 0x0A)
      else if c = CHR ''r'' then Some (CHR 0x0D)
      else if c = CHR ''t'' then Some (CHR 0x09)
      else None)"

definition prepend :: "string \<Rightarrow> (string \<times> string) option \<Rightarrow> (string \<times> string) option" where
  [go_defs]: "prepend x r = (case r of None \<Rightarrow> None | Some (s, rest) \<Rightarrow> Some (x @ s, rest))"

text \<open>The string after its opening quote, decoded, and the text after its closing quote.\<close>

fun scanString :: "string \<Rightarrow> (string \<times> string) option" where
  "scanString [] = None"
| "scanString (c # s) =
     (if c = CHR 0x22 then Some ([], s)
      else if c = CHR 0x5C then
        (case s of
           [] \<Rightarrow> None
         | e # s' \<Rightarrow>
             (case simpleEscape e of
                Some x \<Rightarrow> prepend [x] (scanString s')
              | None \<Rightarrow>
                  if e = CHR ''u'' then
                    (case hex4 s' of
                       None \<Rightarrow> None
                     | Some n \<Rightarrow>
                         if 0xD800 \<le> n \<and> n < 0xDC00 \<and> lowSurrogate (drop 4 s') \<noteq> None
                         then prepend (encodeRune (0x10000 + 1024 * (n - 0xD800) + (the (lowSurrogate (drop 4 s')) - 0xDC00)))
                                (scanString (drop 10 s'))
                         else prepend (encodeRune n) (scanString (drop 4 s')))
                  else None))
      else if byte c < 0x20 then None
      else if byte c < 0x80 then prepend [c] (scanString s)
      else if runeLen (c # s) = 0 then prepend runeError (scanString s)
      else prepend (take (runeLen (c # s)) (c # s)) (scanString (drop (runeLen (c # s) - 1) s)))"

lemma prepend_Some: "prepend x r = Some (y, rest) \<longleftrightarrow> (\<exists>z. r = Some (z, rest) \<and> y = x @ z)"
  by (auto simp: prepend_def split: option.splits)

lemma scanString_shorter: "scanString s = Some (x, r) \<Longrightarrow> length r < length s"
proof (induction s arbitrary: x r rule: scanString.induct)
  case (2 c s)
  consider "c = CHR 0x22" | "c = CHR 0x5C" | "c \<noteq> CHR 0x22" "c \<noteq> CHR 0x5C" by blast
  then show ?case
  proof cases
    case 2
    then obtain e s' where s: "s = e # s'" using "2.prems" by (cases s) auto
    then show ?thesis
      using "2.prems" "2.IH"(1-3) [OF _ \<open>c = CHR 0x5C\<close> s] \<open>c = CHR 0x5C\<close>
      by (fastforce simp: prepend_Some split: option.splits if_splits)
  next
    case 3
    then show ?thesis
      using "2.prems" "2.IH"(4-6) [OF 3] by (fastforce simp: prepend_Some split: if_splits)
  qed (use "2.prems" in auto)
qed simp

text \<open>Writing: \<open>encodeState.string\<close> with HTML escaping on.\<close>

definition quoteAscii :: "char \<Rightarrow> string" where
  [go_defs]: "quoteAscii c =
     (if c = CHR 0x22 \<or> c = CHR 0x5C then [CHR 0x5C, c]
      else if c = CHR 0x0A then [CHR 0x5C, CHR ''n'']
      else if c = CHR 0x0D then [CHR 0x5C, CHR ''r'']
      else if c = CHR 0x09 then [CHR 0x5C, CHR ''t'']
      else if byte c < 0x20 \<or> c = CHR ''<'' \<or> c = CHR ''>'' \<or> c = CHR ''&''
        then [CHR 0x5C, CHR ''u'', CHR ''0'', CHR ''0'', hexDigit (byte c div 16), hexDigit (byte c mod 16)]
      else [c])"

definition quoteRune :: "string \<Rightarrow> string" where
  [go_defs]: "quoteRune r =
     (if r = [CHR 0xE2, CHR 0x80, CHR 0xA8] then [CHR 0x5C] @ ''u2028''
      else if r = [CHR 0xE2, CHR 0x80, CHR 0xA9] then [CHR 0x5C] @ ''u2029''
      else r)"

fun quoteRunes :: "string \<Rightarrow> string" where
  "quoteRunes [] = []"
| "quoteRunes (c # s) =
     (if byte c < 0x80 then quoteAscii c @ quoteRunes s
      else if runeLen (c # s) = 0 then [CHR 0x5C] @ ''ufffd'' @ quoteRunes s
      else quoteRune (take (runeLen (c # s)) (c # s)) @ quoteRunes (drop (runeLen (c # s) - 1) s))"

definition quoteJson :: "string \<Rightarrow> string" where
  [go_defs]: "quoteJson s = [CHR 0x22] @ quoteRunes s @ [CHR 0x22]"

section \<open>Tokens\<close>

datatype token = LBrace | RBrace | LBrack | RBrack | Colon | Comma | Scalar json

definition isDigit :: "char \<Rightarrow> bool" where
  [go_defs]: "isDigit c \<longleftrightarrow> byteIn 48 57 c"

definition isNumChar :: "char \<Rightarrow> bool" where
  [go_defs]: "isNumChar c \<longleftrightarrow> isDigit c \<or> c \<in> set ''+-.eE''"

definition isBlank :: "char \<Rightarrow> bool" where
  [go_defs]: "isBlank c \<longleftrightarrow> c = CHR '' '' \<or> c = CHR 0x09 \<or> c = CHR 0x0A \<or> c = CHR 0x0D"

text \<open>The part of a number after its integer digits: a fraction, then an exponent.\<close>

definition exponentOk :: "string \<Rightarrow> bool" where
  [go_defs]: "exponentOk s =
     (case s of
        [] \<Rightarrow> True
      | c # r \<Rightarrow>
          (c = CHR ''e'' \<or> c = CHR ''E'') \<and>
          (let d = (case r of x # y \<Rightarrow> if x = CHR ''+'' \<or> x = CHR ''-'' then y else r | [] \<Rightarrow> [])
           in d \<noteq> [] \<and> list_all isDigit d))"

definition fractionOk :: "string \<Rightarrow> bool" where
  [go_defs]: "fractionOk s =
     (case s of
        [] \<Rightarrow> True
      | c # r \<Rightarrow> if c = CHR ''.'' then takeWhile isDigit r \<noteq> [] \<and> exponentOk (dropWhile isDigit r) else exponentOk s)"

definition scanNumber :: "string \<Rightarrow> json option" where
  [go_defs]: "scanNumber w =
     (let neg = (w \<noteq> [] \<and> hd w = CHR ''-'');
          u = (if neg then tl w else w);
          ds = takeWhile isDigit u; rest = dropWhile isDigit u
      in if ds = [] \<or> (hd ds = CHR ''0'' \<and> tl ds \<noteq> []) \<or> \<not> fractionOk rest then None
         else if rest = [] then map_option (\<lambda>n. JNum (if neg then - n else n)) (decimal 0 ds)
         else Some (JFloat w))"

definition addToken :: "token \<Rightarrow> token list option \<Rightarrow> token list option" where
  [go_defs]: "addToken t r = map_option (Cons t) r"

function (sequential) lexJson :: "string \<Rightarrow> token list option" where
  "lexJson [] = Some []"
| "lexJson (c # s) =
     (if isBlank c then lexJson s
      else if c = CHR 0x7B then addToken LBrace (lexJson s)
      else if c = CHR 0x7D then addToken RBrace (lexJson s)
      else if c = CHR ''['' then addToken LBrack (lexJson s)
      else if c = CHR '']'' then addToken RBrack (lexJson s)
      else if c = CHR '':'' then addToken Colon (lexJson s)
      else if c = CHR '','' then addToken Comma (lexJson s)
      else if c = CHR 0x22 then
        (case scanString s of None \<Rightarrow> None | Some (x, r) \<Rightarrow> addToken (Scalar (JStr x)) (lexJson r))
      else if c = CHR ''t'' then
        (if take 3 s = ''rue'' then addToken (Scalar (JBool True)) (lexJson (drop 3 s)) else None)
      else if c = CHR ''f'' then
        (if take 4 s = ''alse'' then addToken (Scalar (JBool False)) (lexJson (drop 4 s)) else None)
      else if c = CHR ''n'' then
        (if take 3 s = ''ull'' then addToken (Scalar JNull) (lexJson (drop 3 s)) else None)
      else if isNumChar c then
        (case scanNumber (c # takeWhile isNumChar s) of
           None \<Rightarrow> None
         | Some j \<Rightarrow> addToken (Scalar j) (lexJson (dropWhile isNumChar s)))
      else None)"
  by pat_completeness auto
termination
  by (relation "measure length") (auto dest: scanString_shorter intro: le_imp_less_Suc length_dropWhile_le)

section \<open>Syntax\<close>

text \<open>
  The containers that are open, innermost first, with their elements so far, last first; and the
  states of Go's scanner: what may come next.
\<close>

datatype frame = InArr "json list" | InObj "(string \<times> json) list" | InMember "(string \<times> json) list" string

datatype scanState = BeginValue | BeginValueOrEmpty | BeginString | BeginStringOrEmpty | AfterKey | EndValue json

definition maxNestingDepth :: nat where
  "maxNestingDepth = 10000"

definition beginValue :: "frame list \<Rightarrow> token \<Rightarrow> (scanState \<times> frame list) option" where
  [go_defs]: "beginValue st t =
     (case t of
        Scalar j \<Rightarrow> Some (EndValue j, st)
      | LBrack \<Rightarrow> if length st < maxNestingDepth then Some (BeginValueOrEmpty, InArr [] # st) else None
      | LBrace \<Rightarrow> if length st < maxNestingDepth then Some (BeginStringOrEmpty, InObj [] # st) else None
      | _ \<Rightarrow> None)"

definition beginString :: "frame list \<Rightarrow> token \<Rightarrow> (scanState \<times> frame list) option" where
  [go_defs]: "beginString st t =
     (case (t, st) of
        (Scalar (JStr k), InObj ms # r) \<Rightarrow> Some (AfterKey, InMember ms k # r)
      | _ \<Rightarrow> None)"

definition endValue :: "json \<Rightarrow> frame list \<Rightarrow> token \<Rightarrow> (scanState \<times> frame list) option" where
  [go_defs]: "endValue j st t =
     (case st of
        InArr js # r \<Rightarrow>
          if t = Comma then Some (BeginValue, InArr (j # js) # r)
          else if t = RBrack then Some (EndValue (JArr (rev (j # js))), r)
          else None
      | InMember ms k # r \<Rightarrow>
          if t = Comma then Some (BeginString, InObj ((k, j) # ms) # r)
          else if t = RBrace then Some (EndValue (JObj (rev ((k, j) # ms))), r)
          else None
      | _ \<Rightarrow> None)"

definition scanStep :: "scanState \<Rightarrow> frame list \<Rightarrow> token \<Rightarrow> (scanState \<times> frame list) option" where
  [go_defs]: "scanStep p st t =
     (case p of
        BeginValue \<Rightarrow> beginValue st t
      | BeginValueOrEmpty \<Rightarrow> if t = RBrack then Some (EndValue (JArr []), tl st) else beginValue st t
      | BeginString \<Rightarrow> beginString st t
      | BeginStringOrEmpty \<Rightarrow> if t = RBrace then Some (EndValue (JObj []), tl st) else beginString st t
      | AfterKey \<Rightarrow> if t = Colon then Some (BeginValue, st) else None
      | EndValue j \<Rightarrow> endValue j st t)"

fun scanTokens :: "scanState \<Rightarrow> frame list \<Rightarrow> token list \<Rightarrow> json option" where
  "scanTokens p st [] = (case (p, st) of (EndValue j, []) \<Rightarrow> Some j | _ \<Rightarrow> None)"
| "scanTokens p st (t # ts) = (case scanStep p st t of None \<Rightarrow> None | Some (q, st') \<Rightarrow> scanTokens q st' ts)"

text \<open>The value of a text; \<open>None\<close> is a \<open>SyntaxError\<close>.\<close>

definition parseJson :: "string \<Rightarrow> json option" where
  [go_defs]: "parseJson s = (case lexJson s of None \<Rightarrow> None | Some ts \<Rightarrow> scanTokens BeginValue [] ts)"

section \<open>Writing\<close>

fun marshal :: "json \<Rightarrow> string" where
  "marshal JNull = ''null''"
| "marshal (JBool b) = (if b then ''true'' else ''false'')"
| "marshal (JNum n) = showInt n"
| "marshal (JFloat w) = w"
| "marshal (JStr s) = quoteJson s"
| "marshal (JArr js) = [CHR ''[''] @ Join (map marshal js) '','' @ [CHR '']'']"
| "marshal (JObj ms) = [CHR 0x7B] @ Join (map (\<lambda>(k, j). quoteJson k @ '':'' @ marshal j) ms) '','' @ [CHR 0x7D]"

text \<open>\<open>json.MarshalIndent\<close> with an empty prefix and two blanks, for an object of strings.\<close>

definition marshalIndent :: "(string \<times> string) list \<Rightarrow> string" where
  [go_defs]: "marshalIndent ms =
     (if ms = [] then [CHR 0x7B, CHR 0x7D]
      else [CHR 0x7B, CHR 0x0A] @
        Join (map (\<lambda>(k, v). ''  '' @ quoteJson k @ '': '' @ quoteJson v) ms) ([CHR '',''] @ [CHR 0x0A]) @ [CHR 0x0A, CHR 0x7D])"

section \<open>Reading what was written\<close>

text \<open>Values that a writer can produce, and their nesting.\<close>

fun wfJson :: "json \<Rightarrow> bool" where
  "wfJson JNull = True"
| "wfJson (JBool b) = True"
| "wfJson (JNum n) = True"
| "wfJson (JFloat w) = (scanNumber w = Some (JFloat w) \<and> list_all isNumChar w)"
| "wfJson (JStr s) = validUtf8 s"
| "wfJson (JArr js) = list_all wfJson js"
| "wfJson (JObj ms) = list_all (\<lambda>(k, j). validUtf8 k \<and> wfJson j) ms"

fun jsonDepth :: "json \<Rightarrow> nat" where
  "jsonDepth (JArr js) = Suc (Max (insert 0 (set (map jsonDepth js))))"
| "jsonDepth (JObj ms) = Suc (Max (insert 0 (set (map (\<lambda>(k, j). jsonDepth j) ms))))"
| "jsonDepth _ = 0"


lemma hexVal_hexDigit: "d < 16 \<Longrightarrow> hexVal (hexDigit d) = Some d"
proof -
  assume "d < 16"
  then have "d \<in> set [0..<16]" by simp
  then show ?thesis by (auto simp: upt_rec hexDigit_def hexVal_def byteIn_def)
qed

lemma hex4_byte:
  assumes "byte c < 0x80"
  shows "hex4 (CHR ''0'' # CHR ''0'' # hexDigit (byte c div 16) # hexDigit (byte c mod 16) # s) = Some (byte c)"
proof -
  have z: "hexVal (CHR ''0'') = Some 0" by (simp add: hexVal_def byteIn_def)
  have "hexVal (hexDigit (byte c div 16)) = Some (byte c div 16)" "hexVal (hexDigit (byte c mod 16)) = Some (byte c mod 16)"
    using assms by (auto intro!: hexVal_hexDigit)
  with z show ?thesis by (simp add: hex4_def)
qed

lemma scan_quoteAscii:
  assumes "byte c < 0x80"
  shows "scanString (quoteAscii c @ s) = prepend [c] (scanString s)"
proof -
  consider "c = CHR 0x22" | "c = CHR 0x5C" | "c = CHR 0x0A" | "c = CHR 0x0D" | "c = CHR 0x09"
    | (esc) "c \<notin> {CHR 0x22, CHR 0x5C, CHR 0x0A, CHR 0x0D, CHR 0x09}" "byte c < 0x20 \<or> c = CHR ''<'' \<or> c = CHR ''>'' \<or> c = CHR ''&''"
    | (plain) "c \<notin> {CHR 0x22, CHR 0x5C, CHR 0x0A, CHR 0x0D, CHR 0x09}" "\<not> (byte c < 0x20 \<or> c = CHR ''<'' \<or> c = CHR ''>'' \<or> c = CHR ''&'')"
    by blast
  then show ?thesis
  proof cases
    case esc
    have q: "quoteAscii c = [CHR 0x5C, CHR ''u'', CHR ''0'', CHR ''0'', hexDigit (byte c div 16), hexDigit (byte c mod 16)]"
      using esc by (simp add: quoteAscii_def)
    have e: "simpleEscape (CHR ''u'') = None" by (simp add: simpleEscape_def)
    have "encodeRune (byte c) = [c]" using assms by (simp add: encodeRune_def)
    with q e hex4_byte [OF assms] assms show ?thesis by simp
  next
    case plain
    then have "quoteAscii c = [c]" by (simp add: quoteAscii_def)
    with plain assms show ?thesis by simp
  qed (simp_all add: quoteAscii_def simpleEscape_def)
qed

text \<open>The length of the first character only depends on its own bytes.\<close>

lemma runeLen_le: "runeLen s \<le> length s"
  by (cases s) (auto simp: runeLen_def leadByte_def split: option.splits if_splits)

lemma runeLen_take:
  assumes "runeLen (c # r) \<noteq> 0"
  shows "runeLen (take (runeLen (c # r)) (c # r) @ t) = runeLen (c # r)"
proof (cases "byte c < 0x80")
  case True
  then show ?thesis by (simp add: runeLen_def)
next
  case False
  then obtain n lo hi where l: "leadByte (byte c) = Some (n, lo, hi)" "runeLen (c # r) = n" "n - 1 \<le> length r"
    using assms by (auto simp: runeLen_def split: option.splits if_splits)
  then have n: "2 \<le> n" by (auto simp: leadByte_def split: if_splits)
  define a b where "a = take (n - 1) r" and "b = drop (n - 1) r"
  have r: "r = a @ b" "length a = n - 1" using l(3) by (simp_all add: a_def b_def)
  then have a: "a \<noteq> []" "length (tl a) = n - 2" using n by auto
  have "take n (c # r) = c # a" using n r by (cases n) simp_all
  moreover have "runeLen (c # a @ t) = runeLen (c # a @ b)"
    using False l(1) r(2) a by (simp add: runeLen_def)
  ultimately show ?thesis using l(2) r(1) by simp
qed

lemma scan_raw:
  assumes "\<not> byte c < 0x80" and "runeLen (c # s) \<noteq> 0"
  shows "scanString (take (runeLen (c # s)) (c # s) @ x) = prepend (take (runeLen (c # s)) (c # s)) (scanString x)"
proof -
  obtain u where u: "take (runeLen (c # s)) (c # s) = c # u" "length u = runeLen (c # s) - 1"
    using assms(2) runeLen_le [of "c # s"] by (cases "runeLen (c # s)") simp_all
  have "runeLen (c # u @ x) = runeLen (c # s)" using runeLen_take [OF assms(2), of x] u(1) by simp
  moreover have "c \<noteq> CHR 0x22" "c \<noteq> CHR 0x5C" using assms(1) by auto
  ultimately show ?thesis using assms u by (cases "runeLen (c # s)") simp_all
qed

lemma separator_bytes:
  "char_of (226::nat) = CHR 0xE2" "char_of (128::nat) = CHR 0x80" "char_of (168::nat) = CHR 0xA8" "char_of (169::nat) = CHR 0xA9"
  by code_simp+

lemma scan_quoteRune:
  assumes "\<not> byte c < 0x80" and "runeLen (c # s) \<noteq> 0"
  shows "scanString (quoteRune (take (runeLen (c # s)) (c # s)) @ x) = prepend (take (runeLen (c # s)) (c # s)) (scanString x)"
proof -
  let ?u = "take (runeLen (c # s)) (c # s)"
  consider "?u = [CHR 0xE2, CHR 0x80, CHR 0xA8]" | "?u = [CHR 0xE2, CHR 0x80, CHR 0xA9]" | "quoteRune ?u = ?u"
    unfolding quoteRune_def by metis
  then show ?thesis
    using scan_raw [OF assms, of x]
    by cases (simp_all add: quoteRune_def simpleEscape_def hex4_def hexVal_def byteIn_def encodeRune_def separator_bytes)
qed

lemma scan_quoteRunes: "validUtf8 s \<Longrightarrow> scanString (quoteRunes s @ CHR 0x22 # r) = Some (s, r)"
proof (induction s rule: validUtf8.induct)
  case (2 c s)
  let ?n = "runeLen (c # s)"
  have n: "?n \<noteq> 0" and IH: "scanString (quoteRunes (drop (?n - 1) s) @ CHR 0x22 # r) = Some (drop (?n - 1) s, r)"
    using 2 by simp_all
  show ?case
  proof (cases "byte c < 0x80")
    case True
    then have "?n = 1" by (simp add: runeLen_def)
    with True IH show ?thesis by (simp add: scan_quoteAscii prepend_def)
  next
    case False
    have "take ?n (c # s) @ drop (?n - 1) s = c # s" using n by (cases ?n) simp_all
    with False n IH show ?thesis by (simp add: scan_quoteRune prepend_def)
  qed
qed (simp add: prepend_def)


section \<open>Tokens of a written value\<close>

fun commas :: "token list list \<Rightarrow> token list" where
  "commas [] = []"
| "commas [x] = x"
| "commas (x # y # ys) = x @ [Comma] @ commas (y # ys)"

fun tokens :: "json \<Rightarrow> token list" where
  "tokens (JArr js) = [LBrack] @ commas (map tokens js) @ [RBrack]"
| "tokens (JObj ms) = [LBrace] @ commas (map (\<lambda>(k, j). [Scalar (JStr k), Colon] @ tokens j) ms) @ [RBrace]"
| "tokens j = [Scalar j]"

definition addTokens :: "token list \<Rightarrow> token list option \<Rightarrow> token list option" where
  "addTokens ts r = map_option ((@) ts) r"

lemma addTokens_simps [simp]:
  "addTokens [] r = r" "addTokens (t # ts) r = addToken t (addTokens ts r)"
  "addTokens (xs @ ys) r = addTokens xs (addTokens ys r)"
  by (cases r; simp add: addTokens_def addToken_def)+

text \<open>A text after which a number ends.\<close>

definition endsNumber :: "string \<Rightarrow> bool" where
  "endsNumber r \<longleftrightarrow> r = [] \<or> \<not> isNumChar (hd r)"

lemma lex_quote: "validUtf8 s \<Longrightarrow> lexJson (quoteJson s @ r) = addToken (Scalar (JStr s)) (lexJson r)"
  by (simp add: quoteJson_def isBlank_def scan_quoteRunes)

lemma numChar_not_special:
  assumes "isNumChar c"
  shows "\<not> isBlank c" "c \<noteq> CHR 0x7B" "c \<noteq> CHR 0x7D" "c \<noteq> CHR ''[''" "c \<noteq> CHR '']''" "c \<noteq> CHR '':''" "c \<noteq> CHR '',''"
    "c \<noteq> CHR 0x22" "c \<noteq> CHR ''t''" "c \<noteq> CHR ''f''" "c \<noteq> CHR ''n''"
  using assms by (auto simp: isNumChar_def isDigit_def byteIn_def isBlank_def)

lemma lex_number:
  assumes "w \<noteq> []" and "list_all isNumChar w" and "scanNumber w = Some j" and "endsNumber r"
  shows "lexJson (w @ r) = addToken (Scalar j) (lexJson r)"
proof -
  obtain c u where w: "w = c # u" using assms(1) by (cases w) auto
  have c: "isNumChar c" and u: "\<And>x. x \<in> set u \<Longrightarrow> isNumChar x" using assms(2) w by (auto simp: list_all_iff)
  have r: "takeWhile isNumChar r = []" "dropWhile isNumChar r = r"
    using assms(4) by (cases r; simp add: endsNumber_def)+
  have "takeWhile isNumChar (u @ r) = u" "dropWhile isNumChar (u @ r) = r" using u r by simp_all
  with c w assms(3) numChar_not_special [OF c] show ?thesis by simp
qed

lemma isDigit_digitChar: "d < 10 \<Longrightarrow> isDigit (digitChar d)"
proof -
  assume "d < 10"
  then have "d \<in> set [0..<10]" by simp
  then show ?thesis by (auto simp: upt_rec digitChar_def isDigit_def byteIn_def)
qed

lemma showNat_digits: "list_all isDigit (showNat n) \<and> showNat n \<noteq> []"
  by (induction n rule: showNat.induct) (subst (1 2) showNat.simps, auto simp: isDigit_digitChar)

lemma hd_showNat: "0 < n \<Longrightarrow> hd (showNat n) \<noteq> CHR ''0''"
proof (induction n rule: showNat.induct)
  case (1 n)
  show ?case
  proof (cases "n < 10")
    case True
    then have "n \<in> set [1..<10]" using "1.prems" by simp
    then show ?thesis using True by (subst showNat.simps) (auto simp: upt_rec digitChar_def)
  next
    case False
    then have "hd (showNat (n div 10)) \<noteq> CHR ''0''" by (intro "1.IH") auto
    then show ?thesis using False showNat_digits [of "n div 10"] by (subst showNat.simps) simp
  qed
qed

lemma digits_split: "list_all isDigit ds \<Longrightarrow> takeWhile isDigit ds = ds \<and> dropWhile isDigit ds = []"
  by (simp add: list_all_iff)

lemma showNat_no_zero: "\<not> (hd (showNat n) = CHR ''0'' \<and> tl (showNat n) \<noteq> [])"
proof (cases "n = 0")
  case True
  then show ?thesis by (simp add: showNat.simps)
qed (use hd_showNat in auto)

lemma scanNumber_showInt: "scanNumber (showInt n) = Some (JNum n)"
proof -
  have f: "fractionOk []" by (simp add: fractionOk_def)
  have d: "takeWhile isDigit (showNat m) = showNat m" "dropWhile isDigit (showNat m) = []" for m
    using digits_split showNat_digits by blast+
  show ?thesis
  proof (cases "n < 0")
    case True
    then show ?thesis
      using showNat_no_zero [of "nat (- n)"] showNat_digits [of "nat (- n)"]
      by (simp add: scanNumber_def showInt_def Let_def d f decimal_showNat)
  next
    case False
    have "hd (showNat (nat n)) \<noteq> CHR ''-''"
      using showNat_digits [of "nat n"] by (cases "showNat (nat n)") (auto simp: isDigit_def byteIn_def)
    with False show ?thesis
      using showNat_no_zero [of "nat n"] showNat_digits [of "nat n"]
      by (simp add: scanNumber_def showInt_def Let_def d f decimal_showNat)
  qed
qed

lemma showInt_numChars: "showInt n \<noteq> []" "list_all isNumChar (showInt n)"
  using showNat_digits by (auto simp: showInt_def list_all_iff isNumChar_def)


lemma endsNumber_simps [simp]:
  "endsNumber []" "endsNumber (CHR '','' # r)" "endsNumber (CHR '']'' # r)" "endsNumber (CHR 0x7D # r)"
  by (simp_all add: endsNumber_def isNumChar_def isDigit_def byteIn_def)

text \<open>The elements of a list between commas.\<close>

lemma lex_Join:
  assumes "\<And>x r. x \<in> set xs \<Longrightarrow> endsNumber r \<Longrightarrow> lexJson (f x @ r) = addTokens (g x) (lexJson r)" and "endsNumber r"
  shows "lexJson (Join (map f xs) '','' @ r) = addTokens (commas (map g xs)) (lexJson r)"
  using assms
proof (induction xs rule: induct_list012)
  case (3 x y zs)
  have "lexJson (CHR '','' # Join (map f (y # zs)) '','' @ r) = addToken Comma (addTokens (commas (map g (y # zs))) (lexJson r))"
    using "3.IH"(2) "3.prems" by (simp add: isBlank_def)
  moreover have "lexJson (f x @ CHR '','' # Join (map f (y # zs)) '','' @ r) =
      addTokens (g x) (lexJson (CHR '','' # Join (map f (y # zs)) '','' @ r))"
    by (rule "3.prems"(1)) simp_all
  ultimately show ?case by simp
qed simp_all

lemma lex_marshal: "wfJson j \<Longrightarrow> endsNumber r \<Longrightarrow> lexJson (marshal j @ r) = addTokens (tokens j) (lexJson r)"
proof (induction j arbitrary: r)
  case (JArr js)
  have "lexJson (Join (map marshal js) '','' @ CHR '']'' # r) = addTokens (commas (map tokens js)) (lexJson (CHR '']'' # r))"
    using JArr by (intro lex_Join) (auto simp: list_all_iff)
  then show ?case by (simp add: isBlank_def)
next
  case (JObj ms)
  have "lexJson (Join (map (\<lambda>(k, j). quoteJson k @ '':'' @ marshal j) ms) '','' @ CHR 0x7D # r) =
      addTokens (commas (map (\<lambda>(k, j). [Scalar (JStr k), Colon] @ tokens j) ms)) (lexJson (CHR 0x7D # r))"
  proof (rule lex_Join)
    fix x r assume x: "x \<in> set ms" and r: "endsNumber r"
    obtain k j where kj: "x = (k, j)" by (cases x)
    have "lexJson (marshal j @ r) = addTokens (tokens j) (lexJson r)"
      using JObj.IH [of x j] JObj.prems(1) x kj r by (auto simp: list_all_iff)
    moreover have "validUtf8 k" using JObj.prems(1) x kj by (auto simp: list_all_iff)
    ultimately show "lexJson ((case x of (k, j) \<Rightarrow> quoteJson k @ '':'' @ marshal j) @ r) =
        addTokens (case x of (k, j) \<Rightarrow> [Scalar (JStr k), Colon] @ tokens j) (lexJson r)"
      using kj by (simp add: lex_quote isBlank_def)
  qed simp
  then show ?case by (simp add: isBlank_def)
next
  case (JFloat w)
  have "w \<noteq> []" using JFloat.prems(1) by (auto simp: scanNumber_def)
  with JFloat show ?case by (simp add: lex_number)
qed (auto simp: isBlank_def lex_quote lex_number [OF showInt_numChars scanNumber_showInt])


section \<open>Values of written tokens\<close>

definition scansTo :: "frame list \<Rightarrow> json \<Rightarrow> bool" where
  "scansTo st j \<longleftrightarrow> (\<forall>p ts. p = BeginValue \<or> p = BeginValueOrEmpty \<longrightarrow>
     scanTokens p st (tokens j @ ts) = scanTokens (EndValue j) st ts)"

lemma scansToD:
  "scansTo st j \<Longrightarrow> p = BeginValue \<or> p = BeginValueOrEmpty \<Longrightarrow>
   scanTokens p st (tokens j @ ts) = scanTokens (EndValue j) st ts"
  by (auto simp: scansTo_def)

lemma scan_elements:
  assumes "js \<noteq> []" and "\<And>j js'. j \<in> set js \<Longrightarrow> scansTo (InArr js' # st) j" and "p = BeginValue \<or> p = BeginValueOrEmpty"
  shows "scanTokens p (InArr acc # st) (commas (map tokens js) @ RBrack # ts) = scanTokens (EndValue (JArr (rev acc @ js))) st ts"
  using assms
proof (induction js arbitrary: acc p rule: induct_list012)
  case (2 x)
  then have "scansTo (InArr acc # st) x" by simp
  from scansToD [OF this "2.prems"(3), of "RBrack # ts"] show ?case by (simp add: scanStep_def endValue_def)
next
  case (3 x y zs)
  have "scansTo (InArr acc # st) x" by (rule "3.prems"(2)) simp
  moreover have "scanTokens BeginValue (InArr (x # acc) # st) (commas (map tokens (y # zs)) @ RBrack # ts) =
      scanTokens (EndValue (JArr (rev (x # acc) @ y # zs))) st ts"
    using "3.prems"(2) by (intro "3.IH"(2)) auto
  ultimately show ?case using "3.prems"(3) by (simp add: scansToD scanStep_def endValue_def)
qed simp

lemma scan_members:
  assumes "ms \<noteq> []" and "\<And>k j ms'. (k, j) \<in> set ms \<Longrightarrow> scansTo (InMember ms' k # st) j"
    and "p = BeginString \<or> p = BeginStringOrEmpty"
  shows "scanTokens p (InObj acc # st) (commas (map (\<lambda>(k, j). [Scalar (JStr k), Colon] @ tokens j) ms) @ RBrace # ts) =
    scanTokens (EndValue (JObj (rev acc @ ms))) st ts"
  using assms
proof (induction ms arbitrary: acc p rule: induct_list012)
  case (2 x)
  obtain k j where x: "x = (k, j)" by (cases x)
  have "scansTo (InMember acc k # st) j" using 2 x by simp
  with "2.prems"(3) x show ?case by (auto simp: scansToD scanStep_def endValue_def beginString_def)
next
  case (3 x y zs)
  obtain k j where x: "x = (k, j)" by (cases x)
  have "scansTo (InMember acc k # st) j" using x by (intro "3.prems"(2)) simp
  moreover have "scanTokens BeginString (InObj ((k, j) # acc) # st)
      (commas (map (\<lambda>(k, j). [Scalar (JStr k), Colon] @ tokens j) (y # zs)) @ RBrace # ts) =
      scanTokens (EndValue (JObj (rev ((k, j) # acc) @ y # zs))) st ts"
    using "3.prems"(2) by (intro "3.IH"(2)) auto
  ultimately show ?case using "3.prems"(3) x by (auto simp: scansToD scanStep_def endValue_def beginString_def)
qed simp

lemma depth_elements: "j \<in> set js \<Longrightarrow> jsonDepth j < jsonDepth (JArr js)"
  by (simp add: le_imp_less_Suc)

lemma depth_members: "(k, j) \<in> set ms \<Longrightarrow> jsonDepth j < jsonDepth (JObj ms)"
  by (force intro!: le_imp_less_Suc Max_ge)

lemma scan_written: "length st + jsonDepth j \<le> maxNestingDepth \<Longrightarrow> scansTo st j"
proof (induction j arbitrary: st)
  case (JArr js)
  have elem: "scansTo (InArr js' # st) j" if "j \<in> set js" for j js'
    using JArr.IH [OF that, of "InArr js' # st"] JArr.prems depth_elements [OF that] by simp
  have "length st < maxNestingDepth" using JArr.prems by simp
  then show ?case
    using scan_elements [OF _ elem] by (cases "js = []") (auto simp: scansTo_def scanStep_def beginValue_def)
next
  case (JObj ms)
  have elem: "scansTo (InMember ms' k # st) j" if "(k, j) \<in> set ms" for k j ms'
    using JObj.IH [OF that, of j "InMember ms' k # st"] JObj.prems depth_members [OF that] by simp
  have "length st < maxNestingDepth" using JObj.prems by simp
  then show ?case
    using scan_members [OF _ elem] by (cases "ms = []") (auto simp: scansTo_def scanStep_def beginValue_def)
qed (auto simp: scansTo_def scanStep_def beginValue_def)

text \<open>What was written is read back.\<close>

lemma parse_marshal:
  assumes "wfJson j" and "jsonDepth j \<le> maxNestingDepth"
  shows "parseJson (marshal j) = Some j"
proof -
  have "lexJson (marshal j) = Some (tokens j)" using lex_marshal [OF assms(1), of "[]"] by (simp add: addTokens_def)
  moreover have "scanTokens BeginValue [] (tokens j) = Some j"
    using scansToD [OF scan_written [of "[]" j], of BeginValue "[]"] assms(2) by simp
  ultimately show ?thesis by (simp add: parseJson_def)
qed

end
