(* ===== verification/Effects.thy ===== *)
theory Effects
  imports Kube_Types Go_Json "HOL-Library.State_Monad"
begin

text \<open>
  Effects. Everything the driver calls that is not its own code (the Kubernetes API
  server, the kernel's file and mount operations, child processes, the console's
  HTTP server, the clock, the kubelet) is a parameter: a field of the record
  \<open>ext\<close>, a function on a world of arbitrary type \<open>'w\<close>. A Go function becomes a
  state transformer on the world and a trace of the calls made, with their
  results. The trace is only written; it lets a theorem speak about which calls a
  function makes and in which order, for every behaviour of the parameters.

  Go's results \<open>(T, error)\<close> are \<open>gerr + 'a\<close>. An error that wraps another one
  keeps the format and the wrapped error. A run-time panic is the error value
  \<open>GoPanic\<close>: the constructors of wrapped errors pass it on unchanged, as a panic
  passes through the callers that have no \<open>recover\<close>. A loop without a bound of its
  own makes at most \<open>fuel E\<close> rounds; \<open>NoFuel\<close> stands for a loop that has not ended
  by then, and is passed on in the same way. Logging is left out.
\<close>

section \<open>Errors\<close>

datatype reason = NotFound | Conflict | AlreadyExists | OtherReason string

datatype errno = ENOENT | ENOTCONN | ESTALE | EIO | EACCES | OtherErrno nat

datatype code = InvalidArgument | Internal | Aborted | CodeAlreadyExists | CodeNotFound | Unimplemented

datatype gerr =
    ApiErr reason
  | PathErr errno
  | Canceled
  | DeadlineExceeded
  | PlainErr string
  | ErrorfRaw string "string list" "gerr option"
  | StatusRaw code string "string list" "gerr option"
  | GoPanic string
  | NoFuel

text \<open>\<open>fmt.Errorf\<close> and \<open>status.Errorf\<close> around a cause.\<close>

definition is_panic :: "gerr \<Rightarrow> bool" where
  "is_panic e = (case e of GoPanic m \<Rightarrow> True | NoFuel \<Rightarrow> True | _ \<Rightarrow> False)"

definition errorf :: "string \<Rightarrow> string list \<Rightarrow> gerr \<Rightarrow> gerr" where
  "errorf f args e = (if is_panic e then e else ErrorfRaw f args (Some e))"

definition statusf :: "code \<Rightarrow> string \<Rightarrow> string list \<Rightarrow> gerr \<Rightarrow> gerr" where
  "statusf c f args e = (if is_panic e then e else StatusRaw c f args (Some e))"

text \<open>
  \<open>apierrors.IsNotFound\<close>, \<open>IsConflict\<close>, \<open>IsAlreadyExists\<close> and \<open>os.IsNotExist\<close>;
  none of them looks through a wrapped error that \<open>%v\<close> or \<open>%s\<close> has flattened.
\<close>

definition IsNotFound :: "gerr \<Rightarrow> bool" where
  "IsNotFound e \<longleftrightarrow> e = ApiErr NotFound"

definition IsConflict :: "gerr \<Rightarrow> bool" where
  "IsConflict e \<longleftrightarrow> e = ApiErr Conflict"

definition IsAlreadyExists :: "gerr \<Rightarrow> bool" where
  "IsAlreadyExists e \<longleftrightarrow> e = ApiErr AlreadyExists"

definition IsNotExist :: "gerr \<Rightarrow> bool" where
  "IsNotExist e \<longleftrightarrow> e = PathErr ENOENT"

lemma err_kind_simps [simp]:
  "\<not> is_panic (ApiErr r)" "is_panic (GoPanic m)" "\<not> is_panic (ErrorfRaw f a c)"
  "\<not> is_panic (StatusRaw cd f a c)" "\<not> is_panic (PathErr n)" "\<not> is_panic Canceled"
  "\<not> is_panic DeadlineExceeded" "\<not> is_panic (PlainErr s)" "is_panic NoFuel"
  by (simp_all add: is_panic_def)

section \<open>The outside world\<close>

record file_info =
  fiIno :: nat
  fiPerm :: nat

record mount_info =
  miMinor :: int
  miRoot :: string
  miMountPoint :: string

text \<open>Bodies are bytes; reading the body of a response may fail.\<close>

record http_request =
  hrMethod :: string
  hrURL :: string
  hrBody :: "string option"

record http_response =
  hsStatus :: int
  hsBody :: "gerr + string"

text \<open>The body of the kubelet's answer; the text \<open>null\<close> decodes into a nil list.\<close>

datatype kubelet_body = Unauthorized | NotPodList gerr | PodListBody "pod list option"

text \<open>The package variables of \<open>pkg/juicefs/config/config.go\<close> that \<open>main\<close> sets once.\<close>

record config =
  cfgNodeName :: string
  cfgNamespace :: string
  cfgPodName :: string
  cfgMountImage :: string
  cfgHostIp :: string
  cfgKubeletPort :: string
  cfgMountPointPath :: string
  cfgJFSConfigPath :: string
  cfgEnableAPIServerListCache :: bool

record 'w kube_ext =
  api_create :: "pod \<Rightarrow> 'w \<Rightarrow> (gerr + pod) \<times> 'w"
  api_get :: "string \<Rightarrow> string \<Rightarrow> 'w \<Rightarrow> (gerr + pod) \<times> 'w"
  api_list :: "string \<Rightarrow> string \<Rightarrow> 'w \<Rightarrow> (gerr + pod list) \<times> 'w"
  api_patch :: "string \<Rightarrow> string \<Rightarrow> patch \<Rightarrow> 'w \<Rightarrow> (gerr + unit) \<times> 'w"
  api_update :: "pod \<Rightarrow> 'w \<Rightarrow> (gerr + unit) \<times> 'w"
  api_delete :: "string \<Rightarrow> string \<Rightarrow> 'w \<Rightarrow> (gerr + unit) \<times> 'w"
  api_get_pv :: "string \<Rightarrow> 'w \<Rightarrow> (gerr + persistent_volume) \<times> 'w"
  api_list_pv :: "'w \<Rightarrow> (gerr + persistent_volume list) \<times> 'w"
  api_log :: "string \<Rightarrow> string \<Rightarrow> string \<Rightarrow> 'w \<Rightarrow> (gerr + string) \<times> 'w"

record 'w os_ext =
  os_stat :: "string \<Rightarrow> 'w \<Rightarrow> (gerr + file_info) \<times> 'w"
  os_mkdir_all :: "string \<Rightarrow> nat \<Rightarrow> 'w \<Rightarrow> (gerr + unit) \<times> 'w"
  os_chmod :: "string \<Rightarrow> nat \<Rightarrow> 'w \<Rightarrow> (gerr + unit) \<times> 'w"
  os_remove :: "string \<Rightarrow> 'w \<Rightarrow> (gerr + unit) \<times> 'w"
  os_write_file :: "string \<Rightarrow> string \<Rightarrow> nat \<Rightarrow> 'w \<Rightarrow> (gerr + unit) \<times> 'w"
  os_lookup_env :: "string \<Rightarrow> 'w \<Rightarrow> string option \<times> 'w"
  os_set_env :: "string \<Rightarrow> string \<Rightarrow> 'w \<Rightarrow> unit \<times> 'w"
  run_cmd :: "string list \<Rightarrow> (string \<times> string) list \<Rightarrow> 'w \<Rightarrow> (string \<times> gerr option) \<times> 'w"
  mnt_mount :: "string \<Rightarrow> string \<Rightarrow> string \<Rightarrow> string list \<Rightarrow> 'w \<Rightarrow> (gerr + unit) \<times> 'w"
  mnt_unmount :: "string \<Rightarrow> 'w \<Rightarrow> (gerr + unit) \<times> 'w"
  mnt_likely_not :: "string \<Rightarrow> 'w \<Rightarrow> (gerr + bool) \<times> 'w"
  mnt_info :: "'w \<Rightarrow> (gerr + mount_info list) \<times> 'w"

text \<open>
  \<open>timer\<close> says whether a context's deadline passes (or the context is cancelled)
  before the operation it guards is done.
\<close>

record 'w clock_ext =
  clock_now :: "'w \<Rightarrow> int \<times> 'w"
  clock_sleep :: "nat \<Rightarrow> 'w \<Rightarrow> unit \<times> 'w"
  timer :: "'w \<Rightarrow> gerr option \<times> 'w"

record 'w net_ext =
  http_do :: "http_request \<Rightarrow> 'w \<Rightarrow> (gerr + http_response) \<times> 'w"
  kubelet_pods :: "string \<Rightarrow> 'w \<Rightarrow> (gerr + kubelet_body) \<times> 'w"

text \<open>
  Pure functions of other packages: the offset of the local time zone at an
  instant (seconds), \<open>resource.ParseQuantity\<close>
  (whether the text is a quantity), and \<open>yaml.Unmarshal\<close> into an empty map of strings:
  what the map is afterwards, and whether there was no error.
\<close>

record pure_ext =
  zone_offset :: "int \<Rightarrow> int"
  valid_quantity :: "string \<Rightarrow> bool"
  yaml_map :: "string \<Rightarrow> smap \<times> bool"

text \<open>
  The client of the warm-up controller: the \<open>Cache\<close> objects, claims, the pods of a
  namespace, and a command run in a container of a pod.
\<close>

record 'w cache_ext =
  cache_get :: "string \<Rightarrow> string \<Rightarrow> 'w \<Rightarrow> (gerr + cache_object) \<times> 'w"
  cache_delete :: "cache_object \<Rightarrow> 'w \<Rightarrow> (gerr + unit) \<times> 'w"
  cache_update_status :: "cache_object \<Rightarrow> 'w \<Rightarrow> (gerr + unit) \<times> 'w"
  pvc_get :: "string \<Rightarrow> string \<Rightarrow> 'w \<Rightarrow> (gerr + persistent_volume_claim) \<times> 'w"
  ns_pods :: "string \<Rightarrow> 'w \<Rightarrow> (gerr + pod list) \<times> 'w"
  new_executor :: "string \<Rightarrow> string \<Rightarrow> string list \<Rightarrow> 'w \<Rightarrow> (gerr + unit) \<times> 'w"
  pod_exec :: "string \<Rightarrow> string \<Rightarrow> string list \<Rightarrow> 'w \<Rightarrow> (string \<times> string \<times> gerr option) \<times> 'w"

record 'w ext =
  fuel :: nat
  cfg :: config
  lib :: pure_ext
  kube :: "'w kube_ext"
  sys :: "'w os_ext"
  clk :: "'w clock_ext"
  net :: "'w net_ext"
  cch :: "'w cache_ext"

text \<open>
  The calls of a run with their results. \<open>EvSetup\<close> records a call by which a process is put
  together (a client, a listener, a manager) by its name and arguments. \<open>Locked\<close> and \<open>Unlocked\<close> record the mutexes of package
  \<open>config\<close>: \<open>JLock\<close>, and \<open>PodLocks[i]\<close>.
\<close>

datatype mutex = JLock | PodLock nat

datatype event =
    EvCreatePod pod "gerr + pod"
  | EvGetPod string string "gerr + pod"
  | EvListPod string string "gerr + pod list"
  | EvPatchPod string string patch "gerr + unit"
  | EvUpdatePod pod "gerr + unit"
  | EvDeletePod string string "gerr + unit"
  | EvGetPV string "gerr + persistent_volume"
  | EvListPV "gerr + persistent_volume list"
  | EvPodLog string string string "gerr + string"
  | EvStat string "gerr + file_info"
  | EvMkdirAll string nat "gerr + unit"
  | EvChmod string nat "gerr + unit"
  | EvRemove string "gerr + unit"
  | EvWriteFile string string nat "gerr + unit"
  | EvLookupEnv string "string option"
  | EvSetEnv string string
  | EvExec "string list" "(string \<times> string) list" "string \<times> gerr option"
  | EvMount string string string "string list" "gerr + unit"
  | EvUnmount string "gerr + unit"
  | EvLikelyNotMountPoint string "gerr + bool"
  | EvMountInfo "gerr + mount_info list"
  | EvHttp http_request "gerr + http_response"
  | EvNow int
  | EvSleep nat
  | EvTimer "gerr option"
  | EvKubeletPods string "gerr + kubelet_body"
  | EvGetCache string string "gerr + cache_object"
  | EvDeleteCache cache_object "gerr + unit"
  | EvUpdateCacheStatus cache_object "gerr + unit"
  | EvGetPVC string string "gerr + persistent_volume_claim"
  | EvNsPods string "gerr + pod list"
  | EvNewExecutor string string "string list" "gerr + unit"
  | EvPodExec string string "string list" "string \<times> string \<times> gerr option"
  | EvReadFile string "gerr + string"
  | EvSetup string "string list" "gerr + unit"
  | Locked mutex
  | Unlocked mutex

type_synonym 'w st = "'w \<times> event list"
type_synonym ('w, 'a) go = "('w st, 'a) state"

abbreviation ret :: "'a \<Rightarrow> ('w, 'a) go" where
  "ret \<equiv> State_Monad.return"

definition call :: "('w \<Rightarrow> 'a \<times> 'w) \<Rightarrow> ('a \<Rightarrow> event) \<Rightarrow> ('w, 'a) go" where
  "call f ev = State (\<lambda>(w, t). case f w of (r, w') \<Rightarrow> (r, (w', t @ [ev r])))"

text \<open>\<open>x, err := m; if err != nil { return err }\<close>, and the same with the error wrapped.\<close>

definition tryM :: "('w, gerr + 'a) go \<Rightarrow> ('a \<Rightarrow> ('w, gerr + 'b) go) \<Rightarrow> ('w, gerr + 'b) go" where
  "tryM m k = do { r \<leftarrow> m; case r of Inl e \<Rightarrow> ret (Inl e) | Inr x \<Rightarrow> k x }"

definition tryWrap ::
  "(gerr \<Rightarrow> gerr) \<Rightarrow> ('w, gerr + 'a) go \<Rightarrow> ('a \<Rightarrow> ('w, gerr + 'b) go) \<Rightarrow> ('w, gerr + 'b) go" where
  "tryWrap f m k = do { r \<leftarrow> m; case r of Inl e \<Rightarrow> ret (Inl (f e)) | Inr x \<Rightarrow> k x }"

text \<open>\<open>mu.Lock(); defer mu.Unlock()\<close> around the rest of a function.\<close>

definition lockE :: "mutex \<Rightarrow> ('w, unit) go" where
  "lockE l = call (\<lambda>w. ((), w)) (\<lambda>_. Locked l)"

definition unlockE :: "mutex \<Rightarrow> ('w, unit) go" where
  "unlockE l = call (\<lambda>w. ((), w)) (\<lambda>_. Unlocked l)"

definition withLock :: "mutex \<Rightarrow> ('w, 'a) go \<Rightarrow> ('w, 'a) go" where
  "withLock l m = do { lockE l; r \<leftarrow> m; unlockE l; ret r }"

section \<open>The calls into package os, the mounter and the clock\<close>

definition Stat :: "'w ext \<Rightarrow> string \<Rightarrow> ('w, gerr + file_info) go" where
  "Stat E p = call (os_stat (sys E) p) (EvStat p)"

definition MkdirAll :: "'w ext \<Rightarrow> string \<Rightarrow> nat \<Rightarrow> ('w, gerr + unit) go" where
  "MkdirAll E p m = call (os_mkdir_all (sys E) p m) (EvMkdirAll p m)"

definition Chmod :: "'w ext \<Rightarrow> string \<Rightarrow> nat \<Rightarrow> ('w, gerr + unit) go" where
  "Chmod E p m = call (os_chmod (sys E) p m) (EvChmod p m)"

definition RemoveFile :: "'w ext \<Rightarrow> string \<Rightarrow> ('w, gerr + unit) go" where
  "RemoveFile E p = call (os_remove (sys E) p) (EvRemove p)"

definition WriteFile :: "'w ext \<Rightarrow> string \<Rightarrow> string \<Rightarrow> nat \<Rightarrow> ('w, gerr + unit) go" where
  "WriteFile E p d m = call (os_write_file (sys E) p d m) (EvWriteFile p d m)"

definition LookupEnv :: "'w ext \<Rightarrow> string \<Rightarrow> ('w, string option) go" where
  "LookupEnv E k = call (os_lookup_env (sys E) k) (EvLookupEnv k)"

text \<open>\<open>os.Getenv\<close>: the empty string when the variable is not set.\<close>

definition Getenv :: "'w ext \<Rightarrow> string \<Rightarrow> ('w, string) go" where
  "Getenv E k = do { v \<leftarrow> LookupEnv E k; ret (case v of None \<Rightarrow> '''' | Some s \<Rightarrow> s) }"

definition Setenv :: "'w ext \<Rightarrow> string \<Rightarrow> string \<Rightarrow> ('w, unit) go" where
  "Setenv E k v = call (os_set_env (sys E) k v) (\<lambda>_. EvSetEnv k v)"

text \<open>A command with its arguments and added environment; \<open>CombinedOutput\<close>.\<close>

definition Exec :: "'w ext \<Rightarrow> string list \<Rightarrow> (string \<times> string) list \<Rightarrow> ('w, string \<times> gerr option) go" where
  "Exec E cmd envs = call (run_cmd (sys E) cmd envs) (EvExec cmd envs)"

definition Mount :: "'w ext \<Rightarrow> string \<Rightarrow> string \<Rightarrow> string \<Rightarrow> string list \<Rightarrow> ('w, gerr + unit) go" where
  "Mount E src tgt fstype opts = call (mnt_mount (sys E) src tgt fstype opts) (EvMount src tgt fstype opts)"

definition Unmount :: "'w ext \<Rightarrow> string \<Rightarrow> ('w, gerr + unit) go" where
  "Unmount E p = call (mnt_unmount (sys E) p) (EvUnmount p)"

definition IsLikelyNotMountPoint :: "'w ext \<Rightarrow> string \<Rightarrow> ('w, gerr + bool) go" where
  "IsLikelyNotMountPoint E p = call (mnt_likely_not (sys E) p) (EvLikelyNotMountPoint p)"

definition ParseMountInfo :: "'w ext \<Rightarrow> ('w, gerr + mount_info list) go" where
  "ParseMountInfo E = call (mnt_info (sys E)) EvMountInfo"

definition Now :: "'w ext \<Rightarrow> ('w, int) go" where
  "Now E = call (clock_now (clk E)) EvNow"

definition Sleep :: "'w ext \<Rightarrow> nat \<Rightarrow> ('w, unit) go" where
  "Sleep E ms = call (clock_sleep (clk E) ms) (\<lambda>_. EvSleep ms)"

definition Timer :: "'w ext \<Rightarrow> ('w, gerr option) go" where
  "Timer E = call (timer (clk E)) EvTimer"

lemmas os_call_defs = Stat_def MkdirAll_def Chmod_def RemoveFile_def WriteFile_def LookupEnv_def
  Setenv_def Exec_def Mount_def Unmount_def IsLikelyNotMountPoint_def ParseMountInfo_def
  Now_def Sleep_def Timer_def lockE_def unlockE_def

section \<open>Weakest preconditions\<close>

definition wp :: "('w, 'a) go \<Rightarrow> ('a \<Rightarrow> 'w st \<Rightarrow> bool) \<Rightarrow> 'w st \<Rightarrow> bool" where
  "wp m Q s = (case run_state m s of (r, s') \<Rightarrow> Q r s')"

lemma wp_return [wp_simps]: "wp (ret x) Q s = Q x s"
  by (simp add: wp_def)

lemma wp_bind [wp_simps]: "wp (State_Monad.bind m f) Q s = wp m (\<lambda>r. wp (f r) Q) s"
  by (simp add: wp_def split: prod.splits)

lemma wp_call [wp_simps]:
  "wp (call f ev) Q (w, t) = (case f w of (r, w') \<Rightarrow> Q r (w', t @ [ev r]))"
  by (simp add: wp_def call_def split: prod.splits)

lemma wp_tryM [wp_simps]:
  "wp (tryM m k) Q s = wp m (\<lambda>r. case r of Inl e \<Rightarrow> Q (Inl e) | Inr x \<Rightarrow> wp (k x) Q) s"
  unfolding tryM_def wp_bind
  by (rule arg_cong [where f = "\<lambda>R. wp m R s"]) (auto simp: fun_eq_iff wp_return split: sum.splits)

lemma wp_tryWrap [wp_simps]:
  "wp (tryWrap f m k) Q s = wp m (\<lambda>r. case r of Inl e \<Rightarrow> Q (Inl (f e)) | Inr x \<Rightarrow> wp (k x) Q) s"
  unfolding tryWrap_def wp_bind
  by (rule arg_cong [where f = "\<lambda>R. wp m R s"]) (auto simp: fun_eq_iff wp_return split: sum.splits)

lemma wp_if [wp_simps]: "wp (if b then m else n) Q s = (if b then wp m Q s else wp n Q s)"
  by simp

lemma wp_mono: "wp m Q s \<Longrightarrow> (\<And>r s'. Q r s' \<Longrightarrow> R r s') \<Longrightarrow> wp m R s"
  by (auto simp: wp_def split: prod.splits)

lemma wp_run: "wp m (\<lambda>r s'. run_state m s = (r, s')) s"
  by (auto simp: wp_def split: prod.splits)

lemma run_state_wp: "run_state m s = (r, s') \<Longrightarrow> wp m Q s \<longleftrightarrow> Q r s'"
  by (simp add: wp_def)

section \<open>Which calls a program makes\<close>

text \<open>
  \<open>emits P m\<close>: from every world and trace, \<open>m\<close> extends the trace, and only by
  events that satisfy \<open>P\<close>. The rules follow the shape of the program.
\<close>

definition emits :: "(event \<Rightarrow> bool) \<Rightarrow> ('w, 'a) go \<Rightarrow> bool" where
  "emits P m \<longleftrightarrow> (\<forall>w t. \<exists>es. snd (snd (run_state m (w, t))) = t @ es \<and> list_all P es)"

lemma emits_return [emits_intros]: "emits P (ret x)"
  by (simp add: emits_def)

lemma emits_call [emits_intros]: "(\<And>r. P (ev r)) \<Longrightarrow> emits P (call f ev)"
  by (auto simp: emits_def call_def split: prod.splits)

lemma emits_bind [emits_intros]:
  assumes "emits P m" and "\<And>x. emits P (f x)"
  shows "emits P (State_Monad.bind m f)"
  unfolding emits_def
proof (intro allI)
  fix w t
  obtain x w1 t1 where m: "run_state m (w, t) = (x, w1, t1)"
    by (metis prod_cases3)
  with assms(1) obtain es1 where e1: "t1 = t @ es1" "list_all P es1"
    unfolding emits_def by (metis snd_conv)
  from assms(2) obtain es2 where
    "snd (snd (run_state (f x) (w1, t1))) = t1 @ es2" "list_all P es2"
    unfolding emits_def by blast
  with m e1 show "\<exists>es. snd (snd (run_state (State_Monad.bind m f) (w, t))) = t @ es \<and> list_all P es"
    by (intro exI [of _ "es1 @ es2"]) simp
qed

lemma emits_tryM [emits_intros]:
  "emits P m \<Longrightarrow> (\<And>x. emits P (k x)) \<Longrightarrow> emits P (tryM m k)"
  unfolding tryM_def by (intro emits_bind) (auto intro: emits_intros split: sum.splits)

lemma emits_tryWrap [emits_intros]:
  "emits P m \<Longrightarrow> (\<And>x. emits P (k x)) \<Longrightarrow> emits P (tryWrap f m k)"
  unfolding tryWrap_def by (intro emits_bind) (auto intro: emits_intros split: sum.splits)

lemma emits_if [emits_intros]:
  "(b \<Longrightarrow> emits P m) \<Longrightarrow> (\<not> b \<Longrightarrow> emits P n) \<Longrightarrow> emits P (if b then m else n)"
  by simp

lemma emits_case_sum [emits_intros]:
  "(\<And>e. r = Inl e \<Longrightarrow> emits P (f e)) \<Longrightarrow> (\<And>x. r = Inr x \<Longrightarrow> emits P (g x)) \<Longrightarrow>
   emits P (case r of Inl e \<Rightarrow> f e | Inr x \<Rightarrow> g x)"
  by (cases r) auto

lemma emits_case_option [emits_intros]:
  "(r = None \<Longrightarrow> emits P m) \<Longrightarrow> (\<And>x. r = Some x \<Longrightarrow> emits P (g x)) \<Longrightarrow>
   emits P (case r of None \<Rightarrow> m | Some x \<Rightarrow> g x)"
  by (cases r) auto

lemma emits_case_prod [emits_intros]:
  "(\<And>x y. r = (x, y) \<Longrightarrow> emits P (g x y)) \<Longrightarrow> emits P (case r of (x, y) \<Rightarrow> g x y)"
  by (cases r) auto

lemma emits_Let [emits_intros]: "emits P (f x) \<Longrightarrow> emits P (Let x f)"
  by simp

lemma emits_withLock [emits_intros]:
  "P (Locked l) \<Longrightarrow> P (Unlocked l) \<Longrightarrow> emits P m \<Longrightarrow> emits P (withLock l m)"
  unfolding withLock_def lockE_def unlockE_def by (intro emits_intros) auto

lemma emits_mono: "emits P m \<Longrightarrow> (\<And>e. P e \<Longrightarrow> Q e) \<Longrightarrow> emits Q m"
  unfolding emits_def by (meson list.pred_mono_strong)

text \<open>The events of a run and its result, from an empty trace.\<close>

definition events :: "('w, 'a) go \<Rightarrow> 'w \<Rightarrow> event list" where
  "events m w = snd (snd (run_state m (w, [])))"

definition result :: "('w, 'a) go \<Rightarrow> 'w \<Rightarrow> 'a" where
  "result m w = fst (run_state m (w, []))"

lemma wp_emits: "emits P m \<Longrightarrow> wp m (\<lambda>r s. \<exists>w' es. s = (w', t @ es) \<and> list_all P es) (w, t)"
  unfolding emits_def wp_def by (metis (mono_tags, lifting) case_prod_unfold prod.collapse)

lemma emits_events: "emits P m \<Longrightarrow> list_all P (events m w)"
  unfolding emits_def events_def by (metis append_Nil)

lemma wp_events: "wp m (\<lambda>r s. Q r (snd s)) (w, []) \<longleftrightarrow> Q (result m w) (events m w)"
  by (simp add: wp_def events_def result_def case_prod_unfold)

lemma events_eqI: "wp m (\<lambda>r s. snd s = es) (w, []) \<Longrightarrow> events m w = es"
  by (simp add: wp_def events_def case_prod_unfold)

lemma result_eqI: "wp m (\<lambda>r s. r = x) (w, []) \<Longrightarrow> result m w = x"
  by (simp add: wp_def result_def case_prod_unfold)

lemma run_state_iff_wp: "run_state m s = x \<longleftrightarrow> wp m (\<lambda>r s'. (r, s') = x) s"
  by (auto simp: wp_def split: prod.splits)

text \<open>A property of the value and the events of a run that returned no error.\<close>

definition onSuccess :: "('a \<Rightarrow> event list \<Rightarrow> bool) \<Rightarrow> gerr + 'a \<Rightarrow> event list \<Rightarrow> bool" where
  "onSuccess T r es \<longleftrightarrow> (case r of Inl _ \<Rightarrow> True | Inr x \<Rightarrow> T x es)"

lemma onSuccess_simps [simp]: "onSuccess T (Inl e) es" "onSuccess T (Inr x) es \<longleftrightarrow> T x es"
  by (simp_all add: onSuccess_def)

text \<open>Reading the contract off a run.\<close>

lemma emits_trace:
  assumes "emits P m" and "run_state m (w, t) = (r, w', t')"
  obtains es where "t' = t @ es" and "\<forall>e \<in> set es. P e"
  using assms unfolding emits_def by (metis list_all_iff snd_conv)

section \<open>Traces\<close>

text \<open>
  \<open>traces m T\<close>: from every world, the result \<open>r\<close> of \<open>m\<close> and the list \<open>es\<close> of the
  events it adds satisfy \<open>T r es\<close>. As the events carry the results of the calls, a
  trace property needs no assumption on the parameters.
\<close>

definition traces :: "('w, 'a) go \<Rightarrow> ('a \<Rightarrow> event list \<Rightarrow> bool) \<Rightarrow> bool" where
  "traces m T \<longleftrightarrow> (\<forall>w t. \<exists>es. snd (snd (run_state m (w, t))) = t @ es \<and> T (fst (run_state m (w, t))) es)"

lemma traces_return: "T x [] \<Longrightarrow> traces (ret x) T"
  by (simp add: traces_def)

lemma traces_call: "(\<And>r. T r [ev r]) \<Longrightarrow> traces (call f ev) T"
  by (simp add: traces_def call_def split: prod.splits)

lemma traces_bind:
  assumes "traces m S" and "\<And>x es. S x es \<Longrightarrow> traces (f x) (\<lambda>r es'. T r (es @ es'))"
  shows "traces (State_Monad.bind m f) T"
  unfolding traces_def
proof (intro allI)
  fix w t
  obtain x w1 t1 where m: "run_state m (w, t) = (x, w1, t1)"
    by (metis prod_cases3)
  with assms(1) obtain es where es: "t1 = t @ es" "S x es"
    unfolding traces_def by (metis fst_conv snd_conv)
  from assms(2) [OF es(2)] obtain es' where
    "snd (snd (run_state (f x) (w1, t1))) = t1 @ es'" "T (fst (run_state (f x) (w1, t1))) (es @ es')"
    unfolding traces_def by blast
  with m es(1) show "\<exists>es. snd (snd (run_state (State_Monad.bind m f) (w, t))) = t @ es \<and>
      T (fst (run_state (State_Monad.bind m f) (w, t))) es"
    by (intro exI [of _ "es @ es'"]) simp
qed

lemma traces_bind_call:
  "(\<And>r. traces (f r) (\<lambda>x es. T x (ev r # es))) \<Longrightarrow> traces (State_Monad.bind (call g ev) f) T"
  by (rule traces_bind, rule traces_call [where T = "\<lambda>r es. es = [ev r]"], rule refl) simp

lemma traces_mono: "traces m S \<Longrightarrow> (\<And>r es. S r es \<Longrightarrow> T r es) \<Longrightarrow> traces m T"
  unfolding traces_def by blast

lemma traces_conj: "traces m S \<Longrightarrow> traces m T \<Longrightarrow> traces m (\<lambda>r es. S r es \<and> T r es)"
  unfolding traces_def by (metis same_append_eq)

lemma traces_tryM:
  assumes "traces m S" and "\<And>e es. S (Inl e) es \<Longrightarrow> T (Inl e) es"
    and "\<And>x es. S (Inr x) es \<Longrightarrow> traces (k x) (\<lambda>r es'. T r (es @ es'))"
  shows "traces (tryM m k) T"
  unfolding tryM_def using assms(2,3)
  by (intro traces_bind [OF assms(1)]) (auto intro: traces_return split: sum.splits)

lemma traces_tryWrap:
  assumes "traces m S" and "\<And>e es. S (Inl e) es \<Longrightarrow> T (Inl (f e)) es"
    and "\<And>x es. S (Inr x) es \<Longrightarrow> traces (k x) (\<lambda>r es'. T r (es @ es'))"
  shows "traces (tryWrap f m k) T"
  unfolding tryWrap_def using assms(2,3)
  by (intro traces_bind [OF assms(1)]) (auto intro: traces_return split: sum.splits)

lemma traces_withLock:
  assumes "traces m (\<lambda>r es. T r (Locked l # es @ [Unlocked l]))"
  shows "traces (withLock l m) T"
  unfolding withLock_def lockE_def unlockE_def
  by (rule traces_bind [where S = "\<lambda>_ es. es = [Locked l]"], rule traces_call, rule refl,
      rule traces_bind [OF assms],
      rule traces_bind [where S = "\<lambda>_ es. es = [Unlocked l]"], rule traces_call, rule refl)
    (auto intro: traces_return)

lemma emits_traces: "emits P m \<longleftrightarrow> traces m (\<lambda>_ es. list_all P es)"
  by (simp add: emits_def traces_def)

lemma traces_events: "traces m T \<Longrightarrow> T (result m w) (events m w)"
  unfolding traces_def result_def events_def by (metis append_Nil)

end
