(* ===== verification/K8s_Client.thy ===== *)
theory K8s_Client
  imports Effects
begin

text \<open>
  \<open>pkg/juicefs/k8sclient\<close>: the client of the API server
  (\<open>client.go\<close>), the kubelet client (\<open>kubelet_client.go\<close>) and the mock client of
  the unit tests (\<open>fake_client.go\<close>). The API server itself is a parameter; the
  mock is a concrete store of pods, and the laws a store promises to the code
  above it (locale \<open>pod_api\<close>) are proved of it.
\<close>

section \<open>client.go\<close>

definition zero_pod :: pod where
  "zero_pod = \<lparr>pName = '''', pNamespace = '''', pUID = '''', pResourceVersion = '''',
     pLabels = None, pAnnotations = None, pFinalizers = None, pDeletionTimestamp = None,
     pSpec = zero_spec, pStatus = zero_status\<rparr>"

text \<open>An existing pod is no error; the caller gets the empty object of the failed request.\<close>

definition CreatePod :: "'w ext \<Rightarrow> pod \<Rightarrow> ('w, gerr + pod) go" where
  "CreatePod E pod = do {
     r \<leftarrow> call (api_create (kube E) pod) (EvCreatePod pod);
     case r of
       Inl e \<Rightarrow> if \<not> IsAlreadyExists e then ret (Inl e) else ret (Inr zero_pod)
     | Inr p \<Rightarrow> ret (Inr p) }"

definition GetAllPod :: "'w ext \<Rightarrow> ('w, gerr + pod list) go" where
  "GetAllPod E = call (api_list (kube E) '''' '''') (EvListPod '''' '''')"

definition GetPod :: "'w ext \<Rightarrow> string \<Rightarrow> string \<Rightarrow> ('w, gerr + pod) go" where
  "GetPod E podName namespace = call (api_get (kube E) podName namespace) (EvGetPod podName namespace)"

definition UpdatePod :: "'w ext \<Rightarrow> pod \<Rightarrow> ('w, gerr + unit) go" where
  "UpdatePod E pod = call (api_update (kube E) pod) (EvUpdatePod pod)"

text \<open>The argument is a pointer: a nil pod is not patched and is no error.\<close>

definition PatchPod :: "'w ext \<Rightarrow> pod option \<Rightarrow> patch \<Rightarrow> ('w, gerr + unit) go" where
  "PatchPod E pod data =
     (case pod of
        None \<Rightarrow> ret (Inr ())
      | Some p \<Rightarrow> call (api_patch (kube E) (pNamespace p) (pName p) data)
                       (EvPatchPod (pNamespace p) (pName p) data))"

definition DeletePod :: "'w ext \<Rightarrow> pod \<Rightarrow> ('w, gerr + unit) go" where
  "DeletePod E pod =
     call (api_delete (kube E) (pNamespace pod) (pName pod)) (EvDeletePod (pNamespace pod) (pName pod))"

definition GetPersistentVolume :: "'w ext \<Rightarrow> string \<Rightarrow> ('w, gerr + persistent_volume) go" where
  "GetPersistentVolume E pvName = call (api_get_pv (kube E) pvName) (EvGetPV pvName)"

definition GetPodLog :: "'w ext \<Rightarrow> string \<Rightarrow> string \<Rightarrow> string \<Rightarrow> ('w, gerr + string) go" where
  "GetPodLog E podName namespace containerName =
     call (api_log (kube E) podName namespace containerName) (EvPodLog podName namespace containerName)"

text \<open>The driver lists without selectors; the model has that case of the two list calls.\<close>

definition ListPersistentVolumes :: "'w ext \<Rightarrow> ('w, gerr + persistent_volume list) go" where
  "ListPersistentVolumes E = call (api_list_pv (kube E)) EvListPV"

definition ListPod :: "'w ext \<Rightarrow> string \<Rightarrow> ('w, gerr + pod list) go" where
  "ListPod E namespace =
     (let rv = (if cfgEnableAPIServerListCache (cfg E) then ''0'' else '''')
      in call (api_list (kube E) namespace rv) (EvListPod namespace rv))"

lemmas k8s_call_defs = CreatePod_def GetAllPod_def GetPod_def UpdatePod_def DeletePod_def
  GetPersistentVolume_def GetPodLog_def ListPersistentVolumes_def ListPod_def

section \<open>kubelet\_client.go\<close>

definition kubeletURL :: "string \<Rightarrow> int \<Rightarrow> string" where
  "kubeletURL host port = ''https://'' @ host @ '':'' @ showInt port @ ''/pods/''"

definition GetNodeRunningPods :: "'w ext \<Rightarrow> string \<Rightarrow> int \<Rightarrow> ('w, gerr + pod list option) go" where
  "GetNodeRunningPods E host port = do {
     r \<leftarrow> call (kubelet_pods (net E) (kubeletURL host port)) (EvKubeletPods (kubeletURL host port));
     case r of
       Inl e \<Rightarrow> ret (Inl e)
     | Inr body \<Rightarrow>
         (case body of
            Unauthorized \<Rightarrow> ret (Inl (PlainErr ''unauthorized''))
          | NotPodList e \<Rightarrow> ret (Inl e)
          | PodListBody ps \<Rightarrow> ret (Inr ps)) }"

section \<open>fake\_client.go\<close>

type_synonym pod_map = "string \<rightharpoonup> pod"

definition fake_CreatePod :: "pod \<Rightarrow> pod_map \<Rightarrow> (gerr + pod) \<times> pod_map" where
  "fake_CreatePod p m =
     (let p' = p\<lparr>pStatus := zero_status\<lparr>Phase := PodRunning, Conditions :=
                  [\<lparr>condType = ''Ready'', condStatus = ''True'', condReason = '''', condMessage = ''''\<rparr>,
                   \<lparr>condType = ''ContainersReady'', condStatus = ''True'', condReason = '''',
                    condMessage = ''''\<rparr>]\<rparr>\<rparr>
      in (Inr p', m(pName p \<mapsto> p')))"

definition fake_GetPod :: "string \<Rightarrow> string \<Rightarrow> pod_map \<Rightarrow> (gerr + pod) \<times> pod_map" where
  "fake_GetPod name ns m =
     (case m name of None \<Rightarrow> (Inl (ApiErr NotFound), m) | Some p \<Rightarrow> (Inr p, m))"

definition fake_PatchPod :: "string \<Rightarrow> string \<Rightarrow> patch \<Rightarrow> pod_map \<Rightarrow> (gerr + unit) \<times> pod_map" where
  "fake_PatchPod ns name data m = (Inr (), m)"

definition fake_UpdatePod :: "pod \<Rightarrow> pod_map \<Rightarrow> (gerr + unit) \<times> pod_map" where
  "fake_UpdatePod p m =
     (case m (pName p) of None \<Rightarrow> (Inl (ApiErr NotFound), m) | Some _ \<Rightarrow> (Inr (), m(pName p \<mapsto> p)))"

definition fake_DeletePod :: "string \<Rightarrow> string \<Rightarrow> pod_map \<Rightarrow> (gerr + unit) \<times> pod_map" where
  "fake_DeletePod ns name m =
     (case m name of None \<Rightarrow> (Inl (ApiErr NotFound), m) | Some _ \<Rightarrow> (Inr (), m(name := None)))"

definition fake_GetAllPod :: "pod_map \<Rightarrow> (gerr + pod list) \<times> pod_map" where
  "fake_GetAllPod m = (Inr [], m)"

definition fake_GetPodLog :: "pod_map \<Rightarrow> (gerr + string) \<times> pod_map" where
  "fake_GetPodLog m = (Inr '''', m)"

text \<open>
  The mock as a store of pods. It has no persistent volumes: its
  \<open>GetPersistentVolume\<close> returns nothing, which is a missing object here.
\<close>

definition fake_kube :: "pod_map kube_ext" where
  "fake_kube = \<lparr>
     api_create = fake_CreatePod,
     api_get = fake_GetPod,
     api_list = (\<lambda>ns rv. fake_GetAllPod),
     api_patch = fake_PatchPod,
     api_update = fake_UpdatePod,
     api_delete = fake_DeletePod,
     api_get_pv = (\<lambda>n m. (Inl (ApiErr NotFound), m)),
     api_list_pv = (\<lambda>m. (Inr [], m)),
     api_log = (\<lambda>p ns c. fake_GetPodLog)\<rparr>"

section \<open>What a store of pods promises\<close>

text \<open>
  \<open>pods w\<close> is the content of the store. Reading returns the content and changes
  nothing; creating a pod under a free name stores it with its metadata and spec.
\<close>

locale pod_api =
  fixes K :: "'w kube_ext" and pods :: "'w \<Rightarrow> string \<rightharpoonup> pod"
  assumes get_law:
      "api_get K n ns w = (case pods w n of None \<Rightarrow> Inl (ApiErr NotFound) | Some p \<Rightarrow> Inr p, w)"
    and create_law:
      "pods w (pName p) = None \<Longrightarrow>
       \<exists>p' w'. api_create K p w = (Inr p', w') \<and> pods w' = (pods w)(pName p \<mapsto> p') \<and>
         pAnnotations p' = pAnnotations p \<and> pFinalizers p' = pFinalizers p \<and>
         pSpec p' = pSpec p \<and> pDeletionTimestamp p' = pDeletionTimestamp p"
begin

text \<open>A pod that was just created is found, with the annotations it was created with.\<close>

lemma get_after_create:
  assumes "kube E = K" and "pods w (pName p) = None"
  shows "wp (do { r \<leftarrow> CreatePod E p; GetPod E (pName p) ns })
           (\<lambda>r s. \<exists>q. r = Inr q \<and> pAnnotations q = pAnnotations p \<and> pSpec q = pSpec p) (w, t)"
proof -
  obtain p' w' where c: "api_create K p w = (Inr p', w')" "pods w' = (pods w)(pName p \<mapsto> p')"
    "pAnnotations p' = pAnnotations p" "pSpec p' = pSpec p"
    using create_law [OF assms(2)] by blast
  then show ?thesis
    using assms(1) by (simp add: wp_simps CreatePod_def GetPod_def get_law)
qed

end

interpretation fake: pod_api fake_kube "\<lambda>m. m"
  by unfold_locales
    (auto simp: fake_kube_def fake_GetPod_def fake_CreatePod_def Let_def split: option.splits)

section \<open>The calls of the client\<close>

lemma emits_CreatePod [emits_intros]: "(\<And>r. P (EvCreatePod p r)) \<Longrightarrow> emits P (CreatePod E p)"
  unfolding CreatePod_def by (intro emits_intros) auto

lemma emits_GetPod [emits_intros]: "(\<And>r. P (EvGetPod n ns r)) \<Longrightarrow> emits P (GetPod E n ns)"
  unfolding GetPod_def by (intro emits_intros) auto

lemma emits_PatchPod [emits_intros]:
  "(\<And>r. P (EvPatchPod (pNamespace p) (pName p) d r)) \<Longrightarrow> emits P (PatchPod E (Some p) d)"
  unfolding PatchPod_def by (auto intro: emits_intros)

lemma emits_DeletePod [emits_intros]:
  "(\<And>r. P (EvDeletePod (pNamespace p) (pName p) r)) \<Longrightarrow> emits P (DeletePod E p)"
  unfolding DeletePod_def by (intro emits_intros) auto

lemma wp_GetPod [wp_simps]:
  "wp (GetPod E n ns) Q (w, t) = (case api_get (kube E) n ns w of (r, w') \<Rightarrow> Q r (w', t @ [EvGetPod n ns r]))"
  by (simp add: GetPod_def wp_simps)

lemma wp_DeletePod [wp_simps]:
  "wp (DeletePod E p) Q (w, t) = (case api_delete (kube E) (pNamespace p) (pName p) w of (r, w') \<Rightarrow>
     Q r (w', t @ [EvDeletePod (pNamespace p) (pName p) r]))"
  by (simp add: DeletePod_def wp_simps)

lemma traces_GetPod: "traces (GetPod E n ns) (\<lambda>r es. es = [EvGetPod n ns r])"
  unfolding GetPod_def by (rule traces_call) simp

lemma traces_DeletePod: "traces (DeletePod E p) (\<lambda>r es. es = [EvDeletePod (pNamespace p) (pName p) r])"
  unfolding DeletePod_def by (rule traces_call) simp

lemma traces_PatchPod:
  "traces (PatchPod E (Some p) d) (\<lambda>r es. es = [EvPatchPod (pNamespace p) (pName p) d r])"
  unfolding PatchPod_def by (simp, rule traces_call) simp

lemma traces_CreatePod: "traces (CreatePod E p) (\<lambda>r es. \<exists>c. es = [EvCreatePod p c])"
  unfolding CreatePod_def
  by (rule traces_bind_call) (auto intro!: traces_return split: sum.splits)

end
