(* ===== verification/Hashes.thy ===== *)
theory Hashes
  imports Go_Strings "HOL-Library.Word"
begin

unbundle bit_operations_syntax

text \<open>
  The two hash functions the driver computes: SHA-256, from which
  \<open>util.GetReferenceKey\<close> makes the annotation key of a mount target, and 32-bit
  FNV-1a, which picks the mutex of a pod in \<open>config.GetPodLock\<close>. Both are the
  algorithms of Go's standard library on 32-bit words. The locale \<open>ref_keys\<close>
  states what the reference counting relies on of the keys, and its
  interpretation proves it of \<open>GetReferenceKey\<close>.
\<close>

section \<open>SHA-256\<close>

definition sha_k :: "32 word list" where
  "sha_k =
     [1116352408, 1899447441, 3049323471, 3921009573, 961987163, 1508970993, 2453635748, 2870763221,
      3624381080, 310598401, 607225278, 1426881987, 1925078388, 2162078206, 2614888103, 3248222580,
      3835390401, 4022224774, 264347078, 604807628, 770255983, 1249150122, 1555081692, 1996064986,
      2554220882, 2821834349, 2952996808, 3210313671, 3336571891, 3584528711, 113926993, 338241895,
      666307205, 773529912, 1294757372, 1396182291, 1695183700, 1986661051, 2177026350, 2456956037,
      2730485921, 2820302411, 3259730800, 3345764771, 3516065817, 3600352804, 4094571909, 275423344,
      430227734, 506948616, 659060556, 883997877, 958139571, 1322822218, 1537002063, 1747873779,
      1955562222, 2024104815, 2227730452, 2361852424, 2428436474, 2756734187, 3204031479, 3329325298]"

definition sha_init :: "32 word list" where
  "sha_init =
     [1779033703, 3144134277, 1013904242, 2773480762, 1359893119, 2600822924, 528734635, 1541459225]"

definition sha_ch :: "32 word \<Rightarrow> 32 word \<Rightarrow> 32 word \<Rightarrow> 32 word" where
  "sha_ch x y z = (x AND y) XOR (NOT x AND z)"

definition sha_maj :: "32 word \<Rightarrow> 32 word \<Rightarrow> 32 word \<Rightarrow> 32 word" where
  "sha_maj x y z = (x AND y) XOR (x AND z) XOR (y AND z)"

definition sha_rot3 :: "nat \<Rightarrow> nat \<Rightarrow> nat \<Rightarrow> 32 word \<Rightarrow> 32 word" where
  "sha_rot3 a b c x = word_rotr a x XOR word_rotr b x XOR word_rotr c x"

definition sha_rot2 :: "nat \<Rightarrow> nat \<Rightarrow> nat \<Rightarrow> 32 word \<Rightarrow> 32 word" where
  "sha_rot2 a b c x = word_rotr a x XOR word_rotr b x XOR drop_bit c x"

text \<open>One block of sixteen words is extended to sixty-four.\<close>

fun sha_extend :: "nat \<Rightarrow> 32 word list \<Rightarrow> 32 word list" where
  "sha_extend 0 ws = ws"
| "sha_extend (Suc n) ws =
     (let i = length ws
      in sha_extend n (ws @ [sha_rot2 17 19 10 (ws ! (i - 2)) + ws ! (i - 7)
                             + sha_rot2 7 18 3 (ws ! (i - 15)) + ws ! (i - 16)]))"

fun sha_round :: "32 word list \<Rightarrow> 32 word \<times> 32 word \<Rightarrow> 32 word list" where
  "sha_round [a, b, c, d, e, f, g, h] (k, w) =
     (let t1 = h + sha_rot3 6 11 25 e + sha_ch e f g + k + w;
          t2 = sha_rot3 2 13 22 a + sha_maj a b c
      in [t1 + t2, a, b, c, d + t1, e, f, g])"
| "sha_round hs kw = hs"

definition sha_block :: "32 word list \<Rightarrow> 32 word list \<Rightarrow> 32 word list" where
  "sha_block hs ws = map2 (+) hs (foldl sha_round hs (zip sha_k (sha_extend 48 ws)))"

fun be_word :: "nat list \<Rightarrow> 32 word" where
  "be_word bs = foldl (\<lambda>acc b. 256 * acc + word_of_nat b) 0 bs"

fun be_words :: "nat list \<Rightarrow> 32 word list" where
  "be_words (a # b # c # d # bs) = be_word [a, b, c, d] # be_words bs"
| "be_words bs = []"

definition be_bytes :: "nat \<Rightarrow> nat \<Rightarrow> nat list" where
  "be_bytes n x = map (\<lambda>i. (x div 256 ^ i) mod 256) (rev [0..<n])"

definition sha_pad :: "nat list \<Rightarrow> nat list" where
  "sha_pad m =
     (let n = length m
      in m @ [128] @ replicate ((119 - n mod 64) mod 64) 0 @ be_bytes 8 (8 * n))"

fun sha_blocks :: "nat \<Rightarrow> 32 word list \<Rightarrow> 32 word list \<Rightarrow> 32 word list" where
  "sha_blocks 0 hs ws = hs"
| "sha_blocks (Suc n) hs ws = sha_blocks n (sha_block hs (take 16 ws)) (drop 16 ws)"

text \<open>\<open>sha256.Sum256\<close>: the digest as thirty-two bytes.\<close>

definition sha256 :: "string \<Rightarrow> nat list" where
  "sha256 s =
     (let p = sha_pad (map of_char s)
      in concat (map (\<lambda>w. be_bytes 4 (unat w)) (sha_blocks (length p div 64) sha_init (be_words p))))"

section \<open>Reference keys\<close>

text \<open>The verb \<open>%x\<close> of a byte slice: two lower-case digits for each byte.\<close>

definition hexBytes :: "nat list \<Rightarrow> string" where
  "hexBytes bs = concat (map (\<lambda>b. [hexDigit (b div 16), hexDigit (b mod 16)]) bs)"

definition GetReferenceKey :: "string \<Rightarrow> string" where
  "GetReferenceKey target = take 63 (''mosfs-'' @ hexBytes (sha256 target))"

section \<open>FNV-1a and the lock of a pod\<close>

definition fnv32a :: "string \<Rightarrow> 32 word" where
  "fnv32a s = foldl (\<lambda>h c. (h XOR of_char c) * 16777619) 2166136261 s"

text \<open>
  \<open>config.GetPodLock\<close> as the index into \<open>PodLocks\<close>. \<open>int\<close> has 64 bits on the
  platforms the driver is built for, so the conversion of the sum keeps its value
  and \<open>%\<close> is taken of a number that is not negative.
\<close>

definition PodLocks_len :: nat where
  "PodLocks_len = 1024"

definition GetPodLock :: "string \<Rightarrow> nat" where
  "GetPodLock podName = unat (fnv32a podName) mod PodLocks_len"

section \<open>The shape of a reference key\<close>

lemma length_be_bytes [simp]: "length (be_bytes n x) = n"
  by (simp add: be_bytes_def)

lemma be_bytes_bound: "b \<in> set (be_bytes n x) \<Longrightarrow> b < 256"
  by (auto simp: be_bytes_def)

lemma length_sha_round [simp]: "length (sha_round hs kw) = length hs"
  by (induction hs kw rule: sha_round.induct) (auto simp: Let_def)

lemma length_foldl_sha_round [simp]: "length (foldl sha_round hs kws) = length hs"
  by (induction kws arbitrary: hs) auto

lemma length_sha_blocks [simp]: "length (sha_blocks n hs ws) = length hs"
  by (induction n hs ws rule: sha_blocks.induct) (auto simp: sha_block_def)

lemma length_sha256 [simp]: "length (sha256 s) = 32"
  by (simp add: sha256_def Let_def length_concat comp_def sum_list_triv sha_init_def)

lemma sha256_bound: "b \<in> set (sha256 s) \<Longrightarrow> b < 256"
  by (auto simp: sha256_def Let_def dest: be_bytes_bound)

lemma length_hexBytes [simp]: "length (hexBytes bs) = 2 * length bs"
  by (simp add: hexBytes_def length_concat comp_def sum_list_triv)

lemma hexDigit_chars: "d < 16 \<Longrightarrow> hexDigit d \<in> set ''0123456789abcdef''"
  unfolding hexDigit_def by (rule nth_mem) simp

lemma hexBytes_chars:
  "\<forall>b \<in> set bs. b < 256 \<Longrightarrow> set (hexBytes bs) \<subseteq> set ''0123456789abcdef''"
proof -
  assume b: "\<forall>b \<in> set bs. b < 256"
  have "hexDigit (x div 16) \<in> set ''0123456789abcdef'' \<and> hexDigit (x mod 16) \<in> set ''0123456789abcdef''"
    if "x < 256" for x
    using that by (intro conjI hexDigit_chars) (auto simp: less_mult_imp_div_less)
  with b show ?thesis unfolding hexBytes_def set_concat set_map by auto
qed

text \<open>
  The contract of a reference key: sixty-three bytes, the limit of a Kubernetes
  label or annotation name, with the driver's prefix, and no byte that JSON
  Pointer treats as special. The clients derive from it that no key is one of the
  driver's other annotation keys.
\<close>

locale ref_keys =
  fixes key :: "string \<Rightarrow> string"
  assumes key_length: "length (key t) = 63"
    and key_prefix: "HasPrefix (key t) ''mosfs-''"
    and key_plain: "c \<in> set (key t) \<Longrightarrow> c \<noteq> CHR ''/'' \<and> c \<noteq> CHR ''~''"
begin

lemma key_neq: "length s \<noteq> 63 \<Longrightarrow> key t \<noteq> s"
  using key_length by metis

lemma key_not_Nil: "key t \<noteq> []"
  using key_length [of t] by auto

text \<open>The references among the annotations, as \<open>range\<close> loops of the driver select them.\<close>

definition refs :: "(string \<times> string) list \<Rightarrow> (string \<times> string) list" where
  "refs as = filter (\<lambda>(k, v). k = key v) as"

lemma refs_update:
  assumes "map_of as (key t) = None"
  shows "refs (AList.update (key t) t as) = refs as @ [(key t, t)]"
  using assms by (induction as) (auto simp: refs_def split: if_splits)

lemma refs_delete_other:
  assumes "length k \<noteq> 63"
  shows "refs (AList.delete k as) = refs as"
  using assms key_neq by (induction as) (auto simp: refs_def AList.delete_eq)

end

interpretation rk: ref_keys GetReferenceKey
proof
  fix t
  have l: "length (''mosfs-'' @ hexBytes (sha256 t)) = 70" by simp
  show "length (GetReferenceKey t) = 63"
    unfolding GetReferenceKey_def length_take l by simp
  show "HasPrefix (GetReferenceKey t) ''mosfs-''"
    by (simp add: GetReferenceKey_def HasPrefix_def)
  fix c
  assume "c \<in> set (GetReferenceKey t)"
  then have "c \<in> set ''mosfs-'' \<union> set (hexBytes (sha256 t))"
    unfolding GetReferenceKey_def by (metis in_set_takeD set_append)
  moreover have "set (hexBytes (sha256 t)) \<subseteq> set ''0123456789abcdef''"
    by (rule hexBytes_chars) (simp add: sha256_bound)
  ultimately show "c \<noteq> CHR ''/'' \<and> c \<noteq> CHR ''~''" by auto
qed

section \<open>Properties\<close>

text \<open>
  A reference key is an annotation name the API server accepts and a JSON Pointer can name:
  it has exactly 63 bytes, begins with the prefix that \<open>hasRef\<close> looks for, and has no byte that
  JSON Pointer treats as special.
\<close>

theorem GetReferenceKey_shape:
  "length (GetReferenceKey target) = 63 \<and> HasPrefix (GetReferenceKey target) ''mosfs-''
   \<and> set (GetReferenceKey target) \<inter> {CHR ''/'', CHR ''~''} = {}"
  using rk.key_length rk.key_prefix rk.key_plain [of _ target] by blast

text \<open>The lock of a pod is one of the 1024 locks of the table, for every name.\<close>

theorem GetPodLock_bound: "GetPodLock podName < PodLocks_len"
  by (simp add: GetPodLock_def PodLocks_len_def)

end
