(* ===== verification/Mount_Helper.thy ===== *)
theory Mount_Helper
  imports Effects
begin

text \<open>
  The helpers of the vendored package \<open>k8s.io/utils/mount\<close> that the driver calls
  (\<open>mount_helper_common.go\<close>, \<open>mount_helper_unix.go\<close>): whether a path exists,
  whether an error means a broken mount, and the removal of a mount point.
\<close>

definition IsCorruptedMnt :: "gerr \<Rightarrow> bool" where
  "IsCorruptedMnt e =
     (case e of PathErr n \<Rightarrow> n \<in> {ENOTCONN, ESTALE, EIO, EACCES} | _ \<Rightarrow> False)"

text \<open>Both results of Go's \<open>(bool, error)\<close>: a corrupted mount exists and has an error.\<close>

definition PathExists :: "'w ext \<Rightarrow> string \<Rightarrow> ('w, bool \<times> gerr option) go" where
  "PathExists E path = do {
     r \<leftarrow> Stat E path;
     case r of
       Inr _ \<Rightarrow> ret (True, None)
     | Inl e \<Rightarrow> if IsNotExist e then ret (False, None)
                else if IsCorruptedMnt e then ret (True, Some e)
                else ret (False, Some e) }"

definition doCleanupMountPoint :: "'w ext \<Rightarrow> string \<Rightarrow> bool \<Rightarrow> ('w, gerr + unit) go" where
  "doCleanupMountPoint E mountPath corruptedMnt =
     (let unmountAndRemove = tryM (Unmount E mountPath) (\<lambda>_.
            tryM (IsLikelyNotMountPoint E mountPath) (\<lambda>notMnt.
              if notMnt then RemoveFile E mountPath
              else ret (Inl (ErrorfRaw ''Failed to unmount path %v'' [mountPath] None))))
      in if \<not> corruptedMnt then
           tryM (IsLikelyNotMountPoint E mountPath) (\<lambda>notMnt.
             if notMnt then RemoveFile E mountPath else unmountAndRemove)
         else unmountAndRemove)"

text \<open>The driver passes \<open>false\<close> for the extensive check, so the quick check is used.\<close>

definition CleanupMountPoint :: "'w ext \<Rightarrow> string \<Rightarrow> ('w, gerr + unit) go" where
  "CleanupMountPoint E mountPath = do {
     (pathExists, pathErr) \<leftarrow> PathExists E mountPath;
     if \<not> pathExists then ret (Inr ())
     else (case pathErr of
             None \<Rightarrow> doCleanupMountPoint E mountPath False
           | Some e \<Rightarrow>
               if \<not> IsCorruptedMnt e then ret (Inl (errorf ''Error checking path: %v'' [] e))
               else doCleanupMountPoint E mountPath True) }"

lemma emits_PathExists [emits_intros]: "(\<And>r. P (EvStat p r)) \<Longrightarrow> emits P (PathExists E p)"
  unfolding PathExists_def Stat_def by (intro emits_intros) auto

lemma wp_PathExists [wp_simps]:
  "wp (PathExists E p) Q (w, t) =
     (case os_stat (sys E) p w of (r, w') \<Rightarrow>
        Q (case r of
             Inr _ \<Rightarrow> (True, None)
           | Inl e \<Rightarrow> if IsNotExist e then (False, None)
                      else if IsCorruptedMnt e then (True, Some e) else (False, Some e))
          (w', t @ [EvStat p r]))"
  by (auto simp: PathExists_def Stat_def wp_simps split: prod.splits sum.splits)

end
