(* ===== verification/Go_Url.thy ===== *)
theory Go_Url
  imports Go_Strings
begin

text \<open>
  \<open>net/url.Parse\<close> of Go 1.17, with the fields of the result the driver reads: scheme, host and path. All
  the checks are written out, since they decide whether there is a result at all: control bytes, the
  scheme, user information, port, host, and percent-encoding.
\<close>

section \<open>Bytes\<close>

definition isCTL :: "char \<Rightarrow> bool" where
  [go_defs]: "isCTL c \<longleftrightarrow> (of_char c :: nat) < 0x20 \<or> (of_char c :: nat) = 0x7F"

definition isLetter :: "char \<Rightarrow> bool" where
  [go_defs]: "isLetter c \<longleftrightarrow> 65 \<le> (of_char c :: nat) \<and> (of_char c :: nat) \<le> 90 \<or> 97 \<le> (of_char c :: nat) \<and> (of_char c :: nat) \<le> 122"

definition unhex :: "char \<Rightarrow> nat option" where
  [go_defs]: "unhex c =
     (let b = (of_char c :: nat)
      in if 48 \<le> b \<and> b \<le> 57 then Some (b - 48)
         else if 97 \<le> b \<and> b \<le> 102 then Some (b - 87)
         else if 65 \<le> b \<and> b \<le> 70 then Some (b - 55)
         else None)"

section \<open>Percent-encoding\<close>

datatype encoding = EncodePath | EncodeHost | EncodeZone | EncodeUserPassword | EncodeFragment

text \<open>\<open>shouldEscape\<close> for a host or a zone.\<close>

definition hostEscape :: "char \<Rightarrow> bool" where
  [go_defs]: "hostEscape c \<longleftrightarrow> \<not> (isLetter c \<or> digit c \<noteq> None \<or>
     c \<in> set ''!$&'' \<or> c = CHR 0x27 \<or> c \<in> set ''()*+,;=:[]<>'' \<or> c = CHR 0x22 \<or> c \<in> set ''-_.~'')"

text \<open>What an escape sequence may stand for, by mode.\<close>

definition escapeOk :: "encoding \<Rightarrow> char \<Rightarrow> char \<Rightarrow> nat \<Rightarrow> nat \<Rightarrow> bool" where
  [go_defs]: "escapeOk mode a b x y =
     (if mode = EncodeHost then \<not> x < 8 \<or> [a, b] = ''25''
      else if mode = EncodeZone
        then [a, b] = ''25'' \<or> 16 * x + y = 0x20 \<or> \<not> hostEscape (char_of (16 * x + y))
      else True)"

fun urlUnescape :: "encoding \<Rightarrow> string \<Rightarrow> string option" where
  "urlUnescape mode [] = Some []"
| "urlUnescape mode (c # s) =
     (if c = CHR ''%'' then
        (case s of
           a # b # r \<Rightarrow>
             (case (unhex a, unhex b) of
                (Some x, Some y) \<Rightarrow>
                  if escapeOk mode a b x y then map_option (Cons (char_of (16 * x + y))) (urlUnescape mode r) else None
              | _ \<Rightarrow> None)
         | _ \<Rightarrow> None)
      else if (mode = EncodeHost \<or> mode = EncodeZone) \<and> (of_char c :: nat) < 0x80 \<and> hostEscape c then None
      else map_option (Cons c) (urlUnescape mode s))"

section \<open>The parts of a URL\<close>

text \<open>Cutting at the first byte \<open>c\<close>: what is before it, and what is after it.\<close>

definition cutAt :: "char \<Rightarrow> string \<Rightarrow> string \<times> string" where
  [go_defs]: "cutAt c s = (takeWhile (\<lambda>x. x \<noteq> c) s, drop 1 (dropWhile (\<lambda>x. x \<noteq> c) s))"

text \<open>\<open>getScheme\<close>: \<open>None\<close> is the error of a missing scheme; an empty scheme leaves the text whole.\<close>

definition schemeByte :: "char \<Rightarrow> bool" where
  [go_defs]: "schemeByte c \<longleftrightarrow> isLetter c \<or> digit c \<noteq> None \<or> c \<in> set ''+-.''"

definition getScheme :: "string \<Rightarrow> (string \<times> string) option" where
  [go_defs]: "getScheme s =
     (let p = takeWhile schemeByte s; r = dropWhile schemeByte s
      in if p \<noteq> [] \<and> \<not> isLetter (hd p) then Some ('''', s)
         else if r \<noteq> [] \<and> hd r = CHR '':'' then (if p = [] then None else Some (p, tl r))
         else Some ('''', s))"

definition validOptionalPort :: "string \<Rightarrow> bool" where
  [go_defs]: "validOptionalPort port = (case port of [] \<Rightarrow> True | c # ds \<Rightarrow> c = CHR '':'' \<and> list_all (\<lambda>d. digit d \<noteq> None) ds)"

definition validUserinfo :: "string \<Rightarrow> bool" where
  [go_defs]: "validUserinfo s = list_all (\<lambda>c. isLetter c \<or> digit c \<noteq> None \<or>
     c \<in> set ''-._:~!$&'' \<or> c = CHR 0x27 \<or> c \<in> set ''()*+,;=%@'') s"

definition parseHost :: "string \<Rightarrow> string option" where
  [go_defs]: "parseHost host =
     (if HasPrefix host ''['' then
        (case LastIndex host (CHR '']'') of
           None \<Rightarrow> None
         | Some i \<Rightarrow>
             if \<not> validOptionalPort (drop (i + 1) host) then None
             else (case Index (take i host) ''%25'' of
                    Some z \<Rightarrow>
                      (case (urlUnescape EncodeHost (take z host), urlUnescape EncodeZone (drop z (take i host)), urlUnescape EncodeHost (drop i host)) of
                         (Some a, Some b, Some c) \<Rightarrow> Some (a @ b @ c)
                       | _ \<Rightarrow> None)
                  | None \<Rightarrow> urlUnescape EncodeHost host))
      else (case LastIndex host (CHR '':'') of
              Some i \<Rightarrow> if \<not> validOptionalPort (drop i host) then None else urlUnescape EncodeHost host
            | None \<Rightarrow> urlUnescape EncodeHost host))"

text \<open>The host of an authority; user name and password are only checked.\<close>

definition userinfoOk :: "string \<Rightarrow> bool" where
  [go_defs]: "userinfoOk u \<longleftrightarrow> validUserinfo u \<and>
     (case cutAt (CHR '':'') u of (name, password) \<Rightarrow>
        urlUnescape EncodeUserPassword name \<noteq> None \<and> urlUnescape EncodeUserPassword password \<noteq> None)"

definition parseAuthority :: "string \<Rightarrow> string option" where
  [go_defs]: "parseAuthority authority =
     (case LastIndex authority (CHR ''@'') of
        None \<Rightarrow> parseHost authority
      | Some i \<Rightarrow>
          (case parseHost (drop (i + 1) authority) of
             None \<Rightarrow> None
           | Some host \<Rightarrow> if userinfoOk (take i authority) then Some host else None))"

text \<open>\<open>url.Parse\<close>: scheme, host and path.\<close>

definition parseURL :: "string \<Rightarrow> (string \<times> string \<times> string) option" where
  [go_defs]: "parseURL raw =
     (if list_ex isCTL raw then None
      else if raw = ''*'' then Some ('''', '''', ''*'')
      else case getScheme raw of
        None \<Rightarrow> None
      | Some (scheme, rest) \<Rightarrow>
          (let rest = fst (cutAt (CHR ''?'') rest)
           in if \<not> HasPrefix rest ''/'' \<and> scheme \<noteq> '''' then Some (ToLower scheme, '''', '''')
              else if \<not> HasPrefix rest ''/'' \<and> CHR '':'' \<in> set (takeWhile (\<lambda>c. c \<noteq> CHR ''/'') rest) then None
              else if (scheme \<noteq> '''' \<or> \<not> HasPrefix rest ''///'') \<and> HasPrefix rest ''//'' then
                (let authority = takeWhile (\<lambda>c. c \<noteq> CHR ''/'') (drop 2 rest);
                     path = dropWhile (\<lambda>c. c \<noteq> CHR ''/'') (drop 2 rest)
                 in (case parseAuthority authority of
                       None \<Rightarrow> None
                     | Some host \<Rightarrow> map_option (\<lambda>p. (ToLower scheme, host, p)) (urlUnescape EncodePath path)))
              else map_option (\<lambda>p. (ToLower scheme, '''', p)) (urlUnescape EncodePath rest)))"

definition url_Parse :: "string \<Rightarrow> (string \<times> string \<times> string) option" where
  [go_defs]: "url_Parse rawURL =
     (case cutAt (CHR ''#'') rawURL of (u, frag) \<Rightarrow>
        (case parseURL u of
           None \<Rightarrow> None
         | Some r \<Rightarrow> if frag = '''' \<or> urlUnescape EncodeFragment frag \<noteq> None then Some r else None))"

section \<open>Plain URLs\<close>

text \<open>A URL of letters, digits, dots, dashes and underscores, with an optional port and query, has its parts as written.\<close>

definition plainByte :: "char \<Rightarrow> bool" where
  [go_defs]: "plainByte c \<longleftrightarrow> isLetter c \<or> digit c \<noteq> None \<or> c \<in> set ''-._''"

lemma isLetter_simps [simp]:
  "\<not> isLetter (CHR '':'')" "\<not> isLetter (CHR ''/'')" "\<not> isLetter (CHR ''#'')" "\<not> isLetter (CHR ''?'')"
  "\<not> isLetter (CHR ''@'')" "\<not> isLetter (CHR ''%'')" "\<not> isLetter (CHR ''['')"
  by (simp_all add: isLetter_def)

lemma digit_None_simps [simp]:
  "digit (CHR '':'') = None" "digit (CHR ''/'') = None" "digit (CHR ''#'') = None" "digit (CHR ''?'') = None"
  "digit (CHR ''@'') = None" "digit (CHR ''%'') = None" "digit (CHR ''['') = None"
  by (simp_all add: digit_def)

lemma plainByte_not:
  "plainByte c \<Longrightarrow> c \<notin> {CHR '':'', CHR ''/'', CHR ''#'', CHR ''?'', CHR ''@'', CHR ''%'', CHR ''[''}"
  by (auto simp: plainByte_def)

lemma schemeByte_not: "schemeByte c \<Longrightarrow> c \<notin> {CHR '':'', CHR ''#'', CHR ''?''}"
  by (auto simp: schemeByte_def)

lemma digit_range: "digit c \<noteq> None \<Longrightarrow> 48 \<le> (of_char c :: nat) \<and> (of_char c :: nat) \<le> 57"
  by (auto simp: digit_def Let_def split: if_splits)

lemma no_CTL:
  "plainByte c \<Longrightarrow> \<not> isCTL c" "schemeByte c \<Longrightarrow> \<not> isCTL c" "digit c \<noteq> None \<Longrightarrow> \<not> isCTL c"
  "\<not> isCTL (CHR '':'')" "\<not> isCTL (CHR ''/'')"
  using digit_range [of c] by (auto simp: plainByte_def schemeByte_def isCTL_def isLetter_def)

lemma hostEscape_plain: "plainByte c \<Longrightarrow> \<not> hostEscape c" "digit c \<noteq> None \<Longrightarrow> \<not> hostEscape c" "\<not> hostEscape (CHR '':'')"
  by (auto simp: plainByte_def hostEscape_def)

lemma LastIndex_None: "LastIndex s x = None \<longleftrightarrow> x \<notin> set s"
  by (induction s) (auto split: option.splits)

lemma LastIndex_snoc: "x \<notin> set t \<Longrightarrow> LastIndex (s @ x # t) x = Some (length s)"
  by (induction s) (simp_all add: LastIndex_None [THEN iffD2])

lemma urlUnescape_same:
  "CHR ''%'' \<notin> set s \<Longrightarrow> mode \<in> {EncodeHost, EncodeZone} \<longrightarrow> list_all (\<lambda>c. \<not> hostEscape c) s \<Longrightarrow> urlUnescape mode s = Some s"
  by (induction s) auto

lemma takeWhile_stop: "list_all P s \<Longrightarrow> t = [] \<or> \<not> P (hd t) \<Longrightarrow> takeWhile P (s @ t) = s \<and> dropWhile P (s @ t) = t"
  by (cases t) (simp_all add: list_all_iff)

lemma cutAt_stop:
  assumes "c \<notin> set s" and "t = [] \<or> hd t = c"
  shows "cutAt c (s @ t) = (s, tl t)"
proof -
  have "takeWhile (\<lambda>x. x \<noteq> c) (s @ t) = s \<and> dropWhile (\<lambda>x. x \<noteq> c) (s @ t) = t"
    by (rule takeWhile_stop) (use assms in \<open>auto simp: list_all_iff\<close>)
  then show ?thesis by (simp only: cutAt_def drop_Suc One_nat_def drop_0)
qed

lemmas cutAt_none = cutAt_stop [where t = "[]", simplified]

definition optPort :: "string \<Rightarrow> bool" where
  "optPort port \<longleftrightarrow> port = [] \<or> hd port = CHR '':'' \<and> list_all (\<lambda>d. digit d \<noteq> None) (tl port)"

lemma parseHost_plain:
  assumes "list_all plainByte host" and "optPort port"
  shows "parseHost (host @ port) = Some (host @ port)"
proof -
  have "c \<noteq> CHR ''['' \<and> c \<noteq> CHR ''%'' \<and> \<not> hostEscape c" if "c \<in> set (host @ port)" for c
    using that assms plainByte_not [of c] hostEscape_plain
    by (cases port) (auto simp: optPort_def list_all_iff simp del: option.exhaust_sel)
  then have b: "\<not> HasPrefix (host @ port) ''[''" and u: "urlUnescape EncodeHost (host @ port) = Some (host @ port)"
    by (cases "host @ port"; force simp: HasPrefix_def list_all_iff intro!: urlUnescape_same)+
  show ?thesis
  proof (cases port)
    case Nil
    then have "LastIndex (host @ port) (CHR '':'') = None"
      using assms(1) plainByte_not by (auto simp: LastIndex_None list_all_iff)
    then show ?thesis using b u by (simp add: parseHost_def)
  next
    case (Cons c ds)
    then have "c = CHR '':''" "CHR '':'' \<notin> set ds" "validOptionalPort port"
      using assms(2) by (auto simp: optPort_def validOptionalPort_def list_all_iff)
    then show ?thesis using b u Cons LastIndex_snoc [of "CHR '':''" ds host] by (simp add: parseHost_def)
  qed
qed

lemma parseURL_plain:
  assumes "scheme \<noteq> []" "isLetter (hd scheme)" "list_all schemeByte scheme"
    and "list_all plainByte host" "optPort port"
    and "path = [] \<or> hd path = CHR ''/''" "list_all (\<lambda>c. plainByte c \<or> c = CHR ''/'') path"
    and "query = [] \<or> hd query = CHR ''?''" "list_all (\<lambda>c. \<not> isCTL c) query"
  shows "parseURL (scheme @ '':'' @ ''//'' @ host @ port @ path @ query) = Some (ToLower scheme, host @ port, path)"
proof -
  have port: "c = CHR '':'' \<or> digit c \<noteq> None" if "c \<in> set port" for c
    using that assms(5) by (cases port) (auto simp: optPort_def list_all_iff)
  have "\<not> isCTL c" if "c \<in> set (scheme @ '':'' @ ''//'' @ host @ port @ path @ query)" for c
    using that assms(3,4,7,9) no_CTL port [of c] by (auto simp: list_all_iff simp del: not_None_eq)
  then have ctl: "\<not> list_ex isCTL (scheme @ '':'' @ ''//'' @ host @ port @ path @ query)"
    unfolding list_ex_iff by blast
  have "takeWhile schemeByte (scheme @ '':'' @ r) = scheme \<and> dropWhile schemeByte (scheme @ '':'' @ r) = '':'' @ r" for r
    by (rule takeWhile_stop) (use assms(3) in \<open>simp_all add: schemeByte_def\<close>)
  then have scheme: "getScheme (scheme @ '':'' @ r) = Some (scheme, r)" for r
    using assms(1,2) by (simp add: getScheme_def Let_def)
  have "CHR ''?'' \<notin> set (''//'' @ host @ port @ path)"
    using assms(4,7) plainByte_not port by (fastforce simp: list_all_iff)
  from cutAt_stop [OF this assms(8)] have query: "fst (cutAt (CHR ''?'') (''//'' @ host @ port @ path @ query)) = ''//'' @ host @ port @ path"
    by simp
  have "CHR ''/'' \<notin> set (host @ port)"
    using assms(4) plainByte_not port by (fastforce simp: list_all_iff)
  then have path: "takeWhile (\<lambda>c. c \<noteq> CHR ''/'') ((host @ port) @ path) = host @ port \<and> dropWhile (\<lambda>c. c \<noteq> CHR ''/'') ((host @ port) @ path) = path"
    by (intro takeWhile_stop) (use assms(6) in \<open>auto simp: list_all_iff\<close>)
  have "CHR ''@'' \<notin> set (host @ port)"
    using assms(4) plainByte_not port by (fastforce simp: list_all_iff)
  then have host: "parseAuthority (host @ port) = Some (host @ port)"
    using LastIndex_None [of "host @ port" "CHR ''@''"] parseHost_plain [OF assms(4,5)] by (simp add: parseAuthority_def)
  have "CHR ''%'' \<notin> set path" using assms(7) plainByte_not by (fastforce simp: list_all_iff)
  then have unesc: "urlUnescape EncodePath path = Some path" by (rule urlUnescape_same) simp
  have star: "scheme @ '':'' @ r \<noteq> ''*''" for r using assms(1) by (cases scheme) auto
  show ?thesis
    unfolding parseURL_def scheme option.case prod.case Let_def query
    using ctl star assms(1) path host unesc by (simp add: HasPrefix_def)
qed

lemma url_Parse_plain:
  assumes "scheme \<noteq> []" "isLetter (hd scheme)" "list_all schemeByte scheme"
    and "list_all plainByte host" "optPort port"
    and "path = [] \<or> hd path = CHR ''/''" "list_all (\<lambda>c. plainByte c \<or> c = CHR ''/'') path"
    and "query = [] \<or> hd query = CHR ''?''" "list_all (\<lambda>c. \<not> isCTL c \<and> c \<noteq> CHR ''#'') query"
  shows "url_Parse (scheme @ '':'' @ ''//'' @ host @ port @ path @ query) = Some (ToLower scheme, host @ port, path)"
proof -
  have port: "c = CHR '':'' \<or> digit c \<noteq> None" if "c \<in> set port" for c
    using that assms(5) by (cases port) (auto simp: optPort_def list_all_iff)
  have "CHR ''#'' \<notin> set (scheme @ '':'' @ ''//'' @ host @ port @ path @ query)"
    using assms(3,4,7,9) plainByte_not schemeByte_not port by (fastforce simp: list_all_iff)
  from cutAt_none [OF this] show ?thesis
    using parseURL_plain [OF assms(1-8)] assms(9) by (simp add: url_Parse_def list_all_iff)
qed

text \<open>A control byte anywhere before a fragment makes the URL unreadable.\<close>

lemma url_Parse_CTL:
  assumes "c \<in> set s" "isCTL c" "CHR ''#'' \<notin> set s"
  shows "url_Parse (s @ t) = None"
proof -
  have "fst (cutAt (CHR ''#'') (s @ t)) = s @ takeWhile (\<lambda>x. x \<noteq> CHR ''#'') t"
    using assms(3) by (auto simp: cutAt_def takeWhile_append)
  then have "list_ex isCTL (fst (cutAt (CHR ''#'') (s @ t)))" using assms(1,2) by (auto simp: list_ex_iff)
  then show ?thesis by (auto simp: url_Parse_def parseURL_def split: prod.splits)
qed

end
