(* ===== verification/Util.thy ===== *)
theory Util
  imports K8s_Client Hashes Mount_Helper Go_Url
begin

text \<open>
  \<open>pkg/util/util.go\<close> except the delayed deletion (theory \<open>Delay\<close>): QoS
  parameters, the endpoint, mount paths, the table of object locks, operations
  under a timeout and unmounting. The locale \<open>obj_locks\<close> is what the controller
  relies on of the lock table.
\<close>

section \<open>Parameters, endpoint, mount path\<close>

definition ParseQosParams :: "smap \<Rightarrow> string" where
  "ParseQosParams params =
     (let uploadLimit = mindex params ''upload-limit'';
          downloadLimit = mindex params ''download-limit''
      in if length uploadLimit = 0 \<and> length downloadLimit = 0
         then showInt 0 @ '':'' @ showInt 0
         else uploadLimit @ '':'' @ downloadLimit)"

definition ParseEndpoint :: "'w ext \<Rightarrow> string \<Rightarrow> ('w, gerr + (string \<times> string)) go" where
  "ParseEndpoint E endpoint =
     (case url_Parse endpoint of
        None \<Rightarrow> ret (Inl (ErrorfRaw ''could not parse endpoint: %v'' [] None))
      | Some (uScheme, uHost, uPath) \<Rightarrow>
          (let addr = PathJoin [uHost, uPath]; scheme = ToLower uScheme
           in if scheme = ''tcp'' then ret (Inr (scheme, addr))
              else if scheme = ''unix'' then do {
                let addr = PathJoin [''/'', addr];
                r \<leftarrow> RemoveFile E addr;
                case r of
                  Inl e \<Rightarrow> if \<not> IsNotExist e
                           then ret (Inl (errorf ''could not remove unix domain socket %q: %v'' [addr] e))
                           else ret (Inr (scheme, addr))
                | Inr _ \<Rightarrow> ret (Inr (scheme, addr)) }
              else ret (Inl (ErrorfRaw ''unsupported protocol: %s'' [scheme] None))))"

fun ContainsString :: "string list \<Rightarrow> string \<Rightarrow> bool" where
  "ContainsString [] s = False"
| "ContainsString (item # rest) s = (if item = s then True else ContainsString rest s)"

definition defaultLoopTimeout :: int where
  "defaultLoopTimeout = 60"

definition GetLoopTimeout :: "'w ext \<Rightarrow> ('w, int) go" where
  "GetLoopTimeout E = do {
     timeout \<leftarrow> Getenv E ''LOOP_TIMEOUT'';
     if length timeout = 0 then ret defaultLoopTimeout
     else case Atoi timeout of
            None \<Rightarrow> ret defaultLoopTimeout
          | Some r \<Rightarrow> ret r }"

definition PodMountBase :: string where
  "PodMountBase = ''/mosfs''"

text \<open>The mount path and the volume id in the command of a mount pod.\<close>

definition ParseMntPath :: "string \<Rightarrow> gerr + (string \<times> string)" where
  "ParseMntPath cmd =
     (let args = Fields cmd
      in if length args < 3 \<or> \<not> HasPrefix (args ! 2) PodMountBase
         then Inl (ErrorfRaw ''err cmd:%s'' [cmd] None)
         else let argSlice = Split (args ! 2) ''/''
              in if length argSlice < 3 then Inl (ErrorfRaw ''err mntPath:%s'' [args ! 2] None)
                 else Inr (args ! 2, argSlice ! 2))"

section \<open>ObjLocks\<close>

type_synonym ObjLocks = "string set"

definition NewObjLocks :: ObjLocks where
  "NewObjLocks = {}"

definition TryAcquire :: "ObjLocks \<Rightarrow> string \<Rightarrow> bool \<times> ObjLocks" where
  "TryAcquire ols i = (if i \<in> ols then (False, ols) else (True, insert i ols))"

definition Release :: "ObjLocks \<Rightarrow> string \<Rightarrow> ObjLocks" where
  "Release ols i = ols - {i}"

section \<open>Operations under a timeout\<close>

text \<open>
  \<open>DoWithContext\<close> runs \<open>f\<close> in a goroutine and takes whichever comes first: the
  end of the context, or the result. When the context ends first the result of
  \<open>f\<close> is dropped, and the goroutine may hang or go on; every \<open>f\<close> of the driver reads the
  status of a path and changes nothing, so the model leaves that call out.
  \<open>DoWithTimeout\<close> does the same under a context with a deadline; the timer of the
  model stands for both.
\<close>

definition DoWithContext :: "'w ext \<Rightarrow> ('w, gerr + 'a) go \<Rightarrow> ('w, gerr + 'a) go" where
  "DoWithContext E f = do {
     t \<leftarrow> Timer E;
     case t of Some e \<Rightarrow> ret (Inl e) | None \<Rightarrow> f }"

definition DoWithTimeout :: "'w ext \<Rightarrow> nat \<Rightarrow> ('w, gerr + 'a) go \<Rightarrow> ('w, gerr + 'a) go" where
  "DoWithTimeout E timeout f = DoWithContext E f"

section \<open>Unmounting\<close>

text \<open>The outputs of \<open>umount\<close> that mean there was nothing to unmount.\<close>

definition notMountedOutput :: "string \<Rightarrow> bool" where
  "notMountedOutput out \<longleftrightarrow> Contains out ''not mounted'' \<or> Contains out ''mountpoint not found''
     \<or> Contains out ''no mount point specified''"

definition UmountPath :: "'w ext \<Rightarrow> string \<Rightarrow> ('w, unit) go" where
  "UmountPath E sourcePath = do {
     (out, err) \<leftarrow> Exec E [''umount'', sourcePath] [];
     case err of
       None \<Rightarrow> ret ()
     | Some _ \<Rightarrow>
         if \<not> notMountedOutput out then do {
           _ \<leftarrow> Exec E [''umount'', ''-l'', sourcePath] [];
           ret () }
         else ret () }"

section \<open>Facts\<close>

lemma ContainsString_iff: "ContainsString xs s \<longleftrightarrow> s \<in> set xs"
  by (induction xs) auto

lemma showInt_0: "showInt 0 = ''0''"
  by (simp add: showInt_def showNat.simps digitChar_def)

lemma emits_UmountPath [emits_intros]:
  "(\<And>r. P (EvExec [''umount'', p] [] r)) \<Longrightarrow> (\<And>r. P (EvExec [''umount'', ''-l'', p] [] r)) \<Longrightarrow>
   emits P (UmountPath E p)"
  unfolding UmountPath_def Exec_def by (intro emits_intros) auto

lemma traces_UmountPath:
  "traces (UmountPath E p) (\<lambda>_ es. \<exists>u rest. es = EvExec [''umount'', p] [] u # rest
     \<and> list_all (\<lambda>e. \<exists>r. e = EvExec [''umount'', ''-l'', p] [] r) rest)"
  unfolding UmountPath_def Exec_def
  by (rule traces_bind_call) (auto intro!: traces_return traces_bind_call split: option.splits)

text \<open>
  What the controller relies on of its lock table: the set of held names, taking a
  free name and only a free one, giving a name back.
\<close>

locale obj_locks =
  fixes acquire :: "'l \<Rightarrow> string \<Rightarrow> bool \<times> 'l"
    and release :: "'l \<Rightarrow> string \<Rightarrow> 'l"
    and held :: "'l \<Rightarrow> string set"
  assumes acquire_ok: "fst (acquire l i) \<longleftrightarrow> i \<notin> held l"
    and acquire_held: "held (snd (acquire l i)) = insert i (held l)"
    and release_held: "held (release l i) = held l - {i}"
begin

text \<open>An acquire and its deferred release leave the held names as they were.\<close>

lemma acquire_release:
  "fst (acquire l i) \<Longrightarrow> held (release (snd (acquire l i)) i) = held l"
  using acquire_ok acquire_held release_held by auto

text \<open>A name that is held is refused, and refusing changes nothing.\<close>

lemma refused_keeps: "\<not> fst (acquire l i) \<Longrightarrow> held (snd (acquire l i)) = held l"
  using acquire_ok acquire_held by auto

lemma acquire_twice: "\<not> fst (acquire (snd (acquire l i)) i)"
  using acquire_ok acquire_held by auto

end

interpretation ols: obj_locks TryAcquire Release "\<lambda>l. l"
  by unfold_locales (auto simp: TryAcquire_def Release_def)

lemma Release_TryAcquire: "TryAcquire l i = (True, l') \<Longrightarrow> Release l' i = l"
  using ols.acquire_release [of l i] by simp

end
