(* ===== verification/Pod_Util.thy ===== *)
theory Pod_Util
  imports Util
begin

text \<open>
  \<open>pkg/util/pod.go\<close>: the tests on the status of a pod, its resources and its
  mount path, and the patches of its finalizers, labels and annotations.
\<close>

section \<open>Status of a pod\<close>

text \<open>The counting loop of \<open>IsPodReady\<close>.\<close>

fun conditionsTrue :: "pod_condition list \<Rightarrow> nat" where
  "conditionsTrue [] = 0"
| "conditionsTrue (cond # conds) =
     (if condStatus cond = ''True'' \<and> (condType cond = ''ContainersReady'' \<or> condType cond = ''Ready'')
      then Suc (conditionsTrue conds) else conditionsTrue conds)"

definition IsPodReady :: "pod \<Rightarrow> bool" where
  "IsPodReady p \<longleftrightarrow> conditionsTrue (Conditions (pStatus p)) = 2"

fun containError :: "container_status list \<Rightarrow> bool" where
  "containError [] = False"
| "containError (status # statuses) =
     (if (case csWaiting status of None \<Rightarrow> False | Some reason \<Rightarrow> reason \<noteq> ''ContainerCreating'')
         \<or> (case csTerminated status of None \<Rightarrow> False | Some exitCode \<Rightarrow> exitCode \<noteq> 0)
      then True else containError statuses)"

definition IsPodError :: "pod \<Rightarrow> bool" where
  "IsPodError p =
     (if Phase (pStatus p) = PodFailed \<or> Phase (pStatus p) = PodUnknown then True
      else containError (ContainerStatuses (pStatus p)))"

fun unschedulable :: "pod_condition list \<Rightarrow> bool" where
  "unschedulable [] = False"
| "unschedulable (cond # conds) =
     (if condStatus cond = ''False'' \<and> condType cond = ''PodScheduled'' \<and> condReason cond = ''Unschedulable''
         \<and> (Contains (condMessage cond) ''Insufficient cpu'' \<or> Contains (condMessage cond) ''Insufficient memory'')
      then True else unschedulable conds)"

definition IsPodResourceError :: "pod \<Rightarrow> bool" where
  "IsPodResourceError p =
     (let st = pStatus p
      in if Phase st = PodFailed \<and> Contains (statusReason st) ''OutOf'' then True
         else if Phase st = PodFailed \<and> statusReason st = ''UnexpectedAdmissionError''
                 \<and> Contains (statusMessage st) ''to reclaim resources'' then True
         else unschedulable (Conditions st))"

section \<open>Resources and mount path\<close>

definition dropResources :: "container \<Rightarrow> container" where
  "dropResources c = c\<lparr>cResources := (cResources c)\<lparr>Requests := None, Limits := None\<rparr>\<rparr>"

definition DeleteResourceOfPod :: "pod \<Rightarrow> pod" where
  "DeleteResourceOfPod p =
     p\<lparr>pSpec := (pSpec p)\<lparr>Containers := map dropResources (Containers (pSpec p))\<rparr>\<rparr>"

fun hasRequests :: "container list \<Rightarrow> bool" where
  "hasRequests [] = False"
| "hasRequests (cn # cns) =
     (if length (entries (Requests (cResources cn))) \<noteq> 0 then True else hasRequests cns)"

definition IsPodHasResource :: "pod \<Rightarrow> bool" where
  "IsPodHasResource p = hasRequests (Containers (pSpec p))"

definition GetMountPathOfPod :: "pod \<Rightarrow> gerr + (string \<times> string)" where
  "GetMountPathOfPod p =
     (case Containers (pSpec p) of
        [] \<Rightarrow> Inl (ErrorfRaw ''pod %v has no container'' [pName p] None)
      | c # _ \<Rightarrow>
          (let cmd = elems (cCommand c)
           in if length cmd < 3 then Inl (ErrorfRaw ''get error pod command:%v'' cmd None)
              else ParseMntPath (cmd ! 2)))"

section \<open>Finalizers\<close>

text \<open>
  The loop of \<open>RemoveFinalizer\<close> removes elements of the pod's own slice in place:
  \<open>append(f[:i], f[i+1:]...)\<close> copies the elements behind \<open>i\<close> one place down and
  shortens \<open>f\<close>, while the array keeps its length. The state is the array and the
  length of \<open>f\<close>.
\<close>

definition appendDown :: "string list \<Rightarrow> nat \<Rightarrow> nat \<Rightarrow> string list" where
  "appendDown arr i n = take i arr @ take (n - 1 - i) (drop (Suc i) arr) @ drop (n - 1) arr"

function removeLoop :: "string \<Rightarrow> nat \<Rightarrow> nat \<Rightarrow> string list \<Rightarrow> string list \<times> nat" where
  "removeLoop finalizer i n f =
     (if i < n
      then if f ! i = finalizer then removeLoop finalizer i (n - 1) (appendDown f i n)
           else removeLoop finalizer (Suc i) n f
      else (f, n))"
  by pat_completeness auto
termination
  by (relation "measure (\<lambda>(fin, i, n, f). n - i)") auto

declare removeLoop.simps [simp del]

text \<open>The slice that is sent; a nil slice stays nil.\<close>

definition withoutFinalizer :: "string slice \<Rightarrow> string \<Rightarrow> string slice" where
  "withoutFinalizer f finalizer =
     (case f of
        None \<Rightarrow> None
      | Some xs \<Rightarrow> (case removeLoop finalizer 0 (length xs) xs of (arr, n) \<Rightarrow> Some (take n arr)))"

definition RemoveFinalizer :: "'w ext \<Rightarrow> pod \<Rightarrow> string \<Rightarrow> ('w, gerr + unit) go" where
  "RemoveFinalizer E p finalizer =
     (let payload = [PatchListValue ''replace'' ''/metadata/finalizers''
                       (withoutFinalizer (pFinalizers p) finalizer)]
      in tryM (PatchPod E (Some p) (JSONPatch payload)) (\<lambda>_. ret (Inr ())))"

text \<open>\<open>controllerutil.AddFinalizer\<close> of the vendored controller-runtime.\<close>

definition AddFinalizer :: "pod \<Rightarrow> string \<Rightarrow> pod" where
  "AddFinalizer p finalizer =
     (if finalizer \<in> set (elems (pFinalizers p)) then p
      else p\<lparr>pFinalizers := Some (elems (pFinalizers p) @ [finalizer])\<rparr>)"

section \<open>Labels and annotations\<close>

definition AddPodLabel :: "'w ext \<Rightarrow> pod \<Rightarrow> smap \<Rightarrow> ('w, gerr + unit) go" where
  "AddPodLabel E p addLabels =
     tryM (PatchPod E (Some p) (StrategicMergeLabels addLabels)) (\<lambda>_. ret (Inr ()))"

definition AddPodAnnotation :: "'w ext \<Rightarrow> pod \<Rightarrow> smap \<Rightarrow> ('w, gerr + unit) go" where
  "AddPodAnnotation E p addAnnotations =
     tryM (PatchPod E (Some p) (StrategicMergeAnnotations addAnnotations)) (\<lambda>_. ret (Inr ()))"

definition delPayload :: "string list \<Rightarrow> patch_value list" where
  "delPayload delAnnotations =
     map (\<lambda>k. PatchDelValue ''remove'' (''/metadata/annotations/'' @ k)) delAnnotations"

definition DelPodAnnotation :: "'w ext \<Rightarrow> pod \<Rightarrow> string list \<Rightarrow> ('w, gerr + unit) go" where
  "DelPodAnnotation E p delAnnotations =
     tryM (PatchPod E (Some p) (JSONPatch (delPayload delAnnotations))) (\<lambda>_. ret (Inr ()))"

definition ReplacePodAnnotation :: "'w ext \<Rightarrow> pod \<Rightarrow> smap \<Rightarrow> ('w, gerr + unit) go" where
  "ReplacePodAnnotation E p annotation =
     tryM (PatchPod E (Some p) (JSONPatch [PatchMapValue ''replace'' ''/metadata/annotations'' annotation]))
       (\<lambda>_. ret (Inr ()))"

fun refKeysLoop :: "(string \<times> string) list \<Rightarrow> (string \<times> string) list \<Rightarrow> (string \<times> string) list" where
  "refKeysLoop annos [] = annos"
| "refKeysLoop annos ((k, v) # rest) =
     refKeysLoop (if k = GetReferenceKey v then mput annos k v else annos) rest"

definition GetAllRefKeys :: "pod \<Rightarrow> (string \<times> string) list" where
  "GetAllRefKeys p = refKeysLoop [] (entries (pAnnotations p))"

section \<open>Facts\<close>

lemma length_appendDown: "i < n \<Longrightarrow> n \<le> length f \<Longrightarrow> length (appendDown f i n) = length f"
  by (simp add: appendDown_def)

lemma take_appendDown:
  assumes "i < n" and "n \<le> length f"
  shows "take (n - 1) (appendDown f i n) = take i f @ drop (Suc i) (take n f)"
proof -
  have "take (n - 1) (appendDown f i n) = take i f @ take (n - Suc i) (drop (Suc i) f)"
    using assms by (simp add: appendDown_def)
  also have "take (n - Suc i) (drop (Suc i) f) = drop (Suc i) (take n f)"
    using assms by (simp add: drop_take)
  finally show ?thesis .
qed

lemma take_appendDown_prefix: "i < n \<Longrightarrow> n \<le> length f \<Longrightarrow> take i (appendDown f i n) = take i f"
  by (simp add: appendDown_def)

lemma drop_appendDown:
  assumes "i < n" and "n \<le> length f"
  shows "drop i (take (n - 1) (appendDown f i n)) = drop (Suc i) (take n f)"
  unfolding take_appendDown [OF assms] using assms by simp

text \<open>The loop keeps the array's length and leaves the other finalizers in order.\<close>

lemma removeLoop_filter:
  assumes "i \<le> n" and "n \<le> length f" and "removeLoop fin i n f = (arr, m)"
  shows "length arr = length f \<and> m \<le> length arr
    \<and> take m arr = take i f @ filter (\<lambda>x. x \<noteq> fin) (drop i (take n f))"
  using assms
proof (induction fin i n f rule: removeLoop.induct)
  case (1 fin i n f)
  show ?case
  proof (cases "i < n")
    case False
    then have "removeLoop fin i n f = (f, n)"
      by (simp add: removeLoop.simps [of fin i n f])
    with False "1.prems" show ?thesis by simp
  next
    case True
    then have dr: "drop i (take n f) = f ! i # drop (Suc i) (take n f)"
      using "1.prems" by (metis Cons_nth_drop_Suc length_take min.absorb2 nth_take)
    show ?thesis
    proof (cases "f ! i = fin")
      case eq: True
      have r: "removeLoop fin i (n - 1) (appendDown f i n) = (arr, m)"
        using "1.prems"(3) True eq by (simp add: removeLoop.simps [of fin i n f])
      have "length arr = length (appendDown f i n) \<and> m \<le> length arr
          \<and> take m arr = take i (appendDown f i n)
              @ filter (\<lambda>x. x \<noteq> fin) (drop i (take (n - 1) (appendDown f i n)))"
        using True "1.prems" by (intro "1.IH"(1) [OF True eq _ _ r]) (auto simp: length_appendDown)
      then show ?thesis
        using True "1.prems" dr eq
        by (simp add: length_appendDown take_appendDown_prefix drop_appendDown del: One_nat_def)
    next
      case ne: False
      have r: "removeLoop fin (Suc i) n f = (arr, m)"
        using "1.prems"(3) True ne by (simp add: removeLoop.simps [of fin i n f])
      have "length arr = length f \<and> m \<le> length arr
          \<and> take m arr = take (Suc i) f @ filter (\<lambda>x. x \<noteq> fin) (drop (Suc i) (take n f))"
        using True "1.prems" by (intro "1.IH"(2) [OF True ne _ _ r]) auto
      then show ?thesis
        using True "1.prems" dr ne by (simp add: take_Suc_conv_app_nth)
    qed
  qed
qed

lemma withoutFinalizer_filter:
  "withoutFinalizer f fin = map_option (filter (\<lambda>x. x \<noteq> fin)) f"
proof (cases f)
  case None
  then show ?thesis by (simp add: withoutFinalizer_def)
next
  case (Some xs)
  obtain arr m where r: "removeLoop fin 0 (length xs) xs = (arr, m)"
    by (metis surj_pair)
  have "take m arr = filter (\<lambda>x. x \<noteq> fin) xs"
    using removeLoop_filter [OF _ _ r] by simp
  with Some r show ?thesis by (simp add: withoutFinalizer_def)
qed

lemma refKeysLoop_filter:
  assumes "distinct (map fst (annos @ as))"
  shows "refKeysLoop annos as = annos @ rk.refs as"
  using assms
proof (induction annos as rule: refKeysLoop.induct)
  case (1 annos)
  then show ?case by (simp add: rk.refs_def)
next
  case (2 annos k v rest)
  have "k \<notin> fst ` set annos" using "2.prems" by auto
  then have "mput annos k v = annos @ [(k, v)]"
    unfolding mput_def by (induction annos) auto
  with 2 show ?case by (auto simp: rk.refs_def)
qed

lemma GetAllRefKeys_refs: "map_ok (pAnnotations p) \<Longrightarrow> GetAllRefKeys p = rk.refs (entries (pAnnotations p))"
  using refKeysLoop_filter [of "[]" "entries (pAnnotations p)"]
  by (simp add: GetAllRefKeys_def map_ok_def)

lemma conditionsTrue_count:
  "conditionsTrue cs = length (filter (\<lambda>c. condStatus c = ''True''
     \<and> (condType c = ''ContainersReady'' \<or> condType c = ''Ready'')) cs)"
  by (induction cs) auto

lemma hasRequests_iff: "hasRequests cs \<longleftrightarrow> (\<exists>c \<in> set cs. entries (Requests (cResources c)) \<noteq> [])"
  by (induction cs) auto

lemmas patch_defs = RemoveFinalizer_def AddPodLabel_def AddPodAnnotation_def DelPodAnnotation_def
  ReplacePodAnnotation_def PatchPod_def

lemma wp_DelPodAnnotation [wp_simps]:
  "wp (DelPodAnnotation E p ks) Q (w, t) =
     (case api_patch (kube E) (pNamespace p) (pName p) (JSONPatch (delPayload ks)) w of (r, w') \<Rightarrow>
        Q r (w', t @ [EvPatchPod (pNamespace p) (pName p) (JSONPatch (delPayload ks)) r]))"
  by (auto simp: DelPodAnnotation_def PatchPod_def wp_simps split: prod.splits sum.splits)

lemma emits_RemoveFinalizer [emits_intros]:
  "(\<And>r. P (EvPatchPod (pNamespace p) (pName p) (JSONPatch [PatchListValue ''replace''
      ''/metadata/finalizers'' (withoutFinalizer (pFinalizers p) f)]) r)) \<Longrightarrow>
   emits P (RemoveFinalizer E p f)"
  unfolding RemoveFinalizer_def by (intro emits_intros) auto

lemma emits_AddPodAnnotation [emits_intros]:
  "(\<And>r. P (EvPatchPod (pNamespace p) (pName p) (StrategicMergeAnnotations a) r)) \<Longrightarrow>
   emits P (AddPodAnnotation E p a)"
  unfolding AddPodAnnotation_def by (intro emits_intros) auto

lemma emits_DelPodAnnotation [emits_intros]:
  "(\<And>r. P (EvPatchPod (pNamespace p) (pName p) (JSONPatch (delPayload ks)) r)) \<Longrightarrow>
   emits P (DelPodAnnotation E p ks)"
  unfolding DelPodAnnotation_def by (intro emits_intros) auto

lemma emits_ReplacePodAnnotation [emits_intros]:
  "(\<And>r. P (EvPatchPod (pNamespace p) (pName p)
      (JSONPatch [PatchMapValue ''replace'' ''/metadata/annotations'' a]) r)) \<Longrightarrow>
   emits P (ReplacePodAnnotation E p a)"
  unfolding ReplacePodAnnotation_def by (intro emits_intros) auto

section \<open>Patches that leave an annotation alone\<close>

text \<open>A JSON Pointer (RFC 6901) writes a slash as \<open>~1\<close> and a tilde as \<open>~0\<close>.\<close>

fun unescape :: "string \<Rightarrow> string" where
  "unescape [] = []"
| "unescape (c # d # s) =
     (if c = CHR ''~'' \<and> d = CHR ''1'' then CHR ''/'' # unescape s
      else if c = CHR ''~'' \<and> d = CHR ''0'' then CHR ''~'' # unescape s
      else c # unescape (d # s))"
| "unescape [c] = [c]"

lemma unescape_plain: "CHR ''~'' \<notin> set s \<Longrightarrow> unescape s = s"
  by (induction s rule: unescape.induct) auto

definition annotationsPath :: string where
  "annotationsPath = ''/metadata/annotations/''"

text \<open>
  No operation of the patch can change or remove the annotation \<open>k\<close>: a list is written to the finalizers only,
  a removal names another annotation, and a merge has no value for \<open>k\<close>. An operation on the annotations as
  a whole, or on any other path, is not of this kind.
\<close>

definition keepsValue :: "string \<Rightarrow> patch_value \<Rightarrow> bool" where
  "keepsValue k v =
     (case v of
        PatchListValue op path l \<Rightarrow> path = ''/metadata/finalizers''
      | PatchDelValue op path \<Rightarrow> take (length annotationsPath) path = annotationsPath \<and>
          unescape (drop (length annotationsPath) path) \<noteq> k
      | _ \<Rightarrow> False)"

definition keepsAnnotation :: "string \<Rightarrow> patch \<Rightarrow> bool" where
  "keepsAnnotation k d =
     (case d of
        JSONPatch ops \<Rightarrow> list_all (keepsValue k) ops
      | StrategicMergeLabels a \<Rightarrow> True
      | StrategicMergeAnnotations a \<Rightarrow> mlookup a k = None)"

lemma keepsAnnotation_simps [simp]:
  "keepsAnnotation k (JSONPatch [PatchListValue op ''/metadata/finalizers'' l])"
  "keepsAnnotation k (StrategicMergeAnnotations a) \<longleftrightarrow> mlookup a k = None"
  "\<not> keepsAnnotation k (JSONPatch [PatchMapValue op path a])"
  by (simp_all add: keepsAnnotation_def keepsValue_def)

lemma keepsAnnotation_delPayload:
  "list_all (\<lambda>k'. CHR ''~'' \<notin> set k') ks \<Longrightarrow> keepsAnnotation k (JSONPatch (delPayload ks)) \<longleftrightarrow> k \<notin> set ks"
  by (auto simp: keepsAnnotation_def keepsValue_def delPayload_def annotationsPath_def list_all_iff unescape_plain)

section \<open>Properties\<close>

text \<open>
  C33: The loop of \<open>RemoveFinalizer\<close>, which deletes from the slice while it runs over it, sends
  exactly the finalizers other than the given one, in their order.
\<close>

theorem RemoveFinalizer_filter:
  "traces (RemoveFinalizer E p finalizer) (\<lambda>r es. es = [EvPatchPod (pNamespace p) (pName p)
     (JSONPatch [PatchListValue ''replace'' ''/metadata/finalizers''
       (map_option (filter (\<lambda>f. f \<noteq> finalizer)) (pFinalizers p))]) r])"
  unfolding RemoveFinalizer_def withoutFinalizer_filter Let_def
  by (rule traces_tryM [OF traces_PatchPod]) (auto intro: traces_return)

end
