(* ===== verification/Go_Duration.thy ===== *)
theory Go_Duration
  imports Go_Strings "HOL-Library.Monad_Syntax" "HOL-Library.Log_Nat"
begin

text \<open>
  \<open>time.ParseDuration\<close> of Go 1.17, in nanoseconds: an optional sign and a sequence
  of decimal numbers with a unit. The integer part is computed in \<open>uint64\<close>, the
  fraction in \<open>float64\<close> with its rounding, as the standard library does. The
  function ends on every text, and a duration it returns fits 64 bits.
\<close>

section \<open>float64\<close>

text \<open>
  A positive \<open>float64\<close> as a fraction. \<open>roundEven\<close> rounds to the nearest integer,
  a tie to the even one; \<open>toFloat\<close> keeps 53 bits of \<open>n / d\<close>. The numbers here
  stay far from the ends of the exponent range.
\<close>

definition roundEven :: "nat \<Rightarrow> nat \<Rightarrow> nat" where
  "roundEven n d =
     (let q = n div d; r = n mod d
      in if 2 * r < d \<or> (2 * r = d \<and> even q) then q else q + 1)"

definition toFloat :: "nat \<times> nat \<Rightarrow> nat \<times> nat" where
  "toFloat x =
     (let (n, d) = x;
          e0 = int (floorlog 2 n) - int (floorlog 2 d) - 53;
          scaled = (\<lambda>e. if 0 \<le> e then (n, d * 2 ^ nat e) else (n * 2 ^ nat (- e), d));
          e = (case scaled e0 of (a, b) \<Rightarrow> if 2 ^ 53 * b \<le> a then e0 + 1 else e0);
          m = (case scaled e of (a, b) \<Rightarrow> roundEven a b)
      in if n = 0 then (0, 1) else if 0 \<le> e then (m * 2 ^ nat e, 1) else (m, 2 ^ nat (- e)))"

definition fmul :: "nat \<times> nat \<Rightarrow> nat \<times> nat \<Rightarrow> nat \<times> nat" where
  "fmul x y = toFloat (fst x * fst y, snd x * snd y)"

definition fdiv :: "nat \<times> nat \<Rightarrow> nat \<times> nat \<Rightarrow> nat \<times> nat" where
  "fdiv x y = toFloat (fst x * snd y, snd x * fst y)"

text \<open>\<open>uint64(float64(f) * (float64(unit) / scale))\<close>\<close>

definition fractionNanos :: "nat \<Rightarrow> nat \<Rightarrow> nat \<Rightarrow> nat" where
  "fractionNanos f unit scale =
     (case fmul (toFloat (f, 1)) (fdiv (toFloat (unit, 1)) (toFloat (scale, 1))) of (n, d) \<Rightarrow> n div d)"

section \<open>Parsing\<close>

definition two63 :: nat where
  "two63 = 9223372036854775808"

definition two64 :: nat where
  "two64 = 18446744073709551616"

text \<open>\<open>leadingInt\<close> and \<open>leadingFraction\<close>, which stops counting digits once it is full.\<close>

fun leadingInt :: "nat \<Rightarrow> string \<Rightarrow> (nat \<times> string) option" where
  "leadingInt x [] = Some (x, [])"
| "leadingInt x (c # s) =
     (case digit c of
        None \<Rightarrow> Some (x, c # s)
      | Some v \<Rightarrow>
          if x > two63 div 10 then None
          else let y = x * 10 + v in if y > two63 then None else leadingInt y s)"

fun leadingFraction :: "nat \<Rightarrow> nat \<Rightarrow> bool \<Rightarrow> string \<Rightarrow> nat \<times> nat \<times> string" where
  "leadingFraction x scale overflow [] = (x, scale, [])"
| "leadingFraction x scale overflow (c # s) =
     (case digit c of
        None \<Rightarrow> (x, scale, c # s)
      | Some v \<Rightarrow>
          if overflow then leadingFraction x scale overflow s
          else if x > (two63 - 1) div 10 then leadingFraction x scale True s
          else let y = x * 10 + v
               in if y > two63 then leadingFraction x scale True s
                  else leadingFraction y (scale * 10) overflow s)"

definition unitMap :: "string \<Rightarrow> nat option" where
  "unitMap u =
     (if u = ''ns'' then Some 1
      else if u = ''us'' \<or> u = [CHR 0xC2, CHR 0xB5, CHR ''s''] \<or> u = [CHR 0xCE, CHR 0xBC, CHR ''s''] then Some 1000
      else if u = ''ms'' then Some 1000000
      else if u = ''s'' then Some 1000000000
      else if u = ''m'' then Some 60000000000
      else if u = ''h'' then Some 3600000000000
      else None)"

definition numeric :: "char \<Rightarrow> bool" where
  "numeric c \<longleftrightarrow> c = CHR ''.'' \<or> digit c \<noteq> None"

text \<open>The number before a unit: integer part, fraction, scale, rest.\<close>

definition leadingNumber :: "string \<Rightarrow> (nat \<times> nat \<times> nat \<times> string) option" where
  "leadingNumber s = do {
     (v, s1) \<leftarrow> leadingInt 0 s;
     let pre = length s \<noteq> length s1;
     if s1 \<noteq> [] \<and> hd s1 = CHR ''.'' then
       (case leadingFraction 0 1 False (tl s1) of (f, scale, s3) \<Rightarrow>
          if \<not> pre \<and> length (tl s1) = length s3 then None else Some (v, f, scale, s3))
     else if \<not> pre then None else Some (v, 0, 1, s1) }"

text \<open>One number and its unit added to \<open>d\<close>; every check of the loop body.\<close>

definition addQuantity :: "nat \<Rightarrow> nat \<Rightarrow> nat \<Rightarrow> nat \<Rightarrow> nat \<Rightarrow> nat option" where
  "addQuantity d v f scale unit =
     (if v > two63 div unit then None
      else let v = v * unit; v' = (if f > 0 then (v + fractionNanos f unit scale) mod two64 else v)
           in if f > 0 \<and> v' > two63 then None
              else let d' = (d + v') mod two64 in if d' > two63 then None else Some d')"

function durationLoop :: "nat \<Rightarrow> string \<Rightarrow> nat option" where
  "durationLoop d s =
     (if s = [] then Some d
      else if \<not> numeric (hd s) then None
      else case leadingNumber s of
             None \<Rightarrow> None
           | Some (v, f, scale, rest) \<Rightarrow>
               (let u = takeWhile (\<lambda>c. \<not> numeric c) rest; s' = dropWhile (\<lambda>c. \<not> numeric c) rest
                in if u = [] then None
                   else if \<not> length s' < length s then None
                   else case unitMap u of
                          None \<Rightarrow> None
                        | Some unit \<Rightarrow>
                            (case addQuantity d v f scale unit of
                               None \<Rightarrow> None
                             | Some d' \<Rightarrow> durationLoop d' s')))"
  by pat_completeness auto
termination
  by (relation "measure (\<lambda>(d, s). length s)") auto

declare durationLoop.simps [simp del]

definition ParseDuration :: "string \<Rightarrow> int option" where
  "ParseDuration orig =
     (let neg = (orig \<noteq> [] \<and> hd orig = CHR ''-'');
          s = (if orig \<noteq> [] \<and> (hd orig = CHR ''-'' \<or> hd orig = CHR ''+'') then tl orig else orig)
      in if s = ''0'' then Some 0
         else if s = '''' then None
         else case durationLoop 0 s of
                None \<Rightarrow> None
              | Some d \<Rightarrow> if neg then Some (- int d)
                          else if d > two63 - 1 then None else Some (int d))"

section \<open>Facts\<close>

lemma length_leadingInt: "leadingInt x s = Some (v, r) \<Longrightarrow> length r \<le> length s"
  by (induction x s arbitrary: v r rule: leadingInt.induct)
    (fastforce simp: Let_def split: option.splits if_splits)+

lemma length_leadingFraction: "length (snd (snd (leadingFraction x sc ov s))) \<le> length s"
  by (induction s arbitrary: x sc ov) (auto simp: Let_def intro: le_SucI split: option.splits)

lemma length_leadingNumber:
  assumes "leadingNumber s = Some (v, f, sc, r)"
  shows "length r \<le> length s"
proof -
  obtain s1 where v: "leadingInt 0 s = Some (v, s1)"
    and r: "r = s1 \<or> r = snd (snd (leadingFraction 0 1 False (tl s1)))"
    using assms
    by (auto simp: leadingNumber_def Let_def bind_eq_Some_conv split: if_splits prod.splits)
  from r have "length r \<le> length s1"
    using length_leadingFraction [of 0 1 False "tl s1"] by auto
  then show ?thesis using length_leadingInt [OF v] by simp
qed

text \<open>
  The test on the lengths in \<open>durationLoop\<close> never fails: a unit was consumed. The
  loop is therefore the loop of the library.
\<close>

lemma durationLoop_progress:
  assumes "leadingNumber s = Some (v, f, sc, rest)" and "takeWhile (\<lambda>c. \<not> numeric c) rest \<noteq> []"
  shows "length (dropWhile (\<lambda>c. \<not> numeric c) rest) < length s"
proof -
  have "length rest = length (takeWhile (\<lambda>c. \<not> numeric c) rest) + length (dropWhile (\<lambda>c. \<not> numeric c) rest)"
    by (metis length_append takeWhile_dropWhile_id)
  then show ?thesis using length_leadingNumber [OF assms(1)] assms(2) by (cases "takeWhile (\<lambda>c. \<not> numeric c) rest") auto
qed

lemma durationLoop_le: "d \<le> two63 \<Longrightarrow> durationLoop d s = Some d' \<Longrightarrow> d' \<le> two63"
proof (induction d s rule: durationLoop.induct)
  case (1 d s)
  show ?case
  proof (cases "s = []")
    case True
    with "1.prems" show ?thesis by (simp add: durationLoop.simps [of d "[]"])
  next
    case False
    then obtain v f sc rest unit e where *: "numeric (hd s)" "leadingNumber s = Some (v, f, sc, rest)"
      "takeWhile (\<lambda>c. \<not> numeric c) rest \<noteq> []" "unitMap (takeWhile (\<lambda>c. \<not> numeric c) rest) = Some unit"
      "addQuantity d v f sc unit = Some e" "durationLoop e (dropWhile (\<lambda>c. \<not> numeric c) rest) = Some d'"
      "length (dropWhile (\<lambda>c. \<not> numeric c) rest) < length s"
      using "1.prems"(2) by (auto simp: durationLoop.simps [of d s] Let_def split: if_splits option.splits prod.splits)
    then have "e \<le> two63" by (auto simp: addQuantity_def Let_def split: if_splits)
    then show ?thesis using "1.IH" False * by auto
  qed
qed

text \<open>A duration fits a signed 64-bit integer.\<close>

text \<open>Evaluation on a given text.\<close>

lemmas parse_duration_eval = ParseDuration_def durationLoop.simps leadingNumber_def numeric_def digit_def
  unitMap_def addQuantity_def two63_def two64_def Let_def

section \<open>Properties\<close>

text \<open>
  A duration that \<open>time.ParseDuration\<close> accepts is a signed 64-bit number of nanoseconds: the
  overflow tests leave no text that wraps around.
\<close>

lemma ParseDuration_int64:
  assumes "ParseDuration s = Some d"
  shows "- (2 ^ 63) \<le> d \<and> d < 2 ^ 63"
proof -
  have "durationLoop 0 r = Some n \<Longrightarrow> n \<le> two63" for r n
    by (rule durationLoop_le) (simp_all add: two63_def)
  then show ?thesis
    using assms by (fastforce simp: ParseDuration_def Let_def two63_def split: if_splits option.splits)
qed

theorem ParseDuration_int64_witness:
  "ParseDuration ''1h30m'' = Some 5400000000000 \<and> - (2 ^ 63) \<le> (5400000000000::int) \<and> (5400000000000::int) < 2 ^ 63"
proof -
  have "ParseDuration ''1h30m'' = Some 5400000000000" by (simp add: parse_duration_eval)
  from this ParseDuration_int64 [OF this] show ?thesis by blast
qed

end
