(* ===== verification/Env_Example.thy ===== *)
theory Env_Example
  imports K8s_Client
begin

text \<open>
  A concrete environment, on which the theorems about every environment are
  evaluated: a world without state, whose calls give fixed answers. Single answers
  are replaced by record updates where an example needs another one.
\<close>

definition cfg0 :: config where
  "cfg0 = \<lparr>cfgNodeName = ''node1'', cfgNamespace = ''kube-system'', cfgPodName = ''csi'',
     cfgMountImage = ''img'', cfgHostIp = ''127.0.0.1'', cfgKubeletPort = ''10250'',
     cfgMountPointPath = ''/var/lib/mosfs/volume'', cfgJFSConfigPath = ''/var/lib/mosfs/config'',
     cfgEnableAPIServerListCache = False\<rparr>"

definition lib0 :: pure_ext where
  "lib0 = \<lparr>zone_offset = (\<lambda>_. 0), valid_quantity = (\<lambda>_. True), yaml_map = (\<lambda>_. (None, False))\<rparr>"

definition kube0 :: "'w kube_ext" where
  "kube0 = \<lparr>api_create = (\<lambda>p w. (Inr p, w)), api_get = (\<lambda>n ns w. (Inl (ApiErr NotFound), w)),
     api_list = (\<lambda>ns rv w. (Inr [], w)), api_patch = (\<lambda>ns n d w. (Inr (), w)),
     api_update = (\<lambda>p w. (Inr (), w)), api_delete = (\<lambda>ns n w. (Inr (), w)),
     api_get_pv = (\<lambda>n w. (Inl (ApiErr NotFound), w)), api_list_pv = (\<lambda>w. (Inr [], w)),
     api_log = (\<lambda>p ns c w. (Inr '''', w))\<rparr>"

definition sys0 :: "'w os_ext" where
  "sys0 = \<lparr>os_stat = (\<lambda>p w. (Inr \<lparr>fiIno = 1, fiPerm = 511\<rparr>, w)), os_mkdir_all = (\<lambda>p m w. (Inr (), w)),
     os_chmod = (\<lambda>p m w. (Inr (), w)), os_remove = (\<lambda>p w. (Inr (), w)),
     os_write_file = (\<lambda>p d m w. (Inr (), w)), os_lookup_env = (\<lambda>k w. (None, w)),
     os_set_env = (\<lambda>k v w. ((), w)), run_cmd = (\<lambda>c e w. (('''', None), w)),
     mnt_mount = (\<lambda>s t f os w. (Inr (), w)), mnt_unmount = (\<lambda>p w. (Inr (), w)),
     mnt_likely_not = (\<lambda>p w. (Inr True, w)), mnt_info = (\<lambda>w. (Inr [], w))\<rparr>"

definition clk0 :: "'w clock_ext" where
  "clk0 = \<lparr>clock_now = (\<lambda>w. (0, w)), clock_sleep = (\<lambda>n w. ((), w)), timer = (\<lambda>w. (None, w))\<rparr>"

definition net0 :: "'w net_ext" where
  "net0 = \<lparr>http_do = (\<lambda>r w. (Inr \<lparr>hsStatus = 200, hsBody = Inr ''[]''\<rparr>, w)),
     kubelet_pods = (\<lambda>u w. (Inr (PodListBody (Some [])), w))\<rparr>"

definition cch0 :: "'w cache_ext" where
  "cch0 = \<lparr>cache_get = (\<lambda>ns n w. (Inl (ApiErr NotFound), w)), cache_delete = (\<lambda>c w. (Inr (), w)),
     cache_update_status = (\<lambda>c w. (Inr (), w)),
     pvc_get = (\<lambda>ns n w. (Inl (ApiErr NotFound), w)), ns_pods = (\<lambda>ns w. (Inr [], w)),
     new_executor = (\<lambda>ns n c w. (Inr (), w)), pod_exec = (\<lambda>ns n c w. (('''', '''', None), w))\<rparr>"

definition E0 :: "unit ext" where
  "E0 = \<lparr>fuel = Suc (Suc (Suc 0)), cfg = cfg0, lib = lib0, kube = kube0, sys = sys0, clk = clk0, net = net0, cch = cch0\<rparr>"

lemmas env0_defs = E0_def cfg0_def lib0_def kube0_def sys0_def clk0_def net0_def cch0_def

end
