(* ===== verification/Config.thy ===== *)
theory Config
  imports Pod_Util Go_Duration Env_Example
begin

text \<open>
  \<open>pkg/juicefs/config\<close>: the constants of \<open>config.go\<close> (the variables that \<open>main\<close>
  sets are the record \<open>config\<close> of theory \<open>Effects\<close>) and the settings of a volume,
  \<open>setting.go\<close>. The secret's \<open>configs\<close> and \<open>envs\<close> are read as YAML, by the
  parameter \<open>yaml_map\<close>, or else as JSON.
\<close>

section \<open>config.go\<close>

definition MountBase :: string where "MountBase = ''/var/lib/mosfs''"
definition FsType :: string where "FsType = ''juicefs''"
definition CliPath :: string where "CliPath = ''/usr/bin/dfscli''"
definition CeCliPath :: string where "CeCliPath = CliPath"
definition JfsMountPath :: string where "JfsMountPath = ''/sbin/mount.juicefs''"
definition CeMountPath :: string where "CeMountPath = JfsMountPath"
definition ReconcilerInterval :: nat where "ReconcilerInterval = 5"
definition DeleteDelayTimeKey :: string where "DeleteDelayTimeKey = ''mosfs-delete-delay''"
definition DeleteDelayAtKey :: string where "DeleteDelayAtKey = ''mosfs-delete-at''"
definition PodTypeKey :: string where "PodTypeKey = ''app.kubernetes.io/name''"
definition PodTypeValue :: string where "PodTypeValue = ''mosfs-mount''"
definition Finalizer :: string where "Finalizer = ''szsandstone.com/mosfsfinalizer''"

section \<open>setting.go\<close>

record JfsSetting =
  IsCe :: bool
  UsePod :: bool
  sName :: string
  MetaUrl :: string
  sSource :: string
  Storage :: string
  Configs :: smap
  Envs :: smap
  MountPodCpuLimit :: string
  MountPodMemLimit :: string
  MountPodCpuRequest :: string
  MountPodMemRequest :: string
  DeletedDelay :: string

definition zero_setting :: JfsSetting where
  "zero_setting = \<lparr>IsCe = False, UsePod = False, sName = '''', MetaUrl = '''', sSource = '''',
     Storage = '''', Configs = None, Envs = None, MountPodCpuLimit = '''', MountPodMemLimit = '''',
     MountPodCpuRequest = '''', MountPodMemRequest = '''', DeletedDelay = ''''\<rparr>"

text \<open>
  \<open>json.Unmarshal\<close> of a text into a map of strings: an object adds its members to the map,
  \<open>null\<close> leaves a nil map, and a member that is neither a string nor \<open>null\<close> is an error.
\<close>

fun unmarshalMembers :: "(string \<times> json) list \<Rightarrow> (string \<times> string) list \<Rightarrow> (string \<times> string) list option" where
  "unmarshalMembers [] m = Some m"
| "unmarshalMembers ((k, JStr s) # ms) m = unmarshalMembers ms (mput m k s)"
| "unmarshalMembers ((k, JNull) # ms) m = unmarshalMembers ms (mput m k '''')"
| "unmarshalMembers ((k, j) # ms) m = None"

definition unmarshalMap :: "string \<Rightarrow> smap \<Rightarrow> smap option" where
  "unmarshalMap text m =
     (case parseJson text of
        Some JNull \<Rightarrow> Some None
      | Some (JObj ms) \<Rightarrow> map_option Some (unmarshalMembers ms (case m of None \<Rightarrow> [] | Some xs \<Rightarrow> xs))
      | _ \<Rightarrow> None)"

text \<open>The text of a map, in YAML or else in JSON; the second attempt starts with the map the first one left.\<close>

definition parseMap :: "'w ext \<Rightarrow> string \<Rightarrow> string \<Rightarrow> gerr + smap" where
  "parseMap E what text =
     (case yaml_map (lib E) text of (m, ok) \<Rightarrow>
        if ok then Inr m
        else (case unmarshalMap text m of
                Some m' \<Rightarrow> Inr m'
              | None \<Rightarrow> Inl (StatusRaw InvalidArgument what [] None)))"

text \<open>The part of \<open>ParseSetting\<close> that reads the volume context, when there is one.\<close>

definition parseVolCtx :: "smap \<Rightarrow> JfsSetting \<Rightarrow> gerr + JfsSetting" where
  "parseVolCtx volCtx st =
     (if volCtx = None then Inr st
      else let st = st\<lparr>MountPodCpuLimit := mindex volCtx ''mountpod/cpu-limit'',
                       MountPodMemLimit := mindex volCtx ''mountpod/memory-limit'',
                       MountPodCpuRequest := mindex volCtx ''mountpod/cpu-request'',
                       MountPodMemRequest := mindex volCtx ''mountpod/memory-request''\<rparr>;
               delay = mindex volCtx ''mountpod/mount-delete-delay''
           in if delay \<noteq> ''''
              then (case ParseDuration delay of
                      None \<Rightarrow> Inl (ErrorfRaw ''can't parse delay time %s'' [delay] None)
                    | Some _ \<Rightarrow> Inr (st\<lparr>DeletedDelay := delay\<rparr>))
              else Inr st)"

definition ParseSetting :: "'w ext \<Rightarrow> smap \<Rightarrow> smap \<Rightarrow> bool \<Rightarrow> gerr + JfsSetting" where
  "ParseSetting E secrets volCtx usePod =
     (if secrets = None then Inr zero_setting
      else if mindex secrets ''name'' = '''' then Inl (StatusRaw InvalidArgument ''Empty name'' [] None)
      else let st = zero_setting\<lparr>sName := mindex secrets ''name'', Storage := mindex secrets ''storage'',
                      MetaUrl := mindex secrets ''metaurl'', IsCe := (mlookup secrets ''metaurl'' \<noteq> None),
                      UsePod := usePod\<rparr>
           in case (if mindex secrets ''configs'' = '''' then Inr None
                    else parseMap E ''Parse configs in secret error: %v'' (mindex secrets ''configs'')) of
                Inl e \<Rightarrow> Inl e
              | Inr configs \<Rightarrow>
                  (case (if mindex secrets ''envs'' = '''' then Inr None
                         else parseMap E ''Parse envs in secret error: %v'' (mindex secrets ''envs'')) of
                     Inl e \<Rightarrow> Inl e
                   | Inr envs \<Rightarrow> parseVolCtx volCtx (st\<lparr>Configs := configs, Envs := envs\<rparr>)))"

section \<open>Facts\<close>

text \<open>A reference key, being longer, is none of the two keys of the delayed deletion.\<close>

lemma key_not_delay: "GetReferenceKey t \<noteq> DeleteDelayTimeKey" "GetReferenceKey t \<noteq> DeleteDelayAtKey"
  by (rule rk.key_neq; simp add: DeleteDelayTimeKey_def DeleteDelayAtKey_def)+

text \<open>
  A delay that the settings carry can be parsed: what \<open>ParseSetting\<close> accepted is what
  \<open>GetTimeAfterDelay\<close> later reads.
\<close>

definition exDelaySetting :: JfsSetting where
  "exDelaySetting = zero_setting\<lparr>sName := ''vol'', UsePod := True, DeletedDelay := ''1h''\<rparr>"

section \<open>Properties\<close>

text \<open>
  A deletion delay that \<open>ParseSetting\<close> lets through can be parsed, so the later call of
  \<open>GetTimeAfterDelay\<close> on the annotation of the mount pod does not fail.
\<close>

lemma ParseSetting_delay:
  assumes "ParseSetting E secrets volCtx usePod = Inr st" and "DeletedDelay st \<noteq> ''''"
  shows "ParseDuration (DeletedDelay st) \<noteq> None"
  using assms
  by (auto simp: ParseSetting_def parseVolCtx_def zero_setting_def Let_def
      split: if_splits sum.splits option.splits)

theorem ParseSetting_delay_witness:
  "ParseDuration (DeletedDelay exDelaySetting) \<noteq> None"
proof (rule ParseSetting_delay)
  show "ParseSetting E0 (Some [(''name'', ''vol'')]) (Some [(''mountpod/mount-delete-delay'', ''1h'')]) True
      = Inr exDelaySetting"
    by (simp add: ParseSetting_def parseVolCtx_def exDelaySetting_def zero_setting_def mindex_def mlookup_def Let_def
        parse_duration_eval)
  show "DeletedDelay exDelaySetting \<noteq> ''''" by (simp add: exDelaySetting_def)
qed

end
