(* ===== verification/Go_Time.thy ===== *)
theory Go_Time
  imports Go_Strings "HOL-Library.Monad_Syntax"
begin

text \<open>
  \<open>time.Time.Format\<close> and \<open>time.Parse\<close> for the one layout the driver uses,
  \<open>2006-01-02 15:04:05\<close>, with the calendar of package \<open>time\<close>. An instant is the
  number of nanoseconds since the Unix epoch. \<open>Format\<close> prints the clock of a time
  zone, given by its offset in seconds; \<open>Parse\<close> reads the text as UTC. The round
  trip is proved for the years 1 to 9999.
\<close>

section \<open>Calendar\<close>

definition isLeap :: "int \<Rightarrow> bool" where
  "isLeap y \<longleftrightarrow> y mod 4 = 0 \<and> (y mod 100 \<noteq> 0 \<or> y mod 400 = 0)"

definition monthLengths :: "bool \<Rightarrow> int list" where
  "monthLengths leap = [31, if leap then 29 else 28, 31, 30, 31, 30, 31, 31, 30, 31, 30, 31]"

text \<open>Days from 1 January of year 1 to 1 January of year \<open>y\<close>.\<close>

definition daysBefore :: "int \<Rightarrow> int" where
  "daysBefore y = (let n = y - 1 in 365 * n + n div 4 - n div 100 + n div 400)"

fun monthOf :: "int list \<Rightarrow> int \<Rightarrow> int \<Rightarrow> int \<times> int" where
  "monthOf [] m d = (m, d + 1)"
| "monthOf (l # ls) m d = (if d < l then (m, d + 1) else monthOf ls (m + 1) (d - l))"

text \<open>
  The year and the day of the year of a day number, by cycles of 400, 100, 4 and 1
  years, the last of each kind being longer.
\<close>

definition yearOf :: "int \<Rightarrow> int \<times> int" where
  "yearOf d =
     (let n400 = d div 146097; d = d - 146097 * n400;
          n100 = d div 36524; n100 = n100 - n100 div 4; d = d - 36524 * n100;
          n4 = d div 1461; d = d - 1461 * n4;
          n1 = d div 365; n1 = n1 - n1 div 4; d = d - 365 * n1
      in (1 + 400 * n400 + 100 * n100 + 4 * n4 + n1, d))"

definition dateOf :: "int \<Rightarrow> int \<times> int \<times> int" where
  "dateOf d =
     (let (y, yday) = yearOf d; (m, day) = monthOf (monthLengths (isLeap y)) 1 yday
      in (y, m, day))"

definition unixDay :: int where
  "unixDay = 719162"

definition second :: int where
  "second = 1000000000"

section \<open>Format\<close>

definition pad2 :: "int \<Rightarrow> string" where
  "pad2 n = [digitChar (nat n div 10), digitChar (nat n mod 10)]"

definition pad4 :: "int \<Rightarrow> string" where
  "pad4 n = (let s = showNat (nat \<bar>n\<bar>)
     in (if n < 0 then ''-'' else '''') @ replicate (4 - length s) CHR ''0'' @ s)"

definition formatTime :: "int \<Rightarrow> int \<Rightarrow> string" where
  "formatTime t offset =
     (let secs = t div second + offset; sod = secs mod 86400;
          (y, m, d) = dateOf (secs div 86400 + unixDay)
      in pad4 y @ ''-'' @ pad2 m @ ''-'' @ pad2 d @ '' '' @
         pad2 (sod div 3600) @ '':'' @ pad2 (sod mod 3600 div 60) @ '':'' @ pad2 (sod mod 60))"

section \<open>Parse\<close>

text \<open>\<open>getnum\<close>: two digits, or one when \<open>fixed\<close> is false and the second is missing.\<close>

definition getnum :: "bool \<Rightarrow> string \<Rightarrow> (int \<times> string) option" where
  "getnum fixed s =
     (case s of
        [] \<Rightarrow> None
      | a # as \<Rightarrow>
          (case digit a of
             None \<Rightarrow> None
           | Some x \<Rightarrow>
               (case as of
                  [] \<Rightarrow> if fixed then None else Some (int x, as)
                | b # bs \<Rightarrow>
                    (case digit b of
                       None \<Rightarrow> if fixed then None else Some (int x, as)
                     | Some y \<Rightarrow> Some (int (10 * x + y), bs)))))"

definition getYear :: "string \<Rightarrow> (int \<times> string) option" where
  "getYear s = (if length s < 4 then None
     else case decimal 0 (take 4 s) of None \<Rightarrow> None | Some y \<Rightarrow> Some (y, drop 4 s))"

fun skipChar :: "char \<Rightarrow> string \<Rightarrow> string option" where
  "skipChar c [] = None"
| "skipChar c (x # xs) = (if x = c then Some xs else None)"

text \<open>A space of the layout: the text goes on with spaces, or is at its end.\<close>

fun skipSpace :: "string \<Rightarrow> string option" where
  "skipSpace [] = Some []"
| "skipSpace (x # xs) = (if x = CHR '' '' then Some (dropWhile (\<lambda>c. c = CHR '' '') xs) else None)"

text \<open>A fraction of a second is taken even though the layout has none.\<close>

definition getFraction :: "string \<Rightarrow> int \<times> string" where
  "getFraction s =
     (case s of
        p # c # cs \<Rightarrow>
          (if (p = CHR ''.'' \<or> p = CHR '','') \<and> digit c \<noteq> None
           then let ds = takeWhile (\<lambda>x. digit x \<noteq> None) (c # cs); kept = take 9 ds
                in ((case decimal 0 kept of None \<Rightarrow> 0 | Some n \<Rightarrow> n * 10 ^ (9 - length kept)),
                    drop (length ds) (c # cs))
           else (0, s))
      | _ \<Rightarrow> (0, s))"

definition unixTime :: "int \<Rightarrow> int \<Rightarrow> int \<Rightarrow> int \<Rightarrow> int \<Rightarrow> int \<Rightarrow> int \<Rightarrow> int" where
  "unixTime y m d h mi s ns =
     ((daysBefore y + sum_list (take (nat (m - 1)) (monthLengths (isLeap y))) + d - 1 - unixDay) * 86400
        + h * 3600 + mi * 60 + s) * second + ns"

definition parseTime :: "string \<Rightarrow> int option" where
  "parseTime v0 = do {
     (y, v) \<leftarrow> getYear v0;
     v \<leftarrow> skipChar CHR ''-'' v;
     (m, v) \<leftarrow> getnum True v;
     v \<leftarrow> skipChar CHR ''-'' v;
     (d, v) \<leftarrow> getnum True v;
     v \<leftarrow> skipSpace v;
     (h, v) \<leftarrow> getnum False v;
     v \<leftarrow> skipChar CHR '':'' v;
     (mi, v) \<leftarrow> getnum True v;
     v \<leftarrow> skipChar CHR '':'' v;
     (s, v) \<leftarrow> getnum True v;
     (case getFraction v of (ns, v) \<Rightarrow>
       if v = '''' \<and> 1 \<le> m \<and> m \<le> 12 \<and> h < 24 \<and> mi < 60 \<and> s < 60
          \<and> 1 \<le> d \<and> d \<le> monthLengths (isLeap y) ! nat (m - 1)
       then Some (unixTime y m d h mi s ns) else None) }"

section \<open>The calendar is right\<close>

text \<open>Four parts of length \<open>l\<close>, the last one longer by a day.\<close>

lemma four_parts:
  fixes r l :: int
  assumes "0 < l" and "0 \<le> r" and "r \<le> 4 * l" and "b = r div l - r div l div 4"
  shows "0 \<le> b \<and> b \<le> 3 \<and> 0 \<le> r - l * b \<and> r - l * b \<le> l \<and> (b < 3 \<longrightarrow> r - l * b < l)"
proof (cases "r = 4 * l")
  case True
  with assms(1,4) have "b = 3" by simp
  with True assms(1) show ?thesis by simp
next
  case False
  let ?q = "r div l"
  have rq: "r = l * ?q + r mod l" "0 \<le> r mod l" "r mod l < l" using assms(1) by simp_all
  have q0: "0 \<le> ?q" using assms(1,2) by (simp add: pos_imp_zdiv_nonneg_iff)
  have "l * ?q < l * 4" using rq assms(3) False by linarith
  then have q: "?q < 4" using assms(1) by simp
  then have "b = ?q" using assms(4) q0 by simp
  then have "r - l * b = r mod l" by (simp add: minus_mult_div_eq_mod)
  with \<open>b = ?q\<close> show ?thesis using q0 q rq(2,3) by linarith
qed

lemma yearOf_days:
  assumes "yearOf d = (y, yday)"
  shows "daysBefore y + yday = d \<and> 0 \<le> yday \<and> yday < (if isLeap y then 366 else 365)"
proof -
  define a r1 where "a = d div 146097" and "r1 = d mod 146097"
  have d: "d = 146097 * a + r1" and r1: "0 \<le> r1" "r1 < 146097"
    by (simp_all add: a_def r1_def)
  define b where "b = r1 div 36524 - r1 div 36524 div 4"
  define r2 where "r2 = r1 - 36524 * b"
  have b: "0 \<le> b" "b \<le> 3" "0 \<le> r2" "r2 \<le> 36524" "b < 3 \<Longrightarrow> r2 < 36524"
    using four_parts [of 36524 r1 b] r1 unfolding b_def r2_def by auto
  define c r3 where "c = r2 div 1461" and "r3 = r2 mod 1461"
  have r2: "r2 = 1461 * c + r3" and r3: "0 \<le> r3" "r3 < 1461"
    by (simp_all add: c_def r3_def)
  have c: "0 \<le> c" "c \<le> 24" using b r2 r3 by linarith+
  define e where "e = r3 div 365 - r3 div 365 div 4"
  define r4 where "r4 = r3 - 365 * e"
  have e: "0 \<le> e" "e \<le> 3" "0 \<le> r4" "r4 \<le> 365" "e < 3 \<Longrightarrow> r4 < 365"
    using four_parts [of 365 r3 e] r3 unfolding e_def r4_def by auto
  define n where "n = 400 * a + 100 * b + 4 * c + e"
  have "yearOf d = (1 + n, r4)"
    unfolding yearOf_def Let_def n_def r4_def e_def r3_def c_def r2_def b_def r1_def a_def
    by (simp add: minus_mult_div_eq_mod)
  with assms have y: "y = 1 + n" and yday: "yday = r4" by simp_all
  have divs: "n div 4 = 100 * a + 25 * b + c" "n div 100 = 4 * a + b" "n div 400 = a"
    using b c e unfolding n_def
    by (intro int_div_pos_eq [where r = e] int_div_pos_eq [where r = "4 * c + e"]
        int_div_pos_eq [where r = "100 * b + 4 * c + e"]; simp)+
  have sum: "daysBefore y + yday = d"
    unfolding daysBefore_def Let_def y yday using divs d r2 r4_def r2_def n_def by simp
  have leap: "isLeap y" if "r4 = 365"
  proof -
    have e3: "e = 3" using that e by linarith
    have "r3 = 1460" using that e3 unfolding r4_def by simp
    then have bc: "b = 3 \<or> c < 24" using b r2 c by linarith
    have y': "y = 4 * (100 * a + 25 * b + c + 1)" unfolding y n_def e3 by simp
    show ?thesis
    proof (cases "c = 24")
      case True
      with bc have "y = 400 * (a + 1)" unfolding y' by simp
      then show ?thesis by (simp add: isLeap_def)
    next
      case False
      have "y mod 100 = 4 * c + 4"
        using False c by (intro int_mod_pos_eq [where q = "4 * a + b"]) (simp_all add: y')
      then show ?thesis using c by (simp add: isLeap_def y')
    qed
  qed
  have "\<not> isLeap y \<longrightarrow> r4 < 365" using leap e(3,4) by (cases "r4 = 365") auto
  then show ?thesis using sum e(3,4) yday by auto
qed

lemma monthOf_days:
  assumes "monthOf ls m0 d = (m, day)" and "0 \<le> d" and "d < sum_list ls"
  shows "m0 \<le> m \<and> m < m0 + int (length ls) \<and> 1 \<le> day \<and> day \<le> ls ! nat (m - m0)
    \<and> sum_list (take (nat (m - m0)) ls) + day - 1 = d"
  using assms
proof (induction ls m0 d rule: monthOf.induct)
  case (1 m0 d)
  then show ?case by simp
next
  case (2 l ls m0 d)
  show ?case
  proof (cases "d < l")
    case True
    with "2.prems" show ?thesis by auto
  next
    case False
    then have IH: "m0 + 1 \<le> m \<and> m < m0 + 1 + int (length ls) \<and> 1 \<le> day \<and> day \<le> ls ! nat (m - (m0 + 1))
        \<and> sum_list (take (nat (m - (m0 + 1))) ls) + day - 1 = d - l"
      using "2.prems" by (intro "2.IH") auto
    then have "nat (m - m0) = Suc (nat (m - (m0 + 1)))" by linarith
    with IH show ?thesis by auto
  qed
qed

lemma dateOf_days:
  assumes "dateOf d = (y, m, day)"
  shows "daysBefore y + sum_list (take (nat (m - 1)) (monthLengths (isLeap y))) + day - 1 = d
    \<and> 1 \<le> m \<and> m \<le> 12 \<and> 1 \<le> day \<and> day \<le> monthLengths (isLeap y) ! nat (m - 1)"
proof -
  obtain yday where y: "yearOf d = (y, yday)"
    and m: "monthOf (monthLengths (isLeap y)) 1 yday = (m, day)"
    using assms by (auto simp: dateOf_def Let_def split: prod.splits)
  have yd: "daysBefore y + yday = d" "0 \<le> yday" "yday < sum_list (monthLengths (isLeap y))"
    using yearOf_days [OF y] by (auto simp: monthLengths_def split: if_splits)
  have "length (monthLengths (isLeap y)) = 12" by (simp add: monthLengths_def)
  then show ?thesis using monthOf_days [OF m yd(2,3)] yd(1) by auto
qed

lemma daysBefore_step: "daysBefore y + 364 \<le> daysBefore (y + 1)"
proof -
  have "(y - 1) div 4 \<le> y div 4" "(y - 1) div 400 \<le> y div 400"
    by (simp_all add: zdiv_mono1)
  moreover have "y div 100 \<le> (y - 1) div 100 + 1"
    using zdiv_mono1 [of y "y - 1 + 100" 100] by simp
  ultimately show ?thesis by (simp add: daysBefore_def Let_def)
qed

lemma daysBefore_plus: "daysBefore y + 364 * int k \<le> daysBefore (y + int k)"
proof (induction k)
  case 0
  then show ?case by simp
next
  case (Suc k)
  then show ?case using daysBefore_step [of "y + int k"] by (simp add: algebra_simps)
qed

lemma daysBefore_mono: "y \<le> z \<Longrightarrow> daysBefore y + 364 * (z - y) \<le> daysBefore z"
  using daysBefore_plus [of y "nat (z - y)"] by simp

lemma dateOf_year:
  assumes "dateOf d = (y, m, day)" and "0 \<le> d" and "d < daysBefore 10000"
  shows "1 \<le> y \<and> y \<le> 9999"
proof -
  obtain yday where yy: "yearOf d = (y, yday)"
    using assms(1) by (auto simp: dateOf_def Let_def split: prod.splits)
  from yearOf_days [OF yy] have yd: "daysBefore y + yday = d" "0 \<le> yday" "yday < 366"
    by (auto split: if_splits)
  have "1 \<le> y"
  proof (rule ccontr)
    assume "\<not> 1 \<le> y"
    then have y0: "y \<le> 0" by simp
    have "yday < (if isLeap y then 366 else 365)"
      using yearOf_days [OF yy] by blast
    then have "yday \<le> 365" by (simp split: if_splits)
    then show False using daysBefore_mono [OF y0] y0 yd assms(2) by (simp add: daysBefore_def)
  qed
  moreover have "y \<le> 9999"
  proof (rule ccontr)
    assume "\<not> y \<le> 9999"
    then have "10000 \<le> y" by simp
    then show False using daysBefore_mono [of 10000 y] yd assms(3) by simp
  qed
  ultimately show ?thesis ..
qed

section \<open>Digits\<close>

lemma getnum_pad2: "0 \<le> n \<Longrightarrow> n < 100 \<Longrightarrow> getnum f (pad2 n @ s) = Some (n, s)"
proof -
  assume n: "0 \<le> n" "n < 100"
  have "nat n div 10 < 10" "nat n mod 10 < 10" using n by auto
  then have "digit (digitChar (nat n div 10)) = Some (nat n div 10)"
    "digit (digitChar (nat n mod 10)) = Some (nat n mod 10)"
    by (simp_all add: digit_digitChar)
  moreover have "int (10 * (nat n div 10) + nat n mod 10) = n"
    using n by (simp only: mult_div_mod_eq int_nat_eq if_True)
  ultimately show ?thesis by (simp add: getnum_def pad2_def)
qed

lemma length_pad2 [simp]: "length (pad2 n) = 2"
  by (simp add: pad2_def)

lemma decimal_zeros: "decimal 0 (replicate k CHR ''0'') = Some 0"
  by (induction k) (simp_all add: digit_def)

lemma length_showNat: "n < 10 ^ k \<Longrightarrow> 0 < k \<Longrightarrow> length (showNat n) \<le> k"
proof (induction k arbitrary: n)
  case 0
  then show ?case by simp
next
  case (Suc k)
  show ?case
  proof (cases "n < 10")
    case True
    then show ?thesis by (simp add: showNat.simps [of n])
  next
    case False
    then have "0 < k" using Suc.prems by (cases k) auto
    moreover have "n div 10 < 10 ^ k" using Suc.prems(1) by (simp add: less_mult_imp_div_less mult.commute)
    ultimately have "length (showNat (n div 10)) \<le> k" by (intro Suc.IH)
    with False show ?thesis by (simp add: showNat.simps [of n])
  qed
qed

lemma getYear_pad4:
  assumes "1 \<le> y" and "y \<le> 9999"
  shows "getYear (pad4 y @ s) = Some (y, s)"
proof -
  let ?n = "nat \<bar>y\<bar>"
  have "?n < 10 ^ 4" using assms by simp
  then have l: "length (showNat ?n) \<le> 4" by (rule length_showNat) simp
  have p: "pad4 y = replicate (4 - length (showNat ?n)) CHR ''0'' @ showNat ?n"
    using assms by (simp add: pad4_def Let_def)
  then have l4: "length (pad4 y) = 4" using l by simp
  have "decimal 0 (pad4 y) = Some y"
    using assms by (simp add: p decimal_append decimal_zeros decimal_showNat)
  then show ?thesis using l4 by (simp add: getYear_def)
qed

lemma skipSpace_pad2: "0 \<le> n \<Longrightarrow> n < 100 \<Longrightarrow> skipSpace (CHR '' '' # pad2 n @ s) = Some (pad2 n @ s)"
proof -
  assume n: "0 \<le> n" "n < 100"
  have "digit (digitChar (nat n div 10)) \<noteq> None" using n by (simp add: digit_digitChar)
  then have "digitChar (nat n div 10) \<noteq> CHR '' ''" by (auto simp: digit_def)
  then show ?thesis by (simp add: pad2_def)
qed

lemma getFraction_Nil [simp]: "getFraction [] = (0, [])"
  by (simp add: getFraction_def)

section \<open>Round trip\<close>

text \<open>
  Reading a formatted instant back gives the second the zone's clock showed, as if
  that clock were UTC: the instant moved by the zone's offset.
\<close>

lemma parse_format:
  assumes "0 \<le> (t div second + offset) div 86400 + unixDay"
    and "(t div second + offset) div 86400 + unixDay < daysBefore 10000"
  shows "parseTime (formatTime t offset) = Some ((t div second + offset) * second)"
proof -
  define secs where "secs = t div second + offset"
  define sod where "sod = secs mod 86400"
  obtain y m d where date: "dateOf (secs div 86400 + unixDay) = (y, m, d)"
    by (metis prod_cases3)
  note D = dateOf_days [OF date]
  have Y: "1 \<le> y \<and> y \<le> 9999"
    using assms by (intro dateOf_year [OF date]) (simp_all add: secs_def)
  have ml: "l \<in> set (monthLengths b) \<Longrightarrow> l \<le> 31" for l b
    by (auto simp: monthLengths_def split: if_splits)
  have "monthLengths (isLeap y) ! nat (m - 1) \<in> set (monthLengths (isLeap y))"
    using D by (intro nth_mem) (auto simp: monthLengths_def)
  then have d31: "d \<le> 31" using D ml by fastforce
  have sod: "0 \<le> sod" "sod < 86400" by (simp_all add: sod_def)
  have h: "0 \<le> sod div 3600" "sod div 3600 < 24" using sod by auto
  have mi: "0 \<le> sod mod 3600 div 60" "sod mod 3600 div 60 < 60"
    using pos_mod_bound [of 3600 sod] by (auto simp: div_less_iff_less_mult)
  have s: "0 \<le> sod mod 60" "sod mod 60 < 60" by simp_all
  have hms: "sod div 3600 * 3600 + sod mod 3600 div 60 * 60 + sod mod 60 = sod"
  proof -
    have "sod mod 3600 mod 60 = sod mod 60" by (simp add: mod_mod_cancel)
    then have "sod mod 3600 = sod mod 3600 div 60 * 60 + sod mod 60"
      using div_mult_mod_eq [of "sod mod 3600" 60] by simp
    then show ?thesis using div_mult_mod_eq [of sod 3600] by linarith
  qed
  have fmt: "formatTime t offset = pad4 y @ CHR ''-'' # pad2 m @ CHR ''-'' # pad2 d @ CHR '' '' #
      pad2 (sod div 3600) @ CHR '':'' # pad2 (sod mod 3600 div 60) @ CHR '':'' # pad2 (sod mod 60) @ []"
    using date by (simp add: formatTime_def Let_def secs_def sod_def)
  have "parseTime (formatTime t offset) =
      Some (unixTime y m d (sod div 3600) (sod mod 3600 div 60) (sod mod 60) 0)"
    unfolding fmt parseTime_def using D Y d31 h mi s
    by (simp add: getYear_pad4 getnum_pad2 skipSpace_pad2 del: append_Nil2 skipSpace.simps)
  also have "unixTime y m d (sod div 3600) (sod mod 3600 div 60) (sod mod 60) 0 = secs * second"
  proof -
    have days: "daysBefore y + sum_list (take (nat (m - 1)) (monthLengths (isLeap y))) + d - 1 - unixDay
        = secs div 86400" using D by simp
    have "secs div 86400 * 86400 + sod = secs" by (simp add: sod_def)
    then show ?thesis unfolding unixTime_def days using hms by (simp add: add.assoc)
  qed
  finally show ?thesis by (simp add: secs_def)
qed

end
