(* ===== verification/Delay.thy ===== *)
theory Delay
  imports Config Go_Time
begin

text \<open>
  The delayed deletion of a mount pod, from \<open>pkg/util/util.go\<close>: \<open>ShouldDelay\<close>,
  \<open>GetTimeAfterDelay\<close> and \<open>GetTime\<close>. An instant is a number of nanoseconds since the
  Unix epoch. The instant of the deletion is written with the clock of the local
  time zone and read as UTC.
\<close>

definition GetTimeAfterDelay :: "'w ext \<Rightarrow> string \<Rightarrow> ('w, gerr + string) go" where
  "GetTimeAfterDelay E delayStr =
     (case ParseDuration delayStr of
        None \<Rightarrow> ret (Inl (PlainErr ''time: invalid duration''))
      | Some delay \<Rightarrow> do {
          now \<leftarrow> Now E;
          let delayAt = now + delay;
          ret (Inr (formatTime delayAt (zone_offset (lib E) delayAt))) })"

definition GetTime :: "string \<Rightarrow> gerr + int" where
  "GetTime str = (case parseTime str of None \<Rightarrow> Inl (PlainErr ''parsing time'') | Some t \<Rightarrow> Inr t)"

text \<open>Both results of Go's \<open>(bool, error)\<close>.\<close>

definition ShouldDelay :: "'w ext \<Rightarrow> pod \<Rightarrow> ('w, bool \<times> gerr option) go" where
  "ShouldDelay E p =
     (case mlookup (pAnnotations p) DeleteDelayTimeKey of
        None \<Rightarrow> ret (False, None)
      | Some delayStr \<Rightarrow>
          (case mlookup (pAnnotations p) DeleteDelayAtKey of
             None \<Rightarrow> do {
               d \<leftarrow> GetTimeAfterDelay E delayStr;
               case d of
                 Inl _ \<Rightarrow> ret (False, None)
               | Inr d \<Rightarrow> do {
                   r \<leftarrow> AddPodAnnotation E p (Some [(DeleteDelayAtKey, d)]);
                   case r of Inl e \<Rightarrow> ret (True, Some e) | Inr _ \<Rightarrow> ret (True, None) } }
           | Some delayAtStr \<Rightarrow>
               (case GetTime delayAtStr of
                  Inl _ \<Rightarrow> ret (False, None)
                | Inr delayAt \<Rightarrow> do { now \<leftarrow> Now E; ret (now < delayAt, None) })))"

section \<open>Facts\<close>

lemma emits_ShouldDelay [emits_intros]:
  "(\<And>n. P (EvNow n)) \<Longrightarrow>
   (\<And>d r. P (EvPatchPod (pNamespace p) (pName p) (StrategicMergeAnnotations (Some [(DeleteDelayAtKey, d)])) r)) \<Longrightarrow>
   emits P (ShouldDelay E p)"
  unfolding ShouldDelay_def GetTimeAfterDelay_def Now_def
  by (intro emits_intros) auto

lemma ShouldDelay_unset: "mlookup (pAnnotations p) DeleteDelayTimeKey = None \<Longrightarrow> ShouldDelay E p = ret (False, None)"
  by (simp add: ShouldDelay_def)

text \<open>What the second call finds: the text the first one wrote, read back.\<close>

lemma GetTime_formatTime:
  assumes "0 \<le> (t div second + offset) div 86400 + unixDay"
    and "(t div second + offset) div 86400 + unixDay < daysBefore 10000"
  shows "GetTime (formatTime t offset) = Inr ((t div second + offset) * second)"
  by (simp add: GetTime_def parse_format [OF assms])

section \<open>Properties\<close>

text \<open>
  C35: The instant of a delayed deletion is read back shifted by the offset of the local time
  zone: what \<open>GetTimeAfterDelay\<close> writes for now plus the delay, \<open>GetTime\<close> reads as that instant,
  in whole seconds, plus the offset.
\<close>

theorem delay_shifted:
  assumes "ParseDuration delayStr = Some delay" and "clock_now (clk E) w = (now, w')"
    and "offset = zone_offset (lib E) (now + delay)"
    and "0 \<le> ((now + delay) div second + offset) div 86400 + unixDay"
    and "((now + delay) div second + offset) div 86400 + unixDay < daysBefore 10000"
  shows "\<exists>txt. run_state (GetTimeAfterDelay E delayStr) (w, t) = (Inr txt, w', t @ [EvNow now]) \<and>
    GetTime txt = Inr (((now + delay) div second + offset) * second)"
  using assms(1-3) GetTime_formatTime [OF assms(4,5)]
  by (intro exI [of _ "formatTime (now + delay) offset"])
    (simp add: GetTimeAfterDelay_def Now_def call_def Let_def)

text \<open>At eight hours east of Greenwich a deletion planned in one hour is due in nine.\<close>

theorem delay_shifted_witness:
  "\<exists>txt. run_state (GetTimeAfterDelay (E0\<lparr>lib := lib0\<lparr>zone_offset := \<lambda>_. 28800\<rparr>\<rparr>) ''1h'') ((), []) =
      (Inr txt, (), [EvNow 0]) \<and> GetTime txt = Inr (9 * 3600 * second)"
proof -
  have "ParseDuration ''1h'' = Some 3600000000000" by (simp add: parse_duration_eval)
  moreover have "0 \<le> ((0 + 3600000000000) div second + 28800) div 86400 + unixDay \<and>
      ((0 + 3600000000000) div second + 28800) div 86400 + unixDay < daysBefore 10000"
    by (simp add: second_def unixDay_def daysBefore_def)
  ultimately show ?thesis
    using delay_shifted [of "''1h''" 3600000000000 "E0\<lparr>lib := lib0\<lparr>zone_offset := \<lambda>_. 28800\<rparr>\<rparr>" "()" 0 "()" 28800 "[]"]
    by (simp add: env0_defs second_def)
qed

end
