(* ===== verification/Mount_Info.thy ===== *)
theory Mount_Info
  imports Delay
begin

text \<open>
  \<open>pkg/controller/mountinfo.go\<close>: the table of mounts and of the pods that exist,
  the pod and the volume named by a target path, and the state of a target and of
  its sub-path mounts.
\<close>

record mountInfoTable =
  mis :: "mount_info list"
  deletedPods :: "string \<rightharpoonup> bool"

definition newMountInfoTable :: mountInfoTable where
  "newMountInfoTable = \<lparr>mis = [], deletedPods = Map.empty\<rparr>"

text \<open>\<open>parse\<close> returns the table with the mounts read, or the error.\<close>

definition mit_parse :: "'w ext \<Rightarrow> mountInfoTable \<Rightarrow> ('w, gerr + mountInfoTable) go" where
  "mit_parse E mit = tryM (ParseMountInfo E) (\<lambda>ms. ret (Inr (mit\<lparr>mis := ms\<rparr>)))"

definition setPodStatus :: "mountInfoTable \<Rightarrow> pod \<Rightarrow> mountInfoTable" where
  "setPodStatus mit p =
     (if pDeletionTimestamp p \<noteq> None then mit\<lparr>deletedPods := (deletedPods mit)(pUID p \<mapsto> True)\<rparr>
      else mit\<lparr>deletedPods := (deletedPods mit)(pUID p \<mapsto> False)\<rparr>)"

fun podsStatusLoop :: "(string \<rightharpoonup> bool) \<Rightarrow> pod list \<Rightarrow> string \<rightharpoonup> bool" where
  "podsStatusLoop dp [] = dp"
| "podsStatusLoop dp (p # ps) = podsStatusLoop (dp(pUID p \<mapsto> (pDeletionTimestamp p \<noteq> None))) ps"

definition setPodsStatus :: "mountInfoTable \<Rightarrow> pod list option \<Rightarrow> mountInfoTable" where
  "setPodsStatus mit podList =
     (let mit = mit\<lparr>deletedPods := Map.empty\<rparr>
      in case podList of
           None \<Rightarrow> mit
         | Some ps \<Rightarrow> mit\<lparr>deletedPods := podsStatusLoop (deletedPods mit) ps\<rparr>)"

definition containerSubPathDirectory :: string where
  "containerSubPathDirectory = ''volume-subpaths''"

definition containerCsiDirectory :: string where
  "containerCsiDirectory = ''volumes/kubernetes.io~csi''"

definition getPodUid :: "string \<Rightarrow> string" where
  "getPodUid target =
     (case Split target containerCsiDirectory of
        [p0, p1] \<Rightarrow>
          (let podDir = TrimSuffix p0 ''/''
           in case LastIndex podDir CHR ''/'' of
                None \<Rightarrow> ''''
              | Some i \<Rightarrow> if i = 0 then '''' else drop (i + 1) podDir)
      | _ \<Rightarrow> '''')"

definition getPVName :: "string \<Rightarrow> string" where
  "getPVName target =
     (case Split target containerCsiDirectory of
        [p0, p1] \<Rightarrow>
          (let pvName = TrimPrefix p1 ''/''
           in case Index pvName ''/'' of
                None \<Rightarrow> ''''
              | Some i \<Rightarrow> if i = 0 then '''' else take i pvName)
      | _ \<Rightarrow> '''')"

section \<open>Targets\<close>

datatype targetStatus =
    targetStatusNotExist
  | targetStatusMounted
  | targetStatusNotMount
  | targetStatusCorrupt
  | targetStatusUnexpect

record targetItem =
  tiTarget :: string
  tiSubpath :: string
  tiCount :: nat
  tiInconsistent :: bool
  tiStatus :: targetStatus
  tiErr :: "gerr option"

record mountItem =
  podExist :: bool
  podDeleted :: bool
  baseTarget :: targetItem
  subPathTarget :: "targetItem list"

text \<open>The status a \<open>Stat\<close> of the target gives it; the error is kept only when unexpected.\<close>

definition checkResult :: "targetItem \<Rightarrow> bool \<Rightarrow> gerr + file_info \<Rightarrow> targetItem" where
  "checkResult ti mounted r =
     (case r of
        Inr _ \<Rightarrow> if mounted then ti\<lparr>tiStatus := targetStatusMounted\<rparr> else ti\<lparr>tiStatus := targetStatusNotMount\<rparr>
      | Inl e \<Rightarrow>
          if IsNotExist e then ti\<lparr>tiStatus := targetStatusNotExist\<rparr>
          else let ti = (if \<not> mounted then ti\<lparr>tiStatus := targetStatusUnexpect, tiErr := Some e\<rparr> else ti)
               in if IsCorruptedMnt e then ti\<lparr>tiStatus := targetStatusCorrupt\<rparr>
                  else ti\<lparr>tiStatus := targetStatusUnexpect, tiErr := Some e\<rparr>)"

definition check :: "'w ext \<Rightarrow> targetItem \<Rightarrow> bool \<Rightarrow> ('w, targetItem) go" where
  "check E ti mounted = do { r \<leftarrow> Stat E (tiTarget ti); ret (checkResult ti mounted r) }"

text \<open>One mount of the table, entered into the records.\<close>

definition mountSubpath :: "mount_info \<Rightarrow> string" where
  "mountSubpath mi = Trim (TrimSuffix (miRoot mi) ''//deleted'') ''/''"

definition addRecord :: "(string \<times> targetItem) list \<Rightarrow> mount_info \<Rightarrow> (string \<times> targetItem) list" where
  "addRecord records mi =
     (let sp = mountSubpath mi
      in case map_of records (miMountPoint mi) of
           None \<Rightarrow> mput records (miMountPoint mi)
             \<lparr>tiTarget = miMountPoint mi, tiSubpath = sp, tiCount = 1, tiInconsistent = False,
              tiStatus = targetStatusNotExist, tiErr = None\<rparr>
         | Some record \<Rightarrow> mput records (miMountPoint mi)
             (record\<lparr>tiInconsistent := (tiSubpath record \<noteq> sp \<or> tiInconsistent record),
                     tiCount := tiCount record + 1\<rparr>))"

definition matches :: "string \<Rightarrow> bool \<Rightarrow> mount_info \<Rightarrow> bool" where
  "matches path isPrefix mi =
     (if isPrefix then HasPrefix (miMountPoint mi) path else path = miMountPoint mi)"

fun recordsLoop :: "string \<Rightarrow> bool \<Rightarrow> (string \<times> targetItem) list \<Rightarrow> mount_info list \<Rightarrow> (string \<times> targetItem) list" where
  "recordsLoop path isPrefix records [] = records"
| "recordsLoop path isPrefix records (mi # rest) =
     (if \<not> matches path isPrefix mi then recordsLoop path isPrefix records rest
      else recordsLoop path isPrefix (addRecord records mi) rest)"

fun checkAll :: "'w ext \<Rightarrow> (string \<times> targetItem) list \<Rightarrow> ('w, targetItem list) go" where
  "checkAll E [] = ret []"
| "checkAll E ((k, record) # rest) = do {
     r \<leftarrow> check E record True;
     rs \<leftarrow> checkAll E rest;
     ret (r # rs) }"

definition resolveTargetItem :: "'w ext \<Rightarrow> mountInfoTable \<Rightarrow> string \<Rightarrow> bool \<Rightarrow> ('w, targetItem list) go" where
  "resolveTargetItem E mit path isPrefix = checkAll E (recordsLoop path isPrefix [] (mis mit))"

definition resolveTarget :: "'w ext \<Rightarrow> mountInfoTable \<Rightarrow> string \<Rightarrow> ('w, mountItem option) go" where
  "resolveTarget E mit target =
     (case Split target containerCsiDirectory of
        [p0, p1] \<Rightarrow>
          (let podDir = TrimSuffix p0 ''/''; podUID = getPodUid target; pvName = getPVName target
           in if podUID = '''' then ret None
              else if pvName = '''' then ret None
              else do {
                items \<leftarrow> resolveTargetItem E mit target False;
                base \<leftarrow> (case items of
                   [item] \<Rightarrow> ret item
                 | _ \<Rightarrow> check E \<lparr>tiTarget = target, tiSubpath = '''', tiCount = 0, tiInconsistent = False,
                                tiStatus = targetStatusNotExist, tiErr = None\<rparr> False);
                subs \<leftarrow> resolveTargetItem E mit (Join [podDir, containerSubPathDirectory, pvName] ''/'') True;
                ret (Some \<lparr>podExist = (deletedPods mit podUID \<noteq> None),
                           podDeleted = (deletedPods mit podUID = Some True),
                           baseTarget = base, subPathTarget = subs\<rparr>) })
      | _ \<Rightarrow> ret None)"

section \<open>Facts\<close>

text \<open>Exactly the pods of the list exist, and a pod is deleted when it has a timestamp.\<close>

lemma podsStatusLoop_dom: "dom (podsStatusLoop dp ps) = dom dp \<union> pUID ` set ps"
  by (induction ps arbitrary: dp) simp_all

lemma podsStatusLoop_other: "u \<notin> pUID ` set ps \<Longrightarrow> podsStatusLoop dp ps u = dp u"
  by (induction dp ps rule: podsStatusLoop.induct) auto

lemma podsStatusLoop_value:
  "distinct (map pUID ps) \<Longrightarrow> p \<in> set ps \<Longrightarrow>
   podsStatusLoop dp ps (pUID p) = Some (pDeletionTimestamp p \<noteq> None)"
  by (induction dp ps rule: podsStatusLoop.induct) (auto simp: podsStatusLoop_other)

text \<open>The path the kubelet gives to a CSI volume of a pod.\<close>

definition csiTarget :: "string \<Rightarrow> string \<Rightarrow> string \<Rightarrow> string \<Rightarrow> string" where
  "csiTarget podsDir uid pv rest =
     (podsDir @ ''/'' @ uid @ ''/'') @ containerCsiDirectory @ (''/'' @ pv @ ''/'' @ rest)"

lemma Split_csiTarget:
  assumes "CHR ''~'' \<notin> set podsDir \<union> set uid \<union> set pv \<union> set rest"
  shows "Split (csiTarget podsDir uid pv rest) containerCsiDirectory =
    [podsDir @ ''/'' @ uid @ ''/'', ''/'' @ pv @ ''/'' @ rest]"
  unfolding csiTarget_def
  by (rule Split_marker [where u = "''volumes/kubernetes.io''" and x = "CHR ''~''" and v = "''csi''"])
    (use assms in \<open>auto simp: containerCsiDirectory_def\<close>)

lemma getPodUid_csiTarget:
  assumes "CHR ''~'' \<notin> set podsDir \<union> set uid \<union> set pv \<union> set rest"
    and "podsDir \<noteq> []" and "CHR ''/'' \<notin> set uid"
  shows "getPodUid (csiTarget podsDir uid pv rest) = uid"
proof -
  have t: "TrimSuffix (podsDir @ ''/'' @ uid @ ''/'') ''/'' = podsDir @ CHR ''/'' # uid"
    using TrimSuffix_append [of "podsDir @ ''/'' @ uid" "''/''"] by simp
  show ?thesis
    unfolding getPodUid_def Split_csiTarget [OF assms(1)] Let_def list.case t
    using assms(2) LastIndex_append [OF assms(3), of podsDir] by simp
qed

lemma getPVName_csiTarget:
  assumes "CHR ''~'' \<notin> set podsDir \<union> set uid \<union> set pv \<union> set rest"
    and "pv \<noteq> []" and "CHR ''/'' \<notin> set pv"
  shows "getPVName (csiTarget podsDir uid pv rest) = pv"
proof -
  have t: "TrimPrefix (''/'' @ pv @ ''/'' @ rest) ''/'' = pv @ ''/'' @ rest"
    using TrimPrefix_append [of "''/''" "pv @ ''/'' @ rest"] by simp
  have "Index (pv @ ''/'' @ rest) ''/'' = Some (length pv)"
    using Index_marker [of "''/''" "[]" "CHR ''/''" "[]" pv rest] assms(3) by simp
  then show ?thesis
    unfolding getPVName_def Split_csiTarget [OF assms(1)] Let_def list.case t
    using assms(2) by simp
qed

section \<open>The records of a path\<close>

text \<open>
  What the loop computes: for every mount point that matches, the number of mounts
  there, the sub-path of the first, and whether another one differs.
\<close>

definition mountsAt :: "mount_info list \<Rightarrow> string \<Rightarrow> mount_info list" where
  "mountsAt ms p = filter (\<lambda>mi. miMountPoint mi = p) ms"

definition recordOf :: "mount_info list \<Rightarrow> string \<Rightarrow> targetItem option" where
  "recordOf ms p =
     (case mountsAt ms p of
        [] \<Rightarrow> None
      | m # rest \<Rightarrow> Some \<lparr>tiTarget = p, tiSubpath = mountSubpath m, tiCount = length (mountsAt ms p),
          tiInconsistent = (\<exists>mi \<in> set rest. mountSubpath mi \<noteq> mountSubpath m),
          tiStatus = targetStatusNotExist, tiErr = None\<rparr>)"

lemma recordOf_snoc:
  "recordOf (ms @ [mi]) p =
     (if miMountPoint mi \<noteq> p then recordOf ms p
      else case recordOf ms p of
             None \<Rightarrow> Some \<lparr>tiTarget = p, tiSubpath = mountSubpath mi, tiCount = 1, tiInconsistent = False,
                tiStatus = targetStatusNotExist, tiErr = None\<rparr>
           | Some r \<Rightarrow> Some (r\<lparr>tiInconsistent := (tiSubpath r \<noteq> mountSubpath mi \<or> tiInconsistent r),
                tiCount := tiCount r + 1\<rparr>))"
  by (auto simp: recordOf_def mountsAt_def split: list.splits)

lemma addRecord_recordOf:
  assumes "\<forall>p. map_of records p = recordOf seen p"
  shows "map_of (addRecord records mi) p = recordOf (seen @ [mi]) p"
  using assms
  by (auto simp: addRecord_def recordOf_snoc Let_def mput_def update_conv' split: option.splits)

lemma recordsLoop_recordOf:
  assumes "\<forall>p. map_of records p = recordOf seen p"
  shows "map_of (recordsLoop path isPrefix records ms) p =
    recordOf (seen @ filter (matches path isPrefix) ms) p"
  using assms
proof (induction ms arbitrary: records seen)
  case Nil
  then show ?case by simp
next
  case (Cons mi ms)
  show ?case
  proof (cases "matches path isPrefix mi")
    case True
    have "\<forall>q. map_of (addRecord records mi) q = recordOf (seen @ [mi]) q"
      using addRecord_recordOf [OF Cons.prems] by blast
    from Cons.IH [OF this] True show ?thesis by simp
  next
    case False
    with Cons show ?thesis by simp
  qed
qed

lemma recordsLoop_spec:
  "map_of (recordsLoop path isPrefix [] ms) p = recordOf (filter (matches path isPrefix) ms) p"
  using recordsLoop_recordOf [of "[]" "[]"] by (simp add: recordOf_def mountsAt_def)

lemma recordsLoop_distinct:
  "distinct (map fst records) \<Longrightarrow> distinct (map fst (recordsLoop path isPrefix records ms))"
  by (induction path isPrefix records ms rule: recordsLoop.induct)
    (auto simp: addRecord_def mput_def Let_def distinct_update split: option.splits)

text \<open>Checking the records changes only their status and error, one by one in order.\<close>

lemma checkAll_targets:
  "wp (checkAll E rs) (\<lambda>items s.
     map (\<lambda>i. (tiTarget i, tiSubpath i, tiCount i, tiInconsistent i)) items =
     map (\<lambda>(k, i). (tiTarget i, tiSubpath i, tiCount i, tiInconsistent i)) rs) s"
proof (induction E rs arbitrary: s rule: checkAll.induct)
  case (1 E)
  then show ?case by (simp add: wp_simps)
next
  case (2 E k item rest)
  obtain w t where s: "s = (w, t)" by (cases s)
  show ?case
    unfolding s checkAll.simps check_def Stat_def wp_simps
    by (auto simp: checkResult_def Let_def split: prod.splits sum.splits intro!: wp_mono [OF "2.IH"])
qed

lemma podsStatusLoop_map_of:
  "podsStatusLoop dp ps = dp ++ map_of (rev (map (\<lambda>p. (pUID p, pDeletionTimestamp p \<noteq> None)) ps))"
proof (induction ps arbitrary: dp)
  case (Cons p ps)
  show ?case by (rule ext, simp only: podsStatusLoop.simps Cons.IH) (simp add: map_add_def split: option.splits)
qed simp

text \<open>What \<open>resolveTargetItem\<close> finds out about a mount point, apart from its status.\<close>

definition itemFacts :: "targetItem \<Rightarrow> string \<times> string \<times> nat \<times> bool" where
  "itemFacts i = (tiTarget i, tiSubpath i, tiCount i, tiInconsistent i)"

text \<open>
  One item for each mount point among the mounts \<open>ms\<close>, with the number of mounts there, the
  sub-path of the first one and whether another one differs.
\<close>

definition resolved :: "mount_info list \<Rightarrow> targetItem list \<Rightarrow> bool" where
  "resolved ms items \<longleftrightarrow> distinct (map tiTarget items) \<and> set (map tiTarget items) = miMountPoint ` set ms \<and>
     list_all (\<lambda>i. map_option itemFacts (recordOf ms (tiTarget i)) = Some (itemFacts i)) items"

lemma recordOf_target: "recordOf ms p = Some r \<Longrightarrow> tiTarget r = p"
  by (auto simp: recordOf_def split: list.splits)

lemma recordOf_dom: "recordOf ms p \<noteq> None \<longleftrightarrow> p \<in> miMountPoint ` set ms"
proof -
  have "recordOf ms p \<noteq> None \<longleftrightarrow> mountsAt ms p \<noteq> []" by (simp add: recordOf_def split: list.splits)
  then show ?thesis by (auto simp: mountsAt_def filter_empty_conv)
qed

lemma traces_checkAll: "traces (checkAll E rs) (\<lambda>items es. map itemFacts items = map (\<lambda>(k, i). itemFacts i) rs)"
proof (induction E rs rule: checkAll.induct)
  case (1 E)
  then show ?case by (simp add: traces_return)
next
  case (2 E k item rest)
  have facts: "itemFacts (checkResult i m r) = itemFacts i" for i m r
    by (auto simp: itemFacts_def checkResult_def Let_def split: sum.splits)
  have "traces (check E item True) (\<lambda>i es. itemFacts i = itemFacts item)"
    unfolding check_def Stat_def by (intro traces_bind_call traces_return facts)
  then show ?case
    unfolding checkAll.simps by (rule traces_bind) (auto intro!: traces_bind [OF "2.IH"] traces_return)
qed

lemma resolved_records:
  assumes rs: "\<forall>p. map_of rs p = recordOf ms p" and d: "distinct (map fst rs)"
    and i: "map itemFacts items = map (\<lambda>(k, i). itemFacts i) rs"
  shows "resolved ms items"
proof -
  have r: "recordOf ms k = Some x" if "(k, x) \<in> set rs" for k x using rs d that by (metis map_of_is_SomeI)
  have "map tiTarget items = map fst (map itemFacts items)" by (simp add: itemFacts_def)
  also have "\<dots> = map fst rs" unfolding i using recordOf_target [OF r] by (auto simp: itemFacts_def)
  finally have t: "map tiTarget items = map fst rs" .
  have "set (map fst rs) = miMountPoint ` set ms"
    using rs recordOf_dom [of ms] by (auto simp: map_of_eq_None_iff dom_map_of_conv_image_fst [symmetric] dom_def)
  moreover have "map_option itemFacts (recordOf ms (tiTarget i)) = Some (itemFacts i)" if "i \<in> set items" for i
  proof -
    from that have "itemFacts i \<in> set (map itemFacts items)" by simp
    then obtain k x where kx: "(k, x) \<in> set rs" "itemFacts x = itemFacts i" unfolding i by auto
    then have "tiTarget i = tiTarget x" by (simp add: itemFacts_def)
    with r [OF kx(1)] recordOf_target kx(2) show ?thesis by fastforce
  qed
  ultimately show ?thesis using d by (simp add: resolved_def t list_all_iff)
qed

section \<open>Properties\<close>

text \<open>
  C21: From the path at which the kubelet publishes a volume for a pod the controller reads the
  uid of that pod and the name of that volume.
\<close>

theorem target_path_roundtrip:
  assumes "CHR ''~'' \<notin> set podsDir \<union> set uid \<union> set pv \<union> set rest" and "podsDir \<noteq> []"
    and "CHR ''/'' \<notin> set uid" and "pv \<noteq> []" and "CHR ''/'' \<notin> set pv"
  shows "getPodUid (csiTarget podsDir uid pv rest) = uid \<and> getPVName (csiTarget podsDir uid pv rest) = pv"
  using getPodUid_csiTarget [OF assms(1-3)] getPVName_csiTarget [OF assms(1,4,5)] by blast

theorem target_path_roundtrip_witness:
  "getPodUid ''/var/lib/kubelet/pods/u-1/volumes/kubernetes.io~csi/pvc-1/mount'' = ''u-1'' \<and>
   getPVName ''/var/lib/kubelet/pods/u-1/volumes/kubernetes.io~csi/pvc-1/mount'' = ''pvc-1''"
  using target_path_roundtrip [of "''/var/lib/kubelet/pods''" "''u-1''" "''pvc-1''" "''mount''"]
  by (simp add: csiTarget_def containerCsiDirectory_def)

text \<open>
  After \<open>setPodsStatus\<close> the table knows exactly the pods of the list, whatever it knew before;
  a pod counts as deleted when it has a deletion timestamp, and for a repeated uid the last pod
  decides.
\<close>

theorem setPodsStatus_table:
  "setPodsStatus mit (Some ps) =
     mit\<lparr>deletedPods := map_of (rev (map (\<lambda>p. (pUID p, pDeletionTimestamp p \<noteq> None)) ps))\<rparr>"
  by (simp add: setPodsStatus_def podsStatusLoop_map_of)

text \<open>
  \<open>resolveTargetItem\<close> returns one item for each mount point that matches, with the number of
  mounts there, the sub-path of the first, and whether a later one has another sub-path.
\<close>

theorem resolveTargetItem_items:
  "traces (resolveTargetItem E mit path isPrefix) (\<lambda>items _. resolved (filter (matches path isPrefix) (mis mit)) items)"
  unfolding resolveTargetItem_def
  by (rule traces_mono [OF traces_checkAll], rule resolved_records)
    (auto simp: recordsLoop_spec recordsLoop_distinct)

end
