(* ===== verification/Pod_Driver.thy ===== *)
theory Pod_Driver
  imports Mount_Info
begin

text \<open>
  \<open>pkg/controller/pod_driver.go\<close>: the life cycle of a mount pod. \<open>Run\<close> drops the
  references of pods that are gone, deletes a pod without references (or after its
  delay), and otherwise calls the handler of the pod's status. A handler's argument
  is a pointer, so it is an option here.
\<close>

section \<open>Status\<close>

datatype podStatus = podReady | podError | podDeletedS | podPending

definition getPodStatus :: "pod option \<Rightarrow> podStatus" where
  "getPodStatus pod =
     (case pod of
        None \<Rightarrow> podError
      | Some p \<Rightarrow>
          if pDeletionTimestamp p \<noteq> None then podDeletedS
          else if IsPodError p then podError
          else if IsPodReady p then podReady
          else podPending)"

section \<open>podErrorHandler\<close>

text \<open>A fresh object with the metadata and the spec of a pod.\<close>

definition copyOfPod :: "pod \<Rightarrow> pod" where
  "copyOfPod p = zero_pod\<lparr>pName := pName p, pNamespace := pNamespace p, pLabels := pLabels p,
     pAnnotations := pAnnotations p, pSpec := pSpec p\<rparr>"

text \<open>The loop that waits for the old pod to disappear; the argument counts the rounds left.\<close>

fun waitPodGone :: "'w ext \<Rightarrow> pod \<Rightarrow> nat \<Rightarrow> ('w, unit) go" where
  "waitPodGone E p 0 = ret ()"
| "waitPodGone E p (Suc n) = do {
     r \<leftarrow> GetPod E (pName p) (pNamespace p);
     case r of
       Inr oldPod \<Rightarrow> do {
         (if pFinalizers p \<noteq> None \<or> length (elems (pFinalizers oldPod)) = 0
          then do { _ \<leftarrow> RemoveFinalizer E oldPod Finalizer; ret () }
          else ret ());
         Sleep E 5000;
         waitPodGone E p n }
     | Inl e \<Rightarrow> if IsNotFound e then ret () else waitPodGone E p n }"

definition redeployWithoutResources :: "'w ext \<Rightarrow> pod \<Rightarrow> ('w, gerr + unit) go" where
  "redeployWithoutResources E p =
     tryM (RemoveFinalizer E p Finalizer) (\<lambda>_.
     tryM (DeletePod E p) (\<lambda>_. do {
       waitPodGone E p 30;
       let newPod = DeleteResourceOfPod (AddFinalizer (copyOfPod p) Finalizer);
       _ \<leftarrow> CreatePod E newPod;
       ret (Inr ()) }))"

text \<open>Whether the mount point of a failed pod is broken.\<close>

definition mountBroken :: "'w ext \<Rightarrow> string \<Rightarrow> ('w, bool) go" where
  "mountBroken E sourcePath = do {
     (exists, err) \<leftarrow> PathExists E sourcePath;
     if err \<noteq> None \<or> \<not> exists then ret True
     else do {
       r \<leftarrow> IsLikelyNotMountPoint E sourcePath;
       ret (case r of Inl _ \<Rightarrow> True | Inr notMnt \<Rightarrow> notMnt) } }"

definition podErrorHandler :: "'w ext \<Rightarrow> pod option \<Rightarrow> ('w, gerr + unit) go" where
  "podErrorHandler E pod =
     (case pod of
        None \<Rightarrow> ret (Inr ())
      | Some p \<Rightarrow> withLock (PodLock (GetPodLock (pName p)))
          (if IsPodResourceError p then
             (if IsPodHasResource p then redeployWithoutResources E p else ret (Inr ()))
           else case GetMountPathOfPod p of
                  Inl e \<Rightarrow> ret (Inl e)
                | Inr (sourcePath, _) \<Rightarrow> do {
                    needDeleted \<leftarrow> mountBroken E sourcePath;
                    if needDeleted then tryM (DeletePod E p) (\<lambda>_. ret (Inr ()))
                    else ret (Inr ()) }))"

section \<open>podDeletedHandler\<close>

fun waitPodDeleted :: "'w ext \<Rightarrow> pod \<Rightarrow> nat \<Rightarrow> ('w, unit) go" where
  "waitPodDeleted E p 0 = ret ()"
| "waitPodDeleted E p (Suc n) = do {
     r \<leftarrow> GetPod E (pName p) (pNamespace p);
     case r of
       Inr _ \<Rightarrow> do { Sleep E 5000; waitPodDeleted E p n }
     | Inl _ \<Rightarrow> ret () }"

text \<open>The deferred function: wait, then create the pod again, whatever happened.\<close>

definition recreatePod :: "'w ext \<Rightarrow> pod \<Rightarrow> ('w, unit) go" where
  "recreatePod E p = do {
     waitPodDeleted E p 30;
     _ \<leftarrow> CreatePod E (AddFinalizer (copyOfPod p) Finalizer);
     ret () }"

text \<open>The values of the annotations that are references, in the order of the range loop.\<close>

fun refTargets :: "(string \<times> string) list \<Rightarrow> string list" where
  "refTargets [] = []"
| "refTargets ((k, v) # rest) = (if k = GetReferenceKey v then v # refTargets rest else refTargets rest)"

definition podDeletedHandler :: "'w ext \<Rightarrow> pod option \<Rightarrow> ('w, gerr + unit) go" where
  "podDeletedHandler E pod =
     (case pod of
        None \<Rightarrow> ret (Inr ())
      | Some p \<Rightarrow>
          if \<not> ContainsString (elems (pFinalizers p)) Finalizer then ret (Inr ())
          else if IsPodResourceError p then ret (Inr ())
          else tryM (RemoveFinalizer E p Finalizer) (\<lambda>_.
            if pAnnotations p = None then ret (Inr ())
            else if refTargets (entries (pAnnotations p)) = [] then ret (Inr ())
            else case GetMountPathOfPod p of
                   Inl _ \<Rightarrow> ret (Inr ())
                 | Inr (sourcePath, _) \<Rightarrow>
                     withLock (PodLock (GetPodLock (pName p))) (do {
                       UmountPath E sourcePath;
                       recreatePod E p;
                       ret (Inr ()) })))"

section \<open>podReadyHandler and podPendingHandler\<close>

text \<open>The source of the bind mounts: the volume's directory, or the mount itself for a static volume.\<close>

definition bindSourceOf :: "'w ext \<Rightarrow> string \<Rightarrow> string \<Rightarrow> ('w, string option) go" where
  "bindSourceOf E mntPath volumeId = do {
     let sourcePath = mntPath @ ''/'' @ volumeId;
     r \<leftarrow> Stat E sourcePath;
     case r of
       Inr _ \<Rightarrow> ret (Some sourcePath)
     | Inl e \<Rightarrow>
         if \<not> IsNotExist e then ret None
         else do {
           r2 \<leftarrow> Stat E mntPath;
           case r2 of Inl _ \<Rightarrow> ret None | Inr _ \<Rightarrow> ret (Some mntPath) } }"

fun recoverTargets :: "'w ext \<Rightarrow> string \<Rightarrow> (string \<times> string) list \<Rightarrow> ('w, unit) go" where
  "recoverTargets E sourcePath [] = ret ()"
| "recoverTargets E sourcePath ((k, v) # rest) =
     (if k = GetReferenceKey v then do {
        r \<leftarrow> Stat E v;
        (case r of
           Inr _ \<Rightarrow> ret ()
         | Inl e \<Rightarrow> if IsNotExist e then ret ()
                    else do { _ \<leftarrow> Mount E sourcePath v ''none'' [''bind'']; ret () });
        recoverTargets E sourcePath rest }
      else recoverTargets E sourcePath rest)"

definition podReadyHandler :: "'w ext \<Rightarrow> pod option \<Rightarrow> ('w, gerr + unit) go" where
  "podReadyHandler E pod =
     (case pod of
        None \<Rightarrow> ret (Inr ())
      | Some p \<Rightarrow>
          if pAnnotations p = None then ret (Inr ())
          else case GetMountPathOfPod p of
                 Inl _ \<Rightarrow> ret (Inr ())
               | Inr (mntPath, volumeId) \<Rightarrow> do {
                   src \<leftarrow> bindSourceOf E mntPath volumeId;
                   case src of
                     None \<Rightarrow> ret (Inr ())
                   | Some sourcePath \<Rightarrow> do {
                       recoverTargets E sourcePath (entries (pAnnotations p));
                       ret (Inr ()) } })"

definition podPendingHandler :: "'w ext \<Rightarrow> pod option \<Rightarrow> ('w, gerr + unit) go" where
  "podPendingHandler E pod =
     (case pod of
        None \<Rightarrow> ret (Inr ())
      | Some p \<Rightarrow>
          if Phase (pStatus p) = PodSucceeded then tryM (DeletePod E p) (\<lambda>_. ret (Inr ()))
          else ret (Inr ()))"

text \<open>The table of handlers that \<open>newPodDriver\<close> fills.\<close>

definition handlers :: "'w ext \<Rightarrow> podStatus \<Rightarrow> pod option \<Rightarrow> ('w, gerr + unit) go" where
  "handlers E s =
     (case s of
        podReady \<Rightarrow> podReadyHandler E
      | podError \<Rightarrow> podErrorHandler E
      | podPending \<Rightarrow> podPendingHandler E
      | podDeletedS \<Rightarrow> podDeletedHandler E)"

section \<open>Run\<close>

text \<open>The range loop over the annotations: how many targets exist, and the keys to delete.\<close>

fun targetsLoop :: "(string \<rightharpoonup> bool) \<Rightarrow> nat \<Rightarrow> string list \<Rightarrow> (string \<times> string) list \<Rightarrow> nat \<times> string list" where
  "targetsLoop dp n del [] = (n, del)"
| "targetsLoop dp n del ((k, target) # rest) =
     (if k = GetReferenceKey target
      then (if dp (getPodUid target) = None then targetsLoop dp n (del @ [k]) rest
            else targetsLoop dp (n + 1) del rest)
      else targetsLoop dp n del rest)"

text \<open>The references go only while the pod still has as many as this driver saw.\<close>

definition dropAnnotations :: "'w ext \<Rightarrow> pod \<Rightarrow> string list \<Rightarrow> ('w, gerr + unit) go" where
  "dropAnnotations E current delAnnotations =
     (if length delAnnotations \<noteq> 0 then
        tryM (GetPod E (pName current) (pNamespace current)) (\<lambda>newPod.
          if length (GetAllRefKeys newPod) \<noteq> length (GetAllRefKeys current) then ret (Inl (ApiErr Conflict))
          else DelPodAnnotation E current delAnnotations)
      else ret (Inr ()))"

definition Run :: "'w ext \<Rightarrow> mountInfoTable \<Rightarrow> pod \<Rightarrow> ('w, gerr + unit) go" where
  "Run E mit current =
     (case targetsLoop (deletedPods mit) 0 [] (entries (pAnnotations current)) of
        (existTargets, delAnnotations) \<Rightarrow>
          (let delAnnotations =
                 (if existTargets \<noteq> 0 \<and> mindex (pAnnotations current) DeleteDelayAtKey \<noteq> ''''
                  then delAnnotations @ [DeleteDelayAtKey] else delAnnotations)
           in tryM (dropAnnotations E current delAnnotations) (\<lambda>_.
                if existTargets = 0 \<and> pDeletionTimestamp current = None then do {
                  (shouldDelay, err) \<leftarrow> ShouldDelay E current;
                  case err of
                    Some e \<Rightarrow> ret (Inl e)
                  | None \<Rightarrow>
                      if \<not> shouldDelay then tryM (DeletePod E current) (\<lambda>_. ret (Inr ()))
                      else handlers E (getPodStatus (Some current)) (Some current) }
                else handlers E (getPodStatus (Some current)) (Some current))))"

text \<open>A pod made from another one: same references, same spec, and the finalizer again.\<close>

definition restores :: "pod \<Rightarrow> pod \<Rightarrow> bool" where
  "restores p q \<longleftrightarrow> pName q = pName p \<and> pNamespace q = pNamespace p \<and> pLabels q = pLabels p
     \<and> pAnnotations q = pAnnotations p \<and> pDeletionTimestamp q = None
     \<and> ContainsString (elems (pFinalizers q)) Finalizer"

lemma restores_copy: "restores p (AddFinalizer (copyOfPod p) Finalizer)"
  and pSpec_copy: "pSpec (AddFinalizer (copyOfPod p) Finalizer) = pSpec p"
  by (auto simp: restores_def copyOfPod_def AddFinalizer_def zero_pod_def ContainsString_iff)

lemma restores_without_resources: "restores p (DeleteResourceOfPod (AddFinalizer (copyOfPod p) Finalizer))"
  and pSpec_without_resources: "pSpec (DeleteResourceOfPod (AddFinalizer (copyOfPod p) Finalizer)) = pSpec (DeleteResourceOfPod p)"
  using restores_copy [of p] pSpec_copy [of p] by (simp_all add: restores_def DeleteResourceOfPod_def)

section \<open>Calls\<close>

text \<open>The API server answers a read by name with a pod of that name.\<close>

definition answersByName :: "'w kube_ext \<Rightarrow> bool" where
  "answersByName K \<longleftrightarrow> (\<forall>n ns w q. fst (api_get K n ns w) = Inr q \<longrightarrow> pName q = n \<and> pNamespace q = ns)"

text \<open>The name under which a call changes the pod: that of \<open>p\<close>, or of the pod that was read by that name.\<close>

definition ownPod :: "'w ext \<Rightarrow> pod \<Rightarrow> string \<Rightarrow> string \<Rightarrow> bool" where
  "ownPod E p ns n \<longleftrightarrow> (answersByName (kube E) \<longrightarrow> ns = pNamespace p \<and> n = pName p)"

lemma ownPod_self [simp]: "ownPod E p (pNamespace p) (pName p)"
  by (simp add: ownPod_def)

lemma emits_bind_GetPod:
  assumes "\<And>r. P (EvGetPod (pName p) (pNamespace p) r)"
    and "\<And>r. (\<And>q. r = Inr q \<Longrightarrow> ownPod E p (pNamespace q) (pName q)) \<Longrightarrow> emits P (f r)"
  shows "emits P (State_Monad.bind (GetPod E (pName p) (pNamespace p)) f)"
  unfolding emits_def
proof (intro allI)
  fix w t
  obtain r w' where g: "api_get (kube E) (pName p) (pNamespace p) w = (r, w')" by fastforce
  have "ownPod E p (pNamespace q) (pName q)" if "r = Inr q" for q
    using g that unfolding ownPod_def answersByName_def by (metis fst_conv)
  then have "emits P (f r)" by (rule assms(2))
  then obtain es where "snd (snd (run_state (f r) (w', t @ [EvGetPod (pName p) (pNamespace p) r]))) =
      (t @ [EvGetPod (pName p) (pNamespace p) r]) @ es" "list_all P es"
    unfolding emits_def by blast
  then show "\<exists>es. snd (snd (run_state (State_Monad.bind (GetPod E (pName p) (pNamespace p)) f) (w, t))) = t @ es \<and> list_all P es"
    using assms(1) g by (intro exI [of _ "EvGetPod (pName p) (pNamespace p) r # es"]) (simp add: GetPod_def call_def)
qed

lemmas handler_defs = podErrorHandler_def podDeletedHandler_def podReadyHandler_def podPendingHandler_def

lemma emits_waitPodGone [emits_intros]:
  assumes "\<And>r. P (EvGetPod (pName p) (pNamespace p) r)" and "P (EvSleep 5000)"
    and "\<And>ns n d r. ownPod E p ns n \<Longrightarrow> P (EvPatchPod ns n (JSONPatch [PatchListValue ''replace'' ''/metadata/finalizers'' d]) r)"
  shows "emits P (waitPodGone E p n)"
proof (induction n)
  case (Suc n)
  show ?case
    unfolding waitPodGone.simps
    by (rule emits_bind_GetPod, rule assms(1))
      (auto intro!: emits_intros Suc.IH assms(3) simp: assms(2) Sleep_def split: sum.splits)
qed (simp add: emits_return)

lemma emits_waitPodDeleted [emits_intros]:
  assumes "\<And>r. P (EvGetPod (pName p) (pNamespace p) r)" and "P (EvSleep 5000)"
  shows "emits P (waitPodDeleted E p n)"
  by (induction n) (auto intro!: emits_intros simp: assms Sleep_def)

lemma emits_mountBroken [emits_intros]:
  "(\<And>r. P (EvStat s r)) \<Longrightarrow> (\<And>r. P (EvLikelyNotMountPoint s r)) \<Longrightarrow> emits P (mountBroken E s)"
  unfolding mountBroken_def IsLikelyNotMountPoint_def by (auto intro!: emits_intros)

lemma emits_bindSourceOf [emits_intros]:
  "(\<And>s r. P (EvStat s r)) \<Longrightarrow> emits P (bindSourceOf E m v)"
  unfolding bindSourceOf_def Stat_def by (auto intro!: emits_intros)

lemma emits_recoverTargets [emits_intros]:
  assumes "\<And>s r. P (EvStat s r)"
    and "\<And>v r. (GetReferenceKey v, v) \<in> set as \<Longrightarrow> P (EvMount src v ''none'' [''bind''] r)"
  shows "emits P (recoverTargets E src as)"
  using assms by (induction E src as rule: recoverTargets.induct)
    (auto intro!: emits_intros simp: Stat_def Mount_def)


lemma emits_podErrorHandler:
  assumes "\<And>l. P (Locked l)" "\<And>l. P (Unlocked l)" "\<And>n ns r. P (EvGetPod n ns r)"
    "\<And>n. P (EvSleep n)" "\<And>s r. P (EvStat s r)" "\<And>s r. P (EvLikelyNotMountPoint s r)"
    "\<And>ns n d r. ownPod E p ns n \<Longrightarrow> P (EvPatchPod ns n (JSONPatch [PatchListValue ''replace'' ''/metadata/finalizers'' d]) r)"
    "\<And>q r. restores p q \<Longrightarrow> P (EvCreatePod q r)"
    "\<And>r. (IsPodResourceError p \<longrightarrow> IsPodHasResource p) \<Longrightarrow> P (EvDeletePod (pNamespace p) (pName p) r)"
  shows "emits P (podErrorHandler E (Some p))"
  unfolding podErrorHandler_def redeployWithoutResources_def
  by (auto intro!: emits_intros simp: assms restores_without_resources)

lemma emits_podDeletedHandler:
  assumes "\<And>l. P (Locked l)" "\<And>l. P (Unlocked l)" "\<And>n ns r. P (EvGetPod n ns r)"
    "\<And>n. P (EvSleep n)" "\<And>c r. P (EvExec c [] r)"
    "\<And>ns n d r. ownPod E p ns n \<Longrightarrow> P (EvPatchPod ns n (JSONPatch [PatchListValue ''replace'' ''/metadata/finalizers'' d]) r)"
    "\<And>q r. restores p q \<Longrightarrow> P (EvCreatePod q r)"
  shows "emits P (podDeletedHandler E (Some p))"
  unfolding podDeletedHandler_def recreatePod_def
  by (auto intro!: emits_intros simp: assms restores_copy)

lemma emits_podReadyHandler:
  assumes "\<And>s r. P (EvStat s r)"
    and "\<And>src v r. (GetReferenceKey v, v) \<in> set (entries (pAnnotations p)) \<Longrightarrow> P (EvMount src v ''none'' [''bind''] r)"
  shows "emits P (podReadyHandler E (Some p))"
  unfolding podReadyHandler_def by (auto intro!: emits_intros simp: assms)

lemma emits_podPendingHandler:
  "(\<And>r. Phase (pStatus p) = PodSucceeded \<Longrightarrow> P (EvDeletePod (pNamespace p) (pName p) r)) \<Longrightarrow>
   emits P (podPendingHandler E (Some p))"
  unfolding podPendingHandler_def by (auto intro!: emits_intros)

lemmas emits_handlers = emits_podErrorHandler emits_podDeletedHandler emits_podReadyHandler emits_podPendingHandler

lemma emits_dropAnnotations [emits_intros]:
  "(\<And>n ns r. P (EvGetPod n ns r)) \<Longrightarrow>
   (\<And>r. ks \<noteq> [] \<Longrightarrow> P (EvPatchPod (pNamespace p) (pName p) (JSONPatch (delPayload ks)) r)) \<Longrightarrow>
   emits P (dropAnnotations E p ks)"
  unfolding dropAnnotations_def by (auto intro!: emits_intros)

section \<open>Live and dead references\<close>

definition liveRefs :: "(string \<rightharpoonup> bool) \<Rightarrow> (string \<times> string) list \<Rightarrow> (string \<times> string) list" where
  "liveRefs dp as = filter (\<lambda>(k, v). k = GetReferenceKey v \<and> dp (getPodUid v) \<noteq> None) as"

definition deadRefs :: "(string \<rightharpoonup> bool) \<Rightarrow> (string \<times> string) list \<Rightarrow> (string \<times> string) list" where
  "deadRefs dp as = filter (\<lambda>(k, v). k = GetReferenceKey v \<and> dp (getPodUid v) = None) as"

lemma targetsLoop_refs:
  "targetsLoop dp n del as = (n + length (liveRefs dp as), del @ map fst (deadRefs dp as))"
  by (induction dp n del as rule: targetsLoop.induct) (auto simp: liveRefs_def deadRefs_def)

text \<open>The keys \<open>Run\<close> removes.\<close>

definition droppedKeys :: "mountInfoTable \<Rightarrow> pod \<Rightarrow> string list" where
  "droppedKeys mit p =
     (let as = entries (pAnnotations p); dp = deletedPods mit
      in map fst (deadRefs dp as) @
         (if liveRefs dp as \<noteq> [] \<and> mindex (pAnnotations p) DeleteDelayAtKey \<noteq> ''''
          then [DeleteDelayAtKey] else []))"

lemma Run_refs:
  "Run E mit p = tryM (dropAnnotations E p (droppedKeys mit p)) (\<lambda>_.
     if liveRefs (deletedPods mit) (entries (pAnnotations p)) = [] \<and> pDeletionTimestamp p = None then do {
       (shouldDelay, err) \<leftarrow> ShouldDelay E p;
       case err of
         Some e \<Rightarrow> ret (Inl e)
       | None \<Rightarrow> if \<not> shouldDelay then tryM (DeletePod E p) (\<lambda>_. ret (Inr ()))
                 else handlers E (getPodStatus (Some p)) (Some p) }
     else handlers E (getPodStatus (Some p)) (Some p))"
  unfolding Run_def targetsLoop_refs droppedKeys_def Let_def
  by (cases "liveRefs (deletedPods mit) (entries (pAnnotations p))") simp_all

section \<open>When a pod is deleted\<close>

text \<open>
  The only pod \<open>Run\<close> may delete is the one it looks at, and only when that is not
  already being deleted and: no existing pod refers to it; or it failed (and, when
  it failed for lack of resources, it asks for some); or it has completed.
\<close>

definition deleteJustified :: "mountInfoTable \<Rightarrow> pod \<Rightarrow> event \<Rightarrow> bool" where
  "deleteJustified mit p e =
     (case e of
        EvDeletePod ns n r \<Rightarrow>
          ns = pNamespace p \<and> n = pName p \<and> pDeletionTimestamp p = None \<and>
          (liveRefs (deletedPods mit) (entries (pAnnotations p)) = []
           \<or> IsPodError p \<and> (IsPodResourceError p \<longrightarrow> IsPodHasResource p)
           \<or> \<not> IsPodError p \<and> \<not> IsPodReady p \<and> Phase (pStatus p) = PodSucceeded)
      | _ \<Rightarrow> True)"

lemma emits_handlers_delete:
  "emits (deleteJustified mit p) (handlers E (getPodStatus (Some p)) (Some p))"
  unfolding handlers_def getPodStatus_def by (auto simp: deleteJustified_def intro!: emits_handlers)

lemma emits_Run_delete: "emits (deleteJustified mit p) (Run E mit p)"
  unfolding Run_refs by (intro emits_intros emits_handlers_delete) (auto simp: deleteJustified_def)

text \<open>
  What \<open>Run\<close> does to pods leaves the references of existing pods alone: no patch can change or remove their
  annotations, a pod that is created has all annotations of the pod \<open>Run\<close> looks at, and no pod is overwritten.
\<close>

definition keepsLiveRefs :: "mountInfoTable \<Rightarrow> pod \<Rightarrow> event \<Rightarrow> bool" where
  "keepsLiveRefs mit p e =
     (case e of
        EvPatchPod ns n d r \<Rightarrow>
          list_all (\<lambda>(k, v). keepsAnnotation k d) (liveRefs (deletedPods mit) (entries (pAnnotations p)))
      | EvCreatePod q r \<Rightarrow> restores p q
      | EvUpdatePod q r \<Rightarrow> False
      | _ \<Rightarrow> True)"

text \<open>The pods that are deleted, patched or created have the name of the pod \<open>Run\<close> looks at.\<close>

definition changesOwn :: "pod \<Rightarrow> event \<Rightarrow> bool" where
  "changesOwn p e =
     (case e of
        EvPatchPod ns n d r \<Rightarrow> ns = pNamespace p \<and> n = pName p
      | EvDeletePod ns n r \<Rightarrow> ns = pNamespace p \<and> n = pName p
      | EvCreatePod q r \<Rightarrow> pNamespace q = pNamespace p \<and> pName q = pName p
      | EvUpdatePod q r \<Rightarrow> False
      | _ \<Rightarrow> True)"

lemma live_not_dropped:
  assumes "map_ok (pAnnotations p)" and "(k, v) \<in> set (liveRefs (deletedPods mit) (entries (pAnnotations p)))"
  shows "k \<notin> set (droppedKeys mit p)"
proof
  assume d: "k \<in> set (droppedKeys mit p)"
  have k: "k = GetReferenceKey v" "(k, v) \<in> set (entries (pAnnotations p))"
      "deletedPods mit (getPodUid v) \<noteq> None"
    using assms(2) by (auto simp: liveRefs_def)
  have "k \<noteq> DeleteDelayAtKey" unfolding k(1) by (rule key_not_delay)
  with d have "k \<in> fst ` set (deadRefs (deletedPods mit) (entries (pAnnotations p)))"
    by (simp add: droppedKeys_def Let_def split: if_splits)
  then obtain v' where v': "(k, v') \<in> set (entries (pAnnotations p))" "deletedPods mit (getPodUid v') = None"
    unfolding deadRefs_def by force
  have "v' = v"
    using assms(1) v'(1) k(2) unfolding map_ok_def by (rule eq_key_imp_eq_value)
  with v' k show False by simp
qed

section \<open>Stale references and unused pods\<close>

section \<open>Recovery\<close>

text \<open>What may happen between the unmount and the creation of the new pod.\<close>

definition recreateWait :: "pod \<Rightarrow> string \<Rightarrow> event \<Rightarrow> bool" where
  "recreateWait p src e =
     (case e of
        EvExec c env r \<Rightarrow> c = [''umount'', ''-l'', src] \<and> env = []
      | EvGetPod n ns r \<Rightarrow> n = pName p \<and> ns = pNamespace p
      | EvSleep ms \<Rightarrow> ms = 5000
      | _ \<Rightarrow> False)"

lemma traces_recreatePod:
  "traces (recreatePod E p) (\<lambda>_ es. \<exists>mid c. es = mid @ [EvCreatePod (AddFinalizer (copyOfPod p) Finalizer) c]
     \<and> list_all (recreateWait p src) mid)"
proof -
  have w: "traces (waitPodDeleted E p 30) (\<lambda>_ es. list_all (recreateWait p src) es)"
    by (intro emits_waitPodDeleted [unfolded emits_traces]) (auto simp: recreateWait_def)
  show ?thesis
    unfolding recreatePod_def
    by (rule traces_bind [OF w], rule traces_bind [OF traces_CreatePod]) (auto intro!: traces_return)
qed

lemma traces_umount_recreate:
  "traces (do { UmountPath E src; recreatePod E p; ret (Inr ()) })
     (\<lambda>r es. r = Inr () \<and> (\<exists>u mid c. es = EvExec [''umount'', src] [] u # mid @
        [EvCreatePod (AddFinalizer (copyOfPod p) Finalizer) c] \<and> list_all (recreateWait p src) mid))"
  (is "traces ?m ?T")
proof (rule traces_bind [OF traces_UmountPath], elim exE conjE)
  fix es u rest
  assume es: "es = EvExec [''umount'', src] [] u # rest"
    and rest: "list_all (\<lambda>e. \<exists>r. e = EvExec [''umount'', ''-l'', src] [] r) rest"
  have 1: "list_all (recreateWait p src) rest"
    using rest unfolding recreateWait_def by (rule list.pred_mono_strong) auto
  have "?T (Inr ()) (es @ mid @ [EvCreatePod (AddFinalizer (copyOfPod p) Finalizer) c])"
    if "list_all (recreateWait p src) mid" for mid c
    unfolding es using 1 that by (intro conjI refl exI [of _ u] exI [of _ "rest @ mid"] exI [of _ c]) simp_all
  then show "traces (do { recreatePod E p; ret (Inr ()) }) (\<lambda>r es'. ?T r (es @ es'))"
    by (intro traces_bind [OF traces_recreatePod [where src = src]] traces_return) (elim exE conjE, simp only: append_Nil2)
qed

text \<open>The patch that takes the driver's finalizer off a pod.\<close>

definition finalizerPatch :: "pod \<Rightarrow> patch" where
  "finalizerPatch p = JSONPatch [PatchListValue ''replace'' ''/metadata/finalizers''
     (withoutFinalizer (pFinalizers p) Finalizer)]"

lemma traces_RemoveFinalizer:
  "traces (RemoveFinalizer E p Finalizer)
     (\<lambda>r es. es = [EvPatchPod (pNamespace p) (pName p) (finalizerPatch p) r])"
  unfolding RemoveFinalizer_def Let_def finalizerPatch_def
  by (rule traces_tryM [OF traces_PatchPod]) (auto intro: traces_return)

text \<open>
  The calls that bring a deleted pod back. After the finalizer is off: lock, unmount,
  wait, create the pod again, unlock.
\<close>

definition recreateTrace :: "pod \<Rightarrow> string \<Rightarrow> gerr + unit \<Rightarrow> event list \<Rightarrow> bool" where
  "recreateTrace p src r es \<longleftrightarrow> (\<exists>pr rest.
    es = EvPatchPod (pNamespace p) (pName p) (finalizerPatch p) pr # rest \<and>
    (case pr of
       Inl e \<Rightarrow> r = Inl e \<and> rest = []
     | Inr _ \<Rightarrow> r = Inr () \<and> (\<exists>u mid q c.
         rest = Locked (PodLock (GetPodLock (pName p))) # EvExec [''umount'', src] [] u # mid @
           [EvCreatePod q c, Unlocked (PodLock (GetPodLock (pName p)))] \<and>
         restores p q \<and> pSpec q = pSpec p \<and> list_all (recreateWait p src) mid)))"

section \<open>Redeployment without resources\<close>

definition goneWait :: "pod \<Rightarrow> event \<Rightarrow> bool" where
  "goneWait p e =
     (case e of
        EvGetPod n ns r \<Rightarrow> n = pName p \<and> ns = pNamespace p
      | EvPatchPod ns n (JSONPatch [PatchListValue op path v]) r \<Rightarrow> path = ''/metadata/finalizers''
      | EvSleep ms \<Rightarrow> ms = 5000
      | _ \<Rightarrow> False)"

lemma hasRequests_dropResources: "\<not> hasRequests (map dropResources cs)"
  by (induction cs) (simp_all add: dropResources_def)

lemma no_resources: "\<not> IsPodHasResource (DeleteResourceOfPod p)"
  by (simp add: IsPodHasResource_def DeleteResourceOfPod_def hasRequests_dropResources)

text \<open>
  The calls that redeploy a pod that failed for lack of resources: under the pod's
  lock, take the finalizer off, delete the pod, wait until it is gone, and create it
  again without resource requests; a failed patch or delete ends the work.
\<close>

definition redeployTrace :: "pod \<Rightarrow> gerr + unit \<Rightarrow> event list \<Rightarrow> bool" where
  "redeployTrace p r es \<longleftrightarrow> (\<exists>pr rest.
    es = Locked (PodLock (GetPodLock (pName p))) #
      EvPatchPod (pNamespace p) (pName p) (finalizerPatch p) pr # rest @ [Unlocked (PodLock (GetPodLock (pName p)))] \<and>
    (case pr of
       Inl e \<Rightarrow> r = Inl e \<and> rest = []
     | Inr _ \<Rightarrow> (\<exists>dr rest'. rest = EvDeletePod (pNamespace p) (pName p) dr # rest' \<and>
         (case dr of
            Inl e \<Rightarrow> r = Inl e \<and> rest' = []
          | Inr _ \<Rightarrow> r = Inr () \<and> (\<exists>mid q c. rest' = mid @ [EvCreatePod q c] \<and> restores p q \<and>
              pSpec q = pSpec (DeleteResourceOfPod p) \<and> \<not> IsPodHasResource q \<and> list_all (goneWait p) mid)))))"

section \<open>Recovery of the targets\<close>

text \<open>
  The expected calls for a list of targets: each is looked at once, in order, and
  bound again directly after that look exactly when it exists but cannot be read.
\<close>

definition brokenTarget :: "gerr + file_info \<Rightarrow> bool" where
  "brokenTarget r = (case r of Inl e \<Rightarrow> \<not> IsNotExist e | Inr _ \<Rightarrow> False)"

primrec recovered :: "string \<Rightarrow> string list \<Rightarrow> event list \<Rightarrow> bool" where
  "recovered src [] es \<longleftrightarrow> es = []"
| "recovered src (v # vs) es \<longleftrightarrow>
     (case es of
        EvStat v' r # rest \<Rightarrow> v' = v \<and>
          (if brokenTarget r
           then (case rest of
                   EvMount src' v'' fs opts m # rest' \<Rightarrow>
                     src' = src \<and> v'' = v \<and> fs = ''none'' \<and> opts = [''bind''] \<and> recovered src vs rest'
                 | _ \<Rightarrow> False)
           else recovered src vs rest)
      | _ \<Rightarrow> False)"

text \<open>
  The calls of the handler on a pod mounted at \<open>mnt\<close>: the volume's directory decides
  the source, the mount itself is the source when there is no such directory, and
  nothing is bound when neither can be read.
\<close>

definition readyTrace :: "string \<Rightarrow> string \<Rightarrow> string list \<Rightarrow> event list \<Rightarrow> bool" where
  "readyTrace mnt vol targets es =
     (case es of
        EvStat p s1 # rest \<Rightarrow> p = mnt @ ''/'' @ vol \<and>
          (case s1 of
             Inr _ \<Rightarrow> recovered (mnt @ ''/'' @ vol) targets rest
           | Inl e \<Rightarrow>
               if IsNotExist e
               then (case rest of
                       EvStat p s2 # rest' \<Rightarrow> p = mnt \<and>
                         (case s2 of Inl _ \<Rightarrow> rest' = [] | Inr _ \<Rightarrow> recovered mnt targets rest')
                     | _ \<Rightarrow> False)
               else rest = [])
      | _ \<Rightarrow> False)"

lemma traces_recoverTargets: "traces (recoverTargets E src as) (\<lambda>_ es. recovered src (refTargets as) es)"
proof (induction E src as rule: recoverTargets.induct)
  case (1 E src)
  then show ?case by (auto intro: traces_return)
next
  case (2 E src k v rest)
  show ?case
  proof (cases "k = GetReferenceKey v")
    case True
    have look: "traces (case r of Inr _ \<Rightarrow> ret () | Inl e \<Rightarrow> if IsNotExist e then ret ()
        else do { _ \<leftarrow> Mount E src v ''none'' [''bind'']; ret () })
        (\<lambda>_ es. if brokenTarget r then \<exists>m. es = [EvMount src v ''none'' [''bind''] m] else es = [])" for r
      unfolding Mount_def brokenTarget_def
      by (auto intro!: traces_return traces_bind_call split: sum.splits)
    have "traces (do { (case r of Inr _ \<Rightarrow> ret () | Inl e \<Rightarrow> if IsNotExist e then ret ()
        else do { _ \<leftarrow> Mount E src v ''none'' [''bind'']; ret () }); recoverTargets E src rest })
        (\<lambda>_ es. recovered src (v # refTargets rest) (EvStat v r # es))" for r
      by (rule traces_bind [OF look], rule traces_mono [OF "2.IH"(1) [OF True]]) (auto split: if_splits)
    then show ?thesis using True by (simp add: Stat_def traces_bind_call del: recovered.simps(2))
  next
    case False
    with "2.IH"(2) show ?thesis by simp
  qed
qed

section \<open>An example pod\<close>

definition exTarget :: string where
  "exTarget = csiTarget ''/var/lib/kubelet/pods'' ''u1'' ''pv1'' ''mount''"

definition exContainer :: container where
  "exContainer = \<lparr>cName = ''jfs-mount'', cImage = ''img'',
     cCommand = Some [''sh'', ''-c'', ''/sbin/mount.juicefs vol1 /mosfs/pv1 -o foreground''], cPrivileged = True,
     cResources = \<lparr>Limits = None, Requests = Some [(''cpu'', ''1'')]\<rparr>, cEnv = [], cPorts = [],
     cVolumeMounts = [], cPreStop = None\<rparr>"

definition exPod :: pod where
  "exPod = zero_pod\<lparr>pName := ''mosfs-node1-pv1'', pNamespace := ''kube-system'',
     pLabels := Some [(PodTypeKey, PodTypeValue)],
     pAnnotations := Some [(GetReferenceKey exTarget, exTarget)], pFinalizers := Some [Finalizer],
     pSpec := zero_spec\<lparr>Containers := [exContainer]\<rparr>\<rparr>"

text \<open>The same pod, evicted for lack of memory.\<close>

definition exFailedPod :: pod where
  "exFailedPod = exPod\<lparr>pStatus := zero_status\<lparr>Phase := PodFailed, statusReason := ''OutOfmemory''\<rparr>\<rparr>"

definition exMit :: "string list \<Rightarrow> mountInfoTable" where
  "exMit uids = \<lparr>mis = [], deletedPods = (\<lambda>u. if u \<in> set uids then Some False else None)\<rparr>"

lemma exTarget_uid: "getPodUid exTarget = ''u1''"
  unfolding exTarget_def by (rule getPodUid_csiTarget) simp_all

lemma exPod_path: "GetMountPathOfPod exPod = Inr (''/mosfs/pv1'', ''pv1'')"
proof -
  have "ParseMntPath ''/sbin/mount.juicefs vol1 /mosfs/pv1 -o foreground'' = Inr (''/mosfs/pv1'', ''pv1'')"
    by code_simp
  then show ?thesis by (simp add: GetMountPathOfPod_def exPod_def exContainer_def)
qed

lemma exPod_fields:
  "pName exPod = ''mosfs-node1-pv1''" "pNamespace exPod = ''kube-system''"
  "entries (pAnnotations exPod) = [(GetReferenceKey exTarget, exTarget)]" "\<exists>as. pAnnotations exPod = Some as"
  "pDeletionTimestamp exPod = None" "\<not> IsPodResourceError exPod"
  "ContainsString (elems (pFinalizers exPod)) Finalizer" "map_ok (pAnnotations exPod)"
  "mlookup (pAnnotations exPod) DeleteDelayTimeKey = None" "mindex (pAnnotations exPod) DeleteDelayAtKey = ''''"
  "refTargets (entries (pAnnotations exPod)) = [exTarget]"
  using key_not_delay [of exTarget]
  by (simp_all add: exPod_def zero_pod_def zero_status_def IsPodResourceError_def map_ok_def mlookup_def mindex_def)

lemma exFailedPod_fields: "IsPodResourceError exFailedPod" "IsPodHasResource exFailedPod"
  by (simp_all add: exFailedPod_def exPod_def exContainer_def IsPodResourceError_def IsPodHasResource_def
      Contains_def HasPrefix_def)

lemma exPod_dead: "liveRefs (deletedPods (exMit [])) (entries (pAnnotations exPod)) = []"
  "droppedKeys (exMit []) exPod = [GetReferenceKey exTarget]"
  by (simp_all add: droppedKeys_def liveRefs_def deadRefs_def exMit_def exPod_fields)

section \<open>Patches\<close>

lemma droppedKeys_plain: "list_all (\<lambda>k. CHR ''~'' \<notin> set k) (droppedKeys mit p)"
  by (auto simp: list_all_iff droppedKeys_def Let_def deadRefs_def DeleteDelayAtKey_def dest: rk.key_plain split: if_splits)

lemma emits_Run_patch:
  assumes "map_ok (pAnnotations p)"
  shows "emits (keepsLiveRefs mit p) (Run E mit p)"
proof -
  have dropped: "keepsLiveRefs mit p (EvPatchPod ns n (JSONPatch (delPayload (droppedKeys mit p))) r)" for ns n r
    using live_not_dropped [OF assms] by (auto simp: keepsLiveRefs_def list_all_iff keepsAnnotation_delPayload [OF droppedKeys_plain])
  have "emits (keepsLiveRefs mit p) (handlers E s (Some p))" for s
    unfolding handlers_def
    by (auto simp: keepsLiveRefs_def list_all_iff split: podStatus.splits intro!: emits_handlers)
  moreover have "emits (keepsLiveRefs mit p) (ShouldDelay E p)"
    by (intro emits_intros) (auto simp: keepsLiveRefs_def list_all_iff liveRefs_def mlookup_def key_not_delay)
  ultimately show ?thesis
    unfolding Run_refs by (intro emits_intros dropped) (auto simp: keepsLiveRefs_def)
qed

lemma emits_Run_own:
  assumes "answersByName (kube E)"
  shows "emits (changesOwn p) (Run E mit p)"
proof -
  have "emits (changesOwn p) (handlers E s (Some p))" for s
    unfolding handlers_def
    by (auto simp: changesOwn_def ownPod_def restores_def assms split: podStatus.splits intro!: emits_handlers)
  moreover have "emits (changesOwn p) (ShouldDelay E p)" by (intro emits_intros) (auto simp: changesOwn_def)
  ultimately show ?thesis unfolding Run_refs by (intro emits_intros) (auto simp: changesOwn_def)
qed

section \<open>Properties\<close>

text \<open>
  C3: Whatever the API server and the node answer, the only pod \<open>Run\<close> may delete is the
  mount pod it looks at; that pod is not already being deleted, and no existing pod refers
  to it, or it has failed (and asks for resources if it failed for lack of them), or it has
  completed without being ready.
\<close>

theorem Run_deletes_only_unused: "emits (deleteJustified mit p) (Run E mit p)"
  by (rule emits_Run_delete)

text \<open>
  C6: No patch that \<open>Run\<close> sends, itself or through a handler, can change or remove the annotation of a reference
  whose pod still exists, be it by a removal, by replacing the annotations or by a merge; a pod that is created
  again carries all annotations of the old one. On a server that answers reads by name all these calls are for
  the mount pod that \<open>Run\<close> looks at. (The keys of the annotations are distinct, as those of every Go map.)
\<close>

theorem Run_keeps_live_refs:
  assumes "map_ok (pAnnotations p)"
  shows "emits (keepsLiveRefs mit p) (Run E mit p) \<and> (answersByName (kube E) \<longrightarrow> emits (changesOwn p) (Run E mit p))"
  using emits_Run_patch [OF assms] emits_Run_own by blast

theorem Run_keeps_live_refs_witness:
  "liveRefs (deletedPods (exMit [''u1''])) (entries (pAnnotations exPod)) \<noteq> []
   \<and> emits (keepsLiveRefs (exMit [''u1'']) exPod) (Run E0 (exMit [''u1'']) exPod)
   \<and> emits (changesOwn exPod) (Run E0 (exMit [''u1'']) exPod)"
proof (intro conjI)
  show "liveRefs (deletedPods (exMit [''u1''])) (entries (pAnnotations exPod)) \<noteq> []"
    by (simp add: exPod_fields liveRefs_def exMit_def exTarget_uid del: not_None_eq)
  have "answersByName (kube E0)" by (simp add: answersByName_def E0_def kube0_def)
  then show "emits (keepsLiveRefs (exMit [''u1'']) exPod) (Run E0 (exMit [''u1'']) exPod)"
    "emits (changesOwn exPod) (Run E0 (exMit [''u1'']) exPod)"
    using Run_keeps_live_refs [OF exPod_fields(8), of "exMit [''u1'']" E0] by blast+
qed

text \<open>
  C13: A mount pod that is being deleted although targets still refer to it is brought back. Once
  the patch that takes the finalizer off has succeeded, the handler locks the pod, unmounts the
  mount point, waits, creates a pod with the same name, labels, references and spec and with the
  finalizer, and unlocks; it never returns without that creation. If the patch fails, nothing
  else is done and its error is returned.
\<close>

theorem podDeletedHandler_recreates:
  assumes "ContainsString (elems (pFinalizers p)) Finalizer" and "\<not> IsPodResourceError p"
    and "refTargets (entries (pAnnotations p)) \<noteq> []" and "GetMountPathOfPod p = Inr (src, vol)"
  shows "traces (podDeletedHandler E (Some p)) (recreateTrace p src)"
proof -
  have ann: "pAnnotations p \<noteq> None" using assms(3) by (cases "pAnnotations p") auto
  let ?q = "AddFinalizer (copyOfPod p) Finalizer"
  let ?l = "PodLock (GetPodLock (pName p))"
  have body: "traces (withLock ?l (do { UmountPath E src; recreatePod E p; ret (Inr ()) }))
     (\<lambda>r es. r = Inr () \<and> (\<exists>u mid q c. es = Locked ?l # EvExec [''umount'', src] [] u # mid @
        [EvCreatePod q c, Unlocked ?l] \<and> restores p q \<and> pSpec q = pSpec p \<and> list_all (recreateWait p src) mid))"
    by (rule traces_withLock, rule traces_mono [OF traces_umount_recreate], elim exE conjE)
      (intro conjI exI [of _ ?q] exI restores_copy pSpec_copy; simp)
  show ?thesis
    unfolding podDeletedHandler_def recreateTrace_def using assms ann
    by (auto intro!: traces_tryM [OF traces_RemoveFinalizer] traces_mono [OF body])
qed

theorem podDeletedHandler_recreates_witness:
  "refTargets (entries (pAnnotations exPod)) = [exTarget]
   \<and> traces (podDeletedHandler E0 (Some exPod)) (recreateTrace exPod ''/mosfs/pv1'')"
  using podDeletedHandler_recreates [of exPod "''/mosfs/pv1''" "''pv1''" E0] exPod_path
  by (simp add: exPod_fields)

text \<open>
  C14: A mount pod that failed for lack of resources and asks for some is redeployed without
  resource requests and with its references, under the pod's lock and after the old pod was
  deleted. The new pod asks for nothing, so it is not redeployed a second time. When the finalizer
  cannot be taken off or the pod cannot be deleted, nothing is created and that error is returned
  (also when the pod is not found, where \<open>pod_driver_test.go\<close> expects none).
\<close>

theorem podErrorHandler_redeploys:
  assumes "IsPodResourceError p" and "IsPodHasResource p"
  shows "traces (podErrorHandler E (Some p)) (redeployTrace p)"
proof -
  let ?q = "DeleteResourceOfPod (AddFinalizer (copyOfPod p) Finalizer)"
  have w: "traces (waitPodGone E p 30) (\<lambda>_ es. list_all (goneWait p) es)"
    by (intro emits_waitPodGone [unfolded emits_traces]) (auto simp: goneWait_def)
  have create: "traces (do { waitPodGone E p 30; _ \<leftarrow> CreatePod E ?q; ret (Inr ()) })
     (\<lambda>r es. r = Inr () \<and> (\<exists>mid q c. es = mid @ [EvCreatePod q c] \<and> restores p q \<and>
        pSpec q = pSpec (DeleteResourceOfPod p) \<and> \<not> IsPodHasResource q \<and> list_all (goneWait p) mid))"
    using restores_without_resources pSpec_without_resources no_resources
    by (intro traces_bind [OF w] traces_bind [OF traces_CreatePod] traces_return) auto
  show ?thesis
    unfolding podErrorHandler_def redeployWithoutResources_def redeployTrace_def Let_def using assms
    by (simp add: traces_withLock)
      (intro traces_withLock traces_tryM [OF traces_RemoveFinalizer] traces_tryM [OF traces_DeletePod]
        traces_mono [OF create]; force)
qed

theorem podErrorHandler_redeploys_witness:
  "IsPodResourceError exFailedPod \<and> IsPodHasResource exFailedPod
   \<and> traces (podErrorHandler E0 (Some exFailedPod)) (redeployTrace exFailedPod)"
  using podErrorHandler_redeploys [of exFailedPod E0] by (simp add: exFailedPod_fields)

text \<open>
  C22: For a ready mount pod each referring target is looked at exactly once, and is bound again
  exactly when it exists but cannot be read; the source of the bind mount is the volume's
  directory, or the mount itself when the volume has none, and nothing is bound when the source
  cannot be read.
\<close>

theorem podReadyHandler_recovers:
  assumes "GetMountPathOfPod p = Inr (mnt, vol)"
  shows "traces (podReadyHandler E (Some p)) (\<lambda>r es. r = Inr () \<and>
    (if pAnnotations p = None then es = [] else readyTrace mnt vol (refTargets (entries (pAnnotations p))) es))"
proof (cases "pAnnotations p")
  case None
  then show ?thesis by (auto simp: podReadyHandler_def intro: traces_return)
next
  case (Some as)
  have rec: "traces (do { recoverTargets E src as; ret (Inr ()) })
      (\<lambda>r es. r = Inr () \<and> recovered src (refTargets as) es)" for src
    by (rule traces_bind [OF traces_recoverTargets]) (auto intro: traces_return)
  show ?thesis
    unfolding podReadyHandler_def bindSourceOf_def Stat_def Let_def using Some assms
    by (auto simp: readyTrace_def intro!: traces_bind_call traces_return traces_mono [OF rec] split: sum.splits)
qed

theorem podReadyHandler_recovers_witness:
  "traces (podReadyHandler E0 (Some exPod)) (\<lambda>r es. r = Inr () \<and> readyTrace ''/mosfs/pv1'' ''pv1'' [exTarget] es)"
proof -
  have "pAnnotations exPod \<noteq> None" using exPod_fields(4) by blast
  then show ?thesis
    using podReadyHandler_recovers [OF exPod_path, of E0] by (simp add: exPod_fields(11) del: not_None_eq)
qed

text \<open>
  C39: References are dropped on fresh information only: when \<open>Run\<close> has keys to drop and the API
  server's pod has another number of references than the pod \<open>Run\<close> was given, \<open>Run\<close> returns a
  conflict and has done nothing but that read.
\<close>

theorem Run_conflict:
  assumes "droppedKeys mit p \<noteq> []"
    and "api_get (kube E) (pName p) (pNamespace p) w = (Inr q, w')"
    and "length (GetAllRefKeys q) \<noteq> length (GetAllRefKeys p)"
  shows "run_state (Run E mit p) (w, t) =
    (Inl (ApiErr Conflict), w', t @ [EvGetPod (pName p) (pNamespace p) (Inr q)])"
  unfolding run_state_iff_wp Run_refs dropAnnotations_def using assms by (simp add: wp_simps)

theorem Run_conflict_witness:
  "run_state (Run (E0\<lparr>kube := kube0\<lparr>api_get := \<lambda>n ns w. (Inr zero_pod, w)\<rparr>\<rparr>) (exMit []) exPod) ((), []) =
     (Inl (ApiErr Conflict), (), [EvGetPod ''mosfs-node1-pv1'' ''kube-system'' (Inr zero_pod)])"
proof -
  have "length (GetAllRefKeys zero_pod) \<noteq> length (GetAllRefKeys exPod)"
    by (simp add: GetAllRefKeys_def exPod_fields mput_def) (simp add: zero_pod_def)
  then show ?thesis
    using Run_conflict [of "exMit []" exPod "E0\<lparr>kube := kube0\<lparr>api_get := \<lambda>n ns w. (Inr zero_pod, w)\<rparr>\<rparr>" "()" zero_pod "()" "[]"]
    by (simp add: exPod_dead exPod_fields)
qed

text \<open>
  C30: A mount pod without live references, without a configured delay and not being deleted is
  deleted as soon as its stale references are dropped: the delete request is the last call of
  \<open>Run\<close>, and its result is the result of \<open>Run\<close>.
\<close>

theorem Run_deletes_unused:
  assumes "liveRefs (deletedPods mit) (entries (pAnnotations p)) = []" and "pDeletionTimestamp p = None"
    and "mlookup (pAnnotations p) DeleteDelayTimeKey = None"
    and "run_state (dropAnnotations E p (droppedKeys mit p)) (w, t) = (Inr (), w1, t1)"
    and "api_delete (kube E) (pNamespace p) (pName p) w1 = (r, w2)"
  shows "run_state (Run E mit p) (w, t) = (r, w2, t1 @ [EvDeletePod (pNamespace p) (pName p) r])"
  using assms(1-3,5) unfolding run_state_iff_wp Run_refs
  by (simp add: wp_simps ShouldDelay_unset run_state_wp [OF assms(4)] split: sum.splits)

theorem Run_deletes_unused_witness:
  "run_state (Run (E0\<lparr>kube := kube0\<lparr>api_get := \<lambda>n ns w. (Inr exPod, w)\<rparr>\<rparr>) (exMit []) exPod) ((), []) =
     (Inr (), (), [EvGetPod ''mosfs-node1-pv1'' ''kube-system'' (Inr exPod),
       EvPatchPod ''kube-system'' ''mosfs-node1-pv1'' (JSONPatch (delPayload [GetReferenceKey exTarget])) (Inr ()),
       EvDeletePod ''kube-system'' ''mosfs-node1-pv1'' (Inr ())])"
proof -
  let ?E = "E0\<lparr>kube := kube0\<lparr>api_get := \<lambda>n ns w. (Inr exPod, w)\<rparr>\<rparr>"
  have "run_state (dropAnnotations ?E exPod (droppedKeys (exMit []) exPod)) ((), []) =
     (Inr (), (), [EvGetPod ''mosfs-node1-pv1'' ''kube-system'' (Inr exPod),
       EvPatchPod ''kube-system'' ''mosfs-node1-pv1'' (JSONPatch (delPayload [GetReferenceKey exTarget])) (Inr ())])"
    unfolding run_state_iff_wp dropAnnotations_def exPod_dead(2)
    by (simp add: wp_simps exPod_fields kube0_def)
  from Run_deletes_unused [OF exPod_dead(1) exPod_fields(5,9) this, of "Inr ()" "()"]
  show ?thesis by (simp add: exPod_fields kube0_def)
qed

end
