(* ===== verification/Backoff.thy ===== *)
theory Backoff
  imports Prelude
begin

text \<open>
  The per-item exponential back-off of the vendored \<open>client-go/util/flowcontrol\<close>
  that the polling reconciler uses (\<open>NewBackOff\<close>, hence without jitter). Durations
  and instants are nanoseconds. The back-off of an item stays between the initial
  and the greatest duration, and doubles at each failure until it is capped.
\<close>

record backoffEntry =
  backoff :: int
  lastUpdate :: int

record Backoff =
  defaultDuration :: int
  maxDuration :: int
  perItemBackoff :: "string \<rightharpoonup> backoffEntry"

definition NewBackOff :: "int \<Rightarrow> int \<Rightarrow> Backoff" where
  "NewBackOff initial mx = \<lparr>defaultDuration = initial, maxDuration = mx, perItemBackoff = Map.empty\<rparr>"

definition hasExpired :: "int \<Rightarrow> int \<Rightarrow> int \<Rightarrow> bool" where
  "hasExpired eventTime prev mx \<longleftrightarrow> eventTime - prev > mx * 2"

definition GetBackoff :: "Backoff \<Rightarrow> string \<Rightarrow> int" where
  "GetBackoff b i = (case perItemBackoff b i of None \<Rightarrow> 0 | Some entry \<Rightarrow> backoff entry)"

text \<open>\<open>Next\<close>; \<open>now\<close> is what the back-off's clock shows at its end.\<close>

definition NextBackoff :: "Backoff \<Rightarrow> string \<Rightarrow> int \<Rightarrow> int \<Rightarrow> Backoff" where
  "NextBackoff b i eventTime now =
     (let fresh = b\<lparr>perItemBackoff := (perItemBackoff b)(i \<mapsto> \<lparr>backoff = defaultDuration b, lastUpdate = now\<rparr>)\<rparr>
      in case perItemBackoff b i of
           None \<Rightarrow> fresh
         | Some entry \<Rightarrow>
             if hasExpired eventTime (lastUpdate entry) (maxDuration b) then fresh
             else b\<lparr>perItemBackoff := (perItemBackoff b)(i \<mapsto>
                    \<lparr>backoff = min (backoff entry * 2) (maxDuration b), lastUpdate = now\<rparr>)\<rparr>)"

definition ResetBackoff :: "Backoff \<Rightarrow> string \<Rightarrow> Backoff" where
  "ResetBackoff b i = b\<lparr>perItemBackoff := (perItemBackoff b)(i := None)\<rparr>"

definition IsInBackOffSinceUpdate :: "Backoff \<Rightarrow> string \<Rightarrow> int \<Rightarrow> bool" where
  "IsInBackOffSinceUpdate b i eventTime =
     (case perItemBackoff b i of
        None \<Rightarrow> False
      | Some entry \<Rightarrow>
          if hasExpired eventTime (lastUpdate entry) (maxDuration b) then False
          else eventTime - lastUpdate entry < backoff entry)"

definition GCBackoff :: "Backoff \<Rightarrow> int \<Rightarrow> Backoff" where
  "GCBackoff b now = b\<lparr>perItemBackoff := (\<lambda>i. case perItemBackoff b i of
     None \<Rightarrow> None
   | Some entry \<Rightarrow> if now - lastUpdate entry > maxDuration b * 2 then None else Some entry)\<rparr>"

section \<open>Invariant\<close>

definition backoff_ok :: "Backoff \<Rightarrow> bool" where
  "backoff_ok b \<longleftrightarrow> 0 < defaultDuration b \<and> defaultDuration b \<le> maxDuration b \<and>
     (\<forall>i entry. perItemBackoff b i = Some entry \<longrightarrow>
        defaultDuration b \<le> backoff entry \<and> backoff entry \<le> maxDuration b)"

lemma backoff_ok_New: "0 < initial \<Longrightarrow> initial \<le> mx \<Longrightarrow> backoff_ok (NewBackOff initial mx)"
  by (simp add: backoff_ok_def NewBackOff_def)

lemma backoff_ok_Next: "backoff_ok b \<Longrightarrow> backoff_ok (NextBackoff b i eventTime now)"
proof -
  assume ok: "backoff_ok b"
  have "defaultDuration b \<le> min (backoff entry * 2) (maxDuration b)" if "perItemBackoff b i = Some entry" for entry
    using ok that unfolding backoff_ok_def by (smt (verit))
  with ok show ?thesis
    unfolding backoff_ok_def NextBackoff_def Let_def by (auto split: option.splits if_splits)
qed

lemma backoff_ok_Reset: "backoff_ok b \<Longrightarrow> backoff_ok (ResetBackoff b i)"
  by (simp add: backoff_ok_def ResetBackoff_def)

lemma backoff_ok_GC: "backoff_ok b \<Longrightarrow> backoff_ok (GCBackoff b now)"
  by (auto simp: backoff_ok_def GCBackoff_def split: option.splits if_splits)

section \<open>Exponential growth\<close>

text \<open>Failures at the instants \<open>ts\<close>, each event handled at once.\<close>

fun failures :: "Backoff \<Rightarrow> string \<Rightarrow> int list \<Rightarrow> Backoff" where
  "failures b i [] = b"
| "failures b i (t # ts) = failures (NextBackoff b i t t) i ts"

fun closeTimes :: "int \<Rightarrow> int \<Rightarrow> int list \<Rightarrow> bool" where
  "closeTimes mx prev [] = True"
| "closeTimes mx prev (t # ts) = (t - prev \<le> mx * 2 \<and> closeTimes mx t ts)"

lemma maxDuration_Next [simp]: "maxDuration (NextBackoff b i e n) = maxDuration b"
  "defaultDuration (NextBackoff b i e n) = defaultDuration b"
  by (simp_all add: NextBackoff_def Let_def split: option.splits)

lemma failures_from:
  assumes "perItemBackoff b i = Some \<lparr>backoff = min d (maxDuration b), lastUpdate = prev\<rparr>"
    and "closeTimes (maxDuration b) prev ts" and "0 < d" and "0 < maxDuration b"
  shows "GetBackoff (failures b i ts) i = min (d * 2 ^ length ts) (maxDuration b)"
  using assms
proof (induction ts arbitrary: b d prev)
  case Nil
  then show ?case by (simp add: GetBackoff_def)
next
  case (Cons t ts)
  have "min (min d (maxDuration b) * 2) (maxDuration b) = min (d * 2) (maxDuration b)"
    using Cons.prems(3,4) by (auto simp: min_def)
  then have "perItemBackoff (NextBackoff b i t t) i = Some \<lparr>backoff = min (d * 2) (maxDuration b), lastUpdate = t\<rparr>"
    using Cons.prems by (simp add: NextBackoff_def hasExpired_def)
  then have "GetBackoff (failures (NextBackoff b i t t) i ts) i = min (d * 2 * 2 ^ length ts) (maxDuration b)"
    using Cons.IH [of "NextBackoff b i t t" "d * 2" t] Cons.prems by simp
  then show ?case by (simp add: mult.assoc)
qed

section \<open>Properties\<close>

text \<open>
  After \<open>n + 1\<close> failures of an item, each within twice the greatest delay of the one before,
  its back-off is the initial delay doubled \<open>n\<close> times, capped at the greatest delay.
\<close>

lemma failures_double:
  assumes "backoff_ok b" and "perItemBackoff b i = None" and "closeTimes (maxDuration b) t ts"
  shows "GetBackoff (failures b i (t # ts)) i = min (defaultDuration b * 2 ^ length ts) (maxDuration b)"
proof -
  have "perItemBackoff (NextBackoff b i t t) i =
      Some \<lparr>backoff = min (defaultDuration b) (maxDuration (NextBackoff b i t t)), lastUpdate = t\<rparr>"
    using assms by (simp add: NextBackoff_def backoff_ok_def min_def)
  then show ?thesis
    using failures_from [of "NextBackoff b i t t" i "defaultDuration b" t ts] assms
    by (simp add: backoff_ok_def)
qed

theorem failures_double_witness:
  "GetBackoff (failures (NewBackOff 5 300) ''mountpod/a'' [0, 6, 17, 38, 79, 160, 330]) ''mountpod/a'' = 300"
  using failures_double [of "NewBackOff 5 300" "''mountpod/a''" 0 "[6, 17, 38, 79, 160, 330]"]
  by (simp add: NewBackOff_def backoff_ok_def)

end
