(* ===== verification/Reconciler.thy ===== *)
theory Reconciler
  imports Pod_Driver Backoff "HOL-Library.Transitive_Closure_Table"
begin

text \<open>
  \<open>pkg/controller/reconciler.go\<close>: the polling of the kubelet. One round of
  \<open>doReconcile\<close> lists the pods of the node, starts one goroutine per mount pod and
  waits for all of them. The goroutines share the back-off table, the context of
  their group and, because the closure assigns to the \<open>err\<close> of the enclosing function,
  that variable. A round is therefore a state machine; a step is the work of one
  goroutine between two accesses to what they share.
\<close>

section \<open>Selection of the mount pods\<close>

definition retryPeriod :: int where "retryPeriod = 5 * second"
definition maxRetryPeriod :: int where "maxRetryPeriod = 300 * second"

definition isMountPod :: "'w ext \<Rightarrow> pod \<Rightarrow> bool" where
  "isMountPod E p \<longleftrightarrow> pNamespace p = cfgNamespace (cfg E) \<and> mlookup (pLabels p) PodTypeKey = Some PodTypeValue"

definition backOffID :: "pod \<Rightarrow> string" where
  "backOffID p = ''mountpod/'' @ pName p"

text \<open>
  What a round works on: the mount pods of the node and the table built from all its pods. A nil list is
  dereferenced.
\<close>

definition roundInput :: "'w ext \<Rightarrow> string \<Rightarrow> int \<Rightarrow> ('w, gerr + (pod list \<times> mountInfoTable)) go" where
  "roundInput E host port =
     tryM (GetNodeRunningPods E host port) (\<lambda>podList.
     tryM (mit_parse E newMountInfoTable) (\<lambda>mit.
       case podList of
         None \<Rightarrow> ret (Inl (GoPanic ''nil pointer dereference''))
       | Some ps \<Rightarrow> ret (Inr (filter (isMountPod E) ps, setPodsStatus mit (Some ps)))))"

section \<open>The goroutines of a round\<close>

datatype outcome = Skipped | BackedOff | Succeeded | Failed gerr | ErrorLost

text \<open>
  Where a goroutine is: before its \<open>select\<close>; in the default branch; after \<open>Run\<close> has
  returned and its result was assigned to \<open>err\<close>; after \<open>backOff.Next\<close>; returned.
\<close>

datatype gphase = Waiting | Entered | Returned "gerr + unit" | Retrying | Done outcome

record 'w round =
  phases :: "gphase list"
  sharedErr :: "gerr option"
  cancelled :: bool
  gcDone :: bool
  bo :: Backoff
  rst :: "'w st"

definition startRound :: "Backoff \<Rightarrow> pod list \<Rightarrow> 'w st \<Rightarrow> 'w round" where
  "startRound b pods st = \<lparr>phases = replicate (length pods) Waiting, sharedErr = None, cancelled = False,
     gcDone = False, bo = b, rst = st\<rparr>"

definition errOf :: "gerr + unit \<Rightarrow> gerr option" where
  "errOf r = (case r of Inl e \<Rightarrow> Some e | Inr _ \<Rightarrow> None)"

inductive roundStep :: "'w ext \<Rightarrow> mountInfoTable \<Rightarrow> pod list \<Rightarrow> 'w round \<Rightarrow> 'w round \<Rightarrow> bool"
  for E mit pods where
  timeout: "\<not> cancelled s \<Longrightarrow> roundStep E mit pods s (s\<lparr>cancelled := True\<rparr>)"
| gc: "\<not> gcDone s \<Longrightarrow> run_state (Now E) (rst s) = (now, st') \<Longrightarrow>
    roundStep E mit pods s (s\<lparr>gcDone := True, bo := GCBackoff (bo s) now, rst := st'\<rparr>)"
| skip: "i < length (phases s) \<Longrightarrow> phases s ! i = Waiting \<Longrightarrow> cancelled s \<Longrightarrow>
    roundStep E mit pods s (s\<lparr>phases := (phases s)[i := Done Skipped]\<rparr>)"
| enter: "i < length (phases s) \<Longrightarrow> phases s ! i = Waiting \<Longrightarrow> \<not> cancelled s \<Longrightarrow>
    roundStep E mit pods s (s\<lparr>phases := (phases s)[i := Entered]\<rparr>)"
| backedOff: "i < length (phases s) \<Longrightarrow> phases s ! i = Entered \<Longrightarrow>
    run_state (Now E) (rst s) = (now, st') \<Longrightarrow> IsInBackOffSinceUpdate (bo s) (backOffID (pods ! i)) now \<Longrightarrow>
    roundStep E mit pods s (s\<lparr>phases := (phases s)[i := Done BackedOff], rst := st'\<rparr>)"
| run: "i < length (phases s) \<Longrightarrow> phases s ! i = Entered \<Longrightarrow>
    run_state (Now E) (rst s) = (now, st') \<Longrightarrow> \<not> IsInBackOffSinceUpdate (bo s) (backOffID (pods ! i)) now \<Longrightarrow>
    run_state (Run E mit (pods ! i)) st' = (r, st'') \<Longrightarrow>
    roundStep E mit pods s (s\<lparr>phases := (phases s)[i := Returned r], sharedErr := errOf r, rst := st''\<rparr>)"
| reset: "i < length (phases s) \<Longrightarrow> phases s ! i = Returned r \<Longrightarrow> sharedErr s = None \<Longrightarrow>
    roundStep E mit pods s (s\<lparr>phases := (phases s)[i := Done Succeeded],
      bo := ResetBackoff (bo s) (backOffID (pods ! i))\<rparr>)"
| retry: "i < length (phases s) \<Longrightarrow> phases s ! i = Returned r \<Longrightarrow> sharedErr s = Some e \<Longrightarrow>
    run_state (Now E) (rst s) = (eventTime, st') \<Longrightarrow> run_state (Now E) st' = (now, st'') \<Longrightarrow>
    roundStep E mit pods s (s\<lparr>phases := (phases s)[i := Retrying],
      bo := NextBackoff (bo s) (backOffID (pods ! i)) eventTime now, rst := st''\<rparr>)"
| fail: "i < length (phases s) \<Longrightarrow> phases s ! i = Retrying \<Longrightarrow> sharedErr s = Some e \<Longrightarrow>
    roundStep E mit pods s (s\<lparr>phases := (phases s)[i := Done (Failed e)], cancelled := True\<rparr>)"
| lost: "i < length (phases s) \<Longrightarrow> phases s ! i = Retrying \<Longrightarrow> sharedErr s = None \<Longrightarrow>
    roundStep E mit pods s (s\<lparr>phases := (phases s)[i := Done ErrorLost]\<rparr>)"

definition isDone :: "gphase \<Rightarrow> bool" where
  "isDone ph = (case ph of Done _ \<Rightarrow> True | _ \<Rightarrow> False)"

text \<open>\<open>g.Wait()\<close> returns when every goroutine has returned.\<close>

definition roundOver :: "'w round \<Rightarrow> bool" where
  "roundOver s \<longleftrightarrow> list_all isDone (phases s)"

inductive_cases roundStepE: "roundStep E mit pods s s'"

section \<open>The pods of the node\<close>

lemma traces_GetNodeRunningPods:
  "traces (GetNodeRunningPods E host port) (onSuccess (\<lambda>ps es. EvKubeletPods (kubeletURL host port) (Inr (PodListBody ps)) \<in> set es))"
  unfolding GetNodeRunningPods_def
  by (rule traces_bind_call) (auto split: sum.splits kubelet_body.splits intro!: traces_return)

section \<open>A round ends\<close>

definition rank :: "gphase \<Rightarrow> nat" where
  "rank ph = (case ph of Waiting \<Rightarrow> 4 | Entered \<Rightarrow> 3 | Returned _ \<Rightarrow> 2 | Retrying \<Rightarrow> 1 | Done _ \<Rightarrow> 0)"

definition roundMeasure :: "'w round \<Rightarrow> nat" where
  "roundMeasure s = sum_list (map rank (phases s)) + (if cancelled s then 0 else 1) + (if gcDone s then 0 else 1)"

lemma sum_list_update_less:
  fixes f :: "'a \<Rightarrow> nat"
  assumes "i < length xs" and "f y < f (xs ! i)"
  shows "sum_list (map f (xs[i := y])) < sum_list (map f xs)"
proof -
  have "sum_list (map f xs) = sum_list (map f (take i xs)) + f (xs ! i) + sum_list (map f (drop (Suc i) xs))"
    using assms(1) by (metis add.assoc append_take_drop_id Cons_nth_drop_Suc list.simps(9) map_append sum_list.Cons sum_list.append)
  moreover have "sum_list (map f (xs[i := y])) = sum_list (map f (take i xs)) + f y + sum_list (map f (drop (Suc i) xs))"
    using assms(1) by (simp add: upd_conv_take_nth_drop)
  ultimately show ?thesis using assms(2) by simp
qed

text \<open>Every step makes the measure smaller, and a round that is not over has a step.\<close>

lemma roundStep_decreases: "roundStep E mit pods s s' \<Longrightarrow> roundMeasure s' < roundMeasure s"
proof (induction rule: roundStep.induct)
  case (fail i s e)
  then have "sum_list (map rank ((phases s)[i := Done (Failed e)])) < sum_list (map rank (phases s))"
    by (intro sum_list_update_less) (simp_all add: rank_def)
  then show ?case by (simp add: roundMeasure_def)
qed (auto simp: roundMeasure_def intro!: sum_list_update_less simp: rank_def)

lemma roundStep_progress:
  assumes "\<not> roundOver s" and "length (phases s) = length pods"
  shows "\<exists>s'. roundStep E mit pods s s'"
proof -
  obtain i where i: "i < length (phases s)" "\<not> isDone (phases s ! i)"
    using assms(1) by (auto simp: roundOver_def list_all_length)
  obtain now st1 where now: "run_state (Now E) (rst s) = (now, st1)" by (metis surj_pair)
  obtain now2 st2 where now2: "run_state (Now E) st1 = (now2, st2)" by (metis surj_pair)
  obtain r st3 where r: "run_state (Run E mit (pods ! i)) st1 = (r, st3)" by (metis surj_pair)
  show ?thesis
  proof (cases "phases s ! i")
    case Waiting
    with i show ?thesis by (cases "cancelled s") (blast intro: roundStep.intros)+
  next
    case Entered
    with i now r show ?thesis
      by (cases "IsInBackOffSinceUpdate (bo s) (backOffID (pods ! i)) now") (blast intro: roundStep.intros)+
  next
    case (Returned x)
    with i now now2 show ?thesis by (cases "sharedErr s") (blast intro: roundStep.intros)+
  next
    case Retrying
    with i show ?thesis by (cases "sharedErr s") (blast intro: roundStep.intros)+
  next
    case (Done x)
    with i show ?thesis by (simp add: isDone_def)
  qed
qed

lemma roundStep_length: "roundStep E mit pods s s' \<Longrightarrow> length (phases s') = length (phases s)"
  by (induction rule: roundStep.induct) simp_all

section \<open>The back-off table\<close>

lemma roundStep_backoff_ok: "roundStep E mit pods s s' \<Longrightarrow> backoff_ok (bo s) \<Longrightarrow> backoff_ok (bo s')"
  by (induction rule: roundStep.induct) (simp_all add: backoff_ok_GC backoff_ok_Next backoff_ok_Reset)

section \<open>Length of a round\<close>

lemma roundStep_path:
  "(roundStep E mit pods ^^ n) s s' \<Longrightarrow> roundMeasure s' + n \<le> roundMeasure s \<and> length (phases s') = length (phases s)"
proof (induction n arbitrary: s')
  case 0
  then show ?case by simp
next
  case (Suc n)
  then obtain u where "(roundStep E mit pods ^^ n) s u" "roundStep E mit pods u s'" by auto
  then show ?case
    using Suc.IH [of u] roundStep_decreases [of E mit pods u s'] roundStep_length [of E mit pods u s'] by simp
qed

lemma roundMeasure_start: "roundMeasure (startRound b pods st) = 4 * length pods + 2"
  by (simp add: roundMeasure_def startRound_def rank_def sum_list_replicate)

section \<open>One mount pod\<close>

text \<open>With one goroutine the shared variable holds that goroutine's own result.\<close>

definition singleOk :: "gphase \<Rightarrow> gerr option \<Rightarrow> bool" where
  "singleOk ph err =
     (case ph of
        Returned r \<Rightarrow> err = errOf r
      | Retrying \<Rightarrow> err \<noteq> None
      | Done out \<Rightarrow>
          (case out of ErrorLost \<Rightarrow> False | Succeeded \<Rightarrow> err = None | Failed e \<Rightarrow> err = Some e | _ \<Rightarrow> True)
      | _ \<Rightarrow> True)"

lemma roundStep_singleOk:
  "roundStep E mit pods s s' \<Longrightarrow> phases s = [ph] \<Longrightarrow> singleOk ph (sharedErr s) \<Longrightarrow>
   singleOk (hd (phases s')) (sharedErr s')"
  by (induction rule: roundStep.induct) (auto simp: singleOk_def dest: sym)

lemma reachable_single:
  assumes "(roundStep E mit [p])\<^sup>*\<^sup>* (startRound b [p] st) s"
  shows "\<exists>ph. phases s = [ph] \<and> singleOk ph (sharedErr s)"
  using assms
proof (induction rule: rtranclp_induct)
  case base
  then show ?case by (simp add: startRound_def singleOk_def)
next
  case (step y z)
  then obtain ph where ph: "phases y = [ph]" "singleOk ph (sharedErr y)" by blast
  then have "length (phases z) = 1" using roundStep_length [OF step(2)] by simp
  then obtain ph' where "phases z = [ph']" by (metis One_nat_def length_0_conv length_Suc_conv)
  with roundStep_singleOk [OF step(2) ph] show ?case by simp
qed

section \<open>Two mount pods\<close>

lemma shared_err_path:
  assumes now1: "run_state (Now E) st = (n1, st1)" and run1: "run_state (Run E mit p) st1 = (Inl e, st2)"
    and now2: "run_state (Now E) st2 = (n2, st3)" and run2: "run_state (Run E mit q) st3 = (Inr (), st4)"
    and bo: "perItemBackoff b (backOffID p) = None" "perItemBackoff b (backOffID q) = None"
  shows "(roundStep E mit [p, q])\<^sup>*\<^sup>* (startRound b [p, q] st)
    \<lparr>phases = [Done Succeeded, Done Succeeded], sharedErr = None, cancelled = False, gcDone = False,
     bo = ResetBackoff (ResetBackoff b (backOffID p)) (backOffID q), rst = st4\<rparr>"
proof -
  let ?R = "roundStep E mit [p, q]"
  let ?s = "\<lambda>ph er b st. \<lparr>phases = ph, sharedErr = er, cancelled = False, gcDone = False, bo = b, rst = st\<rparr>"
  have 1: "?R (?s [Waiting, Waiting] None b st) (?s [Entered, Waiting] None b st)"
    using roundStep.enter [of 0 "?s [Waiting, Waiting] None b st" E mit "[p, q]"] by simp
  have 2: "?R (?s [Entered, Waiting] None b st) (?s [Entered, Entered] None b st)"
    using roundStep.enter [of 1 "?s [Entered, Waiting] None b st" E mit "[p, q]"] by simp
  have 3: "?R (?s [Entered, Entered] None b st) (?s [Returned (Inl e), Entered] (Some e) b st2)"
    using roundStep.run [of 0 "?s [Entered, Entered] None b st" E n1 st1 "[p, q]" mit "Inl e" st2] now1 run1 bo
    by (simp add: IsInBackOffSinceUpdate_def errOf_def)
  have 4: "?R (?s [Returned (Inl e), Entered] (Some e) b st2) (?s [Returned (Inl e), Returned (Inr ())] None b st4)"
    using roundStep.run [of 1 "?s [Returned (Inl e), Entered] (Some e) b st2" E n2 st3 "[p, q]" mit "Inr ()" st4] now2 run2 bo
    by (simp add: IsInBackOffSinceUpdate_def errOf_def)
  have 5: "?R (?s [Returned (Inl e), Returned (Inr ())] None b st4)
      (?s [Done Succeeded, Returned (Inr ())] None (ResetBackoff b (backOffID p)) st4)"
    using roundStep.reset [of 0 "?s [Returned (Inl e), Returned (Inr ())] None b st4" "Inl e" E mit "[p, q]"] by simp
  have 6: "?R (?s [Done Succeeded, Returned (Inr ())] None (ResetBackoff b (backOffID p)) st4)
      (?s [Done Succeeded, Done Succeeded] None (ResetBackoff (ResetBackoff b (backOffID p)) (backOffID q)) st4)"
    using roundStep.reset [of 1 "?s [Done Succeeded, Returned (Inr ())] None (ResetBackoff b (backOffID p)) st4"
        "Inr ()" E mit "[p, q]"] by simp
  have "startRound b [p, q] st = ?s [Waiting, Waiting] None b st" by (simp add: startRound_def)
  moreover note rtranclp.rtrancl_into_rtrancl [OF rtranclp.rtrancl_into_rtrancl [OF
        rtranclp.rtrancl_into_rtrancl [OF rtranclp.rtrancl_into_rtrancl [OF
        rtranclp.rtrancl_into_rtrancl [OF r_into_rtranclp [of ?R, OF 1] 2] 3] 4] 5] 6]
  ultimately show ?thesis by (simp only:)
qed

section \<open>Examples\<close>

text \<open>A pod that refers to a target whose pod is gone and that the server cannot read; a pod without references.\<close>

definition exPlainPod :: pod where
  "exPlainPod = zero_pod\<lparr>pName := ''mosfs-node1-pv2'', pNamespace := ''kube-system''\<rparr>"

lemma now0: "run_state (Now E0) ((), t) = (0, (), t @ [EvNow 0])"
  unfolding run_state_iff_wp Now_def by (simp add: wp_simps env0_defs)

lemma run0_fails: "run_state (Run E0 (exMit []) exPod) ((), t) =
    (Inl (ApiErr NotFound), (), t @ [EvGetPod ''mosfs-node1-pv1'' ''kube-system'' (Inl (ApiErr NotFound))])"
  unfolding run_state_iff_wp Run_refs dropAnnotations_def
  by (simp add: wp_simps exPod_dead exPod_fields env0_defs)

lemma run0_deletes: "run_state (Run E0 (exMit []) exPlainPod) ((), t) =
    (Inr (), (), t @ [EvDeletePod ''kube-system'' ''mosfs-node1-pv2'' (Inr ())])"
  unfolding run_state_iff_wp Run_refs dropAnnotations_def
  by (simp add: exPlainPod_def zero_pod_def droppedKeys_def liveRefs_def deadRefs_def mlookup_def
      ShouldDelay_unset wp_simps env0_defs)

definition bo0 :: Backoff where
  "bo0 = NewBackOff retryPeriod maxRetryPeriod"

lemma bo0_ok: "backoff_ok bo0" "perItemBackoff bo0 i = None"
  by (simp_all add: bo0_def backoff_ok_def NewBackOff_def retryPeriod_def maxRetryPeriod_def second_def)

lemma first_step: "(roundStep E0 (exMit []) [exPod] ^^ 1) (startRound bo0 [exPod] ((), []))
    ((startRound bo0 [exPod] ((), []))\<lparr>phases := [Entered]\<rparr>)"
  using roundStep.enter [of 0 "startRound bo0 [exPod] ((), [])" E0 "exMit []" "[exPod]"]
  by (simp add: startRound_def eq_OO)

section \<open>Properties\<close>

text \<open>
  C11: A round of the polling reconciler ends, whatever the order in which its goroutines run: it
  makes at most four steps per mount pod and two of its own, and as long as a goroutine has not
  returned there is a step to make.
\<close>

theorem round_ends:
  assumes "(roundStep E mit pods ^^ n) (startRound b pods st) s"
  shows "n \<le> 4 * length pods + 2 \<and> (roundOver s \<or> (\<exists>s'. roundStep E mit pods s s'))"
proof -
  have len: "length (phases s) = length pods" and n: "roundMeasure s + n \<le> 4 * length pods + 2"
    using roundStep_path [OF assms] roundMeasure_start [of b pods st] by (simp_all add: startRound_def)
  show ?thesis using n roundStep_progress [OF _ len] by fastforce
qed

theorem round_ends_witness:
  "\<exists>s'. roundStep E0 (exMit []) [exPod] ((startRound bo0 [exPod] ((), []))\<lparr>phases := [Entered]\<rparr>) s'"
  using round_ends [OF first_step] by (simp add: roundOver_def isDone_def)

text \<open>
  With one mount pod on the node the result of a round is the result of that pod: the
  goroutine returns exactly the error of its \<open>Run\<close>, and none is lost.
\<close>

theorem round_single:
  assumes "(roundStep E mit [p])\<^sup>*\<^sup>* (startRound b [p] st) s"
  shows "\<exists>ph. phases s = [ph] \<and> singleOk ph (sharedErr s)"
  using assms by (rule reachable_single)

theorem round_single_witness:
  "\<exists>ph. phases (startRound bo0 [exPod] ((), []::event list)\<lparr>phases := [Entered]\<rparr>) = [ph] \<and> singleOk ph None"
  using round_single [of E0 "exMit []" exPod bo0 "((), [])", OF relpowp_imp_rtranclp [OF first_step]]
  by (simp add: startRound_def)

text \<open>
  C23: With two mount pods an error can be lost: there is an order of the goroutines in which the
  \<open>Run\<close> of the first fails and nevertheless both are counted as successes, the group is not
  cancelled and the back-off of the failed pod is reset.
\<close>

theorem round_loses_error:
  assumes "run_state (Now E) st = (n1, st1)" and "run_state (Run E mit p) st1 = (Inl e, st2)"
    and "run_state (Now E) st2 = (n2, st3)" and "run_state (Run E mit q) st3 = (Inr (), st4)"
    and "perItemBackoff b (backOffID p) = None" "perItemBackoff b (backOffID q) = None"
  shows "\<exists>s. (roundStep E mit [p, q])\<^sup>*\<^sup>* (startRound b [p, q] st) s \<and> roundOver s \<and>
    phases s = [Done Succeeded, Done Succeeded] \<and> \<not> cancelled s \<and> perItemBackoff (bo s) (backOffID p) = None"
  by (rule exI, rule conjI, rule shared_err_path [OF assms])
    (simp add: roundOver_def isDone_def ResetBackoff_def)

theorem round_loses_error_witness:
  "\<exists>s. (roundStep E0 (exMit []) [exPod, exPlainPod])\<^sup>*\<^sup>* (startRound bo0 [exPod, exPlainPod] ((), [])) s \<and>
     roundOver s \<and> phases s = [Done Succeeded, Done Succeeded] \<and> \<not> cancelled s \<and>
     perItemBackoff (bo s) (backOffID exPod) = None"
  by (rule round_loses_error [OF now0 run0_fails now0 run0_deletes bo0_ok(2) bo0_ok(2)])

text \<open>
  During a round every entry of the back-off table stays between the initial and the
  greatest delay.
\<close>

theorem round_backoff_ok:
  assumes "(roundStep E mit pods)\<^sup>*\<^sup>* s s'" and "backoff_ok (bo s)"
  shows "backoff_ok (bo s')"
  using assms by (induction rule: rtranclp_induct) (auto intro: roundStep_backoff_ok)

theorem round_backoff_ok_witness:
  "backoff_ok (bo (startRound bo0 [exPod] ((), []::event list)\<lparr>phases := [Entered]\<rparr>))"
  by (rule round_backoff_ok [OF relpowp_imp_rtranclp [OF first_step]]) (simp add: startRound_def bo0_ok)

end
