(* ===== verification/Pod_Controller.thy ===== *)
theory Pod_Controller
  imports Reconciler
begin

text \<open>
  \<open>pkg/controller/pod_controller.go\<close>: the same driver behind a watch of the API
  server, used when the kubelet cannot be polled; and the pod table of
  \<open>PodReconciler\<close> in \<open>reconciler.go\<close>.
\<close>

definition DriverName :: string where
  "DriverName = ''csi-sandstone-mosfsplugin''"

text \<open>\<open>reconcile.Result\<close>; durations are nanoseconds.\<close>

record reconcileResult =
  Requeue :: bool
  RequeueAfter :: int

definition noRequeue :: reconcileResult where
  "noRequeue = \<lparr>Requeue = False, RequeueAfter = 0\<rparr>"

text \<open>\<open>time.Time.Sub\<close> saturates at the ends of a 64-bit duration.\<close>

definition timeSub :: "int \<Rightarrow> int \<Rightarrow> int" where
  "timeSub a b = max (- (2 ^ 63)) (min (2 ^ 63 - 1) (a - b))"

text \<open>The namespaces of the claims of the driver's volumes, each once.\<close>

fun appNamespaces :: "string list \<Rightarrow> persistent_volume list \<Rightarrow> string list" where
  "appNamespaces store [] = store"
| "appNamespaces store (pv # pvs) =
     (if pvCSIDriver pv \<noteq> Some DriverName then appNamespaces store pvs
      else case pvClaimNamespace pv of
             None \<Rightarrow> appNamespaces store pvs
           | Some ns \<Rightarrow> appNamespaces (if ns \<in> set store then store else store @ [ns]) pvs)"

fun listPods :: "'w ext \<Rightarrow> string list \<Rightarrow> ('w, gerr + pod list) go" where
  "listPods E [] = ret (Inr [])"
| "listPods E (ns # rest) =
     tryM (ListPod E ns) (\<lambda>ps. tryM (listPods E rest) (\<lambda>qs. ret (Inr (ps @ qs))))"

definition ListAppPod :: "'w ext \<Rightarrow> ('w, gerr + pod list) go" where
  "ListAppPod E = tryM (ListPersistentVolumes E) (\<lambda>pvs. listPods E (appNamespaces [] pvs))"

text \<open>The requeue decision after a successful \<open>Run\<close>.\<close>

definition requeueFor :: "'w ext \<Rightarrow> pod \<Rightarrow> ('w, gerr + reconcileResult) go" where
  "requeueFor E mountPod =
     (let delayAtStr = mindex (pAnnotations mountPod) DeleteDelayAtKey
      in if delayAtStr \<noteq> ''''
         then (case GetTime delayAtStr of
                 Inl e \<Rightarrow> ret (Inl e)
               | Inr delayAt \<Rightarrow> do {
                   now \<leftarrow> Now E;
                   let requeueAfter = (if delayAt < now then 0 else timeSub delayAt now);
                   ret (Inr \<lparr>Requeue = True, RequeueAfter = requeueAfter\<rparr>) })
         else ret (Inr noRequeue))"

definition Reconcile :: "'w ext \<Rightarrow> string \<Rightarrow> string \<Rightarrow> ('w, gerr + reconcileResult) go" where
  "Reconcile E name namespace = do {
     r \<leftarrow> GetPod E name namespace;
     case r of
       Inl e \<Rightarrow> if \<not> IsNotFound e then ret (Inl e) else ret (Inr noRequeue)
     | Inr mountPod \<Rightarrow>
         if NodeName (pSpec mountPod) \<noteq> cfgNodeName (cfg E)
            \<and> mindex (NodeSelector (pSpec mountPod)) ''kubernetes.io/hostname'' \<noteq> cfgNodeName (cfg E)
         then ret (Inr noRequeue)
         else
           tryM (mit_parse E newMountInfoTable) (\<lambda>mit.
           tryM (ListAppPod E) (\<lambda>podList.
           tryM (Run E (setPodsStatus mit (Some podList)) mountPod) (\<lambda>_.
             requeueFor E mountPod))) }"

text \<open>The filter on update events: an update that changed nothing is dropped.\<close>

definition onUpdate :: "pod \<Rightarrow> pod \<Rightarrow> bool" where
  "onUpdate podOld podNew = (if pResourceVersion podNew = pResourceVersion podOld then False else True)"

definition getClusterPodsStatus :: "'w ext \<Rightarrow> ('w, gerr + (pod list \<times> (string \<rightharpoonup> bool))) go" where
  "getClusterPodsStatus E =
     tryWrap (errorf ''set cluster pods status error:%s'' []) (GetAllPod E)
       (\<lambda>ps. ret (Inr (ps, podsStatusLoop Map.empty ps)))"

section \<open>Facts\<close>

lemma appNamespaces_set:
  "set (appNamespaces store pvs) = set store \<union>
     {ns. \<exists>pv \<in> set pvs. pvCSIDriver pv = Some DriverName \<and> pvClaimNamespace pv = Some ns}"
  by (induction store pvs rule: appNamespaces.induct) (auto split: option.splits)

lemma appNamespaces_distinct: "distinct store \<Longrightarrow> distinct (appNamespaces store pvs)"
  by (induction store pvs rule: appNamespaces.induct) (auto split: option.splits)

text \<open>A pod is asked for again exactly at the instant its deletion is due.\<close>

lemma timeSub_exact: "- (2 ^ 63) \<le> a - b \<Longrightarrow> a - b < 2 ^ 63 \<Longrightarrow> timeSub a b = a - b"
  by (simp add: timeSub_def)

section \<open>Examples\<close>

text \<open>A world that is the time of its clock, and a pod with a planned deletion.\<close>

definition Eclock :: "int ext" where
  "Eclock = \<lparr>fuel = 3, cfg = cfg0, lib = lib0, kube = kube0, sys = sys0, clk = clk0\<lparr>clock_now := \<lambda>w. (w, w)\<rparr>,
     net = net0, cch = cch0\<rparr>"

definition exDelayed :: "string \<Rightarrow> pod" where
  "exDelayed txt = zero_pod\<lparr>pAnnotations := Some [(DeleteDelayTimeKey, ''1s''), (DeleteDelayAtKey, txt)]\<rparr>"

section \<open>Properties\<close>

text \<open>
  The watching controller leaves the mount pods of other nodes alone: for a pod that neither
  runs on nor is selected for this node, nothing is done but the read.
\<close>

theorem Reconcile_other_node:
  assumes "api_get (kube E) name namespace w = (Inr p, w')" and "NodeName (pSpec p) \<noteq> cfgNodeName (cfg E)"
    and "mindex (NodeSelector (pSpec p)) ''kubernetes.io/hostname'' \<noteq> cfgNodeName (cfg E)"
  shows "run_state (Reconcile E name namespace) (w, t) = (Inr noRequeue, w', t @ [EvGetPod name namespace (Inr p)])"
  unfolding run_state_iff_wp Reconcile_def using assms by (simp add: wp_simps)

theorem Reconcile_other_node_witness:
  "run_state (Reconcile (E0\<lparr>kube := kube0\<lparr>api_get := \<lambda>n ns w. (Inr exPod, w)\<rparr>\<rparr>) ''p'' ''kube-system'') ((), []) =
     (Inr noRequeue, (), [EvGetPod ''p'' ''kube-system'' (Inr exPod)])"
  using Reconcile_other_node [of "E0\<lparr>kube := kube0\<lparr>api_get := \<lambda>n ns w. (Inr exPod, w)\<rparr>\<rparr>" "''p''" "''kube-system''" "()" exPod "()" "[]"]
  by (simp add: exPod_def zero_spec_def mindex_def mlookup_def env0_defs)

text \<open>
  The pods are listed once for each namespace in which a volume of this driver is claimed,
  and for no other.
\<close>

theorem appNamespaces_claims:
  "distinct (appNamespaces [] pvs) \<and> set (appNamespaces [] pvs) =
     {ns. \<exists>pv \<in> set pvs. pvCSIDriver pv = Some DriverName \<and> pvClaimNamespace pv = Some ns}"
  by (simp add: appNamespaces_set appNamespaces_distinct)

text \<open>
  C37: A mount pod with a planned deletion is looked at again in time: the delay after which it
  is requeued ends exactly when the deletion is due, and from then on \<open>ShouldDelay\<close> no longer
  holds the deletion back.
\<close>

theorem requeue_when_due:
  assumes "mlookup (pAnnotations p) DeleteDelayAtKey = Some txt" and "mlookup (pAnnotations p) DeleteDelayTimeKey = Some d"
    and "txt \<noteq> ''''" and "GetTime txt = Inr due"
    and "clock_now (clk E) w1 = (now, w1')" and "now \<le> due" and "due - now < 2 ^ 63"
    and "clock_now (clk E) w2 = (now + after, w2')"
  shows "result (requeueFor E p) w1 = Inr \<lparr>Requeue = True, RequeueAfter = due - now\<rparr> \<and>
    (result (ShouldDelay E p) w2 = (False, None) \<longleftrightarrow> due - now \<le> after)"
proof
  have "- (2 ^ 63) \<le> due - now" using assms(6) by simp
  from timeSub_exact [OF this assms(7)] assms(1,3-6)
  show "result (requeueFor E p) w1 = Inr \<lparr>Requeue = True, RequeueAfter = due - now\<rparr>"
    by (intro result_eqI) (auto simp: requeueFor_def mindex_def Now_def timeSub_def wp_simps Let_def)
  have "result (ShouldDelay E p) w2 = (now + after < due, None)"
    using assms(1,2,4,8) by (intro result_eqI) (simp add: ShouldDelay_def Now_def wp_simps)
  then show "result (ShouldDelay E p) w2 = (False, None) \<longleftrightarrow> due - now \<le> after" by auto
qed

theorem requeue_when_due_witness:
  "result (requeueFor Eclock (exDelayed (formatTime 1000000000 0))) 0 = Inr \<lparr>Requeue = True, RequeueAfter = 1000000000\<rparr> \<and>
   result (ShouldDelay Eclock (exDelayed (formatTime 1000000000 0))) 1000000000 = (False, None)"
proof -
  have t: "GetTime (formatTime 1000000000 0) = Inr 1000000000"
    using GetTime_formatTime [of 1000000000 0] by (simp add: second_def unixDay_def daysBefore_def)
  moreover have "GetTime '''' \<noteq> Inr 1000000000" by (simp add: GetTime_def parseTime_def getYear_def)
  ultimately have "formatTime 1000000000 0 \<noteq> ''''" by metis
  with t requeue_when_due [of "exDelayed (formatTime 1000000000 0)" "formatTime 1000000000 0" "''1s''" 1000000000
      Eclock 0 0 0 1000000000 1000000000 1000000000]
  show ?thesis
    by (simp add: exDelayed_def mlookup_def DeleteDelayAtKey_def DeleteDelayTimeKey_def Eclock_def clk0_def)
qed

end
