(* ===== verification/Warmup.thy ===== *)
theory Warmup
  imports Pod_Controller
begin

text \<open>
  \<open>pkg/warmup\<close>: the controller that fills the cache of a volume on every node that
  uses it (\<open>controllers/cache_controller.go\<close>, \<open>api/v1alpha1/cache_types.go\<close>).
\<close>

definition retryTimeout :: int where
  "retryTimeout = 15 * second"

definition retryResult :: reconcileResult where
  "retryResult = \<lparr>Requeue = True, RequeueAfter = retryTimeout\<rparr>"

definition giveUpResult :: reconcileResult where
  "giveUpResult = \<lparr>Requeue = False, RequeueAfter = retryTimeout\<rparr>"

definition getStorageClassNameAndPVName :: "'w ext \<Rightarrow> string \<Rightarrow> string \<Rightarrow> ('w, gerr + (string \<times> string)) go" where
  "getStorageClassNameAndPVName E namespace pvcName =
     tryWrap (errorf ''get pvc:%s, error:%w'' [pvcName])
       (call (pvc_get (cch E) namespace pvcName) (EvGetPVC namespace pvcName)) (\<lambda>pvc.
       case pvcStorageClassName pvc of
         None \<Rightarrow> ret (Inl (GoPanic ''nil pointer dereference''))
       | Some storageClassName \<Rightarrow>
           if length storageClassName = 0 then
             ret (Inl (ErrorfRaw ''ns:%s, pvc:%s related storageclass is empty, cache only support dynamic provision''
                        [namespace, pvcName] None))
           else if length (pvcVolumeName pvc) = 0 then
             ret (Inl (ErrorfRaw ''ns:%s, pvc:%s not bound to pv'' [namespace, pvcName] None))
           else ret (Inr (storageClassName, pvcVolumeName pvc)))"

text \<open>
  The volumes of one pod: the loop ends at the first volume that is no claim, and a
  pod is counted once for every claim of that name before it.
\<close>

fun nodesOfVolumes :: "string \<Rightarrow> string \<Rightarrow> volume list \<Rightarrow> string list" where
  "nodesOfVolumes pvcName node [] = []"
| "nodesOfVolumes pvcName node (v # vs) =
     (case vSource v of
        PVCVolume claimName \<Rightarrow>
          (if claimName = pvcName \<and> length node > 0 then node # nodesOfVolumes pvcName node vs
           else nodesOfVolumes pvcName node vs)
      | _ \<Rightarrow> [])"

fun nodesOfPods :: "string \<Rightarrow> pod list \<Rightarrow> string list" where
  "nodesOfPods pvcName [] = []"
| "nodesOfPods pvcName (p # ps) =
     nodesOfVolumes pvcName (NodeName (pSpec p)) (Volumes (pSpec p)) @ nodesOfPods pvcName ps"

definition fromPVCGetUsedPodsNodeName :: "'w ext \<Rightarrow> string \<Rightarrow> string \<Rightarrow> ('w, gerr + string list) go" where
  "fromPVCGetUsedPodsNodeName E ns pvcName =
     tryWrap (errorf ''list pod in namesapce:%s, error:%w'' []) (call (ns_pods (cch E) ns) (EvNsPods ns)) (\<lambda>podList.
       ret (Inr (nodesOfPods pvcName podList)))"

definition mountPodName :: "bool \<Rightarrow> string \<Rightarrow> string \<Rightarrow> string \<Rightarrow> string" where
  "mountPodName shareMount nodeName scName pvName =
     ''mosfs-'' @ nodeName @ ''-'' @ (if shareMount then scName else pvName)"

definition warmUp :: "'w ext \<Rightarrow> string \<Rightarrow> string \<Rightarrow> string \<Rightarrow> string \<Rightarrow> string \<Rightarrow> bool \<Rightarrow> ('w, gerr + unit) go" where
  "warmUp E nodeName scName pvName path namespace shareMount =
     (let pod = mountPodName shareMount nodeName scName pvName; cmd = [CliPath, ''warmup'', path]
      in tryWrap (errorf ''new exec error:%s'' [])
           (call (new_executor (cch E) namespace pod cmd) (EvNewExecutor namespace pod cmd)) (\<lambda>_. do {
           (out, errOut, err) \<leftarrow> call (pod_exec (cch E) namespace pod cmd) (EvPodExec namespace pod cmd);
           case err of
             None \<Rightarrow> ret (Inr ())
           | Some e \<Rightarrow> ret (Inl (errorf ''stdout:%s, stderr:%s, err:%w'' [out, errOut] e)) }))"

text \<open>The nodes in turn, up to the first failure.\<close>

fun warmUpNodes :: "'w ext \<Rightarrow> string \<Rightarrow> string \<Rightarrow> string \<Rightarrow> string \<Rightarrow> bool \<Rightarrow> string list \<Rightarrow> ('w, gerr option) go" where
  "warmUpNodes E scName pvName path namespace shareMount [] = ret None"
| "warmUpNodes E scName pvName path namespace shareMount (n # ns) = do {
     r \<leftarrow> warmUp E n scName pvName path namespace shareMount;
     case r of
       Inl e \<Rightarrow> ret (Some e)
     | Inr _ \<Rightarrow> warmUpNodes E scName pvName path namespace shareMount ns }"

definition warmUpAll :: "'w ext \<Rightarrow> string \<Rightarrow> string \<Rightarrow> string \<Rightarrow> string \<Rightarrow> bool \<Rightarrow> cache_object \<Rightarrow> (gerr \<Rightarrow> string)
    \<Rightarrow> string list \<Rightarrow> ('w, gerr + unit) go" where
  "warmUpAll E scName pvName path namespace shareMount cache errText nodesName = do {
     finalErr \<leftarrow> warmUpNodes E scName pvName path namespace shareMount nodesName;
     let cache = (case finalErr of
           Some e \<Rightarrow> cache\<lparr>statusCached := False, statusMsg := errText e\<rparr>
         | None \<Rightarrow> cache\<lparr>statusCached := True\<rparr>);
     tryWrap (errorf ''update cache:%s, error:%s'' [cacheName cache])
       (call (cache_update_status (cch E) cache) (EvUpdateCacheStatus cache)) (\<lambda>_.
       case finalErr of
         Some e \<Rightarrow> ret (Inl (errorf ''warm up cahche:%s, error:%s'' [cacheName cache] e))
       | None \<Rightarrow> ret (Inr ())) }"

definition cachePath :: "bool \<Rightarrow> string \<Rightarrow> string \<Rightarrow> string \<Rightarrow> string" where
  "cachePath shareMount scName pvName sub =
     (let base = (if shareMount then ''/mosfs/'' @ scName @ ''/'' @ pvName else ''/mosfs/'' @ pvName)
      in if length sub > 0 then PathJoin [base, sub] else base)"

text \<open>A result together with the error that is returned with it.\<close>

definition cache_Reconcile :: "'w ext \<Rightarrow> (gerr \<Rightarrow> string) \<Rightarrow> string \<Rightarrow> string \<Rightarrow> ('w, reconcileResult \<times> gerr option) go" where
  "cache_Reconcile E errText reqNamespace reqName = do {
     r \<leftarrow> call (cache_get (cch E) reqNamespace reqName) (EvGetCache reqNamespace reqName);
     case r of
       Inl e \<Rightarrow> if IsNotFound e then ret (noRequeue, None) else ret (retryResult, Some e)
     | Inr cache \<Rightarrow>
         if cacheDeletionTimestamp cache \<noteq> None then do {
           d \<leftarrow> call (cache_delete (cch E) cache) (EvDeleteCache cache);
           case d of
             Inl e \<Rightarrow> if \<not> IsNotFound e then ret (retryResult, Some e) else ret (noRequeue, None)
           | Inr _ \<Rightarrow> ret (noRequeue, None) }
         else if statusCached cache then ret (noRequeue, None)
         else do {
           s \<leftarrow> getStorageClassNameAndPVName E reqNamespace (specPvcName cache);
           case s of
             Inl e \<Rightarrow> ret (retryResult, Some e)
           | Inr (scName, pvName) \<Rightarrow> do {
               share \<leftarrow> Getenv E ''STORAGE_CLASS_SHARE_MOUNT'';
               let shareMount = (share = ''true'');
               let path = cachePath shareMount scName pvName (specPath cache);
               n \<leftarrow> fromPVCGetUsedPodsNodeName E reqNamespace (specPvcName cache);
               case n of
                 Inl e \<Rightarrow> ret (retryResult, Some e)
               | Inr nodesName \<Rightarrow>
                   if length nodesName = 0 then ret (giveUpResult, Some (PlainErr ''nodeName is empty''))
                   else do {
                     namespace \<leftarrow> Getenv E ''MOSFS_MOUNT_NAMESPACE'';
                     if length namespace = 0
                     then ret (giveUpResult, Some (PlainErr ''get namespace failed, namespace can not empty''))
                     else do {
                       u \<leftarrow> warmUpAll E scName pvName path namespace shareMount cache errText nodesName;
                       case u of
                         Inl e \<Rightarrow> ret (retryResult, Some e)
                       | Inr _ \<Rightarrow> ret (noRequeue, None) } } } } }"

section \<open>Facts\<close>

text \<open>Each of the pods ran the command without an error, one after the other.\<close>

fun warmed :: "string \<Rightarrow> string list \<Rightarrow> string list \<Rightarrow> event list \<Rightarrow> bool" where
  "warmed ns cmd [] es \<longleftrightarrow> es = []"
| "warmed ns cmd (p # ps) es \<longleftrightarrow> (\<exists>out errOut rest. es = EvNewExecutor ns p cmd (Inr ()) #
     EvPodExec ns p cmd (out, errOut, None) # rest \<and> warmed ns cmd ps rest)"

lemma traces_warmUp:
  "traces (warmUp E n sc pv path ns share) (\<lambda>r es. let p = mountPodName share n sc pv; cmd = [CliPath, ''warmup'', path] in
     (r = Inr () \<and> (\<exists>out errOut. es = [EvNewExecutor ns p cmd (Inr ()), EvPodExec ns p cmd (out, errOut, None)])) \<or>
     (\<exists>e. r = Inl e \<and> ((\<exists>x. es = [EvNewExecutor ns p cmd (Inl x)]) \<or>
        (\<exists>out errOut x. es = [EvNewExecutor ns p cmd (Inr ()), EvPodExec ns p cmd (out, errOut, Some x)]))))"
  unfolding warmUp_def Let_def
  by (rule traces_tryWrap [where S = "\<lambda>r es. es = [EvNewExecutor ns (mountPodName share n sc pv) [CliPath, ''warmup'', path] r]"],
      rule traces_call) (auto intro!: traces_bind_call traces_return split: option.splits)

lemma traces_warmUpNodes:
  "traces (warmUpNodes E sc pv path ns share nodes) (\<lambda>r es.
     r = None \<longleftrightarrow> warmed ns [CliPath, ''warmup'', path] (map (\<lambda>n. mountPodName share n sc pv) nodes) es)"
proof (induction nodes)
  case Nil
  then show ?case by (simp add: traces_return)
next
  case (Cons n nodes)
  show ?case
    unfolding warmUpNodes.simps
    by (rule traces_bind [OF traces_warmUp])
      (auto simp: Let_def intro!: traces_return traces_mono [OF Cons.IH] split: sum.splits)
qed

section \<open>Properties\<close>

text \<open>
  C40: The last call of \<open>warmUpAll\<close> writes the status of the \<open>Cache\<close> object. The status says cached
  exactly when the warm-up command has run without error in the mount pod of every node; and
  the call succeeds exactly when that is so and the status could be written.
\<close>

theorem warmUpAll_status:
  "traces (warmUpAll E sc pv path ns share cache errText nodes) (\<lambda>r es. \<exists>ups c u. es = ups @ [EvUpdateCacheStatus c u] \<and>
     (statusCached c \<longleftrightarrow> warmed ns [CliPath, ''warmup'', path] (map (\<lambda>n. mountPodName share n sc pv) nodes) ups) \<and>
     (r = Inr () \<longleftrightarrow> u = Inr () \<and> statusCached c))"
proof (unfold warmUpAll_def, rule traces_bind [OF traces_warmUpNodes])
  fix finalErr :: "gerr option" and es
  assume "finalErr = None \<longleftrightarrow> warmed ns [CliPath, ''warmup'', path] (map (\<lambda>n. mountPodName share n sc pv) nodes) es"
  then show "traces (let cache = (case finalErr of
           Some e \<Rightarrow> cache\<lparr>statusCached := False, statusMsg := errText e\<rparr>
         | None \<Rightarrow> cache\<lparr>statusCached := True\<rparr>)
     in tryWrap (errorf ''update cache:%s, error:%s'' [cacheName cache])
       (call (cache_update_status (cch E) cache) (EvUpdateCacheStatus cache)) (\<lambda>_.
       case finalErr of
         Some e \<Rightarrow> ret (Inl (errorf ''warm up cahche:%s, error:%s'' [cacheName cache] e))
       | None \<Rightarrow> ret (Inr ())))
     (\<lambda>r es'. \<exists>ups c u. es @ es' = ups @ [EvUpdateCacheStatus c u] \<and>
       (statusCached c \<longleftrightarrow> warmed ns [CliPath, ''warmup'', path] (map (\<lambda>n. mountPodName share n sc pv) nodes) ups) \<and>
       (r = Inr () \<longleftrightarrow> u = Inr () \<and> statusCached c))"
    unfolding Let_def
    by (intro traces_tryWrap [OF traces_call [where T = "\<lambda>r es. es = [EvUpdateCacheStatus _ r]"]])
      (auto intro!: traces_return split: option.splits)
qed

text \<open>
  A pod is missed when a volume that is no claim stands before its claim: the search of a
  pod's volumes stops at the first volume that is no claim.
\<close>

theorem nodesOfVolumes_stops:
  "nodesOfVolumes pvcName node vs = map (\<lambda>_. node) (filter (\<lambda>v. vSource v = PVCVolume pvcName \<and> node \<noteq> '''')
     (takeWhile (\<lambda>v. \<exists>c. vSource v = PVCVolume c) vs))"
  by (induction vs) (auto split: volume_source.splits)

end
