(* ===== verification/Mount_Pod.thy ===== *)
theory Mount_Pod
  imports Delay
begin

text \<open>
  \<open>pkg/juicefs/mount/pod.go\<close>: the mount pod of a volume, its name, its resources
  and the host directories it needs.
\<close>

definition GeneratePodNameByVolumeId :: "'w ext \<Rightarrow> string \<Rightarrow> string" where
  "GeneratePodNameByVolumeId E volumeId = ''mosfs-'' @ cfgNodeName (cfg E) @ ''-'' @ volumeId"

fun anyRefKey :: "(string \<times> string) list \<Rightarrow> bool" where
  "anyRefKey [] = False"
| "anyRefKey ((k, v) # rest) = (if HasPrefix k ''mosfs-'' then True else anyRefKey rest)"

definition hasRef :: "pod \<Rightarrow> bool" where
  "hasRef p = anyRefKey (entries (pAnnotations p))"

text \<open>Both parentheses get a backslash in front; the test before each replacement is the source's.\<close>

definition quoteForShell :: "string \<Rightarrow> string" where
  "quoteForShell cmd =
     (let cmd = (if Contains cmd ''('' then ReplaceAll cmd ''('' [CHR 0x5C, CHR ''(''] else cmd)
      in if Contains cmd '')'' then ReplaceAll cmd '')'' [CHR 0x5C, CHR '')''] else cmd)"

section \<open>Cache directories\<close>

definition cacheVolumeName :: "string \<Rightarrow> string" where
  "cacheVolumeName cacheDir = ReplaceAll (TrimPrefix cacheDir ''/'') ''/'' ''-''"

definition cacheVolume :: "string \<Rightarrow> volume \<times> volume_mount" where
  "cacheVolume cacheDir =
     (\<lparr>vName = cacheVolumeName cacheDir, vSource = HostPath cacheDir\<rparr>,
      \<lparr>vmName = cacheVolumeName cacheDir, vmMountPath = cacheDir, vmBidirectional = True\<rparr>)"

text \<open>The directories of one mount option, none when it is not a \<open>cache-dir\<close> with one value.\<close>

definition cacheDirsOf :: "string \<Rightarrow> string list" where
  "cacheDirsOf optSubStr =
     (let optValStr = TrimSpace optSubStr
      in if \<not> HasPrefix optValStr ''cache-dir'' then []
         else case Split optValStr ''='' of
                [_, v] \<Rightarrow> Split (TrimSpace v) '':''
              | _ \<Rightarrow> [])"

definition getCacheDirVolumes :: "string \<Rightarrow> volume list \<times> volume_mount list" where
  "getCacheDirVolumes cmd =
     (case Split cmd '' -o '' of
        [_, opts] \<Rightarrow>
          (let vs = map cacheVolume (concat (map cacheDirsOf (Split opts '','')))
           in (map fst vs, map snd vs))
      | _ \<Rightarrow> ([], []))"

section \<open>Resources\<close>

text \<open>\<open>resource.MustParse\<close> panics on a text that is no quantity.\<close>

definition putQuantity ::
  "'w ext \<Rightarrow> string \<Rightarrow> string \<Rightarrow> (string \<times> string) list \<Rightarrow> gerr + (string \<times> string) list" where
  "putQuantity E key text m =
     (if text = '''' then Inr m
      else if valid_quantity (lib E) text then Inr (mput m key text)
      else Inl (GoPanic ''cannot parse quantity''))"

definition sumBind :: "'e + 'a \<Rightarrow> ('a \<Rightarrow> 'e + 'b) \<Rightarrow> 'e + 'b" where
  "sumBind m k = (case m of Inl e \<Rightarrow> Inl e | Inr x \<Rightarrow> k x)"

definition parsePodResources ::
  "'w ext \<Rightarrow> string \<Rightarrow> string \<Rightarrow> string \<Rightarrow> string \<Rightarrow> gerr + resource_requirements" where
  "parsePodResources E mountPodCpuLimit mountPodMemLimit mountPodCpuRequest mountPodMemRequest =
     sumBind (putQuantity E ''cpu'' mountPodCpuLimit []) (\<lambda>podLimit.
     sumBind (putQuantity E ''memory'' mountPodMemLimit podLimit) (\<lambda>podLimit.
     sumBind (putQuantity E ''cpu'' mountPodCpuRequest []) (\<lambda>podRequest.
     sumBind (putQuantity E ''memory'' mountPodMemRequest podRequest) (\<lambda>podRequest.
       Inr \<lparr>Limits = Some podLimit, Requests = Some podRequest\<rparr>))))"

section \<open>NewMountPod\<close>

definition hostVolume :: "string \<Rightarrow> string \<Rightarrow> volume" where
  "hostVolume name path = \<lparr>vName = name, vSource = HostPath path\<rparr>"

definition sharedMount :: "string \<Rightarrow> string \<Rightarrow> volume_mount" where
  "sharedMount name path = \<lparr>vmName = name, vmMountPath = path, vmBidirectional = True\<rparr>"

text \<open>The secrets of the \<open>configs\<close> map, numbered from \<open>i\<close>.\<close>

fun configVolumes :: "nat \<Rightarrow> (string \<times> string) list \<Rightarrow> volume list \<times> volume_mount list" where
  "configVolumes i [] = ([], [])"
| "configVolumes i ((k, v) # rest) =
     (let name = ''config-'' @ showNat i
      in case configVolumes (i + 1) rest of (vs, ms) \<Rightarrow>
           (\<lparr>vName = name, vSource = SecretVolume k\<rparr> # vs,
            \<lparr>vmName = name, vmMountPath = v, vmBidirectional = False\<rparr> # ms))"

definition NewMountPod ::
  "'w ext \<Rightarrow> string \<Rightarrow> string \<Rightarrow> string \<Rightarrow> resource_requirements \<Rightarrow> smap \<Rightarrow> smap \<Rightarrow> pod" where
  "NewMountPod E podName cmd0 mountPath resourceRequirements configs env =
     (let cmd = quoteForShell cmd0;
          (cacheVolumes, cacheMounts) =
            (if Contains cmd ''cache-dir'' then getCacheDirVolumes cmd
             else ([hostVolume ''jfs-default-cache'' ''/var/jfsCache''],
                   [sharedMount ''jfs-default-cache'' ''/var/jfsCache'']));
          (configVols, configMounts) = configVolumes 1 (entries configs);
          container = \<lparr>cName = ''jfs-mount'', cImage = cfgMountImage (cfg E),
            cCommand = Some [''sh'', ''-c'', cmd], cPrivileged = True,
            cResources = resourceRequirements,
            cEnv = (''JFS_FOREGROUND'', ''1'') # entries env,
            cPorts = [(''metrics'', 9567)],
            cVolumeMounts = [sharedMount ''jfs-dir'' PodMountBase,
                             sharedMount ''jfs-root-dir'' ''/root/.juicefs''] @ cacheMounts @ configMounts,
            cPreStop = Some [''sh'', ''-c'', ''umount '' @ mountPath]\<rparr>;
          pod = zero_pod\<lparr>pName := podName, pNamespace := cfgNamespace (cfg E),
            pLabels := Some [(PodTypeKey, PodTypeValue)], pAnnotations := Some [],
            pSpec := \<lparr>Containers = [container],
              Volumes = [hostVolume ''jfs-dir'' (cfgMountPointPath (cfg E)),
                         hostVolume ''jfs-root-dir'' (cfgJFSConfigPath (cfg E))] @ cacheVolumes @ configVols,
              NodeName = cfgNodeName (cfg E), NodeSelector = None, RestartPolicy = ''Never''\<rparr>\<rparr>
      in AddFinalizer pod Finalizer)"

section \<open>Facts\<close>

lemma anyRefKey_iff: "anyRefKey as \<longleftrightarrow> (\<exists>(k, v) \<in> set as. HasPrefix k ''mosfs-'')"
  by (induction as rule: anyRefKey.induct) auto

lemma hasRef_iff: "hasRef p \<longleftrightarrow> (\<exists>k v. (k, v) \<in> set (entries (pAnnotations p)) \<and> HasPrefix k ''mosfs-'')"
  by (auto simp: hasRef_def anyRefKey_iff)

lemma hasRef_delay: "mlookup (pAnnotations p) DeleteDelayTimeKey \<noteq> None \<Longrightarrow> hasRef p"
  by (auto simp: hasRef_iff DeleteDelayTimeKey_def HasPrefix_def dest!: mlookup_mem intro!: exI)

lemma hasRef_key: "mlookup (pAnnotations p) (GetReferenceKey t) \<noteq> None \<Longrightarrow> hasRef p"
  using rk.key_prefix by (auto simp: hasRef_iff dest!: mlookup_mem)

lemma ReplaceAll_absent: "x \<notin> set s \<Longrightarrow> ReplaceAll s [x] t = s"
  by (simp add: ReplaceAll_def Split_char_absent)

lemma quoteForShell_plain:
  "CHR ''('' \<notin> set cmd \<Longrightarrow> CHR '')'' \<notin> set cmd \<Longrightarrow> quoteForShell cmd = cmd"
  by (simp add: quoteForShell_def ReplaceAll_absent)

lemma command_NewMountPod:
  "\<exists>c. Containers (pSpec (NewMountPod E n cmd m res cs env)) = [c] \<and>
     cCommand c = Some [''sh'', ''-c'', quoteForShell cmd] \<and> cResources c = res"
  by (simp add: NewMountPod_def AddFinalizer_def zero_pod_def Let_def split: prod.splits)

lemma NewMountPod_meta:
  "pName (NewMountPod E n cmd m res cs env) = n"
  "pNamespace (NewMountPod E n cmd m res cs env) = cfgNamespace (cfg E)"
  "pAnnotations (NewMountPod E n cmd m res cs env) = Some []"
  "pLabels (NewMountPod E n cmd m res cs env) = Some [(PodTypeKey, PodTypeValue)]"
  "pDeletionTimestamp (NewMountPod E n cmd m res cs env) = None"
  "elems (pFinalizers (NewMountPod E n cmd m res cs env)) = [Finalizer]"
  by (simp_all add: NewMountPod_def AddFinalizer_def zero_pod_def Let_def split: prod.splits)

end
