(* ===== verification/Pod_Mount.thy ===== *)
theory Pod_Mount
  imports Mount_Pod
begin

text \<open>
  \<open>pkg/juicefs/mount/pod_mount.go\<close>: mounting a volume through its mount pod, and
  the references of the targets in the annotations of that pod. The loops that
  repeat after a conflict, and the one that polls the mount point, make at most
  \<open>fuel E\<close> rounds; the traces show that they end before that.
\<close>

section \<open>AddRefOfMount\<close>

text \<open>
  One round, under \<open>JLock\<close>. An error of the patch that is no conflict is dropped,
  as the source does.
\<close>

definition addRefOnce :: "'w ext \<Rightarrow> string \<Rightarrow> string \<Rightarrow> ('w, gerr + unit) go" where
  "addRefOnce E target podName = withLock JLock (
     tryM (GetPod E podName (cfgNamespace (cfg E))) (\<lambda>exist.
       let key = GetReferenceKey target
       in if mlookup (pAnnotations exist) key \<noteq> None then ret (Inr ())
          else let annotation = mdelete (mput (entries (pAnnotations exist)) key target) DeleteDelayAtKey
               in do {
                 r \<leftarrow> ReplacePodAnnotation E exist (Some annotation);
                 case r of
                   Inl e \<Rightarrow> if IsConflict e then ret (Inl e) else ret (Inr ())
                 | Inr _ \<Rightarrow> ret (Inr ()) }))"

fun addRefLoop :: "'w ext \<Rightarrow> string \<Rightarrow> string \<Rightarrow> nat \<Rightarrow> ('w, gerr + unit) go" where
  "addRefLoop E target podName 0 = ret (Inl NoFuel)"
| "addRefLoop E target podName (Suc n) = do {
     r \<leftarrow> addRefOnce E target podName;
     case r of
       Inl e \<Rightarrow> if IsConflict e then do { Sleep E 10; addRefLoop E target podName n } else ret (Inl e)
     | Inr _ \<Rightarrow> ret (Inr ()) }"

definition AddRefOfMount :: "'w ext \<Rightarrow> string \<Rightarrow> string \<Rightarrow> ('w, gerr + unit) go" where
  "AddRefOfMount E target podName = addRefLoop E target podName (fuel E)"

section \<open>JUmount\<close>

definition delRefOnce :: "'w ext \<Rightarrow> string \<Rightarrow> pod \<Rightarrow> ('w, gerr + unit) go" where
  "delRefOnce E target pod = withLock JLock (
     tryM (GetPod E (pName pod) (pNamespace pod)) (\<lambda>po.
       if mlookup (pAnnotations po) (GetReferenceKey target) = None then ret (Inr ())
       else DelPodAnnotation E po [GetReferenceKey target]))"

fun delRefLoop :: "'w ext \<Rightarrow> string \<Rightarrow> pod \<Rightarrow> nat \<Rightarrow> ('w, gerr + unit) go" where
  "delRefLoop E target pod 0 = ret (Inl NoFuel)"
| "delRefLoop E target pod (Suc n) = do {
     r \<leftarrow> delRefOnce E target pod;
     case r of
       Inl e \<Rightarrow> if IsConflict e then delRefLoop E target pod n else ret (Inl e)
     | Inr _ \<Rightarrow> ret (Inr ()) }"

definition deleteMountPod :: "'w ext \<Rightarrow> string \<Rightarrow> string \<Rightarrow> ('w, gerr + unit) go" where
  "deleteMountPod E podName namespace = withLock JLock (
     tryM (GetPod E podName namespace) (\<lambda>po.
       if hasRef po then ret (Inr ())
       else do {
         (shouldDelay, err) \<leftarrow> ShouldDelay E po;
         case err of
           Some e \<Rightarrow> ret (Inl e)
         | None \<Rightarrow> if \<not> shouldDelay then tryM (DeletePod E po) (\<lambda>_. ret (Inr ())) else ret (Inr ()) }))"

definition JUmount :: "'w ext \<Rightarrow> string \<Rightarrow> string \<Rightarrow> ('w, gerr + unit) go" where
  "JUmount E volumeId target = do {
     r \<leftarrow> GetPod E (GeneratePodNameByVolumeId E volumeId) (cfgNamespace (cfg E));
     case r of
       Inl e \<Rightarrow> if \<not> IsNotFound e then ret (Inl e) else ret (Inr ())
     | Inr pod \<Rightarrow>
         tryM (delRefLoop E target pod (fuel E)) (\<lambda>_.
         tryM (GetPod E (pName pod) (pNamespace pod)) (\<lambda>newPod.
           if hasRef newPod then ret (Inr ())
           else deleteMountPod E (pName pod) (pNamespace pod))) }"

section \<open>waitUtilMountReady\<close>

fun firstNotReady :: "container_status list \<Rightarrow> string option" where
  "firstNotReady [] = None"
| "firstNotReady (cn # cns) = (if \<not> csReady cn then Some (csName cn) else firstNotReady cns)"

definition getErrContainerLog :: "'w ext \<Rightarrow> string \<Rightarrow> ('w, gerr + string) go" where
  "getErrContainerLog E podName =
     tryM (GetPod E podName (cfgNamespace (cfg E))) (\<lambda>pod.
       case firstNotReady (InitContainerStatuses (pStatus pod)) of
         Some cn \<Rightarrow> GetPodLog E (pName pod) (pNamespace pod) cn
       | None \<Rightarrow>
           (case firstNotReady (ContainerStatuses (pStatus pod)) of
              Some cn \<Rightarrow> GetPodLog E (pName pod) (pNamespace pod) cn
            | None \<Rightarrow> ret (Inr '''')))"

text \<open>The polling loop: \<open>True\<close> when the mount point is ready, \<open>False\<close> when the context ended.\<close>

fun pollMount :: "'w ext \<Rightarrow> string \<Rightarrow> nat \<Rightarrow> ('w, gerr + bool) go" where
  "pollMount E mountPath 0 = ret (Inl NoFuel)"
| "pollMount E mountPath (Suc n) = do {
     r \<leftarrow> DoWithTimeout E 2000 (Stat E mountPath);
     case r of
       Inl e \<Rightarrow> if e = Canceled \<or> e = DeadlineExceeded then ret (Inr False)
                else do { Sleep E 500; pollMount E mountPath n }
     | Inr finfo \<Rightarrow> if fiIno finfo = 1 then ret (Inr True)
                   else do { Sleep E 500; pollMount E mountPath n } }"

definition waitUtilMountReady :: "'w ext \<Rightarrow> string \<Rightarrow> string \<Rightarrow> ('w, gerr + unit) go" where
  "waitUtilMountReady E podName mountPath =
     tryM (pollMount E mountPath (fuel E)) (\<lambda>ready.
       if ready then ret (Inr ())
       else do {
         log \<leftarrow> getErrContainerLog E podName;
         case log of
           Inl _ \<Rightarrow> ret (Inl (ErrorfRaw ''mount %v failed: mount isn't ready in 30 seconds'' [mountPath] None))
         | Inr l \<Rightarrow> ret (Inl (ErrorfRaw ''mount %v failed: %v'' [mountPath, l] None)) })"

section \<open>waitUntilMount and JMount\<close>

text \<open>The pod that is created when there is none: it carries the reference from the start.\<close>

definition podForTarget :: "'w ext \<Rightarrow> JfsSetting \<Rightarrow> string \<Rightarrow> string \<Rightarrow> string \<Rightarrow> string
    \<Rightarrow> resource_requirements \<Rightarrow> pod" where
  "podForTarget E setting podName target mountPath cmd res =
     (let newPod = NewMountPod E podName cmd mountPath res (Configs setting) (Envs setting);
          annos = mput (entries (pAnnotations newPod)) (GetReferenceKey target) target
      in newPod\<lparr>pAnnotations := Some (if length (DeletedDelay setting) > 0
           then mput annos DeleteDelayTimeKey (DeletedDelay setting) else annos)\<rparr>)"

fun mountLoop :: "'w ext \<Rightarrow> JfsSetting \<Rightarrow> string \<Rightarrow> string \<Rightarrow> string \<Rightarrow> string
    \<Rightarrow> resource_requirements \<Rightarrow> nat \<Rightarrow> ('w, gerr + unit) go" where
  "mountLoop E setting podName target mountPath cmd res 0 =
     ret (Inl (ErrorfRaw ''wait mountPod:[%s] ready failed'' [podName] None))"
| "mountLoop E setting podName target mountPath cmd res (Suc n) = do {
     r \<leftarrow> GetPod E podName (cfgNamespace (cfg E));
     case r of
       Inl e \<Rightarrow>
         if IsNotFound e then
           tryM (CreatePod E (podForTarget E setting podName target mountPath cmd res)) (\<lambda>_.
             mountLoop E setting podName target mountPath cmd res n)
         else ret (Inl e)
     | Inr po \<Rightarrow>
         if pDeletionTimestamp po \<noteq> None then do {
           Sleep E 500;
           mountLoop E setting podName target mountPath cmd res n }
         else
           tryWrap (errorf ''add target:[%s] ref in mountPod:%s, error:%s'' [target, podName])
             (AddRefOfMount E target podName) (\<lambda>_. waitUtilMountReady E podName mountPath) }"

definition waitUntilMount :: "'w ext \<Rightarrow> JfsSetting option \<Rightarrow> string \<Rightarrow> string \<Rightarrow> string \<Rightarrow> string \<Rightarrow> ('w, gerr + unit) go" where
  "waitUntilMount E jfsSetting volumeId target mountPath cmd =
     (case jfsSetting of
        None \<Rightarrow> ret (Inl (GoPanic ''nil pointer dereference''))
      | Some setting \<Rightarrow>
          (let podName = GeneratePodNameByVolumeId E volumeId
           in case parsePodResources E (MountPodCpuLimit setting) (MountPodMemLimit setting)
                     (MountPodCpuRequest setting) (MountPodMemRequest setting) of
                Inl e \<Rightarrow> ret (Inl e)
              | Inr podResource \<Rightarrow>
                  withLock (PodLock (GetPodLock podName)) (do {
                    loopTimeout \<leftarrow> GetLoopTimeout E;
                    mountLoop E setting podName target mountPath cmd podResource (nat loopTimeout) })))"

text \<open>The command of the mount pod.\<close>

definition mountCommand :: "JfsSetting \<Rightarrow> string \<Rightarrow> string list \<Rightarrow> string" where
  "mountCommand setting mountPath options =
     (if IsCe setting
      then Join ([CeMountPath, sSource setting, mountPath] @
                 [''-o'', Join (options @ [''metrics=0.0.0.0:9567'']) '','']) '' ''
      else let options = options @ [''foreground'']
           in Join ([JfsMountPath, sSource setting, mountPath] @
                    (if length options > 0 then [''-o'', Join options '',''] else [])) '' '')"

definition JMount :: "'w ext \<Rightarrow> JfsSetting option \<Rightarrow> string \<Rightarrow> string \<Rightarrow> string \<Rightarrow> string list \<Rightarrow> ('w, gerr + unit) go" where
  "JMount E jfsSetting volumeId mountPath target options =
     (case jfsSetting of
        None \<Rightarrow> ret (Inl (GoPanic ''nil pointer dereference''))
      | Some setting \<Rightarrow>
          waitUntilMount E jfsSetting volumeId target mountPath (mountCommand setting mountPath options))"

section \<open>The command and the path read back from it\<close>

lemma isSpace_blank: "isSpace CHR '' ''"
  by (simp add: isSpace_def)

lemma Fields_three:
  assumes "a \<noteq> []" "b \<noteq> []" "c \<noteq> []" and "\<forall>x \<in> set a \<union> set b \<union> set c. \<not> isSpace x"
  shows "Fields (a @ CHR '' '' # b @ CHR '' '' # c @ CHR '' '' # rest) = a # b # c # Fields rest"
  using assms by (simp add: Fields_word isSpace_blank)

lemma mountCommand_shape:
  "\<exists>rest. mountCommand setting m opts =
     JfsMountPath @ CHR '' '' # sSource setting @ CHR '' '' # m @ CHR '' '' # rest"
  by (simp add: mountCommand_def CeMountPath_def Let_def)

lemma JfsMountPath_word: "JfsMountPath \<noteq> []" "x \<in> set JfsMountPath \<Longrightarrow> \<not> isSpace x"
  by (auto simp: JfsMountPath_def isSpace_def)

lemma ParseMntPath_command:
  assumes "sSource setting \<noteq> []" and "\<forall>x \<in> set (sSource setting) \<union> set vol. \<not> isSpace x"
    and "CHR ''/'' \<notin> set vol" and "m = PodMountBase @ ''/'' @ vol"
  shows "ParseMntPath (mountCommand setting m opts) = Inr (m, vol)"
proof -
  obtain rest where c: "mountCommand setting m opts =
      JfsMountPath @ CHR '' '' # sSource setting @ CHR '' '' # m @ CHR '' '' # rest"
    using mountCommand_shape by blast
  have m: "m \<noteq> []" "\<forall>x \<in> set m. \<not> isSpace x"
    using assms(2,4) by (auto simp: PodMountBase_def isSpace_def)
  have f: "Fields (mountCommand setting m opts) = JfsMountPath # sSource setting # m # Fields rest"
    unfolding c by (rule Fields_three) (use assms m JfsMountPath_word in auto)
  have "Split m ''/'' = ['''', ''mosfs'', vol]"
    using Split_Join [of "['''', ''mosfs'', vol]" "CHR ''/''"] assms(3,4) by (simp add: PodMountBase_def)
  moreover have "HasPrefix m PodMountBase" using assms(4) by simp
  ultimately show ?thesis unfolding ParseMntPath_def f by simp
qed

lemma podForTarget_spec:
  "pSpec (podForTarget E st n t m cmd res) = pSpec (NewMountPod E n cmd m res (Configs st) (Envs st))"
  by (simp add: podForTarget_def Let_def)

text \<open>The references of a pod created for a target.\<close>

lemma podForTarget_refs:
  "mlookup (pAnnotations (podForTarget E setting n target m cmd res)) (GetReferenceKey target) = Some target"
  "mlookup (pAnnotations (podForTarget E setting n target m cmd res)) DeleteDelayTimeKey =
     (if DeletedDelay setting = '''' then None else Some (DeletedDelay setting))"
  using key_not_delay [of target]
  by (simp_all add: podForTarget_def NewMountPod_meta Let_def mlookup_def mput_def update_conv')

section \<open>Adding a reference\<close>

lemma traces_ReplacePodAnnotation:
  "traces (ReplacePodAnnotation E p a) (\<lambda>r es. es =
     [EvPatchPod (pNamespace p) (pName p) (JSONPatch [PatchMapValue ''replace'' ''/metadata/annotations'' a]) r])"
  unfolding ReplacePodAnnotation_def
  by (rule traces_tryM [OF traces_PatchPod]) (auto intro: traces_return)

text \<open>
  The annotations after a reference was added: the new reference is there, a planned
  deletion is not, and nothing else changed.
\<close>

definition withRef :: "string \<Rightarrow> smap \<Rightarrow> smap \<Rightarrow> bool" where
  "withRef target old new \<longleftrightarrow>
     mlookup new (GetReferenceKey target) = Some target \<and> mlookup new DeleteDelayAtKey = None \<and>
     (\<forall>k. k \<noteq> GetReferenceKey target \<and> k \<noteq> DeleteDelayAtKey \<longrightarrow> mlookup new k = mlookup old k)"

lemma withRef_update:
  "withRef target old (Some (mdelete (mput (entries old) (GetReferenceKey target) target) DeleteDelayAtKey))"
  using key_not_delay [of target] by (cases old) (auto simp: withRef_def mlookup_def mput_def mdelete_def update_conv' delete_conv')

text \<open>
  One round on the pod \<open>n\<close> of the namespace \<open>ns\<close>: what was read decides what is patched, and a conflict is the only
  error of the patch that is passed on.
\<close>

inductive addRefRound :: "string \<Rightarrow> string \<Rightarrow> string \<Rightarrow> gerr + unit \<Rightarrow> event list \<Rightarrow> bool" for ns n target where
  noPod: "addRefRound ns n target (Inl e) [EvGetPod n ns (Inl e)]"
| present: "mlookup (pAnnotations exist) (GetReferenceKey target) \<noteq> None \<Longrightarrow>
    addRefRound ns n target (Inr ()) [EvGetPod n ns (Inr exist)]"
| patched: "mlookup (pAnnotations exist) (GetReferenceKey target) = None \<Longrightarrow>
    withRef target (pAnnotations exist) a \<Longrightarrow> r = (if pr = Inl (ApiErr Conflict) then pr else Inr ()) \<Longrightarrow>
    addRefRound ns n target r [EvGetPod n ns (Inr exist), EvPatchPod (pNamespace exist) (pName exist)
      (JSONPatch [PatchMapValue ''replace'' ''/metadata/annotations'' a]) pr]"

lemma traces_addRefOnce:
  "traces (addRefOnce E target podName) (\<lambda>r es. \<exists>body. es = Locked JLock # body @ [Unlocked JLock] \<and>
     addRefRound (cfgNamespace (cfg E)) podName target r body)"
proof -
  have "traces (tryM (GetPod E podName (cfgNamespace (cfg E))) (\<lambda>exist.
       let key = GetReferenceKey target
       in if mlookup (pAnnotations exist) key \<noteq> None then ret (Inr ())
          else let annotation = mdelete (mput (entries (pAnnotations exist)) key target) DeleteDelayAtKey
               in do {
                 r \<leftarrow> ReplacePodAnnotation E exist (Some annotation);
                 case r of
                   Inl e \<Rightarrow> if IsConflict e then ret (Inl e) else ret (Inr ())
                 | Inr _ \<Rightarrow> ret (Inr ()) })) (addRefRound (cfgNamespace (cfg E)) podName target)"
    by (rule traces_tryM [OF traces_GetPod])
      (auto simp: Let_def IsConflict_def
        intro!: traces_return traces_bind [OF traces_ReplacePodAnnotation] addRefRound.intros withRef_update
        split: sum.splits)
  then show ?thesis
    unfolding addRefOnce_def by (intro traces_withLock) (rule traces_mono, assumption, blast)
qed

text \<open>All rounds: each but the last ends in a conflict and a pause.\<close>

primrec addRefTrace :: "string \<Rightarrow> string \<Rightarrow> string \<Rightarrow> nat \<Rightarrow> gerr + unit \<Rightarrow> event list \<Rightarrow> bool" where
  "addRefTrace ns n target 0 r es \<longleftrightarrow> r = Inl NoFuel \<and> es = []"
| "addRefTrace ns n target (Suc k) r es \<longleftrightarrow> (\<exists>r1 body rest.
     es = Locked JLock # body @ Unlocked JLock # rest \<and> addRefRound ns n target r1 body \<and>
     (if r1 = Inl (ApiErr Conflict) then \<exists>rest'. rest = EvSleep 10 # rest' \<and> addRefTrace ns n target k r rest'
      else r = r1 \<and> rest = []))"

lemma traces_addRefLoop: "traces (addRefLoop E target podName n) (addRefTrace (cfgNamespace (cfg E)) podName target n)"
proof (induction n)
  case 0
  then show ?case by (simp add: traces_return)
next
  case (Suc n)
  show ?case
    unfolding addRefLoop.simps
  proof (rule traces_bind [OF traces_addRefOnce], elim exE conjE)
    fix r1 es body
    assume es: "es = Locked JLock # body @ [Unlocked JLock]" and b: "addRefRound (cfgNamespace (cfg E)) podName target r1 body"
    show "traces (case r1 of Inl e \<Rightarrow> if IsConflict e then do { Sleep E 10; addRefLoop E target podName n } else ret (Inl e)
        | Inr _ \<Rightarrow> ret (Inr ())) (\<lambda>r es'. addRefTrace (cfgNamespace (cfg E)) podName target (Suc n) r (es @ es'))"
    proof (cases "r1 = Inl (ApiErr Conflict)")
      case True
      have "traces (do { Sleep E 10; addRefLoop E target podName n })
          (\<lambda>r es'. addRefTrace (cfgNamespace (cfg E)) podName target (Suc n) r (es @ es'))"
        unfolding Sleep_def using b True es
        by (intro traces_bind_call traces_mono [OF Suc.IH]) auto
      with True show ?thesis by (simp add: IsConflict_def)
    next
      case False
      have "addRefTrace (cfgNamespace (cfg E)) podName target (Suc n) r1 (es @ [])"
        using b False es by auto
      with False show ?thesis
        by (cases r1) (simp_all add: IsConflict_def traces_return del: addRefTrace.simps append_Nil2)
    qed
  qed
qed

definition isConflictEvent :: "event \<Rightarrow> bool" where
  "isConflictEvent e =
     (case e of
        EvGetPod n ns r \<Rightarrow> r = Inl (ApiErr Conflict)
      | EvPatchPod ns n d r \<Rightarrow> r = Inl (ApiErr Conflict)
      | _ \<Rightarrow> False)"

lemma isConflictEvent_simps [simp]:
  "isConflictEvent (EvGetPod n ns r1) \<longleftrightarrow> r1 = Inl (ApiErr Conflict)"
  "isConflictEvent (EvPatchPod ns n d r2) \<longleftrightarrow> r2 = Inl (ApiErr Conflict)"
  "\<not> isConflictEvent (EvSleep k)" "\<not> isConflictEvent (Locked l)" "\<not> isConflictEvent (Unlocked l)"
  by (simp_all add: isConflictEvent_def)

lemma addRefRound_conflict:
  assumes "addRefRound ns n target (Inl (ApiErr Conflict)) es"
  shows "1 \<le> length (filter isConflictEvent es)"
  using assms
proof (cases rule: addRefRound.cases)
  case (patched exist a pr)
  have "pr = Inl (ApiErr Conflict)"
    using patched(4) by (metis Inr_not_Inl)
  with patched(1) show ?thesis by simp
qed simp_all

text \<open>An answer of the server that the model's own value for an unfinished loop does not occur in.\<close>

definition ownAnswer :: "event \<Rightarrow> bool" where
  "ownAnswer e = (case e of EvGetPod n ns r \<Rightarrow> r \<noteq> Inl NoFuel | EvPatchPod ns n d r \<Rightarrow> r \<noteq> Inl NoFuel | _ \<Rightarrow> True)"

lemma addRefRound_own:
  assumes "addRefRound ns n target (Inl NoFuel) es"
  shows "\<not> list_all ownAnswer es"
  using assms by (cases rule: addRefRound.cases) (simp_all add: ownAnswer_def split: if_splits)

lemma addRefTrace_fuel:
  "addRefTrace ns n target k (Inl NoFuel) es \<Longrightarrow> list_all ownAnswer es \<Longrightarrow> k \<le> length (filter isConflictEvent es)"
proof (induction k arbitrary: es)
  case 0
  then show ?case by simp
next
  case (Suc k)
  then obtain r1 body rest where *: "es = Locked JLock # body @ Unlocked JLock # rest" "addRefRound ns n target r1 body"
    "if r1 = Inl (ApiErr Conflict) then \<exists>rest'. rest = EvSleep 10 # rest' \<and> addRefTrace ns n target k (Inl NoFuel) rest'
     else Inl NoFuel = r1 \<and> rest = []" by auto
  have r1: "r1 = Inl (ApiErr Conflict)"
    using * addRefRound_own [of ns n target body] Suc.prems(2) by (auto split: if_splits)
  with * obtain rest' where "rest = EvSleep 10 # rest'" "addRefTrace ns n target k (Inl NoFuel) rest'" by auto
  then have "k \<le> length (filter isConflictEvent rest)" using Suc.IH Suc.prems(2) *(1) by simp
  moreover have "1 \<le> length (filter isConflictEvent body)" using addRefRound_conflict *(2) r1 by simp
  ultimately show ?case unfolding *(1) by simp
qed

text \<open>
  How the last round has left the reference: it was found on the pod or put there by a patch that the server
  has accepted; or the patch was refused for another reason than a conflict, which the code passes over.
\<close>

inductive refRecorded :: "string \<Rightarrow> string \<Rightarrow> string \<Rightarrow> event list \<Rightarrow> bool" for ns n target where
  found: "mlookup (pAnnotations exist) (GetReferenceKey target) \<noteq> None \<Longrightarrow>
    refRecorded ns n target (pre @ [EvGetPod n ns (Inr exist), Unlocked JLock])"
| accepted: "withRef target (pAnnotations exist) a \<Longrightarrow>
    refRecorded ns n target (pre @ [EvGetPod n ns (Inr exist), EvPatchPod (pNamespace exist) (pName exist)
      (JSONPatch [PatchMapValue ''replace'' ''/metadata/annotations'' a]) (Inr ()), Unlocked JLock])"

inductive refRefused :: "string \<Rightarrow> string \<Rightarrow> string \<Rightarrow> event list \<Rightarrow> bool" for ns n target where
  refused: "mlookup (pAnnotations exist) (GetReferenceKey target) = None \<Longrightarrow> withRef target (pAnnotations exist) a \<Longrightarrow>
    \<not> IsConflict e \<Longrightarrow>
    refRefused ns n target (pre @ [EvGetPod n ns (Inr exist), EvPatchPod (pNamespace exist) (pName exist)
      (JSONPatch [PatchMapValue ''replace'' ''/metadata/annotations'' a]) (Inl e), Unlocked JLock])"

lemma refRecorded_append: "refRecorded ns n target es \<Longrightarrow> refRecorded ns n target (pre @ es)"
proof (induction rule: refRecorded.induct)
  case (found exist pre')
  then show ?case using refRecorded.found [of exist target ns n "pre @ pre'"] by simp
next
  case (accepted exist a pre')
  then show ?case using refRecorded.accepted [of target exist a ns n "pre @ pre'"] by simp
qed

lemma refRefused_append: "refRefused ns n target es \<Longrightarrow> refRefused ns n target (pre @ es)"
proof (induction rule: refRefused.induct)
  case (refused exist a e pre')
  then show ?case using refRefused.refused [of exist target a e ns n "pre @ pre'"] by simp
qed

lemma addRefRound_outcome:
  assumes "addRefRound ns n target (Inr ()) body"
  shows "refRecorded ns n target (body @ [Unlocked JLock]) \<or> refRefused ns n target (body @ [Unlocked JLock])"
  using assms
proof (cases rule: addRefRound.cases)
  case (present exist)
  then show ?thesis using refRecorded.found [of exist target ns n "[]"] by simp
next
  case (patched exist a pr)
  show ?thesis
  proof (cases pr)
    case (Inl e)
    with patched have "\<not> IsConflict e" by (auto simp: IsConflict_def split: if_splits)
    with patched Inl show ?thesis using refRefused.refused [of exist target a e ns n "[]"] by simp
  next
    case (Inr u)
    with patched show ?thesis using refRecorded.accepted [of target exist a ns n "[]"] by simp
  qed
qed

lemma addRefTrace_outcome:
  "addRefTrace ns n target k (Inr ()) es \<Longrightarrow> refRecorded ns n target es \<or> refRefused ns n target es"
proof (induction k arbitrary: es)
  case (Suc k)
  then obtain r1 body rest where *: "es = Locked JLock # body @ Unlocked JLock # rest" "addRefRound ns n target r1 body"
    "if r1 = Inl (ApiErr Conflict) then \<exists>rest'. rest = EvSleep 10 # rest' \<and> addRefTrace ns n target k (Inr ()) rest'
     else Inr () = r1 \<and> rest = []" by auto
  show ?case
  proof (cases "r1 = Inl (ApiErr Conflict)")
    case True
    with * obtain rest' where r: "rest = EvSleep 10 # rest'" "addRefTrace ns n target k (Inr ()) rest'" by auto
    have "es = (Locked JLock # body @ [Unlocked JLock, EvSleep 10]) @ rest'" using *(1) r(1) by simp
    with Suc.IH [OF r(2)] show ?thesis by (metis refRecorded_append refRefused_append)
  next
    case False
    with * have "es = [Locked JLock] @ body @ [Unlocked JLock]" "addRefRound ns n target (Inr ()) body" by auto
    with addRefRound_outcome show ?thesis by (metis refRecorded_append refRefused_append)
  qed
qed simp

text \<open>
  An error of the patch that is no conflict is lost: the reference is not recorded
  and the caller is told that it is.
\<close>

section \<open>Removing a reference\<close>

text \<open>
  A deletion is guarded when the call before it read the pod, and the pod read has
  no annotation of the driver.
\<close>

definition guardOk :: "event option \<Rightarrow> event \<Rightarrow> bool" where
  "guardOk prev e =
     (case e of
        EvDeletePod ns n r \<Rightarrow>
          (case prev of
             Some (EvGetPod n' ns' (Inr po)) \<Rightarrow> \<not> hasRef po \<and> ns = pNamespace po \<and> n = pName po
           | _ \<Rightarrow> False)
      | _ \<Rightarrow> True)"

primrec guarded :: "event option \<Rightarrow> event list \<Rightarrow> bool" where
  "guarded prev [] \<longleftrightarrow> True"
| "guarded prev (e # es) \<longleftrightarrow> guardOk prev e \<and> guarded (Some e) es"

lemma guardOk_None: "guardOk None e \<Longrightarrow> guardOk prev e"
  by (auto simp: guardOk_def split: event.splits)

lemma guarded_None: "guarded None es \<Longrightarrow> guarded prev es"
  by (cases es) (auto intro: guardOk_None)

lemma guarded_append: "guarded prev xs \<Longrightarrow> guarded None ys \<Longrightarrow> guarded prev (xs @ ys)"
  by (induction xs arbitrary: prev) (auto intro: guarded_None)

definition noDelete :: "event \<Rightarrow> bool" where
  "noDelete e = (case e of EvDeletePod ns n r \<Rightarrow> False | _ \<Rightarrow> True)"

lemma noDelete_guardOk: "noDelete e \<Longrightarrow> guardOk prev e"
  by (auto simp: noDelete_def guardOk_def split: event.splits)

lemma guarded_noDelete: "list_all noDelete es \<Longrightarrow> guarded prev es"
  by (induction es arbitrary: prev) (auto intro: noDelete_guardOk)

lemma emits_delRefOnce [emits_intros]:
  assumes "\<And>n ns r. P (EvGetPod n ns r)" and "P (Locked JLock)" and "P (Unlocked JLock)"
    and "\<And>ns n r. P (EvPatchPod ns n (JSONPatch (delPayload [GetReferenceKey target])) r)"
  shows "emits P (delRefOnce E target pod)"
  unfolding delRefOnce_def by (intro emits_intros) (auto simp: assms)

lemma emits_delRefLoop [emits_intros]:
  assumes "\<And>n ns r. P (EvGetPod n ns r)" and "P (Locked JLock)" and "P (Unlocked JLock)"
    and "\<And>ns n r. P (EvPatchPod ns n (JSONPatch (delPayload [GetReferenceKey target])) r)"
  shows "emits P (delRefLoop E target pod n)"
  by (induction n) (auto intro!: emits_intros simp: assms)

text \<open>
  Deleting the pod: either it was read with an annotation of the driver and stays, or
  it is deleted at once. The delay is never looked at, since a pod that has one also
  has an annotation of the driver.
\<close>

inductive deleteTrace :: "gerr + unit \<Rightarrow> event list \<Rightarrow> bool" where
  unread: "deleteTrace (Inl e) [Locked JLock, EvGetPod n ns (Inl e), Unlocked JLock]"
| kept: "hasRef po \<Longrightarrow> deleteTrace (Inr ()) [Locked JLock, EvGetPod n ns (Inr po), Unlocked JLock]"
| deleted: "\<not> hasRef po \<Longrightarrow> deleteTrace r [Locked JLock, EvGetPod n ns (Inr po),
    EvDeletePod (pNamespace po) (pName po) r, Unlocked JLock]"

lemma ShouldDelay_unreferenced: "\<not> hasRef p \<Longrightarrow> ShouldDelay E p = ret (False, None)"
  using hasRef_delay [of p] by (intro ShouldDelay_unset) blast

lemma traces_deleteMountPod: "traces (deleteMountPod E n ns) deleteTrace"
  unfolding deleteMountPod_def
  by (intro traces_withLock traces_tryM [OF traces_GetPod])
    (auto simp: ShouldDelay_unreferenced intro!: deleteTrace.intros traces_return traces_tryM [OF traces_DeletePod])

lemma deleteTrace_guarded: "deleteTrace r es \<Longrightarrow> guarded None es"
  by (erule deleteTrace.cases) (simp_all add: guardOk_def)

lemma traces_delRefLoop_guarded: "traces (delRefLoop E target pod n) (\<lambda>_ es. list_all noDelete es)"
  by (intro emits_delRefLoop [unfolded emits_traces]) (simp_all add: noDelete_def)

lemma traces_JUmount: "traces (JUmount E volumeId target) (\<lambda>_ es. guarded None es)"
proof -
  have cleanup: "traces (tryM (delRefLoop E target pod (fuel E)) (\<lambda>_.
         tryM (GetPod E (pName pod) (pNamespace pod)) (\<lambda>newPod.
           if hasRef newPod then ret (Inr ()) else deleteMountPod E (pName pod) (pNamespace pod))))
      (\<lambda>_ es. guarded None es)" for pod
  proof (rule traces_tryM [OF traces_delRefLoop_guarded], erule guarded_noDelete, rule traces_tryM [OF traces_GetPod])
    fix es es' :: "event list" and newPod
    assume es: "list_all noDelete es" and es': "es' = [EvGetPod (pName pod) (pNamespace pod) (Inr newPod)]"
    have g: "guarded None (es @ es' @ es'')" if "guarded None es''" for es''
      using guarded_None [OF that] es' by (intro guarded_append [OF guarded_noDelete [OF es]]) (simp add: guardOk_def)
    show "traces (if hasRef newPod then ret (Inr ()) else deleteMountPod E (pName pod) (pNamespace pod))
        (\<lambda>r es''. guarded None (es @ es' @ es''))"
      by (auto intro!: g traces_return traces_mono [OF traces_deleteMountPod] dest: deleteTrace_guarded)
  qed (auto simp: guardOk_def intro!: guarded_append [OF guarded_noDelete])
  show ?thesis
    unfolding JUmount_def
  proof (rule traces_bind [OF traces_GetPod])
    fix r es
    assume es: "es = [EvGetPod (GeneratePodNameByVolumeId E volumeId) (cfgNamespace (cfg E)) r]"
    have g: "guarded None (es @ es')" if "guarded None es'" for es'
      using guarded_None [OF that] es by (simp add: guardOk_def)
    show "traces (case r of Inl e \<Rightarrow> if \<not> IsNotFound e then ret (Inl e) else ret (Inr ())
        | Inr pod \<Rightarrow> tryM (delRefLoop E target pod (fuel E)) (\<lambda>_.
            tryM (GetPod E (pName pod) (pNamespace pod)) (\<lambda>newPod.
              if hasRef newPod then ret (Inr ()) else deleteMountPod E (pName pod) (pNamespace pod))))
        (\<lambda>_ es'. guarded None (es @ es'))"
      by (cases r) (auto intro!: traces_return g traces_mono [OF cleanup])
  qed
qed

text \<open>How a reference is given back: the pod was read without it, or a patch that removes it was accepted.\<close>

inductive refGone :: "pod \<Rightarrow> string \<Rightarrow> event list \<Rightarrow> bool" for pod target where
  absent: "mlookup (pAnnotations po) (GetReferenceKey target) = None \<Longrightarrow>
    refGone pod target (pre @ [EvGetPod (pName pod) (pNamespace pod) (Inr po), Unlocked JLock])"
| removed: "refGone pod target (pre @ [EvGetPod (pName pod) (pNamespace pod) (Inr po),
    EvPatchPod (pNamespace po) (pName po) (JSONPatch (delPayload [GetReferenceKey target])) (Inr ()), Unlocked JLock])"

lemma refGone_append: "refGone pod target es \<Longrightarrow> refGone pod target (pre @ es)"
proof (induction rule: refGone.induct)
  case (absent po pre')
  then show ?case using refGone.absent [of po target pod "pre @ pre'"] by simp
next
  case (removed pre' po)
  then show ?case using refGone.removed [of pod target "pre @ pre'" po] by simp
qed

lemma traces_delRefOnce: "traces (delRefOnce E target pod) (\<lambda>r es. r = Inr () \<longrightarrow> refGone pod target es)"
proof -
  have del: "traces (DelPodAnnotation E po [k]) (\<lambda>r es. es = [EvPatchPod (pNamespace po) (pName po) (JSONPatch (delPayload [k])) r])" for po k
    unfolding DelPodAnnotation_def by (rule traces_tryM [OF traces_PatchPod]) (auto intro: traces_return)
  show ?thesis
    unfolding delRefOnce_def
    using refGone.absent [of _ target pod "[Locked JLock]"] refGone.removed [of pod target "[Locked JLock]"]
    by (intro traces_withLock traces_tryM [OF traces_GetPod]) (auto intro!: traces_return traces_mono [OF del])
qed

lemma traces_delRefLoop: "traces (delRefLoop E target pod n) (\<lambda>r es. r = Inr () \<longrightarrow> refGone pod target es)"
proof (induction n)
  case 0
  then show ?case by (simp add: traces_return)
next
  case (Suc n)
  show ?case
    unfolding delRefLoop.simps
  proof (rule traces_bind [OF traces_delRefOnce])
    fix r :: "gerr + unit" and es
    assume "r = Inr () \<longrightarrow> refGone pod target es"
    then show "traces (case r of Inl e \<Rightarrow> if IsConflict e then delRefLoop E target pod n else ret (Inl e) | Inr _ \<Rightarrow> ret (Inr ()))
        (\<lambda>r es'. r = Inr () \<longrightarrow> refGone pod target (es @ es'))"
      by (cases r) (auto intro!: traces_return traces_mono [OF Suc.IH] intro: refGone_append)
  qed
qed

text \<open>
  A successful \<open>JUmount\<close>: the mount pod of the volume was not found, or the reference of the target has gone from
  it, before anything else is done to the pod.
\<close>

definition released :: "string \<Rightarrow> string \<Rightarrow> string \<Rightarrow> event list \<Rightarrow> bool" where
  "released ns n target es \<longleftrightarrow> (\<exists>r rest. es = EvGetPod n ns r # rest \<and>
     (case r of
        Inl e \<Rightarrow> IsNotFound e \<and> rest = []
      | Inr pod \<Rightarrow> \<exists>ref rest'. rest = ref @ rest' \<and> refGone pod target ref))"

lemma traces_JUmount_released:
  "traces (JUmount E volumeId target)
     (\<lambda>r es. r = Inr () \<longrightarrow> released (cfgNamespace (cfg E)) (GeneratePodNameByVolumeId E volumeId) target es)"
proof -
  have tail: "traces (tryM (GetPod E (pName pod) (pNamespace pod)) (\<lambda>newPod.
      if hasRef newPod then ret (Inr ()) else deleteMountPod E (pName pod) (pNamespace pod))) (\<lambda>_ _. True)" for pod
    by (intro traces_tryM [OF traces_GetPod]) (auto intro!: traces_return traces_mono [OF traces_deleteMountPod])
  show ?thesis
    unfolding JUmount_def released_def
    by (rule traces_bind [OF traces_GetPod])
      (auto intro!: traces_return traces_tryM [OF traces_delRefLoop] traces_mono [OF tail] split: sum.splits)
qed

section \<open>A successful mount\<close>

definition readyStat :: "string \<Rightarrow> event \<Rightarrow> bool" where
  "readyStat path e = (case e of EvStat p (Inr fi) \<Rightarrow> p = path \<and> fiIno fi = 1 | _ \<Rightarrow> False)"

lemma traces_DoWithTimeout_Stat:
  "traces (DoWithTimeout E ms (Stat E p))
     (\<lambda>r es. (\<exists>e. r = Inl e \<and> es = [EvTimer (Some e)]) \<or> es = [EvTimer None, EvStat p r])"
  unfolding DoWithTimeout_def DoWithContext_def Timer_def Stat_def
  by (auto intro!: traces_bind_call traces_return traces_call split: option.splits)

definition readyEnd :: "string \<Rightarrow> event list \<Rightarrow> bool" where
  "readyEnd path es \<longleftrightarrow> es \<noteq> [] \<and> readyStat path (last es)"

lemma readyEnd_append: "readyEnd path es \<Longrightarrow> readyEnd path (pre @ es)"
  by (auto simp: readyEnd_def)

lemma traces_pollMount: "traces (pollMount E p n) (\<lambda>r es. r = Inr True \<longrightarrow> readyEnd p es)"
proof (induction n)
  case 0
  then show ?case by (simp add: traces_return)
next
  case (Suc n)
  have again: "traces (do { Sleep E 500; pollMount E p n }) (\<lambda>r es. r = Inr True \<longrightarrow> readyEnd p (pre @ es))" for pre
    unfolding Sleep_def using readyEnd_append [of p _ "pre @ [EvSleep 500]"]
    by (intro traces_bind_call traces_mono [OF Suc.IH]) simp
  show ?case
    unfolding pollMount.simps
  proof (rule traces_bind [OF traces_DoWithTimeout_Stat])
    fix r es
    assume es: "(\<exists>e. r = Inl e \<and> es = [EvTimer (Some e)]) \<or> es = [EvTimer None, EvStat p r]"
    show "traces (case r of
        Inl e \<Rightarrow> if e = Canceled \<or> e = DeadlineExceeded then ret (Inr False)
                 else do { Sleep E 500; pollMount E p n }
      | Inr finfo \<Rightarrow> if fiIno finfo = 1 then ret (Inr True) else do { Sleep E 500; pollMount E p n })
        (\<lambda>r es'. r = Inr True \<longrightarrow> readyEnd p (es @ es'))"
    proof (cases r)
      case (Inl e)
      then show ?thesis using again [of es] by (auto intro: traces_return)
    next
      case (Inr finfo)
      with es have "fiIno finfo = 1 \<Longrightarrow> readyEnd p (es @ [])" by (auto simp: readyEnd_def readyStat_def)
      with Inr show ?thesis using again [of es] by (auto intro: traces_return)
    qed
  qed
qed

lemma traces_waitUtilMountReady:
  "traces (waitUtilMountReady E n p) (\<lambda>r es. r = Inr () \<longrightarrow> readyEnd p es)"
proof -
  have "traces (do { log \<leftarrow> getErrContainerLog E n; case log of
           Inl _ \<Rightarrow> ret (Inl (ErrorfRaw ''mount %v failed: mount isn't ready in 30 seconds'' [p] None))
         | Inr l \<Rightarrow> ret (Inl (ErrorfRaw ''mount %v failed: %v'' [p, l] None)) }) (\<lambda>r es. r \<noteq> Inr ())"
  proof (rule traces_bind [where S = "\<lambda>_ _. True"])
    show "traces (getErrContainerLog E n) (\<lambda>_ _. True)"
      unfolding getErrContainerLog_def GetPodLog_def
      by (auto intro!: traces_tryM [OF traces_GetPod] traces_call traces_return split: option.splits)
  qed (auto intro: traces_return split: sum.splits)
  then show ?thesis
    unfolding waitUtilMountReady_def
    by (intro traces_tryM [OF traces_pollMount]) (auto intro!: traces_return elim!: traces_mono)
qed

text \<open>
  What a successful mount has done: the reference of the target was recorded on the mount pod (unless the server
  refused it for another reason than a conflict), and after that the mount point was seen to be ready.
\<close>

definition mounted :: "string \<Rightarrow> string \<Rightarrow> string \<Rightarrow> string \<Rightarrow> event list \<Rightarrow> bool" where
  "mounted ns n target path es \<longleftrightarrow> (\<exists>ref post. es = ref @ post \<and>
     (refRecorded ns n target ref \<or> refRefused ns n target ref) \<and> readyEnd path post)"

lemma mounted_append: "mounted ns n target path es \<Longrightarrow> mounted ns n target path (pre @ es)"
  unfolding mounted_def by (metis append_assoc refRecorded_append refRefused_append)

lemma mounted_Cons: "mounted ns n target path es \<Longrightarrow> mounted ns n target path (e # es)"
  using mounted_append [of ns n target path es "[e]"] by simp

lemma traces_mountLoop:
  "traces (mountLoop E setting podName target mountPath cmd res n)
     (\<lambda>r es. r = Inr () \<longrightarrow> mounted (cfgNamespace (cfg E)) podName target mountPath es)"
proof (induction n)
  case 0
  then show ?case by (simp add: traces_return)
next
  case (Suc n)
  let ?T = "\<lambda>r es. r = Inr () \<longrightarrow> mounted (cfgNamespace (cfg E)) podName target mountPath es"
  have create: "traces (tryM (CreatePod E (podForTarget E setting podName target mountPath cmd res)) (\<lambda>_.
      mountLoop E setting podName target mountPath cmd res n)) ?T"
    by (rule traces_tryM [OF traces_CreatePod]) (auto intro!: traces_mono [OF Suc.IH] simp: mounted_Cons)
  have wait: "traces (do { Sleep E 500; mountLoop E setting podName target mountPath cmd res n }) ?T"
    unfolding Sleep_def by (intro traces_bind_call traces_mono [OF Suc.IH]) (simp add: mounted_Cons)
  have use: "traces (tryWrap (errorf f args) (AddRefOfMount E target podName)
      (\<lambda>_. waitUtilMountReady E podName mountPath)) ?T" for f args
    unfolding AddRefOfMount_def
    by (rule traces_tryWrap [OF traces_addRefLoop], simp, rule traces_mono [OF traces_waitUtilMountReady])
      (metis addRefTrace_outcome mounted_def old.unit.exhaust)
  show ?case
    unfolding mountLoop.simps
  proof (rule traces_bind [OF traces_GetPod])
    fix r es
    show "traces (case r of
         Inl e \<Rightarrow> if IsNotFound e
           then tryM (CreatePod E (podForTarget E setting podName target mountPath cmd res)) (\<lambda>_.
                  mountLoop E setting podName target mountPath cmd res n)
           else ret (Inl e)
       | Inr po \<Rightarrow> if pDeletionTimestamp po \<noteq> None
           then do { Sleep E 500; mountLoop E setting podName target mountPath cmd res n }
           else tryWrap (errorf ''add target:[%s] ref in mountPod:%s, error:%s'' [target, podName])
                  (AddRefOfMount E target podName) (\<lambda>_. waitUtilMountReady E podName mountPath))
        (\<lambda>r es'. ?T r (es @ es'))"
      by (rule traces_mono [where S = ?T]) (auto intro!: traces_return create wait use mounted_append split: sum.splits)
  qed
qed

lemma traces_JMount:
  "traces (JMount E setting volumeId mountPath target options)
     (\<lambda>r es. r = Inr () \<longrightarrow> mounted (cfgNamespace (cfg E)) (GeneratePodNameByVolumeId E volumeId) target mountPath (butlast es) \<and>
        last es = Unlocked (PodLock (GetPodLock (GeneratePodNameByVolumeId E volumeId))))"
proof -
  have loop: "traces (do { n \<leftarrow> GetLoopTimeout E;
        mountLoop E st podName target mountPath cmd res (nat n) })
      (\<lambda>r es. r = Inr () \<longrightarrow> mounted (cfgNamespace (cfg E)) podName target mountPath (Locked l # es))" for st podName cmd res l
  proof (rule traces_bind [where S = "\<lambda>_ _. True"])
    show "traces (GetLoopTimeout E) (\<lambda>_ _. True)"
      unfolding GetLoopTimeout_def Getenv_def LookupEnv_def
      by (auto intro!: traces_bind [where S = "\<lambda>_ _. True"] traces_call traces_return split: option.splits)
    fix x es
    show "traces (mountLoop E st podName target mountPath cmd res (nat x))
        (\<lambda>r es'. r = Inr () \<longrightarrow> mounted (cfgNamespace (cfg E)) podName target mountPath (Locked l # es @ es'))"
      by (rule traces_mono [OF traces_mountLoop]) (simp add: mounted_append mounted_Cons)
  qed
  show ?thesis
    unfolding JMount_def waitUntilMount_def Let_def
    by (auto intro!: traces_return traces_withLock traces_mono [OF loop] split: option.splits sum.splits
        simp: butlast_append)
qed

section \<open>An example\<close>

definition exSetting :: JfsSetting where
  "exSetting = zero_setting\<lparr>sSource := ''vol1'', UsePod := True\<rparr>"

text \<open>An API server that knows one pod, without annotations.\<close>

definition Epod :: "unit ext" where
  "Epod = E0\<lparr>kube := kube0\<lparr>api_get := \<lambda>n ns w. (Inr (zero_pod\<lparr>pName := n, pNamespace := ns\<rparr>), w)\<rparr>\<rparr>"

lemmas run_defs = withLock_def lockE_def unlockE_def Sleep_def ReplacePodAnnotation_def PatchPod_def Stat_def
  DoWithTimeout_def DoWithContext_def Timer_def GetLoopTimeout_def Getenv_def LookupEnv_def wp_simps

lemma Epod_mountLoop:
  "wp (mountLoop Epod exSetting n ''/t'' ''/mosfs/pv1'' cmd res (Suc k)) (\<lambda>r s. r = Inr ()) ((), t)"
  by (simp add: AddRefOfMount_def addRefOnce_def waitUtilMountReady_def run_defs Epod_def env0_defs Let_def
      mlookup_def zero_pod_def)

lemma Epod_mounts: "result (JMount Epod (Some exSetting) ''pv1'' ''/mosfs/pv1'' ''/t'' []) () = Inr ()"
proof (rule result_eqI)
  have "parsePodResources Epod '''' '''' '''' '''' = Inr \<lparr>Limits = Some [], Requests = Some []\<rparr>"
    by (simp add: parsePodResources_def putQuantity_def sumBind_def)
  moreover have "run_state (GetLoopTimeout Epod) ((), t) = (60, (), t @ [EvLookupEnv ''LOOP_TIMEOUT'' None])" for t
    unfolding run_state_iff_wp by (simp add: run_defs Epod_def env0_defs defaultLoopTimeout_def)
  moreover have "MountPodCpuLimit exSetting = ''''" "MountPodMemLimit exSetting = ''''"
      "MountPodCpuRequest exSetting = ''''" "MountPodMemRequest exSetting = ''''"
    by (simp_all add: exSetting_def zero_setting_def)
  ultimately show "wp (JMount Epod (Some exSetting) ''pv1'' ''/mosfs/pv1'' ''/t'' []) (\<lambda>r s. r = Inr ()) ((), [])"
    using wp_mono [OF Epod_mountLoop [where k = 59]]
    by (simp add: JMount_def waitUntilMount_def wp_simps withLock_def lockE_def unlockE_def run_state_wp Let_def
      split_paired_all del: mountLoop.simps)
qed

section \<open>Properties\<close>

text \<open>
  Whatever the API server answers, \<open>JUmount\<close> deletes a mount pod only directly after it has
  read that pod without any annotation of the driver: no target refers to it any more.
\<close>

theorem JUmount_deletes_unreferenced: "traces (JUmount E volumeId target) (\<lambda>_ es. guarded None es)"
  by (rule traces_JUmount)

text \<open>
  When \<open>JMount\<close> succeeds, the reference of the target was recorded on the mount pod of the volume (or refused for
  another reason than a conflict), afterwards the mount point was seen with the root inode, and the last step
  released the lock of the pod.
\<close>

theorem JMount_success:
  "traces (JMount E setting volumeId mountPath target options) (onSuccess (\<lambda>_ es.
     mounted (cfgNamespace (cfg E)) (GeneratePodNameByVolumeId E volumeId) target mountPath (butlast es) \<and>
     last es = Unlocked (PodLock (GetPodLock (GeneratePodNameByVolumeId E volumeId)))))"
  by (rule traces_mono [OF traces_JMount]) (simp add: onSuccess_def split: sum.splits)

text \<open>
  The mount path and the volume id that the controller reads back from the command of a
  mount pod are those the pod was created with.
\<close>

lemma mount_path_roundtrip:
  assumes "sSource setting \<noteq> []" and "\<forall>x \<in> set (sSource setting) \<union> set vol. \<not> isSpace x"
    and "CHR ''/'' \<notin> set vol" and "m = PodMountBase @ ''/'' @ vol"
    and "CHR ''('' \<notin> set (mountCommand setting m opts)" and "CHR '')'' \<notin> set (mountCommand setting m opts)"
  shows "GetMountPathOfPod (podForTarget E setting n target m (mountCommand setting m opts) res) = Inr (m, vol)"
proof -
  obtain c where "Containers (pSpec (podForTarget E setting n target m (mountCommand setting m opts) res)) = [c]"
      "cCommand c = Some [''sh'', ''-c'', mountCommand setting m opts]"
    using command_NewMountPod [of E n "mountCommand setting m opts" m res "Configs setting" "Envs setting"]
      assms(5,6) by (auto simp: podForTarget_spec quoteForShell_plain)
  with ParseMntPath_command [OF assms(1-4)] show ?thesis by (simp add: GetMountPathOfPod_def)
qed

text \<open>
  \<open>AddRefOfMount\<close> works in rounds under \<open>JLock\<close>. A round reads the pod; if the reference is
  missing it replaces the annotations by ones in which the reference is there, a planned
  deletion is not, and nothing else changed. Only a conflict is followed by another round.
\<close>

theorem AddRefOfMount_rounds:
  "traces (AddRefOfMount E target podName) (addRefTrace (cfgNamespace (cfg E)) podName target (fuel E))"
  unfolding AddRefOfMount_def by (rule traces_addRefLoop)

text \<open>
  C20: \<open>AddRefOfMount\<close> ends: it runs out of rounds only when the API server has answered with at
  least as many conflicts as there were rounds to make.
\<close>

theorem AddRefOfMount_ends:
  assumes "length (filter isConflictEvent (events (AddRefOfMount E target podName) w)) < fuel E"
    and "list_all ownAnswer (events (AddRefOfMount E target podName) w)"
  shows "result (AddRefOfMount E target podName) w \<noteq> Inl NoFuel"
proof
  assume r: "result (AddRefOfMount E target podName) w = Inl NoFuel"
  have "addRefTrace (cfgNamespace (cfg E)) podName target (fuel E) (result (AddRefOfMount E target podName) w) (events (AddRefOfMount E target podName) w)"
    unfolding AddRefOfMount_def by (rule traces_events [OF traces_addRefLoop])
  from addRefTrace_fuel [OF this [unfolded r] assms(2)] assms(1) show False by simp
qed

theorem AddRefOfMount_ends_witness: "result (AddRefOfMount E0 ''/t'' ''p'') () \<noteq> Inl NoFuel"
proof (rule AddRefOfMount_ends)
  have ev: "events (AddRefOfMount E0 ''/t'' ''p'') () =
      [Locked JLock, EvGetPod ''p'' ''kube-system'' (Inl (ApiErr NotFound)), Unlocked JLock]"
    by (rule events_eqI) (simp add: AddRefOfMount_def addRefOnce_def run_defs env0_defs IsConflict_def)
  show "length (filter isConflictEvent (events (AddRefOfMount E0 ''/t'' ''p'') ())) < fuel E0"
    unfolding ev by (simp add: E0_def)
  show "list_all ownAnswer (events (AddRefOfMount E0 ''/t'' ''p'') ())"
    unfolding ev by (simp add: ownAnswer_def)
qed

text \<open>
  \<open>AddRefOfMount\<close> loses an error of the patch that is no conflict: it reports success although
  the reference was not recorded.
\<close>

theorem AddRefOfMount_drops_error:
  assumes "fuel E = Suc n"
    and "api_get (kube E) podName (cfgNamespace (cfg E)) w = (Inr exist, w1)"
    and "mlookup (pAnnotations exist) (GetReferenceKey target) = None"
    and "\<And>d. api_patch (kube E) (pNamespace exist) (pName exist) d w1 = (Inl e, w2)" and "\<not> IsConflict e"
  shows "wp (AddRefOfMount E target podName) (\<lambda>r s. r = Inr ()) (w, t)"
  using assms
  by (simp add: AddRefOfMount_def addRefOnce_def withLock_def lockE_def unlockE_def ReplacePodAnnotation_def
      PatchPod_def Let_def wp_simps)

theorem AddRefOfMount_drops_error_witness:
  "wp (AddRefOfMount (Epod\<lparr>kube := (kube Epod)\<lparr>api_patch := \<lambda>ns n d w. (Inl (ApiErr NotFound), w)\<rparr>\<rparr>) ''/t'' ''p'')
     (\<lambda>r s. r = Inr ()) ((), [])"
  by (rule AddRefOfMount_drops_error [where e = "ApiErr NotFound" and ?w1.0 = "()" and ?w2.0 = "()"
        and exist = "zero_pod\<lparr>pName := ''p'', pNamespace := ''kube-system''\<rparr>"])
    (simp_all add: Epod_def env0_defs IsConflict_def mlookup_def zero_pod_def)

end
