(* ===== verification/Process_Mount.thy ===== *)
theory Process_Mount
  imports Config
begin

text \<open>
  \<open>pkg/juicefs/mount/process_mount.go\<close>: mounting by a process of the driver's own
  container, as the controller does. The mount command is started in the background;
  its result is not looked at.
\<close>

definition mode0755 :: nat where "mode0755 = 493"
definition mode0777 :: nat where "mode0777 = 511"
definition mode0644 :: nat where "mode0644 = 420"

fun waitIno :: "'w ext \<Rightarrow> string \<Rightarrow> string \<Rightarrow> nat \<Rightarrow> ('w, gerr + unit) go" where
  "waitIno E src mountPath 0 =
     ret (Inl (StatusRaw Internal ''Mount %v at %v failed: mount isn't ready in 30 seconds'' [src, mountPath] None))"
| "waitIno E src mountPath (Suc n) = do {
     r \<leftarrow> Stat E mountPath;
     case r of
       Inl e \<Rightarrow> ret (Inl (statusf Internal ''Stat mount path %v failed: %v'' [mountPath] e))
     | Inr finfo \<Rightarrow> if fiIno finfo = 1 then ret (Inr ())
                   else do { Sleep E 1000; waitIno E src mountPath n } }"

text \<open>The directory is made when it is missing, and unmounted when something is mounted there.\<close>

definition prepareMountPath :: "'w ext \<Rightarrow> string \<Rightarrow> ('w, gerr + unit) go" where
  "prepareMountPath E mountPath = do {
     (exist, err) \<leftarrow> PathExists E mountPath;
     case err of
       Some e \<Rightarrow> ret (Inl (statusf Internal ''Could not check existence of dir %q: %v'' [mountPath] e))
     | None \<Rightarrow>
         tryWrap (statusf Internal ''Could not create dir %q: %v'' [mountPath])
           (if \<not> exist then MkdirAll E mountPath mode0755 else ret (Inr ())) (\<lambda>_.
         tryM (IsLikelyNotMountPoint E mountPath) (\<lambda>notMounted.
           if \<not> notMounted then Unmount E mountPath else ret (Inr ()))) }"

definition pm_JMount :: "'w ext \<Rightarrow> JfsSetting \<Rightarrow> string \<Rightarrow> string \<Rightarrow> string list \<Rightarrow> ('w, gerr + unit) go" where
  "pm_JMount E setting storage mountPath options =
     (if \<not> Contains (sSource setting) ''://'' then
        tryWrap (statusf Internal ''Could not mount %q at %q: %v'' [sSource setting, mountPath])
          (Mount E (sSource setting) mountPath FsType options) (\<lambda>_. ret (Inr ()))
      else
        tryM (prepareMountPath E mountPath) (\<lambda>_. do {
          let mountArgs = [sSource setting, mountPath] @
                (if length options > 0 then [''-o'', Join options '',''] else []);
          let envs = [(''JFS_FOREGROUND'', ''1'')] @
                (if storage = ''ceph'' \<or> storage = ''gs'' then [(''JFS_NO_CHECK_OBJECT_STORAGE'', ''1'')] else []);
          _ \<leftarrow> Exec E (CeMountPath # mountArgs) envs;
          waitIno E (sSource setting) mountPath 30 }))"

definition pm_JUmount :: "'w ext \<Rightarrow> string \<Rightarrow> ('w, gerr + unit) go" where
  "pm_JUmount E target = Unmount E target"

definition pm_AddRefOfMount :: "string \<Rightarrow> string \<Rightarrow> ('w, gerr + unit) go" where
  "pm_AddRefOfMount target podName = ret (Inl (GoPanic ''implement me''))"

section \<open>Facts\<close>

lemma traces_waitIno:
  "traces (waitIno E src p n) (\<lambda>r es. (r = Inr () \<longrightarrow> (\<exists>fi. EvStat p (Inr fi) \<in> set es \<and> fiIno fi = 1)) \<and>
     length (filter (\<lambda>e. \<exists>r. e = EvStat p r) es) \<le> n)"
proof (induction n)
  case 0
  then show ?case by (simp add: traces_return)
next
  case (Suc n)
  then show ?case
    unfolding waitIno.simps Stat_def Sleep_def
    by (auto intro!: traces_bind_call traces_return traces_mono [OF Suc.IH] split: sum.splits) blast
qed

section \<open>Properties\<close>

text \<open>
  The wait for a mount made by a process of the driver looks at the mount point at most once
  per allowed round, and succeeds only after it has seen the root inode there.
\<close>

theorem waitIno_bounded:
  "traces (waitIno E src path n) (\<lambda>r es. length (filter (\<lambda>e. \<exists>r. e = EvStat path r) es) \<le> n \<and>
     onSuccess (\<lambda>_ es. \<exists>fi. EvStat path (Inr fi) \<in> set es \<and> fiIno fi = 1) r es)"
  by (rule traces_mono [OF traces_waitIno]) (auto simp: onSuccess_def split: sum.splits)

end
