(* ===== verification/Console.thy ===== *)
theory Console
  imports Config
begin

text \<open>
  \<open>pkg/juicefs/console.go\<close>: the client of the console's HTTP interface, which keeps
  the quotas and the access rules of a file system. Bodies are bytes of JSON
  (theory \<open>Go_Json\<close>); decoding follows \<open>encoding/json\<close>: a member fills the field whose name
  equals its key up to case, \<open>null\<close> leaves a field alone, another type is an error.
\<close>

section \<open>Data\<close>

record VolumeInfo =
  viId :: int
  viName :: string
  viSize :: int

record QuotaInfo =
  qId :: int
  qVolid :: int
  qPath :: string
  qSize :: int
  qInode :: int

record Console =
  Addr :: string
  Token :: string

record Acl =
  aclID :: int
  aclDesc :: string
  aclIprange :: string
  aclApionly :: bool
  aclReadonly :: bool
  aclAppendonly :: bool
  aclToken :: string
  aclQos :: string
  aclExtend :: string

section \<open>Decoding\<close>

definition jsonErr :: gerr where
  "jsonErr = PlainErr ''json: cannot unmarshal''"

definition asInt :: "json \<Rightarrow> int \<Rightarrow> gerr + int" where
  "asInt j old =
     (case j of
        JNull \<Rightarrow> Inr old
      | JNum n \<Rightarrow> if - (2 ^ 63) \<le> n \<and> n < 2 ^ 63 then Inr n else Inl jsonErr
      | _ \<Rightarrow> Inl jsonErr)"

definition asStr :: "json \<Rightarrow> string \<Rightarrow> gerr + string" where
  "asStr j old = (case j of JNull \<Rightarrow> Inr old | JStr s \<Rightarrow> Inr s | _ \<Rightarrow> Inl jsonErr)"

definition asBool :: "json \<Rightarrow> bool \<Rightarrow> gerr + bool" where
  "asBool j old = (case j of JNull \<Rightarrow> Inr old | JBool b \<Rightarrow> Inr b | _ \<Rightarrow> Inl jsonErr)"

text \<open>
  \<open>bytes.EqualFold\<close> with a name of ASCII letters: two letters outside ASCII fold into ASCII, the
  Kelvin sign and the long s.
\<close>

fun foldKey :: "string \<Rightarrow> string" where
  "foldKey (a # b # c # s) =
     (if [a, b, c] = [CHR 0xE2, CHR 0x84, CHR 0xAA] then CHR ''k'' # foldKey s
      else if [a, b] = [CHR 0xC5, CHR 0xBF] then CHR ''s'' # foldKey (c # s)
      else lowerByte a # foldKey (b # c # s))"
| "foldKey [a, b] = (if [a, b] = [CHR 0xC5, CHR 0xBF] then ''s'' else [lowerByte a, lowerByte b])"
| "foldKey s = map lowerByte s"

definition sameName :: "string \<Rightarrow> string \<Rightarrow> bool" where
  "sameName name key \<longleftrightarrow> ToLower name = foldKey key"

text \<open>
  A member for each of the three structures. The tag \<open>josn:"id"\<close> of \<open>VolumeInfo\<close> and
  \<open>QuotaInfo\<close> is not a JSON tag, so their field is called \<open>Id\<close>.
\<close>

definition volumeMember :: "string \<Rightarrow> json \<Rightarrow> VolumeInfo \<Rightarrow> gerr + VolumeInfo" where
  "volumeMember key j v =
     (if sameName ''Id'' key then map_sum id (\<lambda>n. v\<lparr>viId := n\<rparr>) (asInt j (viId v))
      else if sameName ''name'' key then map_sum id (\<lambda>s. v\<lparr>viName := s\<rparr>) (asStr j (viName v))
      else if sameName ''size'' key then map_sum id (\<lambda>n. v\<lparr>viSize := n\<rparr>) (asInt j (viSize v))
      else Inr v)"

definition quotaMember :: "string \<Rightarrow> json \<Rightarrow> QuotaInfo \<Rightarrow> gerr + QuotaInfo" where
  "quotaMember key j q =
     (if sameName ''Id'' key then map_sum id (\<lambda>n. q\<lparr>qId := n\<rparr>) (asInt j (qId q))
      else if sameName ''path'' key then map_sum id (\<lambda>s. q\<lparr>qPath := s\<rparr>) (asStr j (qPath q))
      else if sameName ''size'' key then map_sum id (\<lambda>n. q\<lparr>qSize := n\<rparr>) (asInt j (qSize q))
      else if sameName ''inodes'' key then map_sum id (\<lambda>n. q\<lparr>qInode := n\<rparr>) (asInt j (qInode q))
      else Inr q)"

definition aclMember :: "string \<Rightarrow> json \<Rightarrow> Acl \<Rightarrow> gerr + Acl" where
  "aclMember key j a =
     (if sameName ''id'' key then map_sum id (\<lambda>n. a\<lparr>aclID := n\<rparr>) (asInt j (aclID a))
      else if sameName ''desc'' key then map_sum id (\<lambda>s. a\<lparr>aclDesc := s\<rparr>) (asStr j (aclDesc a))
      else if sameName ''iprange'' key then map_sum id (\<lambda>s. a\<lparr>aclIprange := s\<rparr>) (asStr j (aclIprange a))
      else if sameName ''apionly'' key then map_sum id (\<lambda>b. a\<lparr>aclApionly := b\<rparr>) (asBool j (aclApionly a))
      else if sameName ''readonly'' key then map_sum id (\<lambda>b. a\<lparr>aclReadonly := b\<rparr>) (asBool j (aclReadonly a))
      else if sameName ''appendonly'' key then map_sum id (\<lambda>b. a\<lparr>aclAppendonly := b\<rparr>) (asBool j (aclAppendonly a))
      else if sameName ''token'' key then map_sum id (\<lambda>s. a\<lparr>aclToken := s\<rparr>) (asStr j (aclToken a))
      else if sameName ''qos'' key then map_sum id (\<lambda>s. a\<lparr>aclQos := s\<rparr>) (asStr j (aclQos a))
      else if sameName ''extend'' key then map_sum id (\<lambda>s. a\<lparr>aclExtend := s\<rparr>) (asStr j (aclExtend a))
      else Inr a)"

fun decodeMembers :: "(string \<Rightarrow> json \<Rightarrow> 'a \<Rightarrow> gerr + 'a) \<Rightarrow> (string \<times> json) list \<Rightarrow> 'a \<Rightarrow> gerr + 'a" where
  "decodeMembers f [] x = Inr x"
| "decodeMembers f ((k, j) # rest) x =
     (case f k j x of Inl e \<Rightarrow> Inl e | Inr y \<Rightarrow> decodeMembers f rest y)"

definition decodeStruct :: "(string \<Rightarrow> json \<Rightarrow> 'a \<Rightarrow> gerr + 'a) \<Rightarrow> 'a \<Rightarrow> json \<Rightarrow> gerr + 'a" where
  "decodeStruct f zero j =
     (case j of JNull \<Rightarrow> Inr zero | JObj ms \<Rightarrow> decodeMembers f ms zero | _ \<Rightarrow> Inl jsonErr)"

fun decodeList :: "(json \<Rightarrow> gerr + 'a) \<Rightarrow> json list \<Rightarrow> gerr + 'a list" where
  "decodeList f [] = Inr []"
| "decodeList f (j # js) =
     (case f j of
        Inl e \<Rightarrow> Inl e
      | Inr x \<Rightarrow> (case decodeList f js of Inl e \<Rightarrow> Inl e | Inr xs \<Rightarrow> Inr (x # xs)))"

definition decodeArray :: "(json \<Rightarrow> gerr + 'a) \<Rightarrow> string \<Rightarrow> gerr + 'a list" where
  "decodeArray f body =
     (case parseJson body of
        None \<Rightarrow> Inl (PlainErr ''invalid character'')
      | Some j \<Rightarrow> (case j of JNull \<Rightarrow> Inr [] | JArr js \<Rightarrow> decodeList f js | _ \<Rightarrow> Inl jsonErr))"

definition zeroVolume :: VolumeInfo where
  "zeroVolume = \<lparr>viId = 0, viName = '''', viSize = 0\<rparr>"

definition zeroQuota :: QuotaInfo where
  "zeroQuota = \<lparr>qId = 0, qVolid = 0, qPath = '''', qSize = 0, qInode = 0\<rparr>"

definition zeroAcl :: Acl where
  "zeroAcl = \<lparr>aclID = 0, aclDesc = '''', aclIprange = '''', aclApionly = False, aclReadonly = False,
     aclAppendonly = False, aclToken = '''', aclQos = '''', aclExtend = ''''\<rparr>"

section \<open>Requests\<close>

definition runHttpRequestRaw :: "'w ext \<Rightarrow> http_request \<Rightarrow> ('w, gerr + string) go" where
  "runHttpRequestRaw E req = do {
     r \<leftarrow> call (http_do (net E) req) (EvHttp req);
     case r of
       Inl e \<Rightarrow> ret (Inl (statusf Internal ''Reqest console %v failed: %v'' [hrURL req] e))
     | Inr resp \<Rightarrow>
         if hsStatus resp \<ge> 400
         then ret (Inl (StatusRaw Internal ''Request console %v failed: status %d'' [hrURL req, showInt (hsStatus resp)] None))
         else ret (hsBody resp) }"

text \<open>
  \<open>http.NewRequest\<close> fails on a URL that does not parse. Where the source drops that
  error, the nil request is dereferenced next.
\<close>

definition NewRequest :: "string \<Rightarrow> string \<Rightarrow> string option \<Rightarrow> gerr + http_request" where
  "NewRequest meth url body =
     (case url_Parse url of
        None \<Rightarrow> Inl (PlainErr ''parse url'')
      | Some _ \<Rightarrow> Inr \<lparr>hrMethod = meth, hrURL = url, hrBody = body\<rparr>)"

definition sendUnchecked :: "'w ext \<Rightarrow> string \<Rightarrow> string \<Rightarrow> string option \<Rightarrow> ('w, gerr + string) go" where
  "sendUnchecked E meth url body =
     (case NewRequest meth url body of
        Inl _ \<Rightarrow> ret (Inl (GoPanic ''nil pointer dereference''))
      | Inr req \<Rightarrow> runHttpRequestRaw E req)"

definition sendChecked :: "'w ext \<Rightarrow> string \<Rightarrow> string \<Rightarrow> string option \<Rightarrow> ('w, gerr + string) go" where
  "sendChecked E meth url body =
     (case NewRequest meth url body of Inl e \<Rightarrow> ret (Inl e) | Inr req \<Rightarrow> runHttpRequestRaw E req)"

definition apiURL :: "Console \<Rightarrow> string \<Rightarrow> string" where
  "apiURL cs path = ''http://'' @ Addr cs @ ''/api/v1/volumes'' @ path @ ''?token='' @ Token cs"

definition GetVolumes :: "'w ext \<Rightarrow> Console \<Rightarrow> ('w, gerr + VolumeInfo list) go" where
  "GetVolumes E cs =
     tryM (sendUnchecked E ''GET'' (apiURL cs '''') None) (\<lambda>resp.
       ret (decodeArray (decodeStruct volumeMember zeroVolume) resp))"

fun findVolume :: "string \<Rightarrow> VolumeInfo list \<Rightarrow> VolumeInfo option" where
  "findVolume name [] = None"
| "findVolume name (v # vs) = (if viName v = name then Some v else findVolume name vs)"

definition consoleVolume :: "'w ext \<Rightarrow> Console \<Rightarrow> string \<Rightarrow> ('w, gerr + VolumeInfo) go" where
  "consoleVolume E cs name =
     tryM (GetVolumes E cs) (\<lambda>vols.
       case findVolume name vols of
         Some v \<Rightarrow> ret (Inr v)
       | None \<Rightarrow> ret (Inl (StatusRaw Internal ''Volume not found %s'' [name] None)))"

definition quotasPath :: "int \<Rightarrow> string" where
  "quotasPath volid = ''/'' @ showInt volid @ ''/quotas''"

definition GetQuotas :: "'w ext \<Rightarrow> Console \<Rightarrow> int \<Rightarrow> ('w, gerr + QuotaInfo list) go" where
  "GetQuotas E cs volid =
     tryM (sendChecked E ''GET'' (apiURL cs (quotasPath volid)) None) (\<lambda>resp.
       ret (decodeArray (decodeStruct quotaMember zeroQuota) resp))"

definition CreateQuota :: "'w ext \<Rightarrow> Console \<Rightarrow> string \<Rightarrow> string \<Rightarrow> int \<Rightarrow> int \<Rightarrow> ('w, gerr + unit) go" where
  "CreateQuota E cs volume_name path inodes sz =
     tryM (consoleVolume E cs volume_name) (\<lambda>vol.
     tryM (sendUnchecked E ''POST'' (apiURL cs (quotasPath (viId vol)))
             (Some (marshal (JObj [(''inodes'', JNum inodes), (''path'', JStr path), (''size'', JNum sz)])))) (\<lambda>_.
       ret (Inr ())))"

text \<open>The search loop of \<open>GetQuota\<close>: the last quota of the path wins.\<close>

fun lastQuota :: "string \<Rightarrow> int \<Rightarrow> QuotaInfo option \<Rightarrow> QuotaInfo list \<Rightarrow> QuotaInfo option" where
  "lastQuota path volid quota [] = quota"
| "lastQuota path volid quota (q # qs) =
     lastQuota path volid (if qPath q = path then Some (q\<lparr>qVolid := volid\<rparr>) else quota) qs"

definition GetQuota :: "'w ext \<Rightarrow> Console \<Rightarrow> string \<Rightarrow> string \<Rightarrow> ('w, gerr + QuotaInfo option) go" where
  "GetQuota E cs volume_name path =
     tryM (consoleVolume E cs volume_name) (\<lambda>vol.
     tryM (GetQuotas E cs (viId vol)) (\<lambda>quotas.
       ret (Inr (lastQuota path (viId vol) None quotas))))"

definition quotaURL :: "Console \<Rightarrow> QuotaInfo \<Rightarrow> string" where
  "quotaURL cs quota = apiURL cs (quotasPath (qVolid quota) @ ''/'' @ showInt (qId quota))"

definition DeleteQuota :: "'w ext \<Rightarrow> Console \<Rightarrow> string \<Rightarrow> string \<Rightarrow> ('w, gerr + unit) go" where
  "DeleteQuota E cs volume_name path =
     tryM (GetQuota E cs volume_name path) (\<lambda>quota.
       case quota of
         None \<Rightarrow> ret (Inr ())
       | Some q \<Rightarrow> tryM (sendUnchecked E ''DELETE'' (quotaURL cs q) None) (\<lambda>_. ret (Inr ())))"

text \<open>\<open>json.Marshal\<close> of a quota, in the order of the fields.\<close>

definition quotaJson :: "QuotaInfo \<Rightarrow> json" where
  "quotaJson q = JObj [(''Id'', JNum (qId q)), (''path'', JStr (qPath q)), (''size'', JNum (qSize q)),
     (''inodes'', JNum (qInode q))]"

definition UpdateQuota :: "'w ext \<Rightarrow> Console \<Rightarrow> QuotaInfo \<Rightarrow> ('w, gerr + unit) go" where
  "UpdateQuota E cs quota =
     tryM (sendUnchecked E ''PUT'' (quotaURL cs quota) (Some (marshal (quotaJson quota)))) (\<lambda>_. ret (Inr ()))"

section \<open>Access rules\<close>

definition GetACLList :: "'w ext \<Rightarrow> Console \<Rightarrow> string \<Rightarrow> ('w, gerr + Acl list) go" where
  "GetACLList E cs volumeName =
     tryM (consoleVolume E cs volumeName) (\<lambda>vol.
     tryM (sendChecked E ''GET'' (apiURL cs (''/'' @ showInt (viId vol) @ ''/exports'')) None) (\<lambda>resp.
       ret (decodeArray (decodeStruct aclMember zeroAcl) resp)))"

definition qosJson :: "string \<Rightarrow> Acl \<Rightarrow> json" where
  "qosJson qos acl = JObj [(''desc'', JStr (aclDesc acl)), (''iprange'', JStr (aclIprange acl)),
     (''readonly'', JBool (aclReadonly acl)), (''appendonly'', JBool (aclAppendonly acl)),
     (''qos'', JStr qos), (''extend'', JStr (aclExtend acl))]"

definition UpdateQos :: "'w ext \<Rightarrow> Console \<Rightarrow> string \<Rightarrow> string \<Rightarrow> Acl \<Rightarrow> ('w, gerr + unit) go" where
  "UpdateQos E cs qos volumeName acl =
     tryM (consoleVolume E cs volumeName) (\<lambda>vol.
     tryM (sendChecked E ''PUT'' (apiURL cs (''/'' @ showInt (viId vol) @ ''/exports/'' @ showInt (aclID acl)))
             (Some (marshal (qosJson qos acl)))) (\<lambda>_. ret (Inr ())))"

fun defaultAcl :: "Acl list \<Rightarrow> Acl option" where
  "defaultAcl [] = None"
| "defaultAcl (a # as) = (if aclDesc a = ''default'' then Some a else defaultAcl as)"

definition SetQos :: "'w ext \<Rightarrow> Console \<Rightarrow> string \<Rightarrow> string \<Rightarrow> ('w, gerr + unit) go" where
  "SetQos E cs volumeName qos =
     tryWrap (errorf ''get volume:%s acl list error:%s'' [volumeName]) (GetACLList E cs volumeName) (\<lambda>acls.
       case defaultAcl acls of
         None \<Rightarrow> ret (Inl (ErrorfRaw ''volume:%s not contains default acl'' [volumeName] None))
       | Some targetACL \<Rightarrow>
           tryWrap (errorf ''update volume:%s qos, error:%s'' [volumeName])
             (UpdateQos E cs qos volumeName targetACL) (\<lambda>_. ret (Inr ())))"

section \<open>Facts\<close>

text \<open>A quota that was sent is read back as it was, but for the volume's number.\<close>

lemma sameName_simps [simp]:
  "sameName ''Id'' ''Id''" "\<not> sameName ''Id'' ''path''" "\<not> sameName ''Id'' ''size''" "\<not> sameName ''Id'' ''inodes''"
  "sameName ''path'' ''path''" "\<not> sameName ''path'' ''size''" "\<not> sameName ''path'' ''inodes''"
  "sameName ''size'' ''size''" "\<not> sameName ''size'' ''inodes''" "sameName ''inodes'' ''inodes''"
  by (simp_all add: sameName_def ToLower_def lowerByte_def)

text \<open>A quota whose numbers fit 64 bits and whose path is UTF-8.\<close>

definition wfQuota :: "QuotaInfo \<Rightarrow> bool" where
  "wfQuota q \<longleftrightarrow> validUtf8 (qPath q) \<and> list_all (\<lambda>n. - (2 ^ 63) \<le> n \<and> n < 2 ^ 63) [qId q, qSize q, qInode q]"

lemma decode_quotaJson: "wfQuota q \<Longrightarrow> decodeStruct quotaMember zeroQuota (quotaJson q) = Inr (q\<lparr>qVolid := 0\<rparr>)"
  by (simp add: wfQuota_def decodeStruct_def quotaJson_def quotaMember_def asInt_def asStr_def zeroQuota_def)

lemma decodeList_map: "(\<And>x. x \<in> set xs \<Longrightarrow> f (g x) = Inr (h x)) \<Longrightarrow> decodeList f (map g xs) = Inr (map h xs)"
  by (induction xs) simp_all

lemma wfJson_quota: "wfQuota q \<Longrightarrow> wfJson (quotaJson q)"
  by (simp add: wfQuota_def quotaJson_def) code_simp

lemma jsonDepth_quotas: "jsonDepth (JArr (map quotaJson qs)) \<le> 2"
proof -
  have "jsonDepth (quotaJson q) = 1" for q by (simp add: quotaJson_def)
  then show ?thesis by (auto intro!: Max.boundedI)
qed

lemma parse_quotas:
  assumes "list_all wfQuota qs"
  shows "parseJson (marshal (JArr (map quotaJson qs))) = Some (JArr (map quotaJson qs))"
proof (rule parse_marshal)
  show "wfJson (JArr (map quotaJson qs))" using assms wfJson_quota by (auto simp: list_all_iff)
  show "jsonDepth (JArr (map quotaJson qs)) \<le> maxNestingDepth"
    using jsonDepth_quotas by (rule order_trans) (simp add: maxNestingDepth_def)
qed

lemma lastQuota_None: "lastQuota path volid quota qs = None \<longleftrightarrow> quota = None \<and> (\<forall>q \<in> set qs. qPath q \<noteq> path)"
  by (induction path volid quota qs rule: lastQuota.induct) auto

lemma lastQuota_from:
  assumes "lastQuota path volid quota qs = Some q"
    and "\<And>x. quota = Some x \<Longrightarrow> qPath x = path \<and> qVolid x = volid"
  shows "qPath q = path \<and> qVolid q = volid"
  using assms
proof (induction qs arbitrary: quota)
  case Nil
  then show ?case by simp
next
  case (Cons a qs)
  show ?case
  proof (rule Cons.IH)
    show "lastQuota path volid (if qPath a = path then Some (a\<lparr>qVolid := volid\<rparr>) else quota) qs = Some q"
      using Cons.prems(1) by simp
    show "qPath x = path \<and> qVolid x = volid"
      if "(if qPath a = path then Some (a\<lparr>qVolid := volid\<rparr>) else quota) = Some x" for x
      using that Cons.prems(2) by (cases "qPath a = path") auto
  qed
qed

lemma lastQuota_Some: "lastQuota path volid None qs = Some q \<Longrightarrow> qPath q = path \<and> qVolid q = volid"
  by (rule lastQuota_from) auto

section \<open>The console is only reached over HTTP\<close>

lemma emits_runHttpRequestRaw [emits_intros]: "(\<And>q r. P (EvHttp q r)) \<Longrightarrow> emits P (runHttpRequestRaw E req)"
  unfolding runHttpRequestRaw_def by (intro emits_intros) auto

lemma emits_send [emits_intros]:
  assumes "\<And>q r. P (EvHttp q r)"
  shows "emits P (sendUnchecked E m u b)" and "emits P (sendChecked E m u b)"
  unfolding sendUnchecked_def sendChecked_def by (intro emits_intros assms)+

lemma emits_consoleVolume [emits_intros]: "(\<And>q r. P (EvHttp q r)) \<Longrightarrow> emits P (consoleVolume E cs name)"
  unfolding consoleVolume_def GetVolumes_def by (intro emits_intros) auto

lemma emits_quotas [emits_intros]:
  assumes "\<And>q r. P (EvHttp q r)"
  shows "emits P (GetQuota E cs v p)" and "emits P (CreateQuota E cs v p i n)" and "emits P (UpdateQuota E cs q)"
  unfolding GetQuota_def GetQuotas_def CreateQuota_def UpdateQuota_def by (intro emits_intros assms)+

lemma emits_DeleteQuota [emits_intros]: "(\<And>q r. P (EvHttp q r)) \<Longrightarrow> emits P (DeleteQuota E cs v p)"
  unfolding DeleteQuota_def by (intro emits_intros) auto

lemma emits_SetQos [emits_intros]: "(\<And>q r. P (EvHttp q r)) \<Longrightarrow> emits P (SetQos E cs v q)"
  unfolding SetQos_def GetACLList_def UpdateQos_def by (intro emits_intros) auto

section \<open>Request URLs\<close>

text \<open>
  A console with a plain address and a token that can stand in a URL. For such a console every request
  of the client can be built; the transport is assumed not to panic.
\<close>

definition plainConsole :: "Console \<Rightarrow> bool" where
  "plainConsole cs \<longleftrightarrow> list_all (\<lambda>c. \<not> isCTL c \<and> c \<noteq> CHR ''#'') (Token cs) \<and>
     (\<exists>host port. Addr cs = host @ port \<and> list_all plainByte host \<and> optPort port)"

definition sound_transport :: "'w ext \<Rightarrow> bool" where
  "sound_transport E \<longleftrightarrow> (\<forall>req w. case fst (http_do (net E) req w) of
       Inl e \<Rightarrow> \<not> is_panic e
     | Inr resp \<Rightarrow> (case hsBody resp of Inl e \<Rightarrow> \<not> is_panic e | Inr _ \<Rightarrow> True))"

abbreviation noPanic :: "gerr + 'a \<Rightarrow> 'w st \<Rightarrow> bool" where
  "noPanic \<equiv> \<lambda>r s. case r of Inl e \<Rightarrow> \<not> is_panic e | Inr _ \<Rightarrow> True"

lemma plainByte_showInt: "list_all plainByte (showInt n)"
proof -
  have "list_all plainByte (showNat m)" for m
    using showNat_digits [of m] by (auto simp: list_all_iff isDigit_def byteIn_def digit_def plainByte_def)
  then show ?thesis by (auto simp: showInt_def plainByte_def)
qed

lemma apiURL_parses:
  assumes "plainConsole cs" and "path = [] \<or> hd path = CHR ''/''" and "list_all (\<lambda>c. plainByte c \<or> c = CHR ''/'') path"
  shows "url_Parse (apiURL cs path) = Some (''http'', Addr cs, ''/api/v1/volumes'' @ path)"
proof -
  obtain host port where h: "Addr cs = host @ port" "list_all plainByte host" "optPort port"
    using assms(1) by (auto simp: plainConsole_def)
  have q: "list_all (\<lambda>c. \<not> isCTL c \<and> c \<noteq> CHR ''#'') (''?token='' @ Token cs)"
    using assms(1) by (simp add: plainConsole_def isCTL_def)
  have p: "list_all (\<lambda>c. plainByte c \<or> c = CHR ''/'') (''/api/v1/volumes'' @ path)"
    using assms(3) by (simp add: plainByte_def isLetter_def digit_def)
  have s: "isLetter (hd ''http'')" "list_all schemeByte ''http''" "ToLower ''http'' = ''http''"
    by (simp_all add: schemeByte_def isLetter_def ToLower_def lowerByte_def)
  show ?thesis
    using url_Parse_plain [OF _ s(1,2) h(2,3) _ p _ q] s(3) h(1) by (simp add: apiURL_def)
qed

lemma plain_paths:
  "list_all (\<lambda>c. plainByte c \<or> c = CHR ''/'') (quotasPath n)"
  "list_all (\<lambda>c. plainByte c \<or> c = CHR ''/'') (quotasPath n @ ''/'' @ showInt m)"
  "list_all (\<lambda>c. plainByte c \<or> c = CHR ''/'') (''/'' @ showInt n @ ''/exports'')"
  "list_all (\<lambda>c. plainByte c \<or> c = CHR ''/'') (''/'' @ showInt n @ ''/exports/'' @ showInt m)"
  using plainByte_showInt [of n] plainByte_showInt [of m]
  by (auto simp: quotasPath_def list_all_iff plainByte_def isLetter_def)

lemma hd_paths [simp]: "hd (quotasPath n) = CHR ''/''" "hd (quotasPath n @ s) = CHR ''/''"
  by (simp_all add: quotasPath_def)

lemma runHttp_noPanic:
  assumes "sound_transport E"
  shows "wp (runHttpRequestRaw E req) noPanic s"
proof -
  obtain w t where s: "s = (w, t)" by fastforce
  obtain r w' where h: "http_do (net E) req w = (r, w')" by fastforce
  have "case r of Inl e \<Rightarrow> \<not> is_panic e | Inr resp \<Rightarrow> (case hsBody resp of Inl e \<Rightarrow> \<not> is_panic e | Inr _ \<Rightarrow> True)"
    using assms h unfolding sound_transport_def by (metis fst_conv)
  then show ?thesis
    unfolding runHttpRequestRaw_def s by (cases r) (simp_all add: wp_simps h statusf_def)
qed

lemma send_noPanic:
  assumes "sound_transport E" and "url_Parse url = Some u"
  shows "wp (sendUnchecked E meth url body) noPanic s" and "wp (sendChecked E meth url body) noPanic s"
  using assms by (simp_all add: sendUnchecked_def sendChecked_def NewRequest_def runHttp_noPanic split: prod.splits)

text \<open>Runs that do not panic.\<close>

definition calm :: "('w, gerr + 'a) go \<Rightarrow> bool" where
  "calm m \<longleftrightarrow> (\<forall>s. wp m noPanic s)"

lemma calm_ret: "(\<And>e. r = Inl e \<Longrightarrow> \<not> is_panic e) \<Longrightarrow> calm (ret r)"
  by (cases r) (simp_all add: calm_def wp_simps)

lemma calm_tryM:
  assumes "calm m" and "\<And>x. calm (k x)"
  shows "calm (tryM m k)"
  unfolding calm_def wp_tryM
proof
  fix s
  have "wp m noPanic s" using assms(1) unfolding calm_def by blast
  then show "wp m (\<lambda>r s'. (case r of Inl e \<Rightarrow> noPanic (Inl e) | Inr x \<Rightarrow> wp (k x) noPanic) s') s"
    by (rule wp_mono) (use assms(2) in \<open>auto simp: calm_def split: sum.splits\<close>)
qed

lemma calm_tryWrap:
  assumes "calm m" and "\<And>x. calm (k x)" and "\<And>e. \<not> is_panic e \<Longrightarrow> \<not> is_panic (f e)"
  shows "calm (tryWrap f m k)"
  unfolding calm_def wp_tryWrap
proof
  fix s
  have "wp m noPanic s" using assms(1) unfolding calm_def by blast
  then show "wp m (\<lambda>r s'. (case r of Inl e \<Rightarrow> noPanic (Inl (f e)) | Inr x \<Rightarrow> wp (k x) noPanic) s') s"
    by (rule wp_mono) (use assms(2,3) in \<open>auto simp: calm_def split: sum.splits\<close>)
qed

lemma member_errors:
  "volumeMember k j v = Inl e \<Longrightarrow> \<not> is_panic e" "quotaMember k j q = Inl e \<Longrightarrow> \<not> is_panic e"
  "aclMember k j a = Inl e \<Longrightarrow> \<not> is_panic e"
  by (auto simp: volumeMember_def quotaMember_def aclMember_def asInt_def asStr_def asBool_def jsonErr_def
      split: if_splits json.splits)

lemma decodeMembers_error:
  assumes "\<And>k j x e. f k j x = Inl e \<Longrightarrow> \<not> is_panic e"
  shows "decodeMembers f ms x = Inl e \<Longrightarrow> \<not> is_panic e"
  by (induction ms arbitrary: x) (auto split: sum.splits, metis assms)

lemma decodeList_error:
  assumes "\<And>j e. f j = Inl e \<Longrightarrow> \<not> is_panic e"
  shows "decodeList f js = Inl e \<Longrightarrow> \<not> is_panic e"
  by (induction js arbitrary: e) (auto split: sum.splits, metis assms)

lemma decodeArray_error:
  assumes "decodeArray (decodeStruct f zero) body = Inl e" and "\<And>k j x e. f k j x = Inl e \<Longrightarrow> \<not> is_panic e"
  shows "\<not> is_panic e"
proof -
  have "\<not> is_panic e'" if "decodeStruct f zero j = Inl e'" for j e'
    using that decodeMembers_error [of f, OF assms(2)] by (auto simp: decodeStruct_def jsonErr_def split: json.splits)
  then show ?thesis
    using assms(1) decodeList_error [of "decodeStruct f zero"]
    by (auto simp: decodeArray_def jsonErr_def split: option.splits json.splits)
qed

lemma calm_decode:
  "calm (ret (decodeArray (decodeStruct volumeMember v) body))" "calm (ret (decodeArray (decodeStruct quotaMember q) body))"
  "calm (ret (decodeArray (decodeStruct aclMember a) body))"
  by (auto intro!: calm_ret dest: decodeArray_error member_errors)

lemma calm_send:
  assumes "sound_transport E" and "plainConsole cs" and "path = [] \<or> hd path = CHR ''/''"
    and "list_all (\<lambda>c. plainByte c \<or> c = CHR ''/'') path"
  shows "calm (sendUnchecked E meth (apiURL cs path) body)" and "calm (sendChecked E meth (apiURL cs path) body)"
  unfolding calm_def using send_noPanic [OF assms(1) apiURL_parses [OF assms(2-4)]] by blast+

lemma calm_console:
  assumes "sound_transport E" and "plainConsole cs"
  shows "calm (consoleVolume E cs v)" "calm (GetQuotas E cs n)" "calm (GetACLList E cs v)" "calm (UpdateQos E cs qos v acl)"
    "calm (CreateQuota E cs v p i sz)" "calm (UpdateQuota E cs q)"
proof -
  show vol: "calm (consoleVolume E cs v)" for v
    unfolding consoleVolume_def GetVolumes_def
    by (intro calm_tryM calm_decode calm_send assms) (auto intro!: calm_ret split: option.splits)
  show "calm (GetQuotas E cs n)" unfolding GetQuotas_def
    by (intro calm_tryM calm_decode calm_send assms plain_paths) simp_all
  show "calm (GetACLList E cs v)" unfolding GetACLList_def
    by (intro calm_tryM calm_decode calm_send assms plain_paths vol) simp_all
  show "calm (UpdateQos E cs qos v acl)" unfolding UpdateQos_def
    by (intro calm_tryM calm_decode calm_send assms plain_paths vol) (auto intro!: calm_ret)
  show "calm (CreateQuota E cs v p i sz)" unfolding CreateQuota_def
    by (intro calm_tryM calm_decode calm_send assms plain_paths vol) (auto intro!: calm_ret)
  show "calm (UpdateQuota E cs q)" unfolding UpdateQuota_def quotaURL_def
    by (intro calm_tryM calm_decode calm_send assms plain_paths vol) (auto intro!: calm_ret)
qed

lemma calm_GetQuota: "sound_transport E \<Longrightarrow> plainConsole cs \<Longrightarrow> calm (GetQuota E cs v p)"
  unfolding GetQuota_def by (intro calm_tryM calm_console) (auto intro!: calm_ret)

lemma calm_DeleteQuota:
  assumes "sound_transport E" and "plainConsole cs"
  shows "calm (DeleteQuota E cs v p)"
proof -
  have "calm (sendUnchecked E ''DELETE'' (quotaURL cs q) None)" for q
    unfolding quotaURL_def by (intro calm_send assms plain_paths) simp
  then show ?thesis
    unfolding DeleteQuota_def
    by (intro calm_tryM calm_GetQuota assms) (auto intro!: calm_tryM calm_ret split: option.splits)
qed

lemma calm_SetQos:
  assumes "sound_transport E" and "plainConsole cs"
  shows "calm (SetQos E cs v q)"
  unfolding SetQos_def
  by (intro calm_tryWrap calm_console assms)
    (auto intro!: calm_tryWrap calm_console assms calm_ret simp: errorf_def split: option.splits)


section \<open>Properties\<close>

text \<open>
  C28: For a console with a plain address (a name or number with an optional port) and a token without
  control bytes and without a hash sign, none of the client's operations panics, although four
  places ignore the error of \<open>http.NewRequest\<close>: every URL they build parses.
\<close>

theorem console_no_panic:
  assumes "plainConsole cs" and "sound_transport E"
  shows "calm (GetQuota E cs v p) \<and> calm (CreateQuota E cs v p i n) \<and> calm (DeleteQuota E cs v p) \<and>
    calm (UpdateQuota E cs q) \<and> calm (SetQos E cs v qos)"
  using assms by (intro conjI calm_GetQuota calm_console calm_DeleteQuota calm_SetQos)

theorem console_no_panic_witness: "calm (DeleteQuota E0 \<lparr>Addr = ''10.0.0.1:8080'', Token = ''tok''\<rparr> ''vol1'' ''/pvc-1'')"
proof -
  have "plainConsole \<lparr>Addr = ''10.0.0.1:8080'', Token = ''tok''\<rparr>"
    unfolding plainConsole_def
    by (rule conjI, simp add: isCTL_def, rule exI [of _ "''10.0.0.1''"], rule exI [of _ "'':8080''"])
      (simp add: plainByte_def optPort_def digit_def)
  moreover have "sound_transport E0" by (simp add: sound_transport_def env0_defs)
  ultimately show ?thesis using console_no_panic by blast
qed



text \<open>
  C38: Quotas that are sent as JSON, each as \<open>UpdateQuota\<close> writes it, and read back as \<open>GetQuotas\<close>
  reads the answer of the console are the same quotas, except for the volume's number, which is
  not part of the message: escaping, UTF-8 and the digits of numbers included.
\<close>

theorem quota_roundtrip:
  assumes "list_all wfQuota qs"
  shows "decodeArray (decodeStruct quotaMember zeroQuota) (marshal (JArr (map quotaJson qs)))
    = Inr (map (\<lambda>q. q\<lparr>qVolid := 0\<rparr>) qs)"
proof -
  have "decodeList (decodeStruct quotaMember zeroQuota) (map quotaJson qs) = Inr (map (\<lambda>q. q\<lparr>qVolid := 0\<rparr>) qs)"
    by (rule decodeList_map) (use assms decode_quotaJson in \<open>auto simp: list_all_iff\<close>)
  then show ?thesis by (simp only: decodeArray_def parse_quotas [OF assms] option.case json.case)
qed

theorem quota_roundtrip_witness:
  "decodeArray (decodeStruct quotaMember zeroQuota)
     (marshal (JArr (map quotaJson [zeroQuota\<lparr>qPath := ''/pvc-1'', qSize := 10, qVolid := 3\<rparr>])))
     = Inr [zeroQuota\<lparr>qPath := ''/pvc-1'', qSize := 10\<rparr>]"
proof -
  have "list_all wfQuota [zeroQuota\<lparr>qPath := ''/pvc-1'', qSize := 10, qVolid := 3\<rparr>]"
    by (simp add: wfQuota_def zeroQuota_def) code_simp
  from quota_roundtrip [OF this] show ?thesis by (simp add: zeroQuota_def)
qed

end
