(* ===== verification/Jfs.thy ===== *)
theory Jfs
  imports Pod_Mount Process_Mount Console
begin

text \<open>
  \<open>pkg/juicefs/juicefs.go\<close>: the provider that authenticates and mounts a file
  system, and the volumes, snapshots and quotas inside a mounted one.
\<close>

text \<open>\<open>_ = m\<close>: the error is dropped, a panic is not.\<close>

definition dropErr :: "('w, gerr + 'a) go \<Rightarrow> ('w, gerr + 'b) go \<Rightarrow> ('w, gerr + 'b) go" where
  "dropErr m k = do { r \<leftarrow> m; case r of Inl e \<Rightarrow> if is_panic e then ret (Inl e) else k | Inr _ \<Rightarrow> k }"

text \<open>A status error that does not mention its cause.\<close>

definition statusOnly :: "code \<Rightarrow> string \<Rightarrow> string list \<Rightarrow> gerr \<Rightarrow> gerr" where
  "statusOnly c f args e = (if is_panic e then e else StatusRaw c f args None)"

section \<open>The mounted file system\<close>

record jfs =
  fsConsole :: Console
  fsName :: string
  fsMountPath :: string
  fsOptions :: "string list"
  fsSetting :: JfsSetting

definition GetBasePath :: "jfs \<Rightarrow> string" where
  "GetBasePath fs = fsMountPath fs"

definition fs_Exec :: "'w ext \<Rightarrow> jfs \<Rightarrow> string list \<Rightarrow> ('w, gerr + string) go" where
  "fs_Exec E fs cmd = do {
     (out, err) \<leftarrow> Exec E cmd (entries (Envs (fsSetting fs)));
     ret (case err of None \<Rightarrow> Inr out | Some e \<Rightarrow> Inl e) }"

definition DeleteSnap :: "'w ext \<Rightarrow> jfs \<Rightarrow> string \<Rightarrow> ('w, gerr + unit) go" where
  "DeleteSnap E fs snapID = do {
     let snapPath = PathJoin [fsMountPath fs, snapID];
     (exists, err) \<leftarrow> PathExists E snapPath;
     case err of
       Some e \<Rightarrow> ret (Inl (statusf Internal ''Could not check path %q exists: %v'' [snapPath] e))
     | None \<Rightarrow>
         if exists then tryM (fs_Exec E fs [CliPath, ''snapshot'', ''-d'', snapPath]) (\<lambda>_. ret (Inr ()))
         else ret (Inr ()) }"

text \<open>The mode of a new directory is set to \<open>0777\<close> when the umask has changed it.\<close>

definition ensureMode :: "'w ext \<Rightarrow> string \<Rightarrow> ('w, gerr + unit) go" where
  "ensureMode E path =
     tryWrap (statusf Internal ''Could not stat directory %s: %q'' [path]) (Stat E path) (\<lambda>fi.
       if fiPerm fi \<noteq> mode0777 then
         tryWrap (statusf Internal ''Could not chmod directory %s: %q'' [path]) (Chmod E path mode0777)
           (\<lambda>_. ret (Inr ()))
       else ret (Inr ()))"

definition createSnap :: "'w ext \<Rightarrow> jfs \<Rightarrow> string \<Rightarrow> string \<Rightarrow> ('w, gerr + string) go" where
  "createSnap E fs snapPath srcPath = do {
     (exists, err) \<leftarrow> PathExists E snapPath;
     case err of
       Some e \<Rightarrow> ret (Inl (statusf Internal ''Could not check path %q exists: %v'' [snapPath] e))
     | None \<Rightarrow>
         tryM (if \<not> exists then fs_Exec E fs [CliPath, ''snapshot'', srcPath, snapPath] else ret (Inr '''')) (\<lambda>_.
         tryM (ensureMode E snapPath) (\<lambda>_. ret (Inr snapPath))) }"

definition CreateSnap :: "'w ext \<Rightarrow> jfs \<Rightarrow> string \<Rightarrow> string \<Rightarrow> ('w, gerr + string) go" where
  "CreateSnap E fs volumeID snapName =
     (let volPath = PathJoin [fsMountPath fs, volumeID];
          snapPath = volPath @ ''_'' @ snapName
      in tryM (createSnap E fs snapPath volPath) (\<lambda>_. ret (Inr (Base snapPath))))"

text \<open>The end of the three functions that make a volume: quota, then QoS.\<close>

definition applyLimits :: "'w ext \<Rightarrow> jfs \<Rightarrow> string \<Rightarrow> string \<Rightarrow> int \<Rightarrow> string \<Rightarrow> ('w, gerr + string) go" where
  "applyLimits E fs volPath subPath sz qos =
     tryM (if sz > 0 then
             dropErr (DeleteQuota E (fsConsole fs) (sName (fsSetting fs)) (''/'' @ subPath))
               (tryWrap (statusf Internal ''Could not create quota  %s: %q'' [subPath])
                 (CreateQuota E (fsConsole fs) (sName (fsSetting fs)) (''/'' @ subPath) 0 sz) (\<lambda>_. ret (Inr ())))
           else ret (Inr ())) (\<lambda>_.
     tryM (if length qos > 0 then
             tryWrap (statusf Internal ''set qos error:%s'' []) (SetQos E (fsConsole fs) (sName (fsSetting fs)) qos)
               (\<lambda>_. ret (Inr ()))
           else ret (Inr ())) (\<lambda>_.
       ret (Inr volPath)))"

definition CreateVolFromSnap :: "'w ext \<Rightarrow> jfs \<Rightarrow> string \<Rightarrow> string \<Rightarrow> int \<Rightarrow> string \<Rightarrow> ('w, gerr + string) go" where
  "CreateVolFromSnap E fs subPath snapID sz qos =
     (let volPath = PathJoin [fsMountPath fs, subPath]; srcsnapPath = PathJoin [fsMountPath fs, snapID]
      in tryWrap (statusf Internal ''Could not create vol from snap  %s: %q'' [subPath])
           (createSnap E fs volPath srcsnapPath) (\<lambda>_. applyLimits E fs volPath subPath sz qos))"

definition CreateVolFromVol :: "'w ext \<Rightarrow> jfs \<Rightarrow> string \<Rightarrow> string \<Rightarrow> int \<Rightarrow> string \<Rightarrow> ('w, gerr + string) go" where
  "CreateVolFromVol E fs subPath srcVolID sz qos =
     (let volPath = PathJoin [fsMountPath fs, subPath]; srcvolPath = PathJoin [fsMountPath fs, srcVolID]
      in tryWrap (statusf Internal ''Could not create vol from vol  %s: %q'' [subPath])
           (createSnap E fs volPath srcvolPath) (\<lambda>_. applyLimits E fs volPath subPath sz qos))"

definition CreateVol :: "'w ext \<Rightarrow> jfs \<Rightarrow> string \<Rightarrow> int \<Rightarrow> string \<Rightarrow> ('w, gerr + string) go" where
  "CreateVol E fs subPath sz qos = do {
     let volPath = PathJoin [fsMountPath fs, subPath];
     (exists, err) \<leftarrow> PathExists E volPath;
     case err of
       Some e \<Rightarrow> ret (Inl (statusf Internal ''Could not check volume path %q exists: %v'' [volPath] e))
     | None \<Rightarrow>
         tryWrap (statusf Internal ''Could not make directory for meta %q: %v'' [volPath])
           (if \<not> exists then MkdirAll E volPath mode0777 else ret (Inr ())) (\<lambda>_.
         tryM (ensureMode E volPath) (\<lambda>_. applyLimits E fs volPath subPath sz qos)) }"

definition RmrDir :: "'w ext \<Rightarrow> string \<Rightarrow> bool \<Rightarrow> ('w, gerr + string) go" where
  "RmrDir E directory isCeMount = do {
     (out, err) \<leftarrow> Exec E [if isCeMount then CeCliPath else CliPath, ''rmr'', directory] [];
     ret (case err of None \<Rightarrow> Inr out | Some e \<Rightarrow> Inl e) }"

definition DeleteVol :: "'w ext \<Rightarrow> jfs \<Rightarrow> string \<Rightarrow> ('w, gerr + unit) go" where
  "DeleteVol E fs volumeID = do {
     let volPath = PathJoin [fsMountPath fs, volumeID];
     (existed, err) \<leftarrow> PathExists E volPath;
     case err of
       Some e \<Rightarrow> ret (Inl (statusf Internal ''Could not check volume path %q exists: %v'' [volPath] e))
     | None \<Rightarrow>
         tryWrap (statusf Internal ''Could not delete volume path %q: %v'' [volPath])
           (if existed then RmrDir E volPath (IsCe (fsSetting fs)) else ret (Inr '''')) (\<lambda>_.
           DeleteQuota E (fsConsole fs) (sName (fsSetting fs)) (''/'' @ volumeID)) }"

section \<open>The provider\<close>

definition GetConsole :: "JfsSetting \<Rightarrow> smap \<Rightarrow> gerr + Console" where
  "GetConsole jfsSecret secrets =
     (case mlookup (Envs jfsSecret) ''BASE_URL'' of
        None \<Rightarrow> Inl (StatusRaw Internal ''base url not found'' [] None)
      | Some consoleBaseurl \<Rightarrow>
          (case url_Parse consoleBaseurl of
             None \<Rightarrow> Inl (PlainErr ''parse url'')
           | Some (scheme, host, path) \<Rightarrow>
               (case mlookup secrets ''consoleToken'' of
                  None \<Rightarrow> Inl (StatusRaw Internal ''consoleToken not found'' [] None)
                | Some consoleToken \<Rightarrow> Inr \<lparr>Addr = host, Token = consoleToken\<rparr>)))"

definition GetUniqueId :: "'w ext \<Rightarrow> string \<Rightarrow> ('w, gerr + string) go" where
  "GetUniqueId E volumeId = do {
     share \<leftarrow> Getenv E ''STORAGE_CLASS_SHARE_MOUNT'';
     if share = ''true'' then do {
       r \<leftarrow> GetPersistentVolume E volumeId;
       case r of
         Inl e \<Rightarrow> if \<not> IsNotFound e then ret (Inl e) else ret (Inr volumeId)
       | Inr pv \<Rightarrow> if pvStorageClassName pv \<noteq> '''' then ret (Inr (pvStorageClassName pv)) else ret (Inr volumeId) }
     else ret (Inr volumeId) }"

text \<open>
  The arguments of \<open>auth\<close> and \<open>format\<close>: those passed to the command, and those
  written to the log, with the values of the second list of keys replaced.
\<close>

definition argText :: "string \<Rightarrow> string \<Rightarrow> string" where
  "argText k v = ''--'' @ k @ ''='' @ v"

definition wanted :: "string list \<Rightarrow> smap \<Rightarrow> string \<Rightarrow> bool" where
  "wanted isOptional secrets k \<longleftrightarrow> \<not> (k \<in> set isOptional) \<or> mindex secrets k \<noteq> ''''"

definition plainArgs :: "string list \<Rightarrow> smap \<Rightarrow> string list \<Rightarrow> string list" where
  "plainArgs isOptional secrets ks = map (\<lambda>k. argText k (mindex secrets k)) (filter (wanted isOptional secrets) ks)"

definition strippedArgs :: "string list \<Rightarrow> smap \<Rightarrow> string list \<Rightarrow> string list" where
  "strippedArgs isOptional secrets ks = map (\<lambda>k. argText k ''[secret]'') (filter (wanted isOptional secrets) ks)"

definition authKeys :: "string list" where
  "authKeys = [''accesskey'', ''accesskey2'', ''bucket'', ''bucket2'']"

definition authKeysStripped :: "string list" where
  "authKeysStripped = [''token'', ''secretkey'', ''secretkey2'', ''passphrase'']"

definition authOptional :: "string list" where
  "authOptional = [''accesskey2'', ''secretkey2'', ''bucket'', ''bucket2'', ''passphrase'']"

definition authArgs :: "smap \<Rightarrow> bool \<Rightarrow> string list" where
  "authArgs secrets noUpdate = [''auth'', mindex secrets ''name''] @ plainArgs authOptional secrets authKeys
     @ plainArgs authOptional secrets authKeysStripped @ (if noUpdate then [''--no-update''] else [])"

definition authArgsStripped :: "smap \<Rightarrow> bool \<Rightarrow> string list" where
  "authArgsStripped secrets noUpdate = [''auth'', mindex secrets ''name''] @ plainArgs authOptional secrets authKeys
     @ strippedArgs authOptional secrets authKeysStripped @ (if noUpdate then [''--no-update''] else [])"

text \<open>Under \<open>JFS_NO_UPDATE_CONFIG\<close> a configuration file is written once.\<close>

definition initConfig :: "'w ext \<Rightarrow> smap \<Rightarrow> ('w, gerr + unit) go" where
  "initConfig E secrets =
     (if mindex secrets ''bucket'' = '''' then
        ret (Inl (StatusRaw InvalidArgument ''bucket argument is required when --no-update option is provided'' [] None))
      else if mindex secrets ''initconfig'' \<noteq> '''' then do {
        let confPath = PathJoin [''/root/.juicefs'', mindex secrets ''name'' @ ''.conf''];
        r \<leftarrow> Stat E confPath;
        case r of
          Inr _ \<Rightarrow> ret (Inr ())
        | Inl e \<Rightarrow>
            if IsNotExist e then
              tryWrap (statusf Internal ''Create config file %q failed: %v'' [confPath])
                (WriteFile E confPath (mindex secrets ''initconfig'') mode0644) (\<lambda>_. ret (Inr ()))
            else ret (Inr ()) }
      else ret (Inr ()))"

definition AuthFs :: "'w ext \<Rightarrow> smap \<Rightarrow> smap \<Rightarrow> ('w, gerr + string) go" where
  "AuthFs E secrets extraEnvs =
     (if secrets = None then ret (Inl (StatusRaw InvalidArgument ''Nil secrets'' [] None))
      else if mindex secrets ''name'' = '''' then ret (Inl (StatusRaw InvalidArgument ''Empty name'' [] None))
      else do {
        v \<leftarrow> LookupEnv E ''JFS_NO_UPDATE_CONFIG'';
        let noUpdate = (v = Some ''enabled'');
        tryM (if noUpdate then initConfig E secrets else ret (Inr ())) (\<lambda>_. do {
          (out, err) \<leftarrow> Exec E (CliPath # authArgs secrets noUpdate) (entries extraEnvs);
          ret (case err of None \<Rightarrow> Inr out | Some e \<Rightarrow> Inl e) }) })"

definition formatKeys :: "string list" where
  "formatKeys = [''storage'', ''bucket'', ''access-key'', ''block-size'', ''compress'']"

definition formatOptional :: "string list" where
  "formatOptional = [''block-size'', ''compress'']"

definition ceFormatArgs :: "smap \<Rightarrow> bool \<Rightarrow> string list" where
  "ceFormatArgs secrets noUpdate = [''format''] @ (if noUpdate then [''--no-update''] else [])
     @ plainArgs formatOptional secrets formatKeys @ plainArgs formatOptional secrets [''secret-key'']
     @ [mindex secrets ''metaurl'', mindex secrets ''name'']"

definition ceFormatArgsStripped :: "smap \<Rightarrow> string list" where
  "ceFormatArgsStripped secrets = [''format''] @ plainArgs formatOptional secrets formatKeys
     @ strippedArgs formatOptional secrets [''secret-key''] @ [''[metaurl]'', mindex secrets ''name'']"

definition ceFormat :: "'w ext \<Rightarrow> smap \<Rightarrow> bool \<Rightarrow> ('w, gerr + string) go" where
  "ceFormat E secrets noUpdate =
     (if secrets = None then ret (Inl (StatusRaw InvalidArgument ''Nil secrets'' [] None))
      else if mindex secrets ''name'' = '''' then ret (Inl (StatusRaw InvalidArgument ''Empty name'' [] None))
      else if mindex secrets ''metaurl'' = '''' then ret (Inl (StatusRaw InvalidArgument ''Empty metaurl'' [] None))
      else do {
        (if mindex secrets ''storage'' = ''ceph'' \<or> mindex secrets ''storage'' = ''gs''
         then Setenv E ''JFS_NO_CHECK_OBJECT_STORAGE'' ''1'' else ret ());
        (out, err) \<leftarrow> Exec E (CeCliPath # ceFormatArgs secrets noUpdate) [];
        ret (case err of None \<Rightarrow> Inr out | Some e \<Rightarrow> Inl e) })"

text \<open>The result of the upgrade is only logged; the timeout bounds the command.\<close>

definition Upgrade :: "'w ext \<Rightarrow> ('w, unit) go" where
  "Upgrade E = do {
     v \<leftarrow> LookupEnv E ''JFS_AUTO_UPGRADE'';
     if v \<noteq> Some ''enabled'' then ret ()
     else do {
       _ \<leftarrow> LookupEnv E ''JFS_AUTO_UPGRADE_TIMEOUT'';
       _ \<leftarrow> Exec E [CliPath, ''version'', ''-u''] [];
       ret () } }"

definition Version :: "'w ext \<Rightarrow> ('w, gerr + string) go" where
  "Version E = do {
     (out, err) \<leftarrow> Exec E [CliPath, ''version''] [];
     ret (case err of None \<Rightarrow> Inr out | Some e \<Rightarrow> Inl e) }"

definition MountFs :: "'w ext \<Rightarrow> string \<Rightarrow> string \<Rightarrow> string list \<Rightarrow> JfsSetting \<Rightarrow> ('w, gerr + string) go" where
  "MountFs E volumeID target options jfsSetting =
     (let mountPath = PathJoin [if UsePod jfsSetting then PodMountBase else MountBase, volumeID]
      in tryWrap (errorf ''could not mount %q at %q: %v'' [sSource jfsSetting, mountPath])
           (if UsePod jfsSetting then JMount E (Some jfsSetting) volumeID mountPath target options
            else pm_JMount E jfsSetting (Storage jfsSetting) mountPath options)
           (\<lambda>_. ret (Inr mountPath)))"

text \<open>Authentication or formatting, and the source of the mount that follows from it.\<close>

definition prepareSource :: "'w ext \<Rightarrow> smap \<Rightarrow> JfsSetting \<Rightarrow> ('w, gerr + JfsSetting) go" where
  "prepareSource E secrets jfsSecret =
     (case mlookup secrets ''metaurl'' of
        None \<Rightarrow> do {
          Upgrade E;
          tryWrap (statusf Internal ''Could not auth juicefs: %v'' [])
            (if mindex secrets ''token'' = '''' then ret (Inr '''') else AuthFs E secrets (Envs jfsSecret)) (\<lambda>_.
            ret (Inr (jfsSecret\<lparr>sSource := mindex secrets ''name''\<rparr>))) }
      | Some source \<Rightarrow>
          tryWrap (statusf Internal ''Could not format juicefs: %v'' [])
            (ceFormat E secrets (mindex secrets ''storage'' = '''' \<or> mindex secrets ''bucket'' = '''')) (\<lambda>_.
            ret (Inr (jfsSecret\<lparr>sSource := (if \<not> Contains source ''://'' then ''redis://'' @ source else source)\<rparr>))))"

definition JfsMount ::
  "'w ext \<Rightarrow> string \<Rightarrow> string \<Rightarrow> smap \<Rightarrow> smap \<Rightarrow> string list \<Rightarrow> bool \<Rightarrow> ('w, gerr + jfs) go" where
  "JfsMount E volumeID0 target secrets volCtx options usePod =
     tryM (GetUniqueId E volumeID0) (\<lambda>volumeID.
     tryM (ret (ParseSetting E secrets volCtx usePod)) (\<lambda>jfsSecret.
     tryM (ret (GetConsole jfsSecret secrets)) (\<lambda>console.
     tryM (prepareSource E secrets jfsSecret) (\<lambda>jfsSecret.
     tryM (MountFs E volumeID target options jfsSecret) (\<lambda>mountPath.
       ret (Inr \<lparr>fsConsole = console, fsName = mindex secrets ''name'', fsMountPath = mountPath,
                 fsOptions = options, fsSetting = jfsSecret\<rparr>))))))"

definition JfsCleanupMountPoint :: "'w ext \<Rightarrow> string \<Rightarrow> ('w, gerr + unit) go" where
  "JfsCleanupMountPoint E mountPath = CleanupMountPoint E mountPath"

definition JfsUnmount :: "'w ext \<Rightarrow> string \<Rightarrow> ('w, gerr + unit) go" where
  "JfsUnmount E mountPath =
     tryM (Unmount E mountPath) (\<lambda>_. tryM (JfsCleanupMountPoint E mountPath) (\<lambda>_. ret (Inr ())))"

section \<open>The calls of the provider\<close>

text \<open>Work inside a mounted file system: no mount and no unmount is among its calls.\<close>

lemma emits_dropErr [emits_intros]: "emits P m \<Longrightarrow> emits P k \<Longrightarrow> emits P (dropErr m k)"
  unfolding dropErr_def by (intro emits_intros) auto

lemma emits_applyLimits [emits_intros]: "(\<And>q r. P (EvHttp q r)) \<Longrightarrow> emits P (applyLimits E fs v s n q)"
  unfolding applyLimits_def by (intro emits_intros) auto

lemma emits_ensureMode [emits_intros]:
  "(\<And>p r. P (EvStat p r)) \<Longrightarrow> (\<And>p m r. P (EvChmod p m r)) \<Longrightarrow> emits P (ensureMode E p)"
  unfolding ensureMode_def Stat_def Chmod_def by (intro emits_intros) auto

lemma emits_fs_Exec [emits_intros]: "(\<And>c e r. P (EvExec c e r)) \<Longrightarrow> emits P (fs_Exec E fs c)"
  unfolding fs_Exec_def Exec_def by (intro emits_intros) auto

lemma emits_createSnap [emits_intros]:
  "(\<And>p r. P (EvStat p r)) \<Longrightarrow> (\<And>p m r. P (EvChmod p m r)) \<Longrightarrow> (\<And>c e r. P (EvExec c e r)) \<Longrightarrow>
   emits P (createSnap E fs a b)"
  unfolding createSnap_def by (intro emits_intros) auto

lemma emits_volumes [emits_intros]:
  assumes "\<And>p r. P (EvStat p r)" and "\<And>p m r. P (EvChmod p m r)" and "\<And>c e r. P (EvExec c e r)"
    and "\<And>q r. P (EvHttp q r)" and "\<And>p m r. P (EvMkdirAll p m r)"
  shows "emits P (CreateVol E fs s n q)" and "emits P (CreateVolFromSnap E fs s i n q)"
    and "emits P (CreateVolFromVol E fs s i n q)" and "emits P (DeleteVol E fs i)"
    and "emits P (CreateSnap E fs i s)" and "emits P (DeleteSnap E fs i)"
  unfolding CreateVol_def CreateVolFromSnap_def CreateVolFromVol_def DeleteVol_def CreateSnap_def DeleteSnap_def
    MkdirAll_def RmrDir_def Exec_def Let_def
  by (intro emits_intros assms)+

text \<open>Every function of the provider adds to the trace and nothing else.\<close>

lemma emits_True_loops [emits_intros]:
  "emits (\<lambda>_. True) (waitIno E src p n)" "emits (\<lambda>_. True) (pollMount E p n)"
  "emits (\<lambda>_. True) (addRefLoop E t q n)"
proof -
  show "emits (\<lambda>_. True) (waitIno E src p n)"
    by (induction n) (auto simp: Stat_def Sleep_def intro!: emits_intros)
  show "emits (\<lambda>_. True) (pollMount E p n)"
    by (induction n) (auto simp: DoWithTimeout_def DoWithContext_def Timer_def Stat_def Sleep_def intro!: emits_intros)
  have "emits (\<lambda>_. True) (addRefOnce E t q)"
    unfolding addRefOnce_def by (intro emits_intros) auto
  then show "emits (\<lambda>_. True) (addRefLoop E t q n)"
    by (induction n) (auto simp: Sleep_def intro!: emits_intros)
qed

lemma emits_True_mountLoop [emits_intros]: "emits (\<lambda>_. True) (mountLoop E st q t m c r n)"
  by (induction n)
    (auto simp: AddRefOfMount_def waitUtilMountReady_def getErrContainerLog_def GetPodLog_def Sleep_def
      intro!: emits_intros)

lemma emits_True_JMount [emits_intros]: "emits (\<lambda>_. True) (JMount E st v m t os)"
  unfolding JMount_def waitUntilMount_def GetLoopTimeout_def Getenv_def LookupEnv_def
  by (intro emits_intros) auto

lemma emits_True_pm_JMount [emits_intros]: "emits (\<lambda>_. True) (pm_JMount E st s m os)"
  unfolding pm_JMount_def prepareMountPath_def Mount_def MkdirAll_def IsLikelyNotMountPoint_def Unmount_def Exec_def
  by (intro emits_intros) auto

lemma emits_True_prepareSource [emits_intros]: "emits (\<lambda>_. True) (prepareSource E s st)"
  unfolding prepareSource_def Upgrade_def AuthFs_def initConfig_def ceFormat_def Stat_def WriteFile_def LookupEnv_def
    Setenv_def Exec_def
  by (intro emits_intros) auto

lemma emits_GetUniqueId [emits_intros]:
  "(\<And>k v. P (EvLookupEnv k v)) \<Longrightarrow> (\<And>v r. P (EvGetPV v r)) \<Longrightarrow> emits P (GetUniqueId E v)"
  unfolding GetUniqueId_def Getenv_def LookupEnv_def GetPersistentVolume_def by (intro emits_intros) auto

lemma emits_True_JfsMount [emits_intros]: "emits (\<lambda>_. True) (JfsMount E v t s c os u)"
  unfolding JfsMount_def MountFs_def Let_def by (intro emits_intros) auto

lemma emits_CleanupMountPoint [emits_intros]:
  "(\<And>p r. P (EvStat p r)) \<Longrightarrow> (\<And>p r. P (EvLikelyNotMountPoint p r)) \<Longrightarrow> (\<And>p r. P (EvUnmount p r)) \<Longrightarrow>
   (\<And>p r. P (EvRemove p r)) \<Longrightarrow> emits P (CleanupMountPoint E p)"
  unfolding CleanupMountPoint_def doCleanupMountPoint_def Let_def IsLikelyNotMountPoint_def Unmount_def RemoveFile_def
  by (intro emits_intros) auto

lemma emits_True_JfsUnmount [emits_intros]: "emits (\<lambda>_. True) (JfsUnmount E p)"
  unfolding JfsUnmount_def JfsCleanupMountPoint_def Unmount_def by (intro emits_intros) auto

section \<open>An example\<close>

text \<open>Secrets of a file system with a console, and an environment in which its calls succeed.\<close>

definition exSecrets :: smap where
  "exSecrets = Some [(''name'', ''vol1''), (''envs'', ''BASE_URL: http://c''), (''consoleToken'', ''tok'')]"

definition Efs :: "unit ext" where
  "Efs = Epod\<lparr>lib := lib0\<lparr>yaml_map := \<lambda>_. (Some [(''BASE_URL'', ''http://c'')], True)\<rparr>\<rparr>"

definition exFsSetting :: "bool \<Rightarrow> JfsSetting" where
  "exFsSetting usePod = zero_setting\<lparr>sName := ''vol1'', sSource := ''vol1'', UsePod := usePod,
     Envs := Some [(''BASE_URL'', ''http://c'')]\<rparr>"

definition exFs :: jfs where
  "exFs = \<lparr>fsConsole = \<lparr>Addr = ''c'', Token = ''tok''\<rparr>, fsName = ''vol1'', fsMountPath = ''/var/lib/mosfs/pvc-1'',
     fsOptions = [], fsSetting = exFsSetting False\<rparr>"

text \<open>The id under which a volume is mounted, and the calls that decide it.\<close>

inductive uniqueId :: "string \<Rightarrow> gerr + string \<Rightarrow> event list \<Rightarrow> bool" for volumeId where
  unshared: "v \<noteq> Some ''true'' \<Longrightarrow> uniqueId volumeId (Inr volumeId) [EvLookupEnv ''STORAGE_CLASS_SHARE_MOUNT'' v]"
| missing: "uniqueId volumeId (Inr volumeId) [EvLookupEnv ''STORAGE_CLASS_SHARE_MOUNT'' (Some ''true''),
    EvGetPV volumeId (Inl (ApiErr NotFound))]"
| unread: "e \<noteq> ApiErr NotFound \<Longrightarrow> uniqueId volumeId (Inl e) [EvLookupEnv ''STORAGE_CLASS_SHARE_MOUNT'' (Some ''true''),
    EvGetPV volumeId (Inl e)]"
| classless: "pvStorageClassName pv = '''' \<Longrightarrow> uniqueId volumeId (Inr volumeId)
    [EvLookupEnv ''STORAGE_CLASS_SHARE_MOUNT'' (Some ''true''), EvGetPV volumeId (Inr pv)]"
| shared: "pvStorageClassName pv \<noteq> '''' \<Longrightarrow> uniqueId volumeId (Inr (pvStorageClassName pv))
    [EvLookupEnv ''STORAGE_CLASS_SHARE_MOUNT'' (Some ''true''), EvGetPV volumeId (Inr pv)]"

lemma Efs_setting: "ParseSetting Efs exSecrets None u = Inr ((exFsSetting u)\<lparr>sSource := ''''\<rparr>)"
  by (simp add: ParseSetting_def exSecrets_def parseMap_def parseVolCtx_def exFsSetting_def zero_setting_def
      mindex_def mlookup_def Efs_def Let_def)

lemma Efs_console: "GetConsole (exFsSetting u\<lparr>sSource := ''''\<rparr>) exSecrets = Inr \<lparr>Addr = ''c'', Token = ''tok''\<rparr>"
proof -
  have "url_Parse ''http://c'' = Some (''http'', ''c'', '''')" by code_simp
  then show ?thesis by (simp add: GetConsole_def exFsSetting_def zero_setting_def exSecrets_def mlookup_def)
qed

lemma Efs_fields:
  "mlookup exSecrets ''metaurl'' = None" "mindex exSecrets ''token'' = ''''" "mindex exSecrets ''name'' = ''vol1''"
  "os_lookup_env (sys Efs) k w = (None, w)" "mnt_mount (sys Efs) a b c os w = (Inr (), w)"
  "exFsSetting u\<lparr>sSource := x, sSource := ''vol1''\<rparr> = exFsSetting u" "UsePod (exFsSetting u) = u"
  "sSource (exFsSetting u) = ''vol1''"
  by (simp_all add: exSecrets_def mlookup_def mindex_def Efs_def Epod_def env0_defs exFsSetting_def)

lemma Efs_mounts:
  "run_state (JfsMount Efs ''pvc-1'' '''' exSecrets None [] False) ((), t) = (Inr exFs, (), t @
     [EvLookupEnv ''STORAGE_CLASS_SHARE_MOUNT'' None, EvLookupEnv ''JFS_AUTO_UPGRADE'' None,
      EvMount ''vol1'' ''/var/lib/mosfs/pvc-1'' ''juicefs'' [] (Inr ())])"
proof -
  have "PathJoin [''/var/lib/mosfs'', ''pvc-1''] = ''/var/lib/mosfs/pvc-1''" by code_simp
  moreover have "\<not> Contains ''vol1'' ''://''" by code_simp
  ultimately show ?thesis
    unfolding run_state_iff_wp JfsMount_def GetUniqueId_def prepareSource_def MountFs_def pm_JMount_def Upgrade_def
    by (simp add: Efs_setting Efs_console Efs_fields Let_def MountBase_def FsType_def exFs_def Mount_def run_defs)
qed

section \<open>Properties\<close>

text \<open>
  What is written to the log about the authentication or the formatting of a file system
  does not depend on the secret values: two sets of secrets with the same public values, and
  the same secret values present, give the same text.
\<close>

theorem logged_args_hide_secrets:
  assumes "\<And>k. k \<in> set ([''name''] @ authKeys @ formatKeys) \<Longrightarrow> mindex s1 k = mindex s2 k"
    and "\<And>k. mindex s1 k = '''' \<longleftrightarrow> mindex s2 k = ''''"
  shows "authArgsStripped s1 noUpdate = authArgsStripped s2 noUpdate \<and> ceFormatArgsStripped s1 = ceFormatArgsStripped s2"
proof -
  have w: "wanted os s1 = wanted os s2" for os using assms(2) by (simp add: wanted_def fun_eq_iff)
  have p: "plainArgs os s1 ks = plainArgs os s2 ks" if "set ks \<subseteq> set ([''name''] @ authKeys @ formatKeys)" for ks os
    unfolding plainArgs_def w using that assms(1) by auto
  have s: "strippedArgs os s1 ks = strippedArgs os s2 ks" for os ks by (simp add: strippedArgs_def w)
  have n: "mindex s1 ''name'' = mindex s2 ''name''" by (rule assms(1)) simp
  show ?thesis
    unfolding authArgsStripped_def ceFormatArgsStripped_def s n
    using p [of authKeys authOptional] p [of formatKeys formatOptional] by auto
qed

theorem logged_args_hide_secrets_witness:
  "authArgsStripped (Some [(''name'', ''v''), (''token'', ''t1'')]) True = authArgsStripped (Some [(''name'', ''v''), (''token'', ''t2'')]) True
   \<and> ceFormatArgsStripped (Some [(''name'', ''v''), (''token'', ''t1'')])
     = ceFormatArgsStripped (Some [(''name'', ''v''), (''token'', ''t2'')])"
  by (rule logged_args_hide_secrets) (auto simp: mindex_def mlookup_def authKeys_def formatKeys_def)

text \<open>
  The id under which a volume is mounted: its own, unless sharing is switched on, the
  persistent volume exists and names a storage class; then the storage class. A volume that
  is not found keeps its id, any other error is returned.
\<close>

theorem GetUniqueId_choice: "traces (GetUniqueId E volumeId) (uniqueId volumeId)"
  unfolding GetUniqueId_def Getenv_def LookupEnv_def GetPersistentVolume_def State_Monad.bind_assoc
  by (auto intro!: traces_bind_call traces_return uniqueId.intros simp: IsNotFound_def split: option.splits sum.splits)

end
