(* ===== verification/Controller_Service.thy ===== *)
theory Controller_Service
  imports Jfs
begin

text \<open>
  \<open>pkg/driver/controller.go\<close>: the controller service of the driver. Its state is
  the table of capacities and the table of held names. A request runs between
  \<open>TryAcquire\<close> of its name and the deferred \<open>Release\<close>.
\<close>

section \<open>Requests and responses\<close>

datatype access_mode =
    UNKNOWN | SINGLE_NODE_WRITER | SINGLE_NODE_READER_ONLY | MULTI_NODE_READER_ONLY
  | MULTI_NODE_SINGLE_WRITER | MULTI_NODE_MULTI_WRITER

text \<open>A capability: the access mode, if given, and the flags of a mount volume.\<close>

record volume_capability =
  capMode :: "access_mode option"
  capMountFlags :: "string list option"

datatype content_source = SnapshotSource string | VolumeSource string | OtherSource

record create_volume_request =
  cvName :: string
  cvVolumeCapabilities :: "volume_capability slice"
  cvParameters :: smap
  cvSecrets :: smap
  cvRequiredBytes :: "int option"
  cvContentSource :: "content_source option"

record csi_volume =
  VolumeId :: string
  CapacityBytes :: int
  VolumeContext :: smap
  ContentSource :: "content_source option"

record snapshot =
  SnapshotId :: string
  SourceVolumeId :: string
  CreationTime :: int
  ReadyToUse :: bool

section \<open>Capabilities\<close>

definition volumeCaps :: "access_mode list" where
  "volumeCaps = [SINGLE_NODE_WRITER, MULTI_NODE_MULTI_WRITER, MULTI_NODE_READER_ONLY]"

datatype controller_cap = CREATE_DELETE_VOLUME | CREATE_DELETE_SNAPSHOT | CLONE_VOLUME | EXPAND_VOLUME

definition controllerCaps :: "controller_cap list" where
  "controllerCaps = [CREATE_DELETE_VOLUME, CREATE_DELETE_SNAPSHOT, CLONE_VOLUME, EXPAND_VOLUME]"

definition ControllerGetCapabilities :: "controller_cap list" where
  "ControllerGetCapabilities = map (\<lambda>c. c) controllerCaps"

text \<open>\<open>GetMode\<close> of a missing access mode is \<open>UNKNOWN\<close>.\<close>

definition getMode :: "volume_capability \<Rightarrow> access_mode" where
  "getMode c = (case capMode c of None \<Rightarrow> UNKNOWN | Some m \<Rightarrow> m)"

fun hasSupport :: "access_mode list \<Rightarrow> volume_capability \<Rightarrow> bool" where
  "hasSupport [] c = False"
| "hasSupport (m # ms) c = (if m = getMode c then True else hasSupport ms c)"

fun foundAll :: "bool \<Rightarrow> volume_capability list \<Rightarrow> bool" where
  "foundAll acc [] = acc"
| "foundAll acc (c # cs) = foundAll (if \<not> hasSupport volumeCaps c then False else acc) cs"

definition isValidVolumeCapabilities :: "volume_capability list \<Rightarrow> bool" where
  "isValidVolumeCapabilities volCaps = foundAll True volCaps"

section \<open>State and locking\<close>

record controllerService =
  vols :: "string \<rightharpoonup> int"
  snapLocks :: ObjLocks

type_synonym 'a reply = "(gerr + 'a) \<times> controllerService"

text \<open>
  \<open>if acquired := TryAcquire(name); !acquired \{ return Aborted \}; defer Release(name)\<close>
  around the rest of a handler.
\<close>

definition underName :: "string \<Rightarrow> string \<Rightarrow> controllerService \<Rightarrow>
    (controllerService \<Rightarrow> ('w, 'a reply) go) \<Rightarrow> ('w, 'a reply) go" where
  "underName fmt name d body =
     (case TryAcquire (snapLocks d) name of
        (acquired, locks) \<Rightarrow>
          if \<not> acquired then ret (Inl (StatusRaw Aborted fmt [name] None), d)
          else do {
            (r, d') \<leftarrow> body (d\<lparr>snapLocks := locks\<rparr>);
            ret (r, d'\<lparr>snapLocks := Release (snapLocks d') name\<rparr>) })"

definition VolumeOperationAlreadyExistsFmt :: string where
  "VolumeOperationAlreadyExistsFmt = ''an operation with the given Volume %s already exists''"

definition SnapshotOperationAlreadyExistsFmt :: string where
  "SnapshotOperationAlreadyExistsFmt = ''an operation with the given Snapshot %s already exists''"

definition withState :: "controllerService \<Rightarrow> ('w, gerr + 'a) go \<Rightarrow> ('w, 'a reply) go" where
  "withState d m = do { r \<leftarrow> m; ret (r, d) }"

section \<open>CreateVolume\<close>

definition createContent :: "'w ext \<Rightarrow> jfs \<Rightarrow> create_volume_request \<Rightarrow> int \<Rightarrow> string \<Rightarrow> ('w, gerr + unit) go" where
  "createContent E fs req requiredCap qos =
     (let volumeId = cvName req; subPath = cvName req
      in case cvContentSource req of
           None \<Rightarrow>
             tryWrap (statusf Internal ''Could not create volume: %q, err: %v'' [volumeId])
               (CreateVol E fs subPath requiredCap qos) (\<lambda>_. ret (Inr ()))
         | Some (SnapshotSource snapId) \<Rightarrow>
             tryWrap (statusf Internal ''Could not create volume: %q from snap %q, err: %v'' [volumeId, snapId])
               (CreateVolFromSnap E fs subPath snapId requiredCap qos) (\<lambda>_. ret (Inr ()))
         | Some (VolumeSource srcVolId) \<Rightarrow>
             tryWrap (statusf Internal ''Could not create volume: %q from volume %q, err: %v'' [volumeId, srcVolId])
               (CreateVolFromVol E fs subPath srcVolId requiredCap qos) (\<lambda>_. ret (Inr ()))
         | Some OtherSource \<Rightarrow> ret (Inr ()))"

text \<open>Mount, create, unmount: the file system stays mounted when the middle step fails.\<close>

definition createMounted :: "'w ext \<Rightarrow> create_volume_request \<Rightarrow> int \<Rightarrow> string \<Rightarrow> ('w, gerr + unit) go" where
  "createMounted E req requiredCap qos =
     tryWrap (statusf Internal ''Could not mount juicefs: %v'' [])
       (JfsMount E (cvName req) '''' (cvSecrets req) None [] False) (\<lambda>fs.
     tryM (createContent E fs req requiredCap qos) (\<lambda>_.
     tryWrap (statusf Internal ''Could not unmount volume %q: %v'' [cvName req])
       (JfsUnmount E (GetBasePath fs)) (\<lambda>_. ret (Inr ()))))"

definition volumeContext :: "create_volume_request \<Rightarrow> (string \<times> string) list" where
  "volumeContext req = mput (foldl (\<lambda>m (k, v). mput m k v) [] (entries (cvParameters req))) ''subPath'' (cvName req)"

definition CreateVolume :: "'w ext \<Rightarrow> controllerService \<Rightarrow> create_volume_request \<Rightarrow> ('w, csi_volume reply) go" where
  "CreateVolume E d req =
     (if length (cvName req) = 0 then
        ret (Inl (StatusRaw InvalidArgument ''Volume Name cannot be empty'' [] None), d)
      else if cvVolumeCapabilities req = None then
        ret (Inl (StatusRaw InvalidArgument ''Volume Capabilities cannot be empty'' [] None), d)
      else underName VolumeOperationAlreadyExistsFmt (cvName req) d (\<lambda>d.
        let requiredCap = (case cvRequiredBytes req of None \<Rightarrow> 0 | Some n \<Rightarrow> n)
        in if (case vols d (cvName req) of None \<Rightarrow> False | Some capa \<Rightarrow> capa < requiredCap)
           then ret (Inl (StatusRaw CodeAlreadyExists ''Volume: %q, capacity bytes: %d''
                      [cvName req, showInt requiredCap] None), d)
           else let d = d\<lparr>vols := (vols d)(cvName req \<mapsto> requiredCap)\<rparr>;
                    qos = ParseQosParams (cvParameters req)
                in withState d (tryM (createMounted E req requiredCap qos) (\<lambda>_.
                     ret (Inr \<lparr>VolumeId = cvName req, CapacityBytes = requiredCap,
                       VolumeContext = Some (volumeContext req), ContentSource = cvContentSource req\<rparr>)))))"

section \<open>DeleteVolume\<close>

definition DeleteVolume :: "'w ext \<Rightarrow> controllerService \<Rightarrow> string \<Rightarrow> smap \<Rightarrow> ('w, unit reply) go" where
  "DeleteVolume E d volumeID secrets =
     (if length volumeID = 0 then
        ret (Inl (StatusRaw InvalidArgument ''Volume ID not provided'' [] None), d)
      else underName VolumeOperationAlreadyExistsFmt volumeID d (\<lambda>d. do {
        r \<leftarrow> tryWrap (statusf Internal ''Could not mount juicefs: %v'' [])
               (JfsMount E volumeID '''' secrets None [] False) (\<lambda>fs.
             tryWrap (statusOnly Internal ''Could not delete volume: %q'' [volumeID]) (DeleteVol E fs volumeID)
               (\<lambda>_. ret (Inr fs)));
        case r of
          Inl e \<Rightarrow> ret (Inl e, d)
        | Inr fs \<Rightarrow>
            withState (d\<lparr>vols := (vols d)(volumeID := None)\<rparr>)
              (tryWrap (statusf Internal ''Could not unmount volume %q: %v'' [volumeID])
                (JfsUnmount E (GetBasePath fs)) (\<lambda>_. ret (Inr ()))) }))"

section \<open>Validation and snapshots\<close>

text \<open>The confirmed capabilities, \<open>None\<close> when they are not supported.\<close>

definition ValidateVolumeCapabilities ::
  "controllerService \<Rightarrow> string \<Rightarrow> volume_capability list \<Rightarrow> gerr + volume_capability list option" where
  "ValidateVolumeCapabilities d volumeID volCaps =
     (if length volumeID = 0 then Inl (StatusRaw InvalidArgument ''Volume ID not provided'' [] None)
      else if length volCaps = 0 then Inl (StatusRaw InvalidArgument ''Volume capabilities not provided'' [] None)
      else case vols d volumeID of
             None \<Rightarrow> Inl (StatusRaw CodeNotFound ''Could not get volume by ID %q'' [volumeID] None)
           | Some _ \<Rightarrow> Inr (if isValidVolumeCapabilities volCaps then Some volCaps else None))"

definition CreateSnapshot :: "'w ext \<Rightarrow> controllerService \<Rightarrow> string \<Rightarrow> string \<Rightarrow> smap \<Rightarrow> ('w, snapshot reply) go" where
  "CreateSnapshot E d volumeID name secrets =
     (if length volumeID = 0 then
        ret (Inl (StatusRaw InvalidArgument ''Volume ID not provided'' [] None), d)
      else underName SnapshotOperationAlreadyExistsFmt name d (\<lambda>d. withState d (
        tryWrap (statusf Internal ''Could not mount juicefs: %v'' [])
          (JfsMount E volumeID '''' secrets None [] False) (\<lambda>fs.
        tryWrap (statusOnly Internal ''Could not CreateSnap volume: %q'' [volumeID])
          (CreateSnap E fs volumeID name) (\<lambda>snapdirname.
        tryWrap (statusf Internal ''Could not unmount volume %q: %v'' [volumeID])
          (JfsUnmount E (GetBasePath fs)) (\<lambda>_. do {
            now \<leftarrow> Now E;
            ret (Inr \<lparr>SnapshotId = snapdirname, SourceVolumeId = volumeID,
                      CreationTime = now div second, ReadyToUse = True\<rparr>) }))))))"

definition DeleteSnapshot :: "'w ext \<Rightarrow> controllerService \<Rightarrow> string \<Rightarrow> smap \<Rightarrow> ('w, unit reply) go" where
  "DeleteSnapshot E d snapID secrets =
     (if length snapID = 0 then
        ret (Inl (StatusRaw InvalidArgument ''snapID ID not provided'' [] None), d)
      else underName SnapshotOperationAlreadyExistsFmt snapID d (\<lambda>d. withState d (
        tryWrap (statusf Internal ''Could not mount juicefs: %v'' [])
          (JfsMount E snapID '''' secrets None [] False) (\<lambda>fs.
        tryWrap (statusOnly Internal ''Could not delete snapshot: %q'' [snapID]) (DeleteSnap E fs snapID) (\<lambda>_.
        tryWrap (statusf Internal ''Could not unmount snap %q: %v'' [snapID])
          (JfsUnmount E (GetBasePath fs)) (\<lambda>_. ret (Inr ())))))))"

section \<open>ControllerExpandVolume\<close>

text \<open>The new capacity, as the response has it; node expansion is not required.\<close>

definition ControllerExpandVolume ::
  "'w ext \<Rightarrow> controllerService \<Rightarrow> string \<Rightarrow> int option \<Rightarrow> smap \<Rightarrow> ('w, int reply) go" where
  "ControllerExpandVolume E d volumeID capRange secrets =
     (if volumeID = '''' then ret (Inl (StatusRaw InvalidArgument ''volume ID cannot be empty'' [] None), d)
      else case capRange of
        None \<Rightarrow> ret (Inl (StatusRaw InvalidArgument ''capacityRange cannot be empty'' [] None), d)
      | Some requiredBytes \<Rightarrow>
          underName VolumeOperationAlreadyExistsFmt volumeID d (\<lambda>d. withState d (
            tryM (ret (ParseSetting E secrets None False)) (\<lambda>setting.
            tryM (ret (GetConsole setting secrets)) (\<lambda>console.
            tryM (GetQuota E console (sName setting) (''/'' @ volumeID)) (\<lambda>quota.
            tryM (case quota of
                    None \<Rightarrow> CreateQuota E console (sName setting) (''/'' @ volumeID) 0 requiredBytes
                  | Some q \<Rightarrow> UpdateQuota E console (q\<lparr>qSize := requiredBytes\<rparr>)) (\<lambda>_.
              ret (Inr requiredBytes))))))))"

definition unimplemented :: "gerr + 'a" where
  "unimplemented = Inl (StatusRaw Unimplemented '''' [] None)"

section \<open>The lock table\<close>

text \<open>A reply that leaves the lock table as it was given.\<close>

definition keepsLocks :: "controllerService \<Rightarrow> 'a reply \<Rightarrow> event list \<Rightarrow> bool" where
  "keepsLocks d r es \<longleftrightarrow> snapLocks (snd r) = snapLocks d"

lemma keepsLocks_ret: "traces (ret (x, d)) (keepsLocks d)"
  by (simp add: keepsLocks_def traces_return)

lemma traces_True: "emits (\<lambda>_. True) m \<Longrightarrow> traces m (\<lambda>_ _. True)"
  unfolding emits_traces by (rule traces_mono) auto

lemma keepsLocks_withState:
  "emits (\<lambda>_. True) m \<Longrightarrow> snapLocks d' = snapLocks d \<Longrightarrow> traces (withState d' m) (keepsLocks d)"
  unfolding withState_def keepsLocks_def
  by (rule traces_bind [OF traces_True]) (auto intro: traces_return)

lemma keepsLocks_underName:
  assumes "\<And>d'. traces (body d') (keepsLocks d')"
  shows "traces (underName fmt name d body) (keepsLocks d)"
proof (cases "TryAcquire (snapLocks d) name")
  case (Pair acquired locks)
  show ?thesis
  proof (cases acquired)
    case True
    then have rel: "Release locks name = snapLocks d" using Release_TryAcquire Pair by simp
    have "traces (do { (r, d') \<leftarrow> body (d\<lparr>snapLocks := locks\<rparr>);
        ret (r, d'\<lparr>snapLocks := Release (snapLocks d') name\<rparr>) }) (keepsLocks d)"
      by (rule traces_bind [OF assms], unfold case_prod_unfold, rule traces_return)
        (use rel in \<open>simp add: keepsLocks_def\<close>)
    with Pair True show ?thesis by (simp add: underName_def)
  next
    case False
    with Pair show ?thesis by (simp add: underName_def keepsLocks_ret)
  qed
qed

text \<open>A name that is held is refused at once, without a call and without a change.\<close>

lemma underName_held:
  "name \<in> snapLocks d \<Longrightarrow> underName fmt name d body = ret (Inl (StatusRaw Aborted fmt [name] None), d)"
  by (simp add: underName_def TryAcquire_def)

section \<open>Concurrent requests\<close>

text \<open>
  Requests in flight: each waits for its name, works under it, or is done. The steps
  are the two operations on the shared lock table that every one of the five handlers makes
  (controller.go:78-82, 153-157, 267-271, 312-316, 357-361: \<open>TryAcquire\<close>, and the deferred \<open>Release\<close>);
  the work of a handler lies between them. \<open>underName\<close>, in which the handlers run, takes these
  steps (\<open>underName_refuse\<close>, \<open>underName_acquire\<close>).
\<close>

datatype hphase = Arrived | Working | Replied bool

record requests =
  names :: "string list"
  hphases :: "hphase list"
  held :: ObjLocks

definition arrive :: "string list \<Rightarrow> requests" where
  "arrive ns = \<lparr>names = ns, hphases = replicate (length ns) Arrived, held = NewObjLocks\<rparr>"

inductive requestStep :: "requests \<Rightarrow> requests \<Rightarrow> bool" where
  acquire: "i < length (names s) \<Longrightarrow> hphases s ! i = Arrived \<Longrightarrow> TryAcquire (held s) (names s ! i) = (True, l) \<Longrightarrow>
    requestStep s (s\<lparr>hphases := (hphases s)[i := Working], held := l\<rparr>)"
| refuse: "i < length (names s) \<Longrightarrow> hphases s ! i = Arrived \<Longrightarrow> TryAcquire (held s) (names s ! i) = (False, l) \<Longrightarrow>
    requestStep s (s\<lparr>hphases := (hphases s)[i := Replied False]\<rparr>)"
| finish: "i < length (names s) \<Longrightarrow> hphases s ! i = Working \<Longrightarrow>
    requestStep s (s\<lparr>hphases := (hphases s)[i := Replied True], held := Release (held s) (names s ! i)\<rparr>)"

lemma underName_refuse:
  assumes "i < length (names s)" and "hphases s ! i = Arrived" and "names s ! i = name" and "held s = snapLocks d"
    and "name \<in> snapLocks d"
  shows "requestStep s (s\<lparr>hphases := (hphases s)[i := Replied False]\<rparr>) \<and>
    underName fmt name d body = ret (Inl (StatusRaw Aborted fmt [name] None), d)"
  using assms requestStep.refuse [of i s "held s"] by (simp add: underName_held TryAcquire_def)

lemma underName_acquire:
  assumes "i < length (names s)" and "hphases s ! i = Arrived" and "names s ! i = name" and "held s = snapLocks d"
    and "name \<notin> snapLocks d"
  shows "\<exists>l. requestStep s (s\<lparr>hphases := (hphases s)[i := Working], held := l\<rparr>) \<and>
    underName fmt name d body = do {
      (r, d') \<leftarrow> body (d\<lparr>snapLocks := l\<rparr>); ret (r, d'\<lparr>snapLocks := Release (snapLocks d') name\<rparr>) }"
  using assms requestStep.acquire [of i s "insert name (held s)"] by (intro exI [of _ "insert name (held s)"]) (simp add: underName_def TryAcquire_def)

definition workingNames :: "requests \<Rightarrow> string set" where
  "workingNames s = {names s ! i | i. i < length (names s) \<and> hphases s ! i = Working}"

definition requestsInv :: "requests \<Rightarrow> bool" where
  "requestsInv s \<longleftrightarrow> length (hphases s) = length (names s) \<and> held s = workingNames s \<and>
     (\<forall>i j. i < length (names s) \<and> j < length (names s) \<and> hphases s ! i = Working \<and> hphases s ! j = Working
        \<and> names s ! i = names s ! j \<longrightarrow> i = j)"

lemma requestsInv_arrive: "requestsInv (arrive ns)"
  by (auto simp: requestsInv_def arrive_def workingNames_def NewObjLocks_def)

lemma requestStep_names: "requestStep s s' \<Longrightarrow> names s' = names s"
  by (induction rule: requestStep.induct) simp_all

lemma requestStep_inv: "requestStep s s' \<Longrightarrow> requestsInv s \<Longrightarrow> requestsInv s'"
proof (induction rule: requestStep.induct)
  case (acquire i s l)
  have free: "names s ! i \<notin> held s"
    using ols.acquire_ok [of "held s" "names s ! i"] acquire(3) by simp
  have l: "l = insert (names s ! i) (held s)"
    using ols.acquire_held [of "held s" "names s ! i"] acquire(3) by simp
  have len: "length (hphases s) = length (names s)" and h: "held s = workingNames s"
    using acquire(4) by (simp_all add: requestsInv_def)
  have "workingNames (s\<lparr>hphases := (hphases s)[i := Working], held := l\<rparr>) = insert (names s ! i) (workingNames s)"
    using acquire(1) len unfolding workingNames_def by (auto simp: nth_list_update)
  moreover have "names s ! j \<noteq> names s ! i \<and> names s ! i \<noteq> names s ! j"
    if "j < length (names s)" "hphases s ! j = Working" for j
    using free h that unfolding workingNames_def by auto
  ultimately show ?case
    using acquire(4) acquire(1) l h len unfolding requestsInv_def
    by (auto simp: nth_list_update split: if_splits)
next
  case (refuse i s l)
  have len: "length (hphases s) = length (names s)" using refuse(4) by (simp add: requestsInv_def)
  have "workingNames (s\<lparr>hphases := (hphases s)[i := Replied False]\<rparr>) = workingNames s"
    using refuse(1,2) len unfolding workingNames_def
    by (auto simp: nth_list_update split: if_splits) (metis hphase.distinct(1))
  then show ?case
    using refuse(4,1) len unfolding requestsInv_def by (auto simp: nth_list_update split: if_splits)
next
  case (finish i s)
  have len: "length (hphases s) = length (names s)" and h: "held s = workingNames s"
    and uniq: "j < length (names s) \<Longrightarrow> hphases s ! j = Working \<Longrightarrow> names s ! j = names s ! i \<Longrightarrow> j = i" for j
    using finish by (auto simp: requestsInv_def)
  have "workingNames (s\<lparr>hphases := (hphases s)[i := Replied True], held := Release (held s) (names s ! i)\<rparr>)
      = workingNames s - {names s ! i}"
    using finish(1) len uniq unfolding workingNames_def
    by (auto simp: nth_list_update split: if_splits) metis
  then show ?case
    using finish(3,1) len h unfolding requestsInv_def by (auto simp: nth_list_update Release_def split: if_splits)
qed

lemma reachable_requestsInv: "requestStep\<^sup>*\<^sup>* (arrive ns) s \<Longrightarrow> requestsInv s \<and> names s = ns"
proof (induction rule: rtranclp_induct)
  case base
  then show ?case using requestsInv_arrive by (simp add: arrive_def)
next
  case (step y z)
  then show ?case using requestStep_inv requestStep_names by metis
qed

section \<open>The handlers and the lock table\<close>

lemma emits_True_createMounted [emits_intros]: "emits (\<lambda>_. True) (createMounted E req c q)"
  unfolding createMounted_def createContent_def Let_def
  by (intro emits_intros) (auto split: content_source.splits intro!: emits_intros)

lemma keepsLocks_DeleteVolume: "traces (DeleteVolume E d v s) (keepsLocks d)"
proof -
  have "traces (do {
        r \<leftarrow> tryWrap (statusf Internal ''Could not mount juicefs: %v'' [])
               (JfsMount E v '''' s None [] False) (\<lambda>fs.
             tryWrap (statusOnly Internal ''Could not delete volume: %q'' [v]) (DeleteVol E fs v)
               (\<lambda>_. ret (Inr fs)));
        case r of
          Inl e \<Rightarrow> ret (Inl e, d')
        | Inr fs \<Rightarrow>
            withState (d'\<lparr>vols := (vols d')(v := None)\<rparr>)
              (tryWrap (statusf Internal ''Could not unmount volume %q: %v'' [v])
                (JfsUnmount E (GetBasePath fs)) (\<lambda>_. ret (Inr ()))) }) (keepsLocks d')" for d'
  proof (rule traces_bind [OF traces_True])
    fix r :: "gerr + jfs" and es
    show "traces (case r of Inl e \<Rightarrow> ret (Inl e, d') | Inr fs \<Rightarrow> withState (d'\<lparr>vols := (vols d')(v := None)\<rparr>)
        (tryWrap (statusf Internal ''Could not unmount volume %q: %v'' [v]) (JfsUnmount E (GetBasePath fs)) (\<lambda>_. ret (Inr ()))))
        (\<lambda>x es'. keepsLocks d' x (es @ es'))"
    proof (rule traces_mono [where S = "keepsLocks d'"])
      show "traces (case r of Inl e \<Rightarrow> ret (Inl e, d') | Inr fs \<Rightarrow> withState (d'\<lparr>vols := (vols d')(v := None)\<rparr>)
        (tryWrap (statusf Internal ''Could not unmount volume %q: %v'' [v]) (JfsUnmount E (GetBasePath fs)) (\<lambda>_. ret (Inr ()))))
        (keepsLocks d')"
        by (cases r) (auto intro!: keepsLocks_ret keepsLocks_withState emits_intros)
    qed (simp add: keepsLocks_def)
  qed (intro emits_intros; simp)
  then show ?thesis unfolding DeleteVolume_def by (auto intro: keepsLocks_ret keepsLocks_underName)
qed

lemma keepsLocks_CreateVolume: "traces (CreateVolume E d req) (keepsLocks d)"
  unfolding CreateVolume_def Let_def
  by (auto intro!: keepsLocks_ret keepsLocks_underName keepsLocks_withState emits_intros split: option.splits)

lemma keepsLocks_snapshots:
  "traces (CreateSnapshot E d v n s) (keepsLocks d)" "traces (DeleteSnapshot E d n s) (keepsLocks d)"
  unfolding CreateSnapshot_def DeleteSnapshot_def Now_def
  by (auto intro!: keepsLocks_ret keepsLocks_underName keepsLocks_withState emits_intros)

lemma keepsLocks_ControllerExpandVolume: "traces (ControllerExpandVolume E d v c s) (keepsLocks d)"
  unfolding ControllerExpandVolume_def
  by (auto intro!: keepsLocks_ret keepsLocks_underName keepsLocks_withState emits_intros split: option.splits)

section \<open>CreateVolume\<close>

lemma map_of_foldl_mput:
  "map_of (foldl (\<lambda>m (k, v). mput m k v) acc xs) = map_of acc ++ map_of (rev xs)"
  by (induction xs arbitrary: acc) (auto simp: mput_def update_conv' map_add_upd_left fun_eq_iff map_add_def split: option.splits)

lemma volumeContext_lookup:
  assumes "map_ok (cvParameters req)"
  shows "mlookup (Some (volumeContext req)) k =
    (if k = ''subPath'' then Some (cvName req) else mlookup (cvParameters req) k)"
proof -
  have "map_of (rev (entries (cvParameters req))) = map_of (entries (cvParameters req))"
    using assms by (subst map_of_inject_set) (simp_all add: map_ok_def flip: rev_map)
  then show ?thesis
    unfolding volumeContext_def mlookup_mput by (simp add: mlookup_def map_of_foldl_mput)
qed

text \<open>
  What a \<open>CreateVolume\<close> that passes the checks does to the table of capacities, and
  what it answers: the capacity is recorded before the work, so it stays recorded
  when the work fails.
\<close>

definition requiredBytes :: "create_volume_request \<Rightarrow> int" where
  "requiredBytes req = (case cvRequiredBytes req of None \<Rightarrow> 0 | Some n \<Rightarrow> n)"

definition createdReply :: "controllerService \<Rightarrow> create_volume_request \<Rightarrow> csi_volume reply \<Rightarrow> bool" where
  "createdReply d req r \<longleftrightarrow>
     vols (snd r) = (vols d)(cvName req \<mapsto> requiredBytes req) \<and>
     (case fst r of
        Inl _ \<Rightarrow> True
      | Inr v \<Rightarrow> v = \<lparr>VolumeId = cvName req, CapacityBytes = requiredBytes req,
          VolumeContext = Some (volumeContext req), ContentSource = cvContentSource req\<rparr>)"

lemma traces_CreateVolume_accepted:
  assumes "cvName req \<noteq> ''''" and "cvVolumeCapabilities req \<noteq> None" and "cvName req \<notin> snapLocks d"
    and "\<And>c. vols d (cvName req) = Some c \<Longrightarrow> requiredBytes req \<le> c"
  shows "traces (CreateVolume E d req) (\<lambda>r _. createdReply d req r)"
proof -
  have acq: "TryAcquire (snapLocks d) (cvName req) = (True, insert (cvName req) (snapLocks d))"
    using assms(3) by (simp add: TryAcquire_def)
  have capa: "\<not> (case vols d (cvName req) of None \<Rightarrow> False | Some capa \<Rightarrow> capa < requiredBytes req)"
    using assms(4) by (auto split: option.splits)
  let ?d = "d\<lparr>snapLocks := insert (cvName req) (snapLocks d), vols := (vols d)(cvName req \<mapsto> requiredBytes req)\<rparr>"
  let ?v = "\<lparr>VolumeId = cvName req, CapacityBytes = requiredBytes req,
    VolumeContext = Some (volumeContext req), ContentSource = cvContentSource req\<rparr>"
  have m: "traces (createMounted E req (requiredBytes req) (ParseQosParams (cvParameters req))) (\<lambda>_ _. True)"
    by (rule traces_True) (rule emits_intros)
  have work: "traces (withState ?d (tryM (createMounted E req (requiredBytes req) (ParseQosParams (cvParameters req)))
      (\<lambda>_. ret (Inr ?v)))) (\<lambda>r _. snd r = ?d \<and> (case fst r of Inl _ \<Rightarrow> True | Inr v \<Rightarrow> v = ?v))"
    unfolding withState_def
    by (rule traces_bind [where S = "\<lambda>r _. case r of Inl _ \<Rightarrow> True | Inr v \<Rightarrow> v = ?v"],
        rule traces_tryM [OF m]) (auto intro!: traces_return)
  show ?thesis
    unfolding CreateVolume_def underName_def Let_def requiredBytes_def [symmetric]
    using assms(1,2) acq capa
    by (auto intro!: traces_bind [OF work] traces_return simp: createdReply_def split: option.splits sum.splits)
qed

text \<open>A mount that no unmount follows when the volume cannot be made.\<close>

definition noUnmount :: "event \<Rightarrow> bool" where
  "noUnmount e = (case e of EvUnmount p r \<Rightarrow> False | _ \<Rightarrow> True)"

lemma emits_createContent: "emits noUnmount (createContent E fs req c q)"
  unfolding createContent_def Let_def
  by (auto simp: noUnmount_def split: option.splits content_source.splits intro!: emits_intros)

lemma createMounted_leak:
  assumes "run_state (JfsMount E (cvName req) '''' (cvSecrets req) None [] False) (w, t) = (Inr fs, w1, t1)"
    and "run_state (createContent E fs req c q) (w1, t1) = (Inl e, w2, t2)"
  shows "run_state (createMounted E req c q) (w, t) = (Inl e, w2, t2)
    \<and> (\<exists>es. t2 = t1 @ es \<and> list_all noUnmount es)"
proof -
  obtain es where "t2 = t1 @ es" "\<forall>x \<in> set es. noUnmount x"
    using emits_trace [OF emits_createContent assms(2)] by blast
  moreover have "run_state (createMounted E req c q) (w, t) = (Inl e, w2, t2)"
    unfolding createMounted_def run_state_iff_wp
    by (simp add: wp_simps run_state_wp [OF assms(1)] run_state_wp [OF assms(2)])
  ultimately show ?thesis by (auto simp: list_all_iff)
qed

section \<open>Capabilities and expansion\<close>

lemma hasSupport_iff: "hasSupport ms c \<longleftrightarrow> getMode c \<in> set ms"
  by (induction ms) auto

lemma foundAll_iff: "foundAll acc cs \<longleftrightarrow> acc \<and> (\<forall>c \<in> set cs. getMode c \<in> set volumeCaps)"
  by (induction cs arbitrary: acc) (auto simp: hasSupport_iff)

definition acceptedRequest :: "(http_request \<Rightarrow> bool) \<Rightarrow> event list \<Rightarrow> bool" where
  "acceptedRequest Q es \<longleftrightarrow>
     (\<exists>pre req resp. es = pre @ [EvHttp req (Inr resp)] \<and> hsStatus resp < 400 \<and> Q req)"

lemma acceptedRequest_append: "acceptedRequest Q es \<Longrightarrow> acceptedRequest Q (pre @ es)"
  unfolding acceptedRequest_def by (metis append_assoc)

lemma acceptedRequest_mono: "acceptedRequest Q es \<Longrightarrow> (\<And>q. Q q \<Longrightarrow> R q) \<Longrightarrow> acceptedRequest R es"
  unfolding acceptedRequest_def by blast

lemma traces_runHttp:
  "traces (runHttpRequestRaw E req) (\<lambda>r es. (\<exists>b. r = Inr b) \<longrightarrow> acceptedRequest (\<lambda>q. q = req) es)"
  unfolding runHttpRequestRaw_def
  by (auto intro!: traces_bind_call traces_return simp: acceptedRequest_def split: sum.splits)

lemma traces_sendUnchecked:
  "traces (sendUnchecked E meth url body) (\<lambda>r es. (\<exists>b. r = Inr b) \<longrightarrow>
     acceptedRequest (\<lambda>q. q = \<lparr>hrMethod = meth, hrURL = url, hrBody = body\<rparr>) es)"
  unfolding sendUnchecked_def NewRequest_def
  by (auto intro!: traces_return traces_runHttp split: option.splits)

text \<open>A successful expansion ends with one accepted request that carries the new size for the volume's path.\<close>

definition sizeRequest :: "string \<Rightarrow> int \<Rightarrow> http_request \<Rightarrow> bool" where
  "sizeRequest path n req \<longleftrightarrow>
     hrMethod req = ''POST'' \<and> hrBody req = Some (marshal (JObj [(''inodes'', JNum 0), (''path'', JStr path), (''size'', JNum n)]))
     \<or> hrMethod req = ''PUT'' \<and> (\<exists>q. qPath q = path \<and> qSize q = n \<and> hrBody req = Some (marshal (quotaJson q)))"

lemma traces_GetQuota:
  "traces (GetQuota E cs v path) (\<lambda>r _. \<forall>q. r = Inr (Some q) \<longrightarrow> qPath q = path)"
  unfolding GetQuota_def
  by (rule traces_tryM [OF traces_True], (intro emits_intros; simp), simp,
      rule traces_tryM [OF traces_True], unfold GetQuotas_def, (intro emits_intros; simp), simp,
      rule traces_return, use lastQuota_Some in blast)

lemma traces_send_size:
  assumes "sizeRequest path n \<lparr>hrMethod = meth, hrURL = url, hrBody = body\<rparr>"
  shows "traces (tryM (sendUnchecked E meth url body) (\<lambda>_. ret (Inr ())))
    (\<lambda>r es. r = Inr () \<longrightarrow> acceptedRequest (sizeRequest path n) es)"
proof (rule traces_tryM [OF traces_sendUnchecked])
  fix x es
  assume "(\<exists>b. Inr x = Inr b) \<longrightarrow>
    acceptedRequest (\<lambda>q. q = \<lparr>hrMethod = meth, hrURL = url, hrBody = body\<rparr>) es"
  then have "acceptedRequest (sizeRequest path n) (es @ [])"
    using assms by (auto elim: acceptedRequest_mono)
  then show "traces (ret (Inr ())) (\<lambda>r es'. r = Inr () \<longrightarrow> acceptedRequest (sizeRequest path n) (es @ es'))"
    by (intro traces_return impI)
qed simp

lemma traces_setQuota:
  assumes "\<And>q. quota = Some q \<Longrightarrow> qPath q = path"
  shows "traces (case quota of
      None \<Rightarrow> CreateQuota E cs v path 0 n
    | Some q \<Rightarrow> UpdateQuota E cs (q\<lparr>qSize := n\<rparr>)) (\<lambda>r es. r = Inr () \<longrightarrow> acceptedRequest (sizeRequest path n) es)"
proof (cases quota)
  case None
  have "traces (CreateQuota E cs v path 0 n) (\<lambda>r es. r = Inr () \<longrightarrow> acceptedRequest (sizeRequest path n) es)"
    unfolding CreateQuota_def
    by (rule traces_tryM [OF traces_True], (intro emits_intros; simp), simp,
        rule traces_mono [OF traces_send_size [of path n]]) (simp_all add: sizeRequest_def acceptedRequest_append)
  with None show ?thesis by simp
next
  case (Some q)
  have "traces (UpdateQuota E cs (q\<lparr>qSize := n\<rparr>)) (\<lambda>r es. r = Inr () \<longrightarrow> acceptedRequest (sizeRequest path n) es)"
    unfolding UpdateQuota_def
    by (rule traces_send_size) (use assms Some in \<open>auto simp: sizeRequest_def intro!: exI [of _ "q\<lparr>qSize := n\<rparr>"]\<close>)
  with Some show ?thesis by simp
qed

lemma traces_expandQuota:
  "traces (tryM (GetQuota E cs v path) (\<lambda>quota.
      tryM (case quota of
              None \<Rightarrow> CreateQuota E cs v path 0 n
            | Some q \<Rightarrow> UpdateQuota E cs (q\<lparr>qSize := n\<rparr>)) (\<lambda>_. ret (Inr n))))
    (\<lambda>r es. \<forall>m. r = Inr m \<longrightarrow> m = n \<and> acceptedRequest (sizeRequest path n) es)"
proof (rule traces_tryM [OF traces_GetQuota])
  fix quota es
  assume "\<forall>q. (Inr quota :: gerr + QuotaInfo option) = Inr (Some q) \<longrightarrow> qPath q = path"
  then have q: "quota = Some q \<Longrightarrow> qPath q = path" for q by blast
  show "traces (tryM (case quota of
              None \<Rightarrow> CreateQuota E cs v path 0 n
            | Some q \<Rightarrow> UpdateQuota E cs (q\<lparr>qSize := n\<rparr>)) (\<lambda>_. ret (Inr n)))
        (\<lambda>r es'. \<forall>m. r = Inr m \<longrightarrow> m = n \<and> acceptedRequest (sizeRequest path n) (es @ es'))"
    by (rule traces_tryM [OF traces_setQuota [OF q]]) (simp_all add: traces_return acceptedRequest_append)
qed simp

lemma traces_ret: "traces (ret x) (\<lambda>r es. r = x \<and> es = [])"
  by (simp add: traces_return)

lemma traces_ControllerExpandVolume:
  "traces (ControllerExpandVolume E d volumeID (Some n) secrets) (\<lambda>r es. \<forall>m. fst r = Inr m \<longrightarrow>
     m = n \<and> acceptedRequest (sizeRequest (''/'' @ volumeID) n) es)"
proof -
  let ?T = "\<lambda>r es. \<forall>m. r = Inr m \<longrightarrow> m = n \<and> acceptedRequest (sizeRequest (''/'' @ volumeID) n) es"
  have body: "traces (tryM (ret (ParseSetting E secrets None False)) (\<lambda>setting.
      tryM (ret (GetConsole setting secrets)) (\<lambda>console.
      tryM (GetQuota E console (sName setting) path) (\<lambda>quota.
      tryM (case quota of
              None \<Rightarrow> CreateQuota E console (sName setting) path 0 n
            | Some q \<Rightarrow> UpdateQuota E console (q\<lparr>qSize := n\<rparr>)) (\<lambda>_. ret (Inr n))))))
      (\<lambda>r es. \<forall>m. r = Inr m \<longrightarrow> m = n \<and> acceptedRequest (sizeRequest path n) es)" for path
    by (intro traces_tryM [OF traces_ret]) (auto intro: traces_expandQuota)
  have state: "traces (withState d' m) (\<lambda>r es. ?T (fst r) es)" if "traces m ?T" for d' m
    unfolding withState_def by (rule traces_bind [OF that]) (auto intro!: traces_return)
  have locked: "traces (underName fmt name d k) (\<lambda>r es. ?T (fst r) es)"
    if "\<And>d'. traces (k d') (\<lambda>r es. ?T (fst r) es)" for fmt name k
    unfolding underName_def case_prod_unfold
    by (auto intro!: traces_bind [OF that] traces_return)
  show ?thesis
    unfolding ControllerExpandVolume_def option.case
    by (cases "volumeID = ''''", simp_all only: if_True if_False simp_thms)
      ((rule traces_return, simp), rule locked, rule state, rule body)
qed

section \<open>Examples\<close>

definition exCap :: volume_capability where
  "exCap = \<lparr>capMode = Some MULTI_NODE_MULTI_WRITER, capMountFlags = None\<rparr>"

definition exCreate :: create_volume_request where
  "exCreate = \<lparr>cvName = ''pvc-1'', cvVolumeCapabilities = Some [exCap], cvParameters = Some [(''a'', ''b'')],
     cvSecrets = exSecrets, cvRequiredBytes = Some 10, cvContentSource = None\<rparr>"

definition idle :: controllerService where
  "idle = \<lparr>vols = Map.empty, snapLocks = NewObjLocks\<rparr>"

definition busy :: controllerService where
  "busy = \<lparr>vols = Map.empty, snapLocks = {''pvc-1''}\<rparr>"

text \<open>The console knows no volume, so the quota of a new volume cannot be set.\<close>

lemma Efs_http: "http_do (net Efs) r w = (Inr \<lparr>hsStatus = 200, hsBody = Inr ''[]''\<rparr>, w)"
  by (simp add: Efs_def Epod_def env0_defs)

lemma Efs_stat: "os_stat (sys Efs) p w = (Inr \<lparr>fiIno = 1, fiPerm = 511\<rparr>, w)"
  by (simp add: Efs_def Epod_def env0_defs)

lemma exFs_url: "url_Parse (apiURL (fsConsole exFs) '''') = Some (''http'', ''c'', ''/api/v1/volumes'')"
  by (simp add: exFs_def apiURL_def) code_simp

lemma parse_empty_array: "parseJson ''[]'' = Some (JArr [])"
  by code_simp

lemma Efs_no_volume:
  "\<exists>t'. run_state (consoleVolume Efs (fsConsole exFs) v) ((), t) = (Inl (StatusRaw Internal ''Volume not found %s'' [v] None), (), t')"
  unfolding run_state_iff_wp consoleVolume_def GetVolumes_def
  by (simp add: run_defs Efs_http sendUnchecked_def NewRequest_def exFs_url runHttpRequestRaw_def decodeArray_def parse_empty_array)

lemma Efs_no_quota:
  "wp (CreateQuota Efs (fsConsole exFs) v p i n) (\<lambda>r s. \<exists>e. r = Inl e \<and> \<not> is_panic e) ((), t)"
  "wp (DeleteQuota Efs (fsConsole exFs) v p) (\<lambda>r s. \<exists>e. r = Inl e \<and> \<not> is_panic e) ((), t)"
  using Efs_no_volume [of v t]
  by (auto simp: CreateQuota_def DeleteQuota_def GetQuota_def wp_simps run_state_wp)

lemma Efs_create_fails: "wp (createContent Efs exFs exCreate 10 '''') (\<lambda>r s. \<exists>e. r = Inl e) ((), t)"
proof -
  have q: "wp (dropErr (DeleteQuota Efs (fsConsole exFs) v p) (tryWrap f (CreateQuota Efs (fsConsole exFs) v p i n) k))
      (\<lambda>r s. \<exists>e. r = Inl e) ((), t)" for v p f i n k t
    unfolding dropErr_def wp_simps
    by (rule wp_mono [OF Efs_no_quota(2)]) (auto simp: wp_simps intro!: wp_mono [OF Efs_no_quota(1)])
  have l: "wp (applyLimits Efs exFs v p 10 q') (\<lambda>r s. \<exists>e. r = Inl e) ((), t)" for v p q' t
    unfolding applyLimits_def wp_tryM if_P [OF zero_less_numeral] by (rule wp_mono [OF q]) auto
  show ?thesis
    unfolding createContent_def exCreate_def CreateVol_def ensureMode_def Let_def
    by (simp add: run_defs Efs_stat mode0777_def, rule wp_mono [OF l]) auto
qed

section \<open>Properties\<close>

text \<open>
  C24: Whatever happens inside, every handler of the controller gives the lock table back as it
  found it: each name that was taken is released on every path.
\<close>

theorem handlers_release:
  "traces (CreateVolume E d req) (keepsLocks d) \<and> traces (DeleteVolume E d volumeID secrets) (keepsLocks d)
   \<and> traces (CreateSnapshot E d volumeID name secrets) (keepsLocks d)
   \<and> traces (DeleteSnapshot E d snapID secrets) (keepsLocks d)
   \<and> traces (ControllerExpandVolume E d volumeID capRange secrets) (keepsLocks d)"
  by (intro conjI keepsLocks_CreateVolume keepsLocks_DeleteVolume keepsLocks_snapshots keepsLocks_ControllerExpandVolume)

text \<open>
  While a name is held, every request for that name is answered with \<open>Aborted\<close>, without any
  call to the outside and without a change of the state.
\<close>

theorem held_name_aborts:
  assumes "name \<in> snapLocks d" and "name \<noteq> ''''" and "cvName req = name" and "cvVolumeCapabilities req \<noteq> None"
    and "volumeID \<noteq> ''''"
  shows "CreateVolume E d req = ret (Inl (StatusRaw Aborted VolumeOperationAlreadyExistsFmt [name] None), d) \<and>
    DeleteVolume E d name secrets = ret (Inl (StatusRaw Aborted VolumeOperationAlreadyExistsFmt [name] None), d) \<and>
    CreateSnapshot E d volumeID name secrets =
      ret (Inl (StatusRaw Aborted SnapshotOperationAlreadyExistsFmt [name] None), d) \<and>
    DeleteSnapshot E d name secrets = ret (Inl (StatusRaw Aborted SnapshotOperationAlreadyExistsFmt [name] None), d) \<and>
    ControllerExpandVolume E d name (Some n) secrets =
      ret (Inl (StatusRaw Aborted VolumeOperationAlreadyExistsFmt [name] None), d)"
  using assms
  by (auto simp: CreateVolume_def DeleteVolume_def CreateSnapshot_def DeleteSnapshot_def
      ControllerExpandVolume_def underName_held)

theorem held_name_aborts_witness:
  "CreateVolume E0 busy exCreate = ret (Inl (StatusRaw Aborted VolumeOperationAlreadyExistsFmt [''pvc-1''] None), busy)"
  using held_name_aborts [of "''pvc-1''" busy exCreate "''v''" E0] by (simp add: busy_def exCreate_def)

text \<open>
  C12: Of any number of concurrent requests, in any interleaving, no two work under the same name,
  and the table of held names is exactly the set of names that are being worked on.
\<close>

theorem requests_exclusive:
  assumes "requestStep\<^sup>*\<^sup>* (arrive ns) s"
  shows "requestsInv s \<and> names s = ns"
  using assms by (rule reachable_requestsInv)

theorem requests_exclusive_witness:
  "requestsInv \<lparr>names = [''a'', ''a''], hphases = [Working, Arrived], held = {''a''}\<rparr>"
proof -
  have "requestStep (arrive [''a'', ''a'']) \<lparr>names = [''a'', ''a''], hphases = [Working, Arrived], held = {''a''}\<rparr>"
    using requestStep.acquire [of 0 "arrive [''a'', ''a'']" "{''a''}"]
    by (simp add: arrive_def TryAcquire_def NewObjLocks_def numeral_2_eq_2)
  then have "requestStep\<^sup>*\<^sup>* (arrive [''a'', ''a'']) \<lparr>names = [''a'', ''a''], hphases = [Working, Arrived], held = {''a''}\<rparr>"
    by (rule r_into_rtranclp)
  from requests_exclusive [OF this] show ?thesis by simp
qed

text \<open>
  C25: A request to create a volume that passes the checks records the required capacity, also
  when the creation then fails, and a success answers with that capacity, the name as id, the
  parameters with the sub-path added, and the given source.
\<close>

theorem CreateVolume_accepted:
  assumes "cvName req \<noteq> ''''" and "cvVolumeCapabilities req \<noteq> None" and "cvName req \<notin> snapLocks d"
    and "\<And>c. vols d (cvName req) = Some c \<Longrightarrow> requiredBytes req \<le> c"
  shows "traces (CreateVolume E d req) (\<lambda>r _. createdReply d req r)"
  using assms by (rule traces_CreateVolume_accepted)

theorem CreateVolume_accepted_witness: "traces (CreateVolume E0 idle exCreate) (\<lambda>r _. createdReply idle exCreate r)"
  by (rule CreateVolume_accepted) (simp_all add: exCreate_def idle_def NewObjLocks_def)

text \<open>
  A request for a volume that is known with less than the required capacity is refused with
  \<open>AlreadyExists\<close>; nothing is called and the state is as before.
\<close>

theorem CreateVolume_too_small:
  assumes "cvName req \<noteq> ''''" and "cvVolumeCapabilities req \<noteq> None" and "cvName req \<notin> snapLocks d"
    and "vols d (cvName req) = Some c" and "c < requiredBytes req"
  shows "CreateVolume E d req = ret (Inl (StatusRaw CodeAlreadyExists ''Volume: %q, capacity bytes: %d''
    [cvName req, showInt (requiredBytes req)] None), d)"
proof -
  have "d\<lparr>snapLocks := insert (cvName req) (snapLocks d) - {cvName req}\<rparr> = d" using assms(3) by simp
  with assms show ?thesis
    by (auto simp: CreateVolume_def underName_def TryAcquire_def Release_def Let_def requiredBytes_def)
qed

theorem CreateVolume_too_small_witness:
  "CreateVolume E0 (idle\<lparr>vols := [''pvc-1'' \<mapsto> 5]\<rparr>) exCreate =
     ret (Inl (StatusRaw CodeAlreadyExists ''Volume: %q, capacity bytes: %d''
       [''pvc-1'', showInt 10] None), idle\<lparr>vols := [''pvc-1'' \<mapsto> 5]\<rparr>)"
  using CreateVolume_too_small [of exCreate "idle\<lparr>vols := [''pvc-1'' \<mapsto> 5]\<rparr>" 5 E0]
  by (simp add: exCreate_def idle_def NewObjLocks_def requiredBytes_def)

text \<open>
  C26: When the file system could be mounted but the volume in it could not be created, the
  request fails and the mount is left behind: no call after the mount unmounts anything.
\<close>

theorem CreateVolume_leaves_mount:
  assumes "run_state (JfsMount E (cvName req) '''' (cvSecrets req) None [] False) (w, t) = (Inr fs, w1, t1)"
    and "run_state (createContent E fs req c q) (w1, t1) = (Inl e, w2, t2)"
  shows "run_state (createMounted E req c q) (w, t) = (Inl e, w2, t2) \<and> (\<exists>es. t2 = t1 @ es \<and> list_all noUnmount es)"
  using assms by (rule createMounted_leak)

theorem CreateVolume_leaves_mount_witness:
  "\<exists>e es. run_state (createMounted Efs exCreate 10 '''') ((), []) = (Inl e, (),
     [EvLookupEnv ''STORAGE_CLASS_SHARE_MOUNT'' None, EvLookupEnv ''JFS_AUTO_UPGRADE'' None,
      EvMount ''vol1'' ''/var/lib/mosfs/pvc-1'' ''juicefs'' [] (Inr ())] @ es) \<and> list_all noUnmount es"
proof -
  let ?t = "[EvLookupEnv ''STORAGE_CLASS_SHARE_MOUNT'' None, EvLookupEnv ''JFS_AUTO_UPGRADE'' None,
      EvMount ''vol1'' ''/var/lib/mosfs/pvc-1'' ''juicefs'' [] (Inr ())]"
  obtain e w2 t2 where fails: "run_state (createContent Efs exFs exCreate 10 '''') ((), ?t) = (Inl e, w2, t2)"
    using Efs_create_fails [of ?t] by (auto simp: wp_def split: prod.splits)
  have mounts: "run_state (JfsMount Efs (cvName exCreate) '''' (cvSecrets exCreate) None [] False) ((), []) =
      (Inr exFs, (), ?t)"
    using Efs_mounts [of "[]"] by (simp add: exCreate_def)
  show ?thesis using CreateVolume_leaves_mount [OF mounts fails] by auto
qed

text \<open>
  A set of capabilities is accepted exactly when each asks for one of the three supported
  access modes; a missing access mode is not one of them.
\<close>

theorem isValidVolumeCapabilities_all:
  "isValidVolumeCapabilities cs = list_all (\<lambda>c. capMode c \<in>
     {Some SINGLE_NODE_WRITER, Some MULTI_NODE_MULTI_WRITER, Some MULTI_NODE_READER_ONLY}) cs"
  by (auto simp: isValidVolumeCapabilities_def foundAll_iff list_all_iff getMode_def volumeCaps_def split: option.splits)

text \<open>
  C27: A successful expansion answers with the required size, and its last call was a request to
  the console, accepted with a status below 400, that carries this size for the volume's path.
\<close>

theorem ControllerExpandVolume_sets_size:
  "traces (ControllerExpandVolume E d volumeID (Some n) secrets) (\<lambda>r. onSuccess (\<lambda>m es.
     m = n \<and> acceptedRequest (sizeRequest (''/'' @ volumeID) n) es) (fst r))"
  by (rule traces_mono [OF traces_ControllerExpandVolume]) (auto simp: onSuccess_def split: sum.splits)

end
