(* ===== verification/Node_Service.thy ===== *)
theory Node_Service
  imports Controller_Service
begin

text \<open>
  \<open>pkg/driver/node.go\<close>: publishing a volume at a target path of the node and
  taking it back. The two loops without a bound, in \<open>CreateTarget\<close> and in
  \<open>NodeUnpublishVolume\<close>, make at most \<open>fuel E\<close> rounds.
\<close>

section \<open>CreateTarget\<close>

text \<open>\<open>PathExists\<close> as the closure of the timeout returns it: the error, or whether the path exists.\<close>

definition pathExistsE :: "'w ext \<Rightarrow> string \<Rightarrow> ('w, gerr + bool) go" where
  "pathExistsE E target = do {
     (exists, err) \<leftarrow> PathExists E target;
     ret (case err of None \<Rightarrow> Inr exists | Some e \<Rightarrow> Inl e) }"

fun createTargetLoop :: "'w ext \<Rightarrow> string \<Rightarrow> nat \<Rightarrow> ('w, gerr + unit) go" where
  "createTargetLoop E target 0 = ret (Inl NoFuel)"
| "createTargetLoop E target (Suc n) = do {
     r \<leftarrow> DoWithTimeout E 2000 (pathExistsE E target);
     case r of
       Inr exists \<Rightarrow>
         if \<not> exists then
           tryWrap (errorf ''could not create dir %q: %v'' [target]) (MkdirAll E target mode0755) (\<lambda>_. ret (Inr ()))
         else ret (Inr ())
     | Inl e \<Rightarrow>
         if IsCorruptedMnt e then do { UmountPath E target; createTargetLoop E target n }
         else ret (Inl e) }"

definition CreateTarget :: "'w ext \<Rightarrow> string \<Rightarrow> ('w, gerr + unit) go" where
  "CreateTarget E target = createTargetLoop E target (fuel E)"

section \<open>checkBindAndMount\<close>

text \<open>
  The loop over the mounts. \<open>mountMinor\<close> points to a copy; \<open>targetMinor\<close> points to the
  loop variable, which one variable serves for the whole loop: only whether it was
  set is kept here, and it is read as the minor number of the last mount.
\<close>

fun minorsLoop :: "string \<Rightarrow> string \<Rightarrow> int option \<Rightarrow> bool \<Rightarrow> mount_info list \<Rightarrow> int option \<times> bool" where
  "minorsLoop mountPath target mountMinor targetSet [] = (mountMinor, targetSet)"
| "minorsLoop mountPath target mountMinor targetSet (mi # mis) =
     minorsLoop mountPath target
       (if miMountPoint mi = mountPath then Some (miMinor mi) else mountMinor)
       (if miMountPoint mi = target then True else targetSet) mis"

definition checkBindAndMount :: "'w ext \<Rightarrow> string \<Rightarrow> string \<Rightarrow> string \<Rightarrow> ('w, gerr + unit) go" where
  "checkBindAndMount E mountPath bindSource target =
     tryM (ParseMountInfo E) (\<lambda>mountInfos.
       case minorsLoop mountPath target None False mountInfos of
         (mountMinor, targetSet) \<Rightarrow>
           (case mountMinor of
              None \<Rightarrow> ret (Inl (ErrorfRaw ''BindTarget: mountPath %s not mounted'' [mountPath] None))
            | Some mm \<Rightarrow>
                let targetMinor = miMinor (last mountInfos)
                in if targetSet \<and> targetMinor = mm then ret (Inr ())
                   else do {
                     (if targetSet then UmountPath E target else ret ());
                     r \<leftarrow> Mount E bindSource target ''none'' [''bind''];
                     case r of
                       Inl e \<Rightarrow> do {
                         _ \<leftarrow> RemoveFile E target;
                         ret (Inl (errorf ''could not bind %q at %q: %v'' [bindSource, target] e)) }
                     | Inr _ \<Rightarrow> ret (Inr ()) }))"

section \<open>NodePublishVolume\<close>

record publish_request =
  npVolumeId :: string
  npTargetPath :: string
  npVolumeCapability :: "volume_capability option"
  npReadonly :: bool
  npVolumeContext :: smap
  npSecrets :: smap

text \<open>The options of the mount: those of the volume context, then the collected flags.\<close>

definition publishOptions :: "publish_request \<Rightarrow> volume_capability \<Rightarrow> string list" where
  "publishOptions req volCap =
     (let options = (if npReadonly req \<or> getMode volCap = MULTI_NODE_READER_ONLY then mput [] ''ro'' '''' else []);
          options = (case capMountFlags volCap of
             None \<Rightarrow> options
           | Some flags \<Rightarrow> foldl (\<lambda>m f. mput m f '''') options flags);
          mountOptions = (case mlookup (npVolumeContext req) ''mountOptions'' of
             None \<Rightarrow> []
           | Some opts \<Rightarrow> Split opts '','')
      in mountOptions @ map (\<lambda>(k, v). if v \<noteq> '''' then k @ ''='' @ v else k) options)"

definition NodePublishVolume :: "'w ext \<Rightarrow> publish_request \<Rightarrow> ('w, gerr + unit) go" where
  "NodePublishVolume E req =
     (let target = npTargetPath req
      in if length target = 0 then ret (Inl (StatusRaw InvalidArgument ''Target path not provided'' [] None))
         else case npVolumeCapability req of
           None \<Rightarrow> ret (Inl (StatusRaw InvalidArgument ''Volume capability not provided'' [] None))
         | Some volCap \<Rightarrow>
             if \<not> isValidVolumeCapabilities [volCap]
             then ret (Inl (StatusRaw InvalidArgument ''Volume capability not supported'' [] None))
             else
               tryWrap (statusf Internal ''Could not create dir %q: %v'' [target]) (CreateTarget E target) (\<lambda>_.
               tryWrap (statusf Internal ''Could not mount juicefs: %v'' [])
                 (JfsMount E (npVolumeId req) target (npSecrets req) (npVolumeContext req)
                    (publishOptions req volCap) True) (\<lambda>fs.
               tryWrap (statusf Internal ''Could not create volume: %s, %v'' [npVolumeId req])
                 (CreateVol E fs (mindex (npVolumeContext req) ''subPath'') 0 '''') (\<lambda>bindSource.
               tryWrap (statusf Internal ''Could not bind %q at %q: %v'' [bindSource, target])
                 (checkBindAndMount E (GetBasePath fs) bindSource target) (\<lambda>_. ret (Inr ()))))))"

section \<open>NodeUnpublishVolume\<close>

text \<open>
  The target is unmounted until nothing is mounted there any more. The commands run under a context of 150 s
  (node.go:217): when it expires a running \<open>umount\<close> is killed, and one that has not started is not run. Both are
  an error of the command with an output that does not say that nothing is mounted, an answer of \<open>run_cmd\<close> like
  any other; no clock is modelled, and \<open>fuel\<close> bounds the rounds.
\<close>

fun unmountAll :: "'w ext \<Rightarrow> string \<Rightarrow> nat \<Rightarrow> ('w, gerr + unit) go" where
  "unmountAll E target 0 = ret (Inl NoFuel)"
| "unmountAll E target (Suc n) = do {
     (out, err) \<leftarrow> Exec E [''umount'', target] [];
     case err of
       None \<Rightarrow> unmountAll E target n
     | Some _ \<Rightarrow>
         if \<not> notMountedOutput out then do {
           (out2, err2) \<leftarrow> Exec E [''umount'', ''-l'', target] [];
           case err2 of Some e \<Rightarrow> ret (Inl e) | None \<Rightarrow> ret (Inr ()) }
         else ret (Inr ()) }"

definition NodeUnpublishVolume :: "'w ext \<Rightarrow> string \<Rightarrow> string \<Rightarrow> ('w, gerr + unit) go" where
  "NodeUnpublishVolume E volumeId target =
     (if length target = 0 then ret (Inl (StatusRaw InvalidArgument ''Target path not provided'' [] None))
      else
        tryM (unmountAll E target (fuel E)) (\<lambda>_.
        tryM (CleanupMountPoint E target) (\<lambda>_.
        tryM (GetUniqueId E volumeId) (\<lambda>volumeId.
        tryM (JUmount E volumeId target) (\<lambda>_. ret (Inr ()))))))"

definition nodeCaps :: "string list" where
  "nodeCaps = []"

definition NodeGetCapabilities :: "string list" where
  "NodeGetCapabilities = map (\<lambda>c. c) nodeCaps"

definition NodeGetInfo :: "string \<Rightarrow> string" where
  "NodeGetInfo nodeID = nodeID"

section \<open>The mounts of the node\<close>

lemma minorsLoop_spec:
  "minorsLoop mountPath target mm ts ms =
     (case filter (\<lambda>mi. miMountPoint mi = mountPath) ms of
        [] \<Rightarrow> mm
      | xs \<Rightarrow> Some (miMinor (last xs)),
      ts \<or> (\<exists>mi \<in> set ms. miMountPoint mi = target))"
  by (induction mountPath target mm ts ms rule: minorsLoop.induct) (auto split: list.splits)

lemma filter_last_split:
  "miMountPoint m = p \<Longrightarrow> \<forall>mi \<in> set ys. miMountPoint mi \<noteq> p \<Longrightarrow>
   \<exists>us. filter (\<lambda>mi. miMountPoint mi = p) (xs @ m # ys) = us @ [m]"
  by (auto simp: filter_empty_conv)

lemma minorsLoop_found:
  assumes "miMountPoint m = mountPath" and "\<forall>mi \<in> set ys. miMountPoint mi \<noteq> mountPath"
  shows "minorsLoop mountPath target None False (xs @ m # ys) =
    (Some (miMinor m), \<exists>mi \<in> set (xs @ m # ys). miMountPoint mi = target)"
proof -
  obtain us where "filter (\<lambda>mi. miMountPoint mi = mountPath) (xs @ m # ys) = us @ [m]"
    using filter_last_split [OF assms] by blast
  then show ?thesis
    unfolding minorsLoop_spec by (cases us) auto
qed

section \<open>The unbounded loops\<close>

text \<open>
  After \<open>unmountAll\<close>: every \<open>umount\<close> but the last succeeded; the last one found nothing
  mounted, or was followed by a lazy unmount that decides the result.
\<close>

inductive unmountTrace :: "string \<Rightarrow> nat \<Rightarrow> gerr + unit \<Rightarrow> event list \<Rightarrow> bool" for target where
  noFuel: "unmountTrace target 0 (Inl NoFuel) []"
| again: "unmountTrace target n r es \<Longrightarrow>
    unmountTrace target (Suc n) r (EvExec [''umount'', target] [] (out, None) # es)"
| gone: "notMountedOutput out \<Longrightarrow>
    unmountTrace target (Suc n) (Inr ()) [EvExec [''umount'', target] [] (out, Some e)]"
| lazy: "\<not> notMountedOutput out \<Longrightarrow> r = (case err2 of None \<Rightarrow> Inr () | Some e2 \<Rightarrow> Inl e2) \<Longrightarrow>
    unmountTrace target (Suc n) r [EvExec [''umount'', target] [] (out, Some e),
      EvExec [''umount'', ''-l'', target] [] (out2, err2)]"

lemma traces_unmountAll: "traces (unmountAll E target n) (unmountTrace target n)"
proof (induction n)
  case 0
  then show ?case by (simp add: traces_return unmountTrace.noFuel)
next
  case (Suc n)
  show ?case
    unfolding unmountAll.simps Exec_def
    by (rule traces_bind_call)
      (auto intro!: traces_return traces_bind_call unmountTrace.intros traces_mono [OF Suc.IH]
        split: option.splits prod.splits)
qed

lemma unmountTrace_successes:
  "unmountTrace target n r es \<Longrightarrow> r = Inl NoFuel \<Longrightarrow>
   n \<le> length (filter (\<lambda>e. \<exists>out. e = EvExec [''umount'', target] [] (out, None)) es)
   \<or> (\<exists>c out. EvExec c [] (out, Some NoFuel) \<in> set es)"
  by (induction rule: unmountTrace.induct) (auto split: option.splits)

definition existsOf :: "gerr + file_info \<Rightarrow> gerr + bool" where
  "existsOf st = (case st of Inr _ \<Rightarrow> Inr True | Inl e \<Rightarrow> if IsNotExist e then Inr False else Inl e)"

lemma existsOf_simps [simp]: "existsOf (Inr fi) = Inr True"
  "existsOf (Inl e) = (if IsNotExist e then Inr False else Inl e)"
  by (simp_all add: existsOf_def)

lemma traces_pathExistsE:
  "traces (DoWithTimeout E ms (pathExistsE E p)) (\<lambda>r es.
     (\<exists>e. es = [EvTimer (Some e)] \<and> r = Inl e) \<or>
     (\<exists>st. es = [EvTimer None, EvStat p st] \<and> r = existsOf st))"
  unfolding DoWithTimeout_def DoWithContext_def Timer_def pathExistsE_def PathExists_def Stat_def
  by (auto intro!: traces_bind_call traces_return split: option.splits sum.splits)

text \<open>When \<open>CreateTarget\<close> succeeds its last call has seen or made the directory.\<close>

definition targetReady :: "string \<Rightarrow> event list \<Rightarrow> bool" where
  "targetReady target es \<longleftrightarrow> (\<exists>pre e. es = pre @ [e] \<and>
     ((\<exists>fi. e = EvStat target (Inr fi)) \<or> e = EvMkdirAll target mode0755 (Inr ())))"

lemma targetReady_append: "targetReady target es \<Longrightarrow> targetReady target (pre @ es)"
  unfolding targetReady_def by (metis append_assoc)

lemma targetReady_Cons: "targetReady target es \<Longrightarrow> targetReady target (e # es)"
  using targetReady_append [of target es "[e]"] by simp

lemma traces_createTargetLoop:
  "traces (createTargetLoop E target n) (\<lambda>r es. r = Inr () \<longrightarrow> targetReady target es)"
proof (induction n)
  case 0
  then show ?case by (simp add: traces_return)
next
  case (Suc n)
  have again: "traces (do { UmountPath E target; createTargetLoop E target n })
      (\<lambda>r es. r = Inr () \<longrightarrow> targetReady target (pre @ es))" for pre
    by (rule traces_bind [OF traces_UmountPath], rule traces_mono [OF Suc.IH]) (simp add: targetReady_append)
  have make: "traces (tryWrap (errorf ''could not create dir %q: %v'' [target]) (MkdirAll E target mode0755)
      (\<lambda>_. ret (Inr ()))) (\<lambda>r es. r = Inr () \<longrightarrow> targetReady target (pre @ es))" for pre
    unfolding MkdirAll_def
    by (rule traces_tryWrap [OF traces_call [where T = "\<lambda>r es. es = [EvMkdirAll target mode0755 r]"]])
      (auto intro!: traces_return targetReady_append simp: targetReady_def)
  have found: "targetReady target [EvTimer None, EvStat target (Inr fi)]" for fi
    unfolding targetReady_def by (intro exI [of _ "[EvTimer None]"] exI [of _ "EvStat target (Inr fi)"]) simp
  show ?case
    unfolding createTargetLoop.simps
  proof (rule traces_bind [OF traces_pathExistsE])
    fix r es
    assume es: "(\<exists>e. es = [EvTimer (Some e)] \<and> r = Inl e) \<or> (\<exists>st. es = [EvTimer None, EvStat target st] \<and> r = existsOf st)"
    have ex: "existsOf st = Inr True \<Longrightarrow> \<exists>fi. st = Inr fi" for st
      by (cases st) (auto split: if_splits)
    have ready: "targetReady target (es @ [])" if "r = Inr True"
    proof -
      from es that obtain st where "es = [EvTimer None, EvStat target st]" "existsOf st = Inr True" by auto
      with ex [of st] found show ?thesis by auto
    qed
    show "traces (case r of
        Inr exists \<Rightarrow>
          if \<not> exists then tryWrap (errorf ''could not create dir %q: %v'' [target]) (MkdirAll E target mode0755) (\<lambda>_. ret (Inr ()))
          else ret (Inr ())
      | Inl e \<Rightarrow> if IsCorruptedMnt e then do { UmountPath E target; createTargetLoop E target n } else ret (Inl e))
        (\<lambda>r es'. r = Inr () \<longrightarrow> targetReady target (es @ es'))"
      using ready by (cases r) (auto intro!: traces_return again make)
  qed
qed

section \<open>A published volume\<close>

text \<open>A value that some run returns.\<close>

definition canReturn :: "('w, 'a) go \<Rightarrow> 'a \<Rightarrow> bool" where
  "canReturn m r \<longleftrightarrow> (\<exists>s. fst (run_state m s) = r)"

lemma traces_canReturn: "traces m T \<Longrightarrow> traces m (\<lambda>r es. T r es \<and> canReturn m r)"
  unfolding traces_def canReturn_def by metis

text \<open>
  The file system was mounted for the target: the id of the mount was determined from the volume, and then the
  mount pod of that id has the target's reference and its mount point was seen ready.
\<close>

definition podMounted :: "'w ext \<Rightarrow> string \<Rightarrow> string \<Rightarrow> string \<Rightarrow> event list \<Rightarrow> bool" where
  "podMounted E volumeId target path es \<longleftrightarrow> (\<exists>uid ids mid mnt post. es = ids @ mid @ mnt @ post \<and>
     uniqueId volumeId (Inr uid) ids \<and> canReturn (GetUniqueId E volumeId) (Inr uid) \<and> path = PathJoin [PodMountBase, uid] \<and>
     mounted (cfgNamespace (cfg E)) (GeneratePodNameByVolumeId E uid) target path mnt)"

text \<open>
  The target is bound: the last call is a bind mount on it, or the mounts of the node, among them the target and
  the file system, were found in order.
\<close>

definition boundAt :: "string \<Rightarrow> string \<Rightarrow> string \<Rightarrow> event list \<Rightarrow> bool" where
  "boundAt path src target es \<longleftrightarrow> (\<exists>pre. es = pre @ [EvMount src target ''none'' [''bind''] (Inr ())]) \<or>
     (\<exists>ms. es = [EvMountInfo (Inr ms)] \<and> path \<in> miMountPoint ` set ms \<and> target \<in> miMountPoint ` set ms)"

definition published :: "'w ext \<Rightarrow> publish_request \<Rightarrow> event list \<Rightarrow> bool" where
  "published E req es \<longleftrightarrow> (\<exists>path pre fs vol bnd. es = pre @ fs @ vol @ bnd \<and>
     podMounted E (npVolumeId req) (npTargetPath req) path fs \<and>
     boundAt path (PathJoin [path, mindex (npVolumeContext req) ''subPath'']) (npTargetPath req) bnd)"

lemma traces_MountFs_pod:
  assumes "UsePod st"
  shows "traces (MountFs E vid target opts st) (\<lambda>r es. \<forall>path. r = Inr path \<longrightarrow> path = PathJoin [PodMountBase, vid] \<and>
    (\<exists>mnt post. es = mnt @ post \<and> mounted (cfgNamespace (cfg E)) (GeneratePodNameByVolumeId E vid) target path mnt))"
proof -
  have split: "\<exists>mnt post. es = mnt @ post \<and> mounted ns n target path mnt" if "mounted ns n target path (butlast es)" for ns n path es
  proof -
    have "es = butlast es @ drop (length (butlast es)) es"
      by (metis append_take_drop_id butlast_conv_take length_butlast)
    with that show ?thesis by blast
  qed
  show ?thesis
    unfolding MountFs_def Let_def using assms split
    by (auto intro!: traces_tryWrap [OF traces_JMount] traces_return)
qed

lemma traces_prepareSource:
  "traces (prepareSource E s st) (\<lambda>r es. \<forall>st'. r = Inr st' \<longrightarrow> UsePod st' = UsePod st)"
proof -
  have t: "traces m (\<lambda>_ _. True) \<Longrightarrow> traces (tryWrap f m (\<lambda>_. ret (Inr (st\<lparr>sSource := x\<rparr>))))
      (\<lambda>r es. \<forall>st'. r = Inr st' \<longrightarrow> UsePod st' = UsePod st)" for m :: "('a, gerr + string) go" and f x
    by (rule traces_tryWrap [where S = "\<lambda>_ _. True"]) (simp_all add: traces_return)
  have auth: "emits (\<lambda>_. True) (AuthFs E s e)" "emits (\<lambda>_. True) (ceFormat E s b)" "emits (\<lambda>_. True) (Upgrade E)" for e b
    unfolding AuthFs_def initConfig_def ceFormat_def Upgrade_def Stat_def WriteFile_def LookupEnv_def Setenv_def Exec_def
    by (intro emits_intros; simp)+
  show ?thesis
    unfolding prepareSource_def
    by (auto intro!: t traces_True auth traces_bind [OF traces_True] emits_intros split: option.splits)
qed

lemma ParseSetting_UsePod:
  "ParseSetting E secrets c u = Inr st \<Longrightarrow> secrets \<noteq> None \<Longrightarrow> UsePod st = u"
  by (auto simp: ParseSetting_def parseVolCtx_def Let_def split: if_splits sum.splits option.splits)

lemma GetConsole_secrets:
  "ParseSetting E secrets c u = Inr st \<Longrightarrow> GetConsole st secrets = Inr con \<Longrightarrow> secrets \<noteq> None"
  by (cases secrets) (auto simp: ParseSetting_def GetConsole_def zero_setting_def)

lemma traces_JfsMount_pod:
  "traces (JfsMount E v target secrets ctx opts True)
     (\<lambda>r es. \<forall>fs. r = Inr fs \<longrightarrow> podMounted E v target (fsMountPath fs) es)"
  unfolding JfsMount_def
proof (rule traces_tryM [OF traces_canReturn [OF GetUniqueId_choice]], simp, rule traces_tryM [OF traces_ret], simp,
    rule traces_tryM [OF traces_ret], simp, rule traces_tryM [OF traces_prepareSource], simp)
  fix vid st con st' and es es1 es2 es3 :: "event list"
  assume "Inr st = ParseSetting E secrets ctx True \<and> es1 = []" "Inr con = GetConsole st secrets \<and> es2 = []"
    and st': "\<forall>x. Inr st' = (Inr x :: gerr + JfsSetting) \<longrightarrow> UsePod x = UsePod st"
    and ids: "uniqueId v (Inr vid) es \<and> canReturn (GetUniqueId E v) (Inr vid)"
  then have "secrets \<noteq> None" "ParseSetting E secrets ctx True = Inr st" using GetConsole_secrets by metis+
  then have "UsePod st" using ParseSetting_UsePod by blast
  with st' have "UsePod st'" by simp
  then show "traces (tryM (MountFs E vid target opts st') (\<lambda>mountPath. ret (Inr \<lparr>fsConsole = con,
      fsName = mindex secrets ''name'', fsMountPath = mountPath, fsOptions = opts, fsSetting = st'\<rparr>)))
      (\<lambda>r es'. \<forall>fs. r = Inr fs \<longrightarrow> podMounted E v target (fsMountPath fs) (es @ es1 @ es2 @ es3 @ es'))"
    unfolding podMounted_def using ids
    by (intro traces_tryM [OF traces_MountFs_pod]) (auto intro!: traces_return, metis append_assoc)
qed

lemma traces_CreateVol_path:
  "traces (CreateVol E fs sub sz qos) (\<lambda>r es. \<forall>b. r = Inr b \<longrightarrow> b = PathJoin [fsMountPath fs, sub])"
proof -
  have T: "emits (\<lambda>_. True) (PathExists E p)" "emits (\<lambda>_. True) (MkdirAll E p m)" "emits (\<lambda>_. True) (ensureMode E p)" for p m
    unfolding MkdirAll_def by (intro emits_intros; simp)+
  have "traces (applyLimits E fs p s n q) (\<lambda>r es. \<forall>b. r = Inr b \<longrightarrow> b = p)" for p s n q
    unfolding applyLimits_def
    by (intro traces_tryM [where S = "\<lambda>_ _. True"] traces_True) (auto intro!: emits_intros traces_return)
  then show ?thesis
    unfolding CreateVol_def Let_def
    by (intro traces_bind [where S = "\<lambda>_ _. True"] traces_True T)
      (auto intro!: traces_return traces_tryWrap [where S = "\<lambda>_ _. True"] traces_tryM [where S = "\<lambda>_ _. True"] traces_True T emits_intros
        split: option.splits)
qed

lemma traces_checkBindAndMount:
  "traces (checkBindAndMount E path src target) (\<lambda>r es. r = Inr () \<longrightarrow> boundAt path src target es)"
proof -
  have info: "path \<in> miMountPoint ` set ms \<and> (ts \<longrightarrow> target \<in> miMountPoint ` set ms)"
    if "minorsLoop path target None False ms = (Some mm, ts)" for ms mm ts
    using that unfolding minorsLoop_spec by (auto simp: filter_eq_Cons_iff split: list.splits)
  have found: "boundAt path src target [EvMountInfo (Inr ms)]"
    if "minorsLoop path target None False ms = (Some mm, True)" for ms mm
    using info [OF that] by (auto simp: boundAt_def)
  let ?bind = "Mount E src target ''none'' [''bind''] \<bind> (\<lambda>r. case r of
      Inl e \<Rightarrow> do { _ \<leftarrow> RemoveFile E target; ret (Inl (errorf ''could not bind %q at %q: %v'' [src, target] e)) }
    | Inr _ \<Rightarrow> ret (Inr ()))"
  have mnt: "traces ?bind (\<lambda>r es. r = Inr () \<longrightarrow> boundAt path src target (pre @ es))" for pre
    unfolding Mount_def RemoveFile_def
    by (auto simp: boundAt_def intro!: traces_bind_call traces_return split: sum.splits)
  have um: "traces (do { UmountPath E target; ?bind }) (\<lambda>r es. r = Inr () \<longrightarrow> boundAt path src target (x # es))" for x
    by (rule traces_bind [OF traces_True]) (auto intro!: emits_intros mnt [of "x # es" for es, simplified])
  show ?thesis
    unfolding checkBindAndMount_def ParseMountInfo_def Let_def
    by (rule traces_tryM [OF traces_call [where T = "\<lambda>r es. es = [EvMountInfo r]"]])
      (auto intro!: traces_return um mnt [of "[x]" for x, simplified] found split: prod.splits option.splits)
qed

lemma emits_True_checkBindAndMount [emits_intros]: "emits (\<lambda>_. True) (checkBindAndMount E m b t)"
  unfolding checkBindAndMount_def ParseMountInfo_def Mount_def RemoveFile_def Let_def
  by (intro emits_intros) (auto split: prod.splits option.splits intro!: emits_intros)

lemma emits_True_CreateTarget [emits_intros]: "emits (\<lambda>_. True) (CreateTarget E t)"
proof -
  have "emits (\<lambda>_. True) (createTargetLoop E t n)" for n
    by (induction n) (auto simp: DoWithTimeout_def DoWithContext_def Timer_def pathExistsE_def MkdirAll_def
        intro!: emits_intros)
  then show ?thesis by (simp add: CreateTarget_def)
qed

lemma traces_publish:
  "traces (tryWrap f1 (JfsMount E (npVolumeId req) (npTargetPath req) secrets ctx opts True) (\<lambda>fs.
      tryWrap f2 (CreateVol E fs (mindex (npVolumeContext req) ''subPath'') 0 '''') (\<lambda>b.
      tryWrap (f3 b) (checkBindAndMount E (GetBasePath fs) b (npTargetPath req)) (\<lambda>_. ret (Inr ())))))
    (\<lambda>r es. r = Inr () \<longrightarrow> published E req (pre @ es))"
proof (rule traces_tryWrap [OF traces_JfsMount_pod], simp, rule traces_tryWrap [OF traces_CreateVol_path], simp,
    rule traces_tryWrap [OF traces_checkBindAndMount], simp, rule traces_return)
  fix fs b es1 es2 es3 and x :: unit
  assume "\<forall>fs'. Inr fs = (Inr fs' :: gerr + jfs) \<longrightarrow> podMounted E (npVolumeId req) (npTargetPath req) (fsMountPath fs') es1"
    and "\<forall>b'. Inr b = (Inr b' :: gerr + string) \<longrightarrow> b' = PathJoin [fsMountPath fs, mindex (npVolumeContext req) ''subPath'']"
    and "Inr x = Inr () \<longrightarrow> boundAt (GetBasePath fs) b (npTargetPath req) es3"
  then show "Inr () = Inr () \<longrightarrow> published E req (pre @ es1 @ es2 @ es3 @ [])"
    unfolding published_def GetBasePath_def
    by (intro impI exI [of _ "fsMountPath fs"] exI [of _ pre] exI [of _ es1] exI [of _ es2] exI [of _ es3]) simp
qed

lemma traces_NodePublishVolume:
  "traces (NodePublishVolume E req) (onSuccess (\<lambda>_ es. published E req es))"
proof -
  have *: "traces (tryWrap f0 (CreateTarget E (npTargetPath req)) (\<lambda>_.
      tryWrap f1 (JfsMount E (npVolumeId req) (npTargetPath req) secrets ctx opts True) (\<lambda>fs.
      tryWrap f2 (CreateVol E fs (mindex (npVolumeContext req) ''subPath'') 0 '''') (\<lambda>b.
      tryWrap (f3 b) (checkBindAndMount E (GetBasePath fs) b (npTargetPath req)) (\<lambda>_. ret (Inr ()))))))
    (onSuccess (\<lambda>_ es. published E req es))" for f0 f1 f2 f3 secrets ctx opts
    by (rule traces_tryWrap [OF traces_True [OF emits_True_CreateTarget]], simp, rule traces_mono [OF traces_publish])
      (auto simp: onSuccess_def split: sum.splits)
  show ?thesis
    unfolding NodePublishVolume_def Let_def by (auto intro!: traces_return * split: option.splits)
qed

section \<open>Unpublishing\<close>

text \<open>A call that has nothing to do with pods.\<close>

definition noPodCall :: "event \<Rightarrow> bool" where
  "noPodCall e =
     (case e of
        EvCreatePod p r \<Rightarrow> False | EvGetPod n ns r \<Rightarrow> False | EvListPod ns rv r \<Rightarrow> False | EvPatchPod ns n d r \<Rightarrow> False
      | EvUpdatePod p r \<Rightarrow> False | EvDeletePod ns n r \<Rightarrow> False | _ \<Rightarrow> True)"

text \<open>
  A successful clean-up of a mount point: the path was removed, or its status could not be read although it is not
  a corrupted mount, as when it is not there.
\<close>

definition cleanedUp :: "string \<Rightarrow> event list \<Rightarrow> bool" where
  "cleanedUp p es \<longleftrightarrow> (\<exists>pre. es = pre @ [EvRemove p (Inr ())]) \<or> (\<exists>e. es = [EvStat p (Inl e)] \<and> \<not> IsCorruptedMnt e)"

lemma cleanedUp_removed: "cleanedUp p (pre @ [EvRemove p (Inr ())])"
  by (auto simp: cleanedUp_def)

lemma traces_CleanupMountPoint:
  "traces (CleanupMountPoint E p) (\<lambda>r es. list_all noPodCall es \<and> (r = Inr () \<longrightarrow> cleanedUp p es))"
proof -
  have removed: "cleanedUp p [a, b, EvRemove p (Inr ())]" "cleanedUp p [a, b, c, EvRemove p (Inr ())]"
    "cleanedUp p [a, b, c, d, EvRemove p (Inr ())]" for a b c d
    using cleanedUp_removed [of p "[a, b]"] cleanedUp_removed [of p "[a, b, c]"] cleanedUp_removed [of p "[a, b, c, d]"] by simp_all
  have gone: "\<not> IsCorruptedMnt e \<Longrightarrow> cleanedUp p [EvStat p (Inl e)]" for e by (simp add: cleanedUp_def)
  have enoent: "IsNotExist e \<Longrightarrow> \<not> IsCorruptedMnt e" for e
    by (auto simp: IsNotExist_def IsCorruptedMnt_def split: gerr.splits)
  have "emits noPodCall (CleanupMountPoint E p)" by (intro emits_intros) (simp_all add: noPodCall_def)
  moreover have "traces (CleanupMountPoint E p) (\<lambda>r es. r = Inr () \<longrightarrow> cleanedUp p es)"
    unfolding CleanupMountPoint_def doCleanupMountPoint_def PathExists_def Stat_def IsLikelyNotMountPoint_def Unmount_def RemoveFile_def
      tryM_def Let_def State_Monad.bind_assoc
    by (auto intro!: traces_bind_call traces_call traces_return gone enoent removed split: sum.splits)
  ultimately show ?thesis unfolding emits_traces by (rule traces_conj)
qed

lemma unmountTrace_noPodCall: "unmountTrace target n r es \<Longrightarrow> list_all noPodCall es"
  by (induction rule: unmountTrace.induct) (simp_all add: noPodCall_def)

lemma uniqueId_noPodCall: "uniqueId v r es \<Longrightarrow> list_all noPodCall es"
  by (erule uniqueId.cases) (simp_all add: noPodCall_def)

lemmas noPodCall_before = unmountTrace_noPodCall uniqueId_noPodCall

text \<open>
  The order of an unpublish: the target is unmounted, its directory is cleaned up and the id of the mount is
  determined, all without a call for a pod; only then the mount pod of that id is touched, which is deleted only
  directly after it was read without references, and success means that the reference is gone. An error before
  leaves the pods alone.
\<close>

definition unpublished :: "'w ext \<Rightarrow> string \<Rightarrow> string \<Rightarrow> gerr + unit \<Rightarrow> event list \<Rightarrow> bool" where
  "unpublished E volumeId target r es \<longleftrightarrow>
     (\<exists>um cl ids uid rest. es = um @ cl @ ids @ rest \<and> unmountTrace target (fuel E) (Inr ()) um \<and> cleanedUp target cl \<and>
        uniqueId volumeId (Inr uid) ids \<and> list_all noPodCall (um @ cl @ ids) \<and> guarded None rest \<and>
        (r = Inr () \<longrightarrow> released (cfgNamespace (cfg E)) (GeneratePodNameByVolumeId E uid) target rest))
   \<or> (\<exists>e. r = Inl e \<and> list_all noPodCall es)"

lemma traces_unpublish:
  assumes "target \<noteq> ''''"
  shows "traces (NodeUnpublishVolume E volumeId target) (unpublished E volumeId target)"
proof -
  have finish: "traces (tryM (JUmount E v target) (\<lambda>_. ret (Inr ()))) (\<lambda>r es. guarded None es \<and>
      (r = Inr () \<longrightarrow> released (cfgNamespace (cfg E)) (GeneratePodNameByVolumeId E v) target es))" for v
    by (rule traces_tryM [OF traces_conj [OF traces_JUmount traces_JUmount_released]]) (auto intro: traces_return)
  have whole: "unpublished E volumeId target r (um @ cl @ ids @ rest)"
    if "unmountTrace target (fuel E) (Inr ()) um" "list_all noPodCall cl \<and> cleanedUp target cl"
      "uniqueId volumeId (Inr uid) ids" "guarded None rest"
      "r = Inr () \<longrightarrow> released (cfgNamespace (cfg E)) (GeneratePodNameByVolumeId E uid) target rest" for r um cl ids uid rest
    unfolding unpublished_def using that noPodCall_before
    by (intro disjI1 exI [of _ um] exI [of _ cl] exI [of _ ids] exI [of _ uid] exI [of _ rest]) auto
  have err: "unpublished E volumeId target (Inl e) es" if "list_all noPodCall es" for e es
    using that by (simp add: unpublished_def)
  show ?thesis
    unfolding NodeUnpublishVolume_def using assms
    by (auto dest: noPodCall_before
        intro!: traces_tryM [OF traces_unmountAll] traces_tryM [OF traces_CleanupMountPoint]
          traces_tryM [OF GetUniqueId_choice] traces_mono [OF finish] whole err)
qed

section \<open>Examples\<close>

definition exPublish :: publish_request where
  "exPublish = \<lparr>npVolumeId = ''pvc-1'', npTargetPath = ''/t'', npVolumeCapability = Some exCap,
     npReadonly = False, npVolumeContext = None, npSecrets = exSecrets\<rparr>"

definition mountOf :: "int \<Rightarrow> string \<Rightarrow> mount_info" where
  "mountOf minor path = \<lparr>miMinor = minor, miRoot = ''/'', miMountPoint = path\<rparr>"

definition exMounts :: "mount_info list" where
  "exMounts = [mountOf 7 ''/t'', mountOf 5 ''/mosfs/pv1'']"

definition Emounts :: "unit ext" where
  "Emounts = E0\<lparr>sys := sys0\<lparr>mnt_info := \<lambda>w. (Inr exMounts, w)\<rparr>\<rparr>"

section \<open>Properties\<close>

text \<open>
  C4: When \<open>NodePublishVolume\<close> succeeds, the id of the mount was determined from the volume id; the mount pod of that
  id was read with the target's reference, or was sent annotations with it that the server accepted or refused for
  another reason than a conflict; after that the mount point of that id was seen ready; and at last the target was
  bound to the volume's directory in it, or was found among the mounts.
\<close>

theorem NodePublishVolume_published:
  "traces (NodePublishVolume E req) (onSuccess (\<lambda>_ es. published E req es))"
  by (rule traces_NodePublishVolume)

text \<open>
  C5: Unpublishing a target touches the mount pod last: before that, without any call for a pod, the target was
  unmounted until nothing was mounted there any more, its directory was removed (or was not there), and the id of
  the mount was determined from the volume id. A mount pod is deleted only directly after it was read without
  references, success means that the mount pod of that id is not there or has lost the target's reference, and an
  error of the earlier steps leaves the pods alone.
\<close>

theorem NodeUnpublishVolume_order:
  assumes "target \<noteq> ''''"
  shows "traces (NodeUnpublishVolume E volumeId target) (unpublished E volumeId target)"
  using assms by (rule traces_unpublish)

theorem NodeUnpublishVolume_order_witness:
  "traces (NodeUnpublishVolume E0 ''pvc-1'' ''/t'') (unpublished E0 ''pvc-1'' ''/t'')"
  using NodeUnpublishVolume_order [of "''/t''" E0 "''pvc-1''"] by simp

text \<open>
  C32: The loop that unmounts a target ends: it runs out of rounds only after at least as many
  successful unmounts of the target as there were rounds.
\<close>

theorem unmountAll_ends:
  assumes "length (filter (\<lambda>e. \<exists>out. e = EvExec [''umount'', target] [] (out, None)) (events (unmountAll E target n) w)) < n"
    and "\<forall>c out. EvExec c [] (out, Some NoFuel) \<notin> set (events (unmountAll E target n) w)"
  shows "result (unmountAll E target n) w \<noteq> Inl NoFuel"
  using unmountTrace_successes [OF traces_events [OF traces_unmountAll]] assms by fastforce

theorem unmountAll_ends_witness:
  "result (unmountAll (E0\<lparr>sys := sys0\<lparr>run_cmd := \<lambda>c e w. ((''umount: /t: not mounted.'', Some (PlainErr ''exit 32'')), w)\<rparr>\<rparr>) ''/t'' 1) ()
     \<noteq> Inl NoFuel"
proof -
  have "notMountedOutput ''umount: /t: not mounted.''" by code_simp
  then have "events (unmountAll (E0\<lparr>sys := sys0\<lparr>run_cmd := \<lambda>c e w. ((''umount: /t: not mounted.'', Some (PlainErr ''exit 32'')), w)\<rparr>\<rparr>) ''/t'' 1) ()
      = [EvExec [''umount'', ''/t''] [] (''umount: /t: not mounted.'', Some (PlainErr ''exit 32''))]"
    by (intro events_eqI) (simp add: Exec_def wp_simps)
  then show ?thesis by (intro unmountAll_ends) simp_all
qed

text \<open>
  When \<open>CreateTarget\<close> succeeds, its last call has seen the target directory or made it.
\<close>

theorem CreateTarget_ready: "traces (CreateTarget E target) (onSuccess (\<lambda>_ es. targetReady target es))"
  unfolding CreateTarget_def
  by (rule traces_mono [OF traces_createTargetLoop]) (simp add: onSuccess_def split: sum.splits)

text \<open>
  C31: \<open>checkBindAndMount\<close> compares with the wrong mount: it decides whether a mounted target is bound
  to the volume by the minor number of the last mount of the node instead of the target's.
\<close>

theorem checkBindAndMount_last_mount:
  assumes "miMountPoint m = mountPath" and "\<forall>mi \<in> set ys. miMountPoint mi \<noteq> mountPath" and "ms = xs @ m # ys"
    and "\<exists>mi \<in> set ms. miMountPoint mi = target" and "miMinor (last ms) = miMinor m"
    and "mnt_info (sys E) w = (Inr ms, w')"
  shows "run_state (checkBindAndMount E mountPath bindSource target) (w, t) = (Inr (), w', t @ [EvMountInfo (Inr ms)])"
  unfolding run_state_iff_wp checkBindAndMount_def ParseMountInfo_def
  using assms minorsLoop_found [OF assms(1,2), of target xs] by (simp add: wp_simps)

text \<open>The target is bound to another device, and is nevertheless left as it is.\<close>

theorem checkBindAndMount_last_mount_witness:
  "run_state (checkBindAndMount Emounts ''/mosfs/pv1'' ''/mosfs/pv1'' ''/t'') ((), []) =
     (Inr (), (), [EvMountInfo (Inr exMounts)])"
  using checkBindAndMount_last_mount [of "mountOf 5 ''/mosfs/pv1''" "''/mosfs/pv1''" "[]" exMounts "[mountOf 7 ''/t'']"
      "''/t''" Emounts "()" "()" "''/mosfs/pv1''" "[]"]
  by (simp add: exMounts_def mountOf_def Emounts_def)

end
