(* ===== verification/Driver_Process.thy ===== *)
theory Driver_Process
  imports Controller_Service Node_Service Reconciler Pod_Controller
begin

text \<open>
  The driver process: \<open>cmd/driver/main.go\<close>, the driver object and its identity service
  (\<open>pkg/driver/driver.go\<close>, \<open>identity.go\<close>, \<open>version.go\<close>), the constructors of the two
  services, of the Kubernetes clients (\<open>client.go\<close>, \<open>kubelet_client.go\<close>) and of the two
  ways to watch the mount pods (\<open>StartReconciler\<close> and \<open>cmd/app/pod_manager.go\<close>). What
  client-go, controller-runtime, grpc and net do is the record \<open>proc_ext\<close>.
\<close>

section \<open>The packages the process is put together from\<close>

text \<open>\<open>transport.Config\<close> with the fields the client sets; the inline certificate data is never set.\<close>

record transport_config =
  tcCAFile :: string
  tcCAData :: "string slice"
  tcCertFile :: string
  tcKeyFile :: string
  tcInsecure :: bool
  tcBearerToken :: string

text \<open>
  \<open>tls_config_for\<close> returns whether a TLS configuration is needed; \<open>http_wrappers\<close> is told whether
  the transport has one.
\<close>

record 'w proc_ext =
  in_cluster_config :: "'w \<Rightarrow> (gerr + unit) \<times> 'w"
  new_for_config :: "'w \<Rightarrow> (gerr + unit) \<times> 'w"
  read_file :: "string \<Rightarrow> 'w \<Rightarrow> (gerr + string) \<times> 'w"
  tls_config_for :: "transport_config \<Rightarrow> 'w \<Rightarrow> (gerr + bool) \<times> 'w"
  http_wrappers :: "transport_config \<Rightarrow> bool \<Rightarrow> 'w \<Rightarrow> (gerr + unit) \<times> 'w"
  net_listen :: "string \<Rightarrow> string \<Rightarrow> 'w \<Rightarrow> (gerr + unit) \<times> 'w"
  grpc_serve :: "string list \<Rightarrow> 'w \<Rightarrow> (gerr + unit) \<times> 'w"
  ctrl_get_config :: "'w \<Rightarrow> (gerr + unit) \<times> 'w"
  ctrl_new_manager :: "string list \<Rightarrow> 'w \<Rightarrow> (gerr + unit) \<times> 'w"
  ctrl_new_controller :: "string \<Rightarrow> 'w \<Rightarrow> (gerr + unit) \<times> 'w"
  ctrl_watch :: "(pod \<Rightarrow> pod \<Rightarrow> bool) \<Rightarrow> 'w \<Rightarrow> (gerr + unit) \<times> 'w"
  mgr_start :: "'w \<Rightarrow> (gerr + unit) \<times> 'w"

definition setupE :: "string \<Rightarrow> string list \<Rightarrow> ('w \<Rightarrow> (gerr + unit) \<times> 'w) \<Rightarrow> ('w, gerr + unit) go" where
  "setupE name args f = call f (EvSetup name args)"

definition ReadFile :: "'w proc_ext \<Rightarrow> string \<Rightarrow> ('w, gerr + string) go" where
  "ReadFile P path = call (read_file P path) (EvReadFile path)"

section \<open>client.go and kubelet\_client.go: the constructors\<close>

text \<open>The flag of the client; the client set itself is the parameter \<open>kube E\<close>.\<close>

definition NewClient :: "'w proc_ext \<Rightarrow> 'w ext \<Rightarrow> ('w, gerr + bool) go" where
  "NewClient P E =
     tryM (setupE ''InClusterConfig'' [] (in_cluster_config P)) (\<lambda>_.
     tryM (setupE ''NewForConfig'' [] (new_for_config P)) (\<lambda>_. do {
       v \<leftarrow> Getenv E ''ENABLE_APISERVER_LIST_CACHE'';
       let enableAPIServerListCache = (if v = ''true'' then True else False);
       ret (Inr enableAPIServerListCache) }))"

definition defaultKubeletTimeout :: int where
  "defaultKubeletTimeout = 10"

definition serviceAccountTokenFile :: string where
  "serviceAccountTokenFile = ''/var/run/secrets/kubernetes.io/serviceaccount/token''"

record KubeletClientConfig =
  kcAddress :: string
  kcPort :: int
  kcServerName :: string
  kcInsecure :: bool
  kcCAFile :: string
  kcCAData :: "string slice"
  kcCertFile :: string
  kcKeyFile :: string
  kcBearerToken :: string
  kcHTTPTimeout :: int

record KubeletClient =
  klHost :: string
  klPort :: int
  klTransport :: transport_config
  klTimeout :: int

text \<open>\<open>HasCA\<close> of client-go's transport configuration.\<close>

definition HasCA :: "transport_config \<Rightarrow> bool" where
  "HasCA c \<longleftrightarrow> elems (tcCAData c) \<noteq> [] \<or> tcCAFile c \<noteq> ''''"

definition transportConfig :: "KubeletClientConfig \<Rightarrow> transport_config" where
  "transportConfig c =
     (let tc = \<lparr>tcCAFile = kcCAFile c, tcCAData = kcCAData c, tcCertFile = kcCertFile c, tcKeyFile = kcKeyFile c,
            tcInsecure = False, tcBearerToken = kcBearerToken c\<rparr>
      in if \<not> HasCA tc then tc\<lparr>tcInsecure := True\<rparr> else tc)"

definition makeTransport ::
  "'w proc_ext \<Rightarrow> KubeletClientConfig \<Rightarrow> bool \<Rightarrow> ('w, gerr + transport_config) go" where
  "makeTransport P config insecureSkipTLSVerify =
     (let preTLSConfig = transportConfig config;
          preTLSConfig = (if insecureSkipTLSVerify
            then preTLSConfig\<lparr>tcInsecure := True, tcCAData := None, tcCAFile := ''''\<rparr> else preTLSConfig)
      in do {
        r \<leftarrow> call (tls_config_for P preTLSConfig)
          (\<lambda>r. EvSetup ''TLSConfigFor'' [tcCertFile preTLSConfig, tcKeyFile preTLSConfig] (map_sum id (\<lambda>_. ()) r));
        case r of
          Inl e \<Rightarrow> ret (Inl e)
        | Inr hasTLS \<Rightarrow>
            tryM (setupE ''HTTPWrappersForConfig'' [] (http_wrappers P (transportConfig config) hasTLS)) (\<lambda>_.
              ret (Inr (preTLSConfig\<lparr>tcBearerToken := tcBearerToken (transportConfig config)\<rparr>))) })"

text \<open>\<open>time.Duration(n) * time.Second\<close> on 64 bits.\<close>

definition seconds :: "int \<Rightarrow> int" where
  "seconds n = sint (word_of_int (n * 1000000000) :: 64 word)"

text \<open>The bearer token: read only when neither a certificate nor a key is configured.\<close>

definition kubeletToken :: "'w proc_ext \<Rightarrow> string \<Rightarrow> string \<Rightarrow> ('w, gerr + string) go" where
  "kubeletToken P kubeletClientCert kubeletClientKey =
     (if kubeletClientCert = '''' \<and> kubeletClientKey = ''''
      then tryWrap (errorf ''in cluster mode, find token failed: %v'' []) (ReadFile P serviceAccountTokenFile)
        (\<lambda>tokenByte. ret (Inr tokenByte))
      else ret (Inr ''''))"

definition kubeletTimeoutOf :: "'w ext \<Rightarrow> ('w, gerr + int) go" where
  "kubeletTimeoutOf E = do {
     v \<leftarrow> Getenv E ''KUBELET_TIMEOUT'';
     if v \<noteq> '''' then do {
       v' \<leftarrow> Getenv E ''KUBELET_TIMEOUT'';
       case Atoi v' of
         None \<Rightarrow> ret (Inl (ErrorfRaw ''got error when parsing kubelet timeout: %v'' [] None))
       | Some n \<Rightarrow> ret (Inr n) }
     else ret (Inr defaultKubeletTimeout) }"

definition NewKubeletClient :: "'w proc_ext \<Rightarrow> 'w ext \<Rightarrow> string \<Rightarrow> int \<Rightarrow> ('w, gerr + KubeletClient) go" where
  "NewKubeletClient P E host port = do {
     kubeletClientCert \<leftarrow> Getenv E ''KUBELET_CLIENT_CERT'';
     kubeletClientKey \<leftarrow> Getenv E ''KUBELET_CLIENT_KEY'';
     tryM (kubeletToken P kubeletClientCert kubeletClientKey) (\<lambda>token.
     tryM (kubeletTimeoutOf E) (\<lambda>kubeletTimeout.
       let config = \<lparr>kcAddress = host, kcPort = port, kcServerName = ''kubelet'', kcInsecure = True,
             kcCAFile = '''', kcCAData = None, kcCertFile = kubeletClientCert, kcKeyFile = kubeletClientKey,
             kcBearerToken = token, kcHTTPTimeout = seconds kubeletTimeout\<rparr>
       in tryM (makeTransport P config (kcInsecure config)) (\<lambda>trans.
            ret (Inr \<lparr>klHost = kcAddress config, klPort = kcPort config, klTransport = trans,
              klTimeout = kcHTTPTimeout config\<rparr>)))) }"

section \<open>The two ways to watch the mount pods\<close>

text \<open>The goroutines the process has started.\<close>

datatype task = DoReconcile KubeletClient bool | PodManagerTask

definition StartReconciler :: "'w proc_ext \<Rightarrow> 'w ext \<Rightarrow> ('w, gerr + task) go" where
  "StartReconciler P E =
     (case Atoi (cfgKubeletPort (cfg E)) of
        None \<Rightarrow> ret (Inl (ErrorfRaw ''strconv.Atoi: parsing %s'' [cfgKubeletPort (cfg E)] None))
      | Some port \<Rightarrow>
          tryM (NewKubeletClient P E (cfgHostIp (cfg E)) port) (\<lambda>kc.
          tryM (GetNodeRunningPods E (klHost kc) (klPort kc)) (\<lambda>_.
          tryM (NewClient P E) (\<lambda>k8sClient.
            ret (Inr (DoReconcile kc k8sClient))))))"

definition managerOptions :: "string list" where
  "managerOptions = [''9442'', ''0.0.0.0:8082'', ''pod.juicefs.com'', PodTypeKey, PodTypeValue]"

definition NewPodManager :: "'w proc_ext \<Rightarrow> 'w ext \<Rightarrow> ('w, gerr + bool) go" where
  "NewPodManager P E =
     tryM (setupE ''GetConfig'' [] (ctrl_get_config P)) (\<lambda>_.
     tryM (setupE ''NewManager'' managerOptions (ctrl_new_manager P managerOptions)) (\<lambda>_.
       NewClient P E))"

definition SetupWithManager :: "'w proc_ext \<Rightarrow> ('w, gerr + unit) go" where
  "SetupWithManager P =
     tryM (setupE ''controller.New'' [''mount''] (ctrl_new_controller P ''mount'')) (\<lambda>_.
       setupE ''Watch'' [] (ctrl_watch P onUpdate))"

definition PodManager_Start :: "'w proc_ext \<Rightarrow> ('w, gerr + unit) go" where
  "PodManager_Start P =
     tryM (SetupWithManager P) (\<lambda>_.
     tryM (setupE ''mgr.Start'' [] (mgr_start P)) (\<lambda>_. ret (Inr ())))"

section \<open>The services and the driver object\<close>

text \<open>A panic while the process starts is \<open>GoPanic\<close>, as everywhere.\<close>

definition NewJfsProvider :: "'w proc_ext \<Rightarrow> 'w ext \<Rightarrow> ('w, gerr + bool) go" where
  "NewJfsProvider P E = tryM (NewClient P E) (\<lambda>k8sClient. ret (Inr k8sClient))"

definition newProvider :: "'w proc_ext \<Rightarrow> 'w ext \<Rightarrow> ('w, gerr + unit) go" where
  "newProvider P E =
     tryWrap (\<lambda>e. GoPanic ''NewJfsProvider'') (NewJfsProvider P E) (\<lambda>_.
     tryWrap (\<lambda>e. GoPanic ''Version'') (Version E) (\<lambda>_. ret (Inr ())))"

definition newControllerService :: "'w proc_ext \<Rightarrow> 'w ext \<Rightarrow> ('w, gerr + controllerService) go" where
  "newControllerService P E =
     tryM (newProvider P E) (\<lambda>_. ret (Inr \<lparr>vols = Map.empty, snapLocks = NewObjLocks\<rparr>))"

record nodeService =
  nsNodeID :: string
  nsListCache :: bool

definition newNodeService :: "'w proc_ext \<Rightarrow> 'w ext \<Rightarrow> string \<Rightarrow> ('w, gerr + nodeService) go" where
  "newNodeService P E nodeID =
     tryM (newProvider P E) (\<lambda>_.
     tryM (NewClient P E) (\<lambda>k8sClient.
       ret (Inr \<lparr>nsNodeID = nodeID, nsListCache = k8sClient\<rparr>)))"

record Driver =
  dEndpoint :: string
  dController :: controllerService
  dNode :: nodeService

definition NewDriver :: "'w proc_ext \<Rightarrow> 'w ext \<Rightarrow> string \<Rightarrow> string \<Rightarrow> ('w, gerr + Driver) go" where
  "NewDriver P E endpoint nodeID =
     tryM (newControllerService P E) (\<lambda>cs.
     tryM (newNodeService P E nodeID) (\<lambda>ns.
       ret (Inr \<lparr>dEndpoint = endpoint, dController = cs, dNode = ns\<rparr>)))"

definition Driver_Run :: "'w proc_ext \<Rightarrow> 'w ext \<Rightarrow> Driver \<Rightarrow> ('w, gerr + unit) go" where
  "Driver_Run P E d =
     tryM (ParseEndpoint E (dEndpoint d)) (\<lambda>(scheme, addr).
     tryM (setupE ''Listen'' [scheme, addr] (net_listen P scheme addr)) (\<lambda>_.
       setupE ''Serve'' [''Identity'', ''Controller'', ''Node''] (grpc_serve P [''Identity'', ''Controller'', ''Node''])))"

section \<open>identity.go and version.go\<close>

text \<open>The variables the linker sets, and those of package \<open>runtime\<close>.\<close>

record VersionInfo =
  viDriverVersion :: string
  viGitCommit :: string
  viBuildDate :: string
  viGoVersion :: string
  viCompiler :: string
  viPlatform :: string

record build_info =
  driverVersion :: string
  gitCommit :: string
  buildDate :: string
  runtimeVersion :: string
  runtimeCompiler :: string
  GOOS :: string
  GOARCH :: string

definition GetVersion :: "build_info \<Rightarrow> VersionInfo" where
  "GetVersion b = \<lparr>viDriverVersion = driverVersion b, viGitCommit = gitCommit b, viBuildDate = buildDate b,
     viGoVersion = runtimeVersion b, viCompiler = runtimeCompiler b, viPlatform = GOOS b @ ''/'' @ GOARCH b\<rparr>"

text \<open>\<open>json.MarshalIndent\<close> with two spaces.\<close>

definition GetVersionJSON :: "build_info \<Rightarrow> string" where
  "GetVersionJSON b =
     (let info = GetVersion b
      in marshalIndent [(''driverVersion'', viDriverVersion info), (''gitCommit'', viGitCommit info),
           (''buildDate'', viBuildDate info), (''goVersion'', viGoVersion info),
           (''compiler'', viCompiler info), (''platform'', viPlatform info)])"

datatype plugin_capability = CONTROLLER_SERVICE | VOLUME_ACCESSIBILITY_CONSTRAINTS

definition GetPluginInfo :: "build_info \<Rightarrow> gerr + string \<times> string" where
  "GetPluginInfo b = Inr (DriverName, driverVersion b)"

definition GetPluginCapabilities :: "gerr + plugin_capability list" where
  "GetPluginCapabilities = Inr [CONTROLLER_SERVICE]"

definition Probe :: "gerr + unit" where
  "Probe = Inr ()"

section \<open>The requests that are not implemented\<close>

definition NodeStageVolume :: "gerr + unit" where "NodeStageVolume = unimplemented"
definition NodeUnstageVolume :: "gerr + unit" where "NodeUnstageVolume = unimplemented"
definition NodeExpandVolume :: "gerr + unit" where "NodeExpandVolume = unimplemented"
definition NodeGetVolumeStats :: "gerr + unit" where
  "NodeGetVolumeStats = Inl (StatusRaw Unimplemented ''NodeGetVolumeStats is not implemented yet'' [] None)"
definition ListSnapshots :: "gerr + unit" where "ListSnapshots = unimplemented"
definition ControllerPublishVolume :: "gerr + unit" where "ControllerPublishVolume = unimplemented"
definition ControllerUnpublishVolume :: "gerr + unit" where "ControllerUnpublishVolume = unimplemented"

section \<open>main.go\<close>

text \<open>
  How a function of package \<open>main\<close> ends: with the exit status of the process (\<open>klog.Fatalln\<close>
  exits with 255), or by returning.
\<close>

definition fatal :: nat where "fatal = 255"

definition defaultReconcileTimeout :: int where
  "defaultReconcileTimeout = 5 * 60 * 1000000000"

definition reconcileTimeout :: "string \<Rightarrow> int" where
  "reconcileTimeout timeout =
     (if timeout \<noteq> '''' then
        let duration = (case ParseDuration timeout of None \<Rightarrow> 0 | Some d \<Rightarrow> d)
        in if duration > defaultReconcileTimeout then duration else defaultReconcileTimeout
      else defaultReconcileTimeout)"

fun pluginImage :: "container list \<Rightarrow> string option" where
  "pluginImage [] = None"
| "pluginImage (c # cs) = (if cName c = ''mosfs-plugin'' then Some (cImage c) else pluginImage cs)"

definition init_main :: "'w proc_ext \<Rightarrow> 'w ext \<Rightarrow> ('w, nat + config \<times> int) go" where
  "init_main P E = do {
     nodeName \<leftarrow> Getenv E ''NODE_NAME'';
     namespace \<leftarrow> Getenv E ''MOSFS_MOUNT_NAMESPACE'';
     podName \<leftarrow> Getenv E ''POD_NAME'';
     mountPointPath \<leftarrow> Getenv E ''MOSFS_MOUNT_PATH'';
     configPath \<leftarrow> Getenv E ''MOSFS_CONFIG_PATH'';
     hostIp \<leftarrow> Getenv E ''HOST_IP'';
     kubeletPort \<leftarrow> Getenv E ''KUBELET_PORT'';
     timeout \<leftarrow> Getenv E ''MOSFS_RECONCILE_TIMEOUT'';
     if podName = '''' \<or> namespace = '''' then ret (Inl fatal)
     else do {
       r \<leftarrow> NewClient P E;
       case r of
         Inl _ \<Rightarrow> ret (Inl 0)
       | Inr listCache \<Rightarrow> do {
           p \<leftarrow> GetPod E podName namespace;
           case p of
             Inl _ \<Rightarrow> ret (Inl 0)
           | Inr pod \<Rightarrow>
               (case pluginImage (Containers (pSpec pod)) of
                  None \<Rightarrow> ret (Inl 0)
                | Some img \<Rightarrow>
                    ret (Inr (\<lparr>cfgNodeName = nodeName, cfgNamespace = namespace, cfgPodName = podName,
                      cfgMountImage = img, cfgHostIp = hostIp, cfgKubeletPort = kubeletPort,
                      cfgMountPointPath = mountPointPath, cfgJFSConfigPath = configPath,
                      cfgEnableAPIServerListCache = listCache\<rparr>, reconcileTimeout timeout))) } } }"

record flags =
  flEndpoint :: string
  flVersion :: bool
  flNodeID :: string
  flEnableManager :: bool

text \<open>The part of \<open>main\<close> under \<open>enable-manager\<close>: which goroutine watches the mount pods.\<close>

definition startManager :: "'w proc_ext \<Rightarrow> 'w ext \<Rightarrow> ('w, task list) go" where
  "startManager P E =
     (if cfgKubeletPort (cfg E) \<noteq> '''' \<and> cfgHostIp (cfg E) \<noteq> '''' then do {
        r \<leftarrow> StartReconciler P E;
        ret (case r of Inl _ \<Rightarrow> [PodManagerTask] | Inr t \<Rightarrow> [t]) }
      else ret [PodManagerTask])"

text \<open>The goroutine with the manager: the exit status when it fails, which ends the process.\<close>

definition podManagerTask :: "'w proc_ext \<Rightarrow> 'w ext \<Rightarrow> ('w, nat option) go" where
  "podManagerTask P E = do {
     r \<leftarrow> NewPodManager P E;
     case r of
       Inl _ \<Rightarrow> ret (Some fatal)
     | Inr _ \<Rightarrow> do {
         s \<leftarrow> PodManager_Start P;
         ret (case s of Inl _ \<Rightarrow> Some fatal | Inr _ \<Rightarrow> None) } }"

datatype exit = Printed string | Exit nat | Panicked string | MainReturned

definition driverMain :: "'w proc_ext \<Rightarrow> 'w ext \<Rightarrow> build_info \<Rightarrow> flags \<Rightarrow> ('w, task list \<times> exit) go" where
  "driverMain P E b fl =
     (if flVersion fl then ret ([], Printed (GetVersionJSON b))
      else if flNodeID fl = '''' then ret ([], Exit fatal)
      else do {
        tasks \<leftarrow> (if flEnableManager fl then startManager P E else ret []);
        r \<leftarrow> NewDriver P E (flEndpoint fl) (flNodeID fl);
        case r of
          Inl e \<Rightarrow> ret (tasks, case e of GoPanic m \<Rightarrow> Panicked m | _ \<Rightarrow> Exit fatal)
        | Inr drv \<Rightarrow> do {
            s \<leftarrow> Driver_Run P E drv;
            ret (tasks, case s of Inl _ \<Rightarrow> Exit fatal | Inr _ \<Rightarrow> MainReturned) } })"

section \<open>Facts\<close>

lemma traces_any: "traces m (\<lambda>r es. True) \<longleftrightarrow> emits (\<lambda>_. True) m"
  by (simp add: emits_traces list_all_iff)

text \<open>A step whose result does not matter, before a property that earlier events do not disturb.\<close>

lemma traces_bind_any:
  assumes "emits (\<lambda>_. True) m" and "\<And>r es es'. T r es' \<Longrightarrow> T r (es @ es')" and "\<And>x. traces (f x) T"
  shows "traces (State_Monad.bind m f) T"
  using assms(1) [folded traces_any]
  by (rule traces_bind) (rule traces_mono [OF assms(3)], rule assms(2))

lemma traces_if: "(b \<Longrightarrow> traces m T) \<Longrightarrow> (\<not> b \<Longrightarrow> traces n T) \<Longrightarrow> traces (if b then m else n) T"
  by simp

lemma emits_Getenv_any: "emits (\<lambda>_. True) (Getenv E k)"
  unfolding Getenv_def LookupEnv_def by (intro emits_intros) simp_all

lemma emits_NewClient_any: "emits (\<lambda>_. True) (NewClient P E)"
  unfolding NewClient_def setupE_def Let_def by (intro emits_intros emits_Getenv_any) simp_all

lemma reconcileTimeout_bounds:
  "defaultReconcileTimeout \<le> reconcileTimeout s" "reconcileTimeout s < 2 ^ 63"
  using ParseDuration_int64 [of s]
  by (auto simp: reconcileTimeout_def defaultReconcileTimeout_def Let_def split: option.splits)

lemma pluginImage_Some: "pluginImage cs = Some i \<Longrightarrow> \<exists>c \<in> set cs. cName c = ''mosfs-plugin'' \<and> cImage c = i"
  by (induction cs) (auto split: if_splits)

text \<open>The kubelet of the configured address has answered with a list of pods.\<close>

definition kubeletAnswered :: "'w ext \<Rightarrow> event list \<Rightarrow> bool" where
  "kubeletAnswered E es \<longleftrightarrow> (\<exists>port ps. Atoi (cfgKubeletPort (cfg E)) = Some port \<and>
     EvKubeletPods (kubeletURL (cfgHostIp (cfg E)) port) (Inr (PodListBody ps)) \<in> set es)"

definition watching :: "'w ext \<Rightarrow> task list \<Rightarrow> event list \<Rightarrow> bool" where
  "watching E ts es \<longleftrightarrow> ts = [PodManagerTask] \<or> (\<exists>kc c. ts = [DoReconcile kc c] \<and> kubeletAnswered E es)"

lemma watching_append: "watching E ts es \<Longrightarrow> watching E ts (es @ es')"
  by (auto simp: watching_def kubeletAnswered_def)

text \<open>How a kubelet client authenticates itself: with the token it has read, or with certificate and key.\<close>

definition kubeletAuth :: "string \<Rightarrow> string \<Rightarrow> string \<Rightarrow> event list \<Rightarrow> bool" where
  "kubeletAuth cert key token es \<longleftrightarrow>
     (if cert = '''' \<and> key = '''' then EvReadFile serviceAccountTokenFile (Inr token) \<in> set es else token = '''')"

lemma traces_kubeletToken: "traces (kubeletToken P cert key) (onSuccess (kubeletAuth cert key))"
  unfolding kubeletToken_def ReadFile_def
  by (cases "cert = '''' \<and> key = ''''")
    (auto simp: kubeletAuth_def onSuccess_def split: sum.splits intro!: traces_return
      traces_tryWrap [OF traces_call [where T = "\<lambda>r es. es = [EvReadFile serviceAccountTokenFile r]"]])

lemma traces_makeTransport:
  "traces (makeTransport P c True) (onSuccess (\<lambda>tc es. \<not> HasCA tc \<and> tcInsecure tc \<and>
     tcCertFile tc = kcCertFile c \<and> tcKeyFile tc = kcKeyFile c \<and> tcBearerToken tc = kcBearerToken c))"
  unfolding makeTransport_def Let_def setupE_def
  by (rule traces_bind_call)
    (auto simp: onSuccess_def HasCA_def elems_def transportConfig_def Let_def split: sum.splits intro!: traces_return
      traces_tryM [OF traces_call [where T = "\<lambda>r es. True"]])

lemma traces_kubeletTimeoutOf: "traces (kubeletTimeoutOf E) (onSuccess (\<lambda>n es. - (2 ^ 63) \<le> n \<and> n < 2 ^ 63))"
proof -
  have "Atoi s = Some n \<Longrightarrow> - (2 ^ 63) \<le> n \<and> n < 2 ^ 63" for s n
    by (auto simp: Atoi_def Let_def split: prod.splits if_splits option.splits)
  then show ?thesis
    unfolding kubeletTimeoutOf_def defaultKubeletTimeout_def
    by (auto simp: onSuccess_def split: option.splits intro!: traces_return traces_bind_any [OF emits_Getenv_any])
qed

lemma traces_NewKubeletClient:
  "traces (NewKubeletClient P E host port) (onSuccess (\<lambda>kc es. klHost kc = host \<and> klPort kc = port \<and>
     \<not> HasCA (klTransport kc) \<and> tcInsecure (klTransport kc) \<and>
     kubeletAuth (tcCertFile (klTransport kc)) (tcKeyFile (klTransport kc)) (tcBearerToken (klTransport kc)) es))"
  (is "traces _ (onSuccess ?T)")
proof -
  have mono: "onSuccess ?T r (es @ es')" if "onSuccess ?T r es'" for r es es'
    using that by (auto simp: onSuccess_def kubeletAuth_def split: sum.splits if_splits)
  show ?thesis
    unfolding NewKubeletClient_def Let_def
    by (rule traces_bind_any [OF emits_Getenv_any], erule mono, rule traces_bind_any [OF emits_Getenv_any], erule mono,
        rule traces_tryM [OF traces_kubeletToken], simp, rule traces_tryM [OF traces_kubeletTimeoutOf], simp,
        unfold KubeletClientConfig.simps, rule traces_tryM [OF traces_makeTransport], simp, rule traces_return)
      (auto simp: kubeletAuth_def split: if_splits)
qed

lemma traces_StartReconciler:
  "traces (StartReconciler P E) (onSuccess (\<lambda>t es. (\<exists>kc c. t = DoReconcile kc c) \<and> kubeletAnswered E es))"
proof (cases "Atoi (cfgKubeletPort (cfg E))")
  case None
  then show ?thesis by (simp add: StartReconciler_def traces_return)
next
  case (Some port)
  note c = emits_NewClient_any [of P E, folded traces_any]
  show ?thesis
    unfolding StartReconciler_def Some option.case
    by (rule traces_tryM [OF traces_NewKubeletClient], simp, rule traces_tryM [OF traces_GetNodeRunningPods], simp,
        rule traces_tryM [OF c], simp, rule traces_return)
      (auto simp: kubeletAnswered_def Some)
qed

lemma traces_startManager: "traces (startManager P E) (watching E)"
  unfolding startManager_def
  by (auto simp: watching_def onSuccess_def split: sum.splits
      intro!: traces_return traces_bind [OF traces_StartReconciler])

lemma emits_NewDriver: "emits (\<lambda>_. True) (NewDriver P E ep n)"
  unfolding NewDriver_def newControllerService_def newNodeService_def newProvider_def NewJfsProvider_def NewClient_def
    Version_def setupE_def os_call_defs Getenv_def Let_def
  by (intro emits_intros) simp_all

lemma emits_Driver_Run: "emits (\<lambda>_. True) (Driver_Run P E d)"
  unfolding Driver_Run_def ParseEndpoint_def setupE_def os_call_defs Let_def
  by (intro emits_intros) simp_all

section \<open>Properties\<close>

text \<open>
  C34: With the manager enabled the process has exactly one goroutine that watches the mount pods:
  the poller of the kubelet, and then the configured kubelet has answered with a list of pods, or
  the manager on the API server. This does not depend on how the rest of the start goes on.
\<close>

theorem driverMain_watches:
  assumes "\<not> flVersion fl" and "flNodeID fl \<noteq> ''''" and "flEnableManager fl"
  shows "traces (driverMain P E b fl) (\<lambda>r. watching E (fst r))"
proof -
  have run: "traces (State_Monad.bind (Driver_Run P E d) (\<lambda>s. ret (ts, case s of Inl _ \<Rightarrow> Exit fatal | Inr _ \<Rightarrow> MainReturned)))
      (\<lambda>r es. fst r = ts)" for d ts
    by (rule traces_bind_any [OF emits_Driver_Run], assumption, rule traces_return, simp)
  have drv: "traces (State_Monad.bind (NewDriver P E (flEndpoint fl) (flNodeID fl)) (\<lambda>r. case r of
      Inl e \<Rightarrow> ret (ts, case e of GoPanic m \<Rightarrow> Panicked m | _ \<Rightarrow> Exit fatal)
    | Inr d \<Rightarrow> State_Monad.bind (Driver_Run P E d) (\<lambda>s. ret (ts, case s of Inl _ \<Rightarrow> Exit fatal | Inr _ \<Rightarrow> MainReturned))))
      (\<lambda>r es. fst r = ts)" for ts
    by (rule traces_bind_any [OF emits_NewDriver], assumption) (auto intro!: traces_return run split: sum.splits)
  show ?thesis
    using assms unfolding driverMain_def
    by simp (rule traces_bind [OF traces_startManager], rule traces_mono [OF drv], simp add: watching_append)
qed

definition proc0 :: "'w proc_ext" where
  "proc0 = \<lparr>in_cluster_config = (\<lambda>w. (Inr (), w)), new_for_config = (\<lambda>w. (Inr (), w)), read_file = (\<lambda>p w. (Inr ''t'', w)),
     tls_config_for = (\<lambda>c w. (Inr True, w)), http_wrappers = (\<lambda>c b w. (Inr (), w)), net_listen = (\<lambda>s a w. (Inr (), w)),
     grpc_serve = (\<lambda>s w. (Inr (), w)), ctrl_get_config = (\<lambda>w. (Inr (), w)), ctrl_new_manager = (\<lambda>s w. (Inr (), w)),
     ctrl_new_controller = (\<lambda>s w. (Inr (), w)), ctrl_watch = (\<lambda>f w. (Inr (), w)), mgr_start = (\<lambda>w. (Inr (), w))\<rparr>"

definition exFlags :: flags where
  "exFlags = \<lparr>flEndpoint = ''unix://tmp/csi.sock'', flVersion = False, flNodeID = ''node1'', flEnableManager = True\<rparr>"

definition exBuild :: build_info where
  "exBuild = \<lparr>driverVersion = ''v1'', gitCommit = ''c'', buildDate = ''d'', runtimeVersion = ''go1.18'',
     runtimeCompiler = ''gc'', GOOS = ''linux'', GOARCH = ''amd64''\<rparr>"

theorem driverMain_watches_witness:
  "traces (driverMain proc0 E0 exBuild exFlags) (\<lambda>r. watching E0 (fst r)) \<and>
   result (startManager proc0 E0) () \<noteq> [] \<and> \<not> flVersion exFlags"
  using driverMain_watches [of exFlags proc0 E0 exBuild] traces_events [OF traces_startManager [of proc0 E0], of "()"]
  by (auto simp: exFlags_def watching_def)

text \<open>
  A kubelet client never trusts a certificate authority, so it does not verify the kubelet; it carries
  the token of the service account, as read from its file, exactly when neither a certificate
  nor a key is configured, and no token otherwise.
\<close>

theorem NewKubeletClient_auth:
  "traces (NewKubeletClient P E host port) (onSuccess (\<lambda>kc es. klHost kc = host \<and> klPort kc = port \<and>
     \<not> HasCA (klTransport kc) \<and> tcInsecure (klTransport kc) \<and>
     kubeletAuth (tcCertFile (klTransport kc)) (tcKeyFile (klTransport kc)) (tcBearerToken (klTransport kc)) es))"
  by (rule traces_NewKubeletClient)

text \<open>The configuration the process works with once it has started.\<close>

definition initialised :: "nat + config \<times> int \<Rightarrow> event list \<Rightarrow> bool" where
  "initialised r es \<longleftrightarrow>
     (case r of
        Inl n \<Rightarrow> n = 0 \<or> n = fatal
      | Inr (c, d) \<Rightarrow> cfgPodName c \<noteq> '''' \<and> cfgNamespace c \<noteq> '''' \<and> defaultReconcileTimeout \<le> d \<and> d < 2 ^ 63 \<and>
          (\<exists>p. EvGetPod (cfgPodName c) (cfgNamespace c) (Inr p) \<in> set es \<and>
            pluginImage (Containers (pSpec p)) = Some (cfgMountImage c)))"

lemma traces_init_pod:
  assumes "podName \<noteq> ''''" and "namespace \<noteq> ''''" and "\<And>img. cfgPodName (c img) = podName"
    and "\<And>img. cfgNamespace (c img) = namespace" and "\<And>img. cfgMountImage (c img) = img"
  shows "traces (State_Monad.bind (GetPod E podName namespace) (\<lambda>p. case p of
      Inl _ \<Rightarrow> ret (Inl 0)
    | Inr pod \<Rightarrow> (case pluginImage (Containers (pSpec pod)) of
        None \<Rightarrow> ret (Inl 0)
      | Some img \<Rightarrow> ret (Inr (c img, reconcileTimeout timeout))))) initialised"
  unfolding GetPod_def using reconcileTimeout_bounds [of timeout]
  by (intro traces_bind_call)
    (auto simp: initialised_def assms split: sum.splits option.splits intro!: traces_return)

text \<open>
  C36: The process starts to work only with a pod name and a namespace, with the image of the plugin's
  container in its own pod as read from the API server, and with a time limit for a round
  of at least five minutes, whatever \<open>MOSFS_RECONCILE_TIMEOUT\<close> says; otherwise it exits.
\<close>

theorem init_main_config: "traces (init_main P E) initialised"
proof -
  have mono: "initialised r (es @ es')" if "initialised r es'" for r es es'
    using that by (auto simp: initialised_def split: sum.splits)
  show ?thesis
    unfolding init_main_def
    by (rule traces_bind_any [OF emits_Getenv_any], erule mono)+
      (auto simp: initialised_def split: sum.splits
        intro!: traces_if traces_return traces_bind_any [OF emits_NewClient_any] mono traces_init_pod)
qed

end
