(* ===== verification/Warmup_Process.thy ===== *)
theory Warmup_Process
  imports Warmup Driver_Process
begin

text \<open>
  The process of the warm-up controller (\<open>pkg/warmup/warmup.go\<close>): how it finds the
  configuration of the cluster, and the order in which it puts the manager together.
  The functions of client-go and controller-runtime are an extension of \<open>proc_ext\<close>.
\<close>

record 'w warmup_ext = "'w proc_ext" +
  user_home_dir :: "'w \<Rightarrow> (gerr + string) \<times> 'w"
  build_config_from_flags :: "string \<Rightarrow> 'w \<Rightarrow> (gerr + unit) \<times> 'w"
  setup_with_manager :: "'w \<Rightarrow> (gerr + unit) \<times> 'w"
  add_check :: "string \<Rightarrow> 'w \<Rightarrow> (gerr + unit) \<times> 'w"

datatype cluster_config = InCluster | KubeConfig string

definition outOfCluster :: "'w warmup_ext \<Rightarrow> ('w, gerr + cluster_config) go" where
  "outOfCluster P =
     tryM (call (user_home_dir P) (\<lambda>r. EvSetup ''UserHomeDir'' [] (map_sum id (\<lambda>_. ()) r))) (\<lambda>dirname.
       let kubeconfig = PathJoin [dirname, ''.kube'', ''config'']
       in tryM (setupE ''BuildConfigFromFlags'' [kubeconfig] (build_config_from_flags P kubeconfig)) (\<lambda>_.
            ret (Inr (KubeConfig kubeconfig))))"

definition initClientGo :: "'w warmup_ext \<Rightarrow> ('w, gerr + cluster_config) go" where
  "initClientGo P = do {
     r \<leftarrow> setupE ''InClusterConfig'' [] (in_cluster_config P);
     tryM (case r of Inr _ \<Rightarrow> ret (Inr InCluster) | Inl _ \<Rightarrow> outOfCluster P) (\<lambda>config.
     tryWrap (errorf ''new k8s clientset error:%s'' []) (setupE ''NewForConfig'' [] (new_for_config P)) (\<lambda>_.
       ret (Inr config))) }"

record warmup_flags =
  metricsAddr :: string
  probeAddr :: string
  enableLeaderElection :: bool

definition warmupOptions :: "warmup_flags \<Rightarrow> string list" where
  "warmupOptions fl = [metricsAddr fl, ''9443'', probeAddr fl,
     (if enableLeaderElection fl then ''leader'' else ''''), ''db069dfd.sandstone.com'']"

text \<open>
  \<open>Run\<close>: the exit status with which the process ends, or \<open>None\<close> when the manager has ended
  without an error and \<open>Run\<close> returns.
\<close>

definition orExit :: "('w, gerr + 'a) go \<Rightarrow> ('a \<Rightarrow> ('w, nat option) go) \<Rightarrow> ('w, nat option) go" where
  "orExit m k = do { r \<leftarrow> m; case r of Inl _ \<Rightarrow> ret (Some 1) | Inr x \<Rightarrow> k x }"

definition warmup_Run :: "'w warmup_ext \<Rightarrow> warmup_flags \<Rightarrow> ('w, nat option) go" where
  "warmup_Run P fl =
     orExit (setupE ''GetConfigOrDie'' [] (ctrl_get_config P)) (\<lambda>_.
     orExit (setupE ''NewManager'' (warmupOptions fl) (ctrl_new_manager P (warmupOptions fl))) (\<lambda>_.
     orExit (initClientGo P) (\<lambda>config.
     orExit (setupE ''SetupWithManager'' [''Cache''] (setup_with_manager P)) (\<lambda>_.
     orExit (setupE ''AddHealthzCheck'' [''healthz''] (add_check P ''healthz'')) (\<lambda>_.
     orExit (setupE ''AddReadyzCheck'' [''readyz''] (add_check P ''readyz'')) (\<lambda>_.
     orExit (setupE ''mgr.Start'' [] (mgr_start P)) (\<lambda>_.
       ret None)))))))"

section \<open>Facts\<close>

text \<open>The names of the calls of the start that succeeded, in their order.\<close>

fun setupNames :: "event list \<Rightarrow> string list" where
  "setupNames (EvSetup n as (Inr x) # es) = n # setupNames es"
| "setupNames (e # es) = setupNames es"
| "setupNames [] = []"

lemma setupNames_append [simp]: "setupNames (es @ es') = setupNames es @ setupNames es'"
  by (induction es rule: setupNames.induct) auto

lemma traces_orExit:
  assumes "traces m S" and "\<And>e es. S (Inl e) es \<Longrightarrow> T (Some 1) es"
    and "\<And>x es. S (Inr x) es \<Longrightarrow> traces (k x) (\<lambda>r es'. T r (es @ es'))"
  shows "traces (orExit m k) T"
  unfolding orExit_def using assms(2,3)
  by (intro traces_bind [OF assms(1)]) (auto intro: traces_return split: sum.splits)

lemma traces_setupE: "traces (setupE n as f) (\<lambda>r es. es = [EvSetup n as r])"
  unfolding setupE_def by (rule traces_call) simp

text \<open>Where the configuration may come from: the pod itself, or the file in the home directory.\<close>

definition clientSteps :: "cluster_config \<Rightarrow> string list" where
  "clientSteps c =
     (case c of
        InCluster \<Rightarrow> [''InClusterConfig'', ''NewForConfig'']
      | KubeConfig f \<Rightarrow> [''UserHomeDir'', ''BuildConfigFromFlags'', ''NewForConfig''])"

lemma traces_outOfCluster:
  "traces (outOfCluster P) (onSuccess (\<lambda>c es. setupNames es @ [''NewForConfig''] = clientSteps c \<and> c \<noteq> InCluster))"
  unfolding outOfCluster_def Let_def
  by (rule traces_tryM [OF traces_call [where T = "\<lambda>r es. es = [EvSetup ''UserHomeDir'' [] (map_sum id (\<lambda>_. ()) r)]"]])
    (auto intro!: traces_return traces_tryM [OF traces_setupE] simp: clientSteps_def)

lemma traces_initClientGo: "traces (initClientGo P) (onSuccess (\<lambda>c es. setupNames es = clientSteps c))"
proof -
  have tail: "traces (tryWrap f (setupE ''NewForConfig'' [] g) (\<lambda>_. ret (Inr c)))
      (\<lambda>r es'. onSuccess (\<lambda>c es. setupNames es = clientSteps c) r (es @ es'))"
    if "setupNames es @ [''NewForConfig''] = clientSteps c" for f g c es
    using that by (auto intro!: traces_tryWrap [OF traces_setupE] traces_return)
  have choice: "traces (case r of Inr _ \<Rightarrow> ret (Inr InCluster) | Inl _ \<Rightarrow> outOfCluster P)
      (\<lambda>c es. onSuccess (\<lambda>c es. setupNames es @ [''NewForConfig''] = clientSteps c) c (EvSetup ''InClusterConfig'' [] r # es))" for r
    by (cases r) (auto simp: clientSteps_def intro!: traces_return traces_mono [OF traces_outOfCluster]
        simp: onSuccess_def split: sum.splits)
  show ?thesis
    unfolding initClientGo_def
  proof (rule traces_bind [OF traces_setupE])
    fix r es assume "es = [EvSetup ''InClusterConfig'' [] r]"
    then show "traces (tryM (case r of Inr _ \<Rightarrow> ret (Inr InCluster) | Inl _ \<Rightarrow> outOfCluster P) (\<lambda>config.
        tryWrap (errorf ''new k8s clientset error:%s'' []) (setupE ''NewForConfig'' [] (new_for_config P)) (\<lambda>_. ret (Inr config))))
        (\<lambda>r es'. onSuccess (\<lambda>c es. setupNames es = clientSteps c) r (es @ es'))"
      using tail [of "EvSetup ''InClusterConfig'' [] r # es'" for es']
      by (intro traces_tryM [OF choice]) auto
  qed
qed

section \<open>Properties\<close>

text \<open>
  The warm-up process returns only after manager, client, controller and both checks were set
  up, in this order, and the manager was started last; otherwise it exits with status 1.
\<close>

theorem warmup_Run_order:
  "traces (warmup_Run P fl) (\<lambda>r es. case r of
     Some n \<Rightarrow> n = 1
   | None \<Rightarrow> \<exists>c. setupNames es = [''GetConfigOrDie'', ''NewManager''] @ clientSteps c @
       [''SetupWithManager'', ''AddHealthzCheck'', ''AddReadyzCheck'', ''mgr.Start''])"
  unfolding warmup_Run_def
  by (rule traces_orExit [OF traces_setupE], simp, rule traces_orExit [OF traces_setupE], simp,
      rule traces_orExit [OF traces_initClientGo], simp, (rule traces_orExit [OF traces_setupE], simp)+,
      rule traces_return) auto

end
