(* ===== verification/Poller.thy ===== *)
theory Poller
  imports Reconciler
begin

text \<open>
  The endless loop of \<open>doReconcile\<close>: round after round with one back-off table. What holds for
  every round and every \<open>Run\<close> is lifted here to the whole life of the poller, over any
  number of rounds, any interleaving within them and any behaviour of kubelet, API server and node.
\<close>

section \<open>The loop\<close>

inductive pollStep :: "'w ext \<Rightarrow> string \<Rightarrow> int \<Rightarrow> Backoff \<times> 'w st \<Rightarrow> Backoff \<times> 'w st \<Rightarrow> bool"
  for E host port where
  noInput: "run_state (roundInput E host port) st = (Inl e, st1) \<Longrightarrow> \<not> is_panic e \<Longrightarrow>
    run_state (Sleep E (ReconcilerInterval * 1000)) st1 = ((), st2) \<Longrightarrow>
    pollStep E host port (b, st) (b, st2)"
| round: "run_state (roundInput E host port) st = (Inr (pods, mit), st1) \<Longrightarrow>
    (roundStep E mit pods)\<^sup>*\<^sup>* (startRound b pods st1) s \<Longrightarrow> roundOver s \<Longrightarrow> gcDone s \<Longrightarrow>
    run_state (Sleep E (ReconcilerInterval * 1000)) (rst s) = ((), st2) \<Longrightarrow>
    pollStep E host port (b, st) (bo s, st2)"

inductive_cases pollStepE: "pollStep E host port c c'"

section \<open>What the poller changes\<close>

definition answered :: "event list \<Rightarrow> pod list \<Rightarrow> bool" where
  "answered t ps \<longleftrightarrow> (\<exists>url. EvKubeletPods url (Inr (PodListBody (Some ps))) \<in> set t)"

text \<open>The calls that change pods.\<close>

definition isEffect :: "event \<Rightarrow> bool" where
  "isEffect e =
     (case e of
        EvDeletePod ns n r \<Rightarrow> True | EvPatchPod ns n d r \<Rightarrow> True
      | EvCreatePod q r \<Rightarrow> True | EvUpdatePod q r \<Rightarrow> True | _ \<Rightarrow> False)"

text \<open>
  A call is explained by the answer \<open>ps\<close> of the kubelet: for a mount pod of that answer it satisfies \<open>J\<close>, which
  knows this pod and the pods of the same answer.
\<close>

definition explains :: "(mountInfoTable \<Rightarrow> pod \<Rightarrow> event \<Rightarrow> bool) \<Rightarrow> 'w ext \<Rightarrow> pod list \<Rightarrow> event \<Rightarrow> bool" where
  "explains J E ps e \<longleftrightarrow> (\<exists>p \<in> set ps. isMountPod E p \<and>
     J \<lparr>mis = [], deletedPods = podsStatusLoop Map.empty ps\<rparr> p e)"

definition explained :: "(mountInfoTable \<Rightarrow> pod \<Rightarrow> event \<Rightarrow> bool) \<Rightarrow> 'w ext \<Rightarrow> event list \<Rightarrow> bool" where
  "explained J E t \<longleftrightarrow> list_all (\<lambda>e. \<exists>ps. answered t ps \<and> explains J E ps e) (filter isEffect t)"

lemma explained_mono:
  "explained J E t \<Longrightarrow> (\<And>mit p e. J mit p e \<Longrightarrow> J' mit p e) \<Longrightarrow> explained J' E t"
  unfolding explained_def explains_def list_all_iff by blast

lemma explained_append:
  assumes "explained J E t" and "list_all (\<lambda>e. isEffect e \<longrightarrow> (\<exists>ps. answered t ps \<and> explains J E ps e)) es"
  shows "explained J E (t @ es)"
  using assms by (fastforce simp: explained_def list_all_iff answered_def)

lemma run_traces:
  assumes "traces m T" and "run_state m st = (r, st')"
  shows "\<exists>es. snd st' = snd st @ es \<and> T r es"
proof -
  have "\<exists>es. snd (snd (run_state m (fst st, snd st))) = snd st @ es \<and> T (fst (run_state m (fst st, snd st))) es"
    using assms(1) unfolding traces_def by blast
  with assms(2) show ?thesis by simp
qed

lemma run_appends: "emits P m \<Longrightarrow> run_state m st = (r, st') \<Longrightarrow> \<exists>es. snd st' = snd st @ es \<and> list_all P es"
  unfolding emits_traces by (rule run_traces)

text \<open>Calls that change no pod.\<close>

lemma quiet_keeps:
  assumes "emits (\<lambda>e. \<not> isEffect e) m" and "run_state m st = (r, st')" and "explained J E (snd st)"
  shows "explained J E (snd st') \<and> (\<forall>ps. answered (snd st) ps \<longrightarrow> answered (snd st') ps)"
proof -
  obtain es where es: "snd st' = snd st @ es" "list_all (\<lambda>e. \<not> isEffect e) es" using run_appends [OF assms(1,2)] by blast
  with explained_append [OF assms(3), of es] show ?thesis by (auto simp: answered_def list_all_iff)
qed

lemma emits_quiet:
  "emits (\<lambda>e. \<not> isEffect e) (Now E)" "emits (\<lambda>e. \<not> isEffect e) (Sleep E n)"
  "emits (\<lambda>e. \<not> isEffect e) (roundInput E host port)"
proof -
  show "emits (\<lambda>e. \<not> isEffect e) (Now E)" "emits (\<lambda>e. \<not> isEffect e) (Sleep E n)"
    unfolding Now_def Sleep_def by (intro emits_intros, simp add: isEffect_def)+
  have "emits (\<lambda>e. \<not> isEffect e) (GetNodeRunningPods E host port)"
    unfolding GetNodeRunningPods_def
    by (intro emits_intros) (auto simp: isEffect_def split: kubelet_body.splits intro: emits_return)
  then show "emits (\<lambda>e. \<not> isEffect e) (roundInput E host port)"
    unfolding roundInput_def mit_parse_def ParseMountInfo_def by (intro emits_intros) (simp_all add: isEffect_def)
qed

lemma traces_roundInput:
  "traces (roundInput E host port) (onSuccess (\<lambda>(pods, mit) es. \<exists>ps. answered es ps \<and>
     pods = filter (isMountPod E) ps \<and> deletedPods mit = podsStatusLoop Map.empty ps))"
proof -
  have p: "traces (mit_parse E newMountInfoTable) (\<lambda>r es. True)"
    unfolding traces_def by (metis emits_def emits_intros(1) mit_parse_def ParseMountInfo_def emits_tryM emits_call emits_return)
  show ?thesis
    unfolding roundInput_def
    by (rule traces_tryM [OF traces_GetNodeRunningPods], simp, rule traces_tryM [OF p], simp)
      (auto simp: answered_def setPodsStatus_def intro!: traces_return split: option.splits, blast)
qed

section \<open>From one run to the life of the poller\<close>

definition roundInv :: "(mountInfoTable \<Rightarrow> pod \<Rightarrow> event \<Rightarrow> bool) \<Rightarrow> 'w ext \<Rightarrow> pod list \<Rightarrow> 'w round \<Rightarrow> bool" where
  "roundInv J E ps s \<longleftrightarrow> length (phases s) = length (filter (isMountPod E) ps) \<and>
     explained J E (snd (rst s)) \<and> answered (snd (rst s)) ps \<and> backoff_ok (bo s)"

definition pollerInv :: "(mountInfoTable \<Rightarrow> pod \<Rightarrow> event \<Rightarrow> bool) \<Rightarrow> 'w ext \<Rightarrow> Backoff \<times> 'w st \<Rightarrow> bool" where
  "pollerInv J E c \<longleftrightarrow> explained J E (snd (snd c)) \<and> backoff_ok (fst c)"

text \<open>
  A property of single calls that every \<open>Run\<close> of the pod driver has, and that looks only at which pods exist
  of what the mount table says.
\<close>

locale run_law =
  fixes E :: "'w ext" and J :: "mountInfoTable \<Rightarrow> pod \<Rightarrow> event \<Rightarrow> bool"
  assumes run_emits: "emits (J mit p) (Run E mit p)"
    and same_table: "deletedPods mit = deletedPods mit' \<Longrightarrow> J mit p e = J mit' p e"
begin

text \<open>The work of one goroutine, and with it a round, keeps every change explained.\<close>

lemma Run_explained:
  assumes "run_state (Run E mit p) st = (r, st')" and "explained J E (snd st)" and "answered (snd st) ps"
    and "p \<in> set ps" and "isMountPod E p" and "deletedPods mit = podsStatusLoop Map.empty ps"
  shows "explained J E (snd st') \<and> answered (snd st') ps"
proof -
  obtain es where es: "snd st' = snd st @ es" "list_all (J mit p) es"
    using run_appends [OF run_emits assms(1)] by blast
  have "J \<lparr>mis = [], deletedPods = podsStatusLoop Map.empty ps\<rparr> p e" if "e \<in> set es" for e
    by (rule iffD1 [OF same_table [of mit]]) (use es(2) that in \<open>simp_all add: assms(6) list_all_iff\<close>)
  then have "explains J E ps e" if "e \<in> set es" for e
    using that assms(4,5) unfolding explains_def by blast
  then have "list_all (\<lambda>e. isEffect e \<longrightarrow> (\<exists>ps. answered (snd st) ps \<and> explains J E ps e)) es"
    using assms(3) unfolding list_all_iff by blast
  from explained_append [OF assms(2) this] show ?thesis using es(1) assms(3) by (auto simp: answered_def)
qed

lemma roundInv_step:
  assumes "roundStep E mit (filter (isMountPod E) ps) s s'" and "roundInv J E ps s"
    and "deletedPods mit = podsStatusLoop Map.empty ps"
  shows "roundInv J E ps s'"
proof -
  have "explained J E (snd (rst s')) \<and> answered (snd (rst s')) ps"
    using assms
  proof (induction rule: roundStep.induct)
    case (run i s now st' r st'')
    have "explained J E (snd st') \<and> answered (snd st') ps"
      using quiet_keeps [OF emits_quiet(1) run(3)] run.prems(1) by (auto simp: roundInv_def)
    moreover have "filter (isMountPod E) ps ! i \<in> set (filter (isMountPod E) ps)"
      using run(1) run.prems(1) by (intro nth_mem) (simp add: roundInv_def)
    ultimately show ?case using Run_explained [OF run(5)] run.prems(2) by auto
  next
    case (retry i s r e eventTime st' now st'')
    have "explained J E (snd st') \<and> answered (snd st') ps"
      using quiet_keeps [OF emits_quiet(1) retry(4)] retry.prems(1) by (auto simp: roundInv_def)
    with quiet_keeps [OF emits_quiet(1) retry(5)] show ?case by auto
  qed (auto simp: roundInv_def dest!: quiet_keeps [OF emits_quiet(1)])
  then show ?thesis
    using assms roundStep_length [OF assms(1)] roundStep_backoff_ok [OF assms(1)] by (simp add: roundInv_def)
qed

lemma roundInv_reachable:
  assumes "(roundStep E mit (filter (isMountPod E) ps))\<^sup>*\<^sup>* s s'" and "roundInv J E ps s"
    and "deletedPods mit = podsStatusLoop Map.empty ps"
  shows "roundInv J E ps s'"
  using assms by (induction rule: rtranclp_induct) (auto intro: roundInv_step)

lemma pollerInv_step:
  assumes "pollStep E host port c c'" and "pollerInv J E c"
  shows "pollerInv J E c'"
  using assms
proof (induction rule: pollStep.induct)
  case (noInput st e st1 st2 b)
  have "explained J E (snd st1)"
    using quiet_keeps [OF emits_quiet(3) noInput(1), of J E] noInput.prems by (simp add: pollerInv_def)
  with quiet_keeps [OF emits_quiet(2) noInput(3), of J E] noInput.prems show ?case by (simp add: pollerInv_def)
next
  case (round st pods mit st1 b s st2)
  obtain es where es: "snd st1 = snd st @ es" and "onSuccess (\<lambda>(pods, mit) es. \<exists>ps. answered es ps \<and>
      pods = filter (isMountPod E) ps \<and> deletedPods mit = podsStatusLoop Map.empty ps) (Inr (pods, mit)) es"
    using run_traces [OF traces_roundInput round(1)] by blast
  then obtain ps where ps: "answered (snd st1) ps" "pods = filter (isMountPod E) ps"
    "deletedPods mit = podsStatusLoop Map.empty ps" by (auto simp: answered_def)
  have "explained J E (snd st1)"
    using quiet_keeps [OF emits_quiet(3) round(1), of J E] round.prems by (simp add: pollerInv_def)
  then have "roundInv J E ps (startRound b pods st1)"
    using ps round.prems by (simp add: roundInv_def startRound_def pollerInv_def)
  from roundInv_reachable [OF _ this ps(3)] round(2) ps(2) have "roundInv J E ps s" by simp
  with quiet_keeps [OF emits_quiet(2) round(5), of J E] show ?case by (simp add: roundInv_def pollerInv_def)
qed

lemma pollerInv_reachable: "(pollStep E host port)\<^sup>*\<^sup>* c c' \<Longrightarrow> pollerInv J E c \<Longrightarrow> pollerInv J E c'"
  by (induction rule: rtranclp_induct) (auto intro: pollerInv_step)

lemma poller_life:
  assumes "(pollStep E host port)\<^sup>*\<^sup>* (NewBackOff retryPeriod maxRetryPeriod, w, []) (b, w', t)"
  shows "explained J E t \<and> backoff_ok b"
proof -
  have "pollerInv J E (NewBackOff retryPeriod maxRetryPeriod, w, [])"
    using bo0_ok(1) by (simp add: pollerInv_def explained_def bo0_def)
  with assms have "pollerInv J E (b, w', t)" by (rule pollerInv_reachable)
  then show ?thesis by (simp add: pollerInv_def)
qed

end

text \<open>
  What justifies a change of a pod by \<open>Run\<close>: it is made under the name of the mount pod that was reported, a
  deletion has one of its reasons, and no reference of an existing pod is touched.
\<close>

definition changeJustified :: "mountInfoTable \<Rightarrow> pod \<Rightarrow> event \<Rightarrow> bool" where
  "changeJustified mit p e \<longleftrightarrow>
     changesOwn p e \<and> deleteJustified mit p e \<and> (map_ok (pAnnotations p) \<longrightarrow> keepsLiveRefs mit p e)"

definition runLaw :: "'w ext \<Rightarrow> mountInfoTable \<Rightarrow> pod \<Rightarrow> event \<Rightarrow> bool" where
  "runLaw E mit p e \<longleftrightarrow> (answersByName (kube E) \<longrightarrow> changesOwn p e) \<and> deleteJustified mit p e \<and>
     (map_ok (pAnnotations p) \<longrightarrow> keepsLiveRefs mit p e)"

lemma emits_conj: "emits P m \<Longrightarrow> emits Q m \<Longrightarrow> emits (\<lambda>e. P e \<and> Q e) m"
  using traces_conj [of m "\<lambda>_. list_all P" "\<lambda>_. list_all Q"]
  unfolding emits_traces by (auto simp: list_all_iff elim: traces_mono)

lemma emits_imp: "(b \<Longrightarrow> emits P m) \<Longrightarrow> emits Q m \<Longrightarrow> emits (\<lambda>e. b \<longrightarrow> P e) m"
  by (cases b) (auto elim: emits_mono)

interpretation laws: run_law E "runLaw E" for E :: "'w ext"
proof
  show "deletedPods mit = deletedPods mit' \<Longrightarrow> runLaw E mit p e = runLaw E mit' p e" for mit mit' p e
    unfolding runLaw_def keepsLiveRefs_def deleteJustified_def by (simp only:)
  show "emits (runLaw E mit p) (Run E mit p)" for mit p
    unfolding runLaw_def
    by (intro emits_conj emits_imp emits_Run_own emits_Run_delete emits_Run_patch emits_mono [OF emits_Run_delete]) auto
qed

section \<open>A round can be completed\<close>

text \<open>A round can always be brought to its end.\<close>

lemma round_completes:
  assumes "length (phases s) = length pods"
  shows "\<exists>s'. (roundStep E mit pods)\<^sup>*\<^sup>* s s' \<and> roundOver s' \<and> gcDone s'"
  using assms
proof (induction "roundMeasure s" arbitrary: s rule: less_induct)
  case less
  show ?case
  proof (cases "roundOver s \<and> gcDone s")
    case False
    obtain now st' where "run_state (Now E) (rst s) = (now, st')" by (metis surj_pair)
    then obtain s1 where s1: "roundStep E mit pods s s1"
      using False roundStep_progress [OF _ less.prems] roundStep.gc by blast
    have "length (phases s1) = length pods" using roundStep_length [OF s1] less.prems by simp
    from less.hyps [OF roundStep_decreases [OF s1] this] show ?thesis
      using s1 by (meson converse_rtranclp_into_rtranclp)
  qed blast
qed

lemma pollStep_exists:
  assumes r: "run_state (roundInput E host port) st = (r, st1)" and "\<And>e. r = Inl e \<Longrightarrow> \<not> is_panic e"
  shows "\<exists>c'. pollStep E host port (b, st) c'"
proof -
  show ?thesis
  proof (cases r)
    case (Inl e)
    obtain st2 where "run_state (Sleep E (ReconcilerInterval * 1000)) st1 = ((), st2)" by (metis surj_pair unit.exhaust)
    with r Inl assms(2) show ?thesis by (blast intro: pollStep.noInput)
  next
    case (Inr x)
    obtain pods mit where x: "x = (pods, mit)" by (cases x)
    obtain s where s: "(roundStep E mit pods)\<^sup>*\<^sup>* (startRound b pods st1) s" "roundOver s" "gcDone s"
      using round_completes [of "startRound b pods st1" pods E mit] by (auto simp: startRound_def)
    obtain st2 where "run_state (Sleep E (ReconcilerInterval * 1000)) (rst s) = ((), st2)" by (metis surj_pair unit.exhaust)
    with r Inr x s show ?thesis by (blast intro: pollStep.round)
  qed
qed

section \<open>An example\<close>

text \<open>A kubelet that reports one mount pod, and a server that knows it.\<close>

definition exPolled :: "unit ext" where
  "exPolled = E0\<lparr>kube := kube0\<lparr>api_get := \<lambda>n ns w. (Inr (exPod\<lparr>pName := n, pNamespace := ns\<rparr>), w)\<rparr>,
     net := net0\<lparr>kubelet_pods := \<lambda>u w. (Inr (PodListBody (Some [exPod])), w)\<rparr>\<rparr>"

lemma exPolled_input:
  "\<exists>mit t. run_state (roundInput exPolled ''127.0.0.1'' 10250) ((), []) = (Inr ([exPod], mit), (), t)"
proof -
  have "isMountPod exPolled exPod"
    by (simp add: isMountPod_def exPolled_def exPod_def env0_defs mlookup_def)
  then show ?thesis
    unfolding run_state_iff_wp
    by (simp add: roundInput_def GetNodeRunningPods_def mit_parse_def ParseMountInfo_def exPolled_def env0_defs wp_simps)
qed

section \<open>Properties\<close>

text \<open>
  C1: Over the whole life of the poller, every change it makes to a pod (deleting, patching or creating it) is
  made under the namespace and name of a mount pod of the driver's namespace that the kubelet has reported. When
  it deletes the pod, then in the same report no pod existed that one of its references belongs to, or the mount
  pod had failed or completed; no patch can change or remove the reference of a pod of that report, and a
  created pod has all of them. The delays of the back-off table stay within their bounds. The API server is
  assumed to answer a read by name with a pod of that name.
\<close>

theorem poller_explained:
  assumes "(pollStep E host port)\<^sup>*\<^sup>* (NewBackOff retryPeriod maxRetryPeriod, w, []) (b, w', t)"
    and "answersByName (kube E)"
  shows "explained changeJustified E t \<and> backoff_ok b"
  using laws.poller_life [OF assms(1)] explained_mono [of "runLaw E" E t changeJustified] assms(2)
  by (simp add: runLaw_def changeJustified_def)
theorem poller_explained_witness:
  "\<exists>b w' t. pollStep exPolled ''127.0.0.1'' 10250 (NewBackOff retryPeriod maxRetryPeriod, (), []) (b, w', t) \<and>
     explained changeJustified exPolled t \<and> backoff_ok b"
proof -
  obtain b w' t where s: "pollStep exPolled ''127.0.0.1'' 10250 (NewBackOff retryPeriod maxRetryPeriod, (), []) (b, w', t)"
    using exPolled_input pollStep_exists by (metis Inl_Inr_False prod_cases3)
  have "answersByName (kube exPolled)" by (simp add: answersByName_def exPolled_def)
  with poller_explained [OF r_into_rtranclp [of "pollStep exPolled ''127.0.0.1'' 10250", OF s]] s show ?thesis by blast
qed

end
