(* ===== verification/Ref_Store.thy ===== *)
theory Ref_Store
  imports Pod_Mount
begin

text \<open>
  The references of a mount pod as a counted resource. The code of
  \<open>pkg/juicefs/mount/pod_mount.go\<close> keeps the references in annotations of the mount
  pod and deletes the pod when the last one is gone. Here that is a refinement of
  two operations on a set of keys. It rests on what the API server documents about
  reading, patching and deleting a pod (locale \<open>ref_store\<close>); a concrete store with
  the semantics of JSON Patch shows that these laws can hold together.
\<close>

section \<open>Runs on a world\<close>

text \<open>From the world \<open>w\<close> the program returns \<open>r\<close> and leaves \<open>w'\<close>, whatever the trace was before.\<close>

definition yields :: "('w, 'a) go \<Rightarrow> 'w \<Rightarrow> 'a \<Rightarrow> 'w \<Rightarrow> bool" where
  "yields m w r w' \<longleftrightarrow> (\<forall>t. \<exists>t'. run_state m (w, t) = (r, w', t'))"

lemma yields_return: "yields (ret x) w x w"
  by (simp add: yields_def)

lemma yields_call: "f w = (r, w') \<Longrightarrow> yields (call f ev) w r w'"
  by (simp add: yields_def call_def)

lemma yields_bind:
  assumes "yields m w x w1" and "yields (f x) w1 r w2"
  shows "yields (State_Monad.bind m f) w r w2"
  unfolding yields_def
proof
  fix t
  obtain t1 where m: "run_state m (w, t) = (x, w1, t1)" using assms(1) by (auto simp: yields_def)
  obtain t2 where "run_state (f x) (w1, t1) = (r, w2, t2)" using assms(2) by (auto simp: yields_def)
  with m show "\<exists>t'. run_state (State_Monad.bind m f) (w, t) = (r, w2, t')" by simp
qed

lemma yields_tryM: "yields m w (Inr x) w1 \<Longrightarrow> yields (k x) w1 r w2 \<Longrightarrow> yields (tryM m k) w r w2"
  unfolding tryM_def by (rule yields_bind [where x = "Inr x"]) simp_all

lemma yields_withLock:
  assumes "yields m w r w'"
  shows "yields (withLock l m) w r w'"
proof -
  have "yields (lockE l) w () w" "yields (unlockE l) w' () w'"
    by (simp_all add: lockE_def unlockE_def yields_call)
  with assms show ?thesis
    unfolding withLock_def by (blast intro: yields_bind yields_return)
qed

lemma yields_result: "yields m w r w' \<Longrightarrow> result m w = r"
  unfolding yields_def result_def by (metis fst_conv)

section \<open>The keys of the driver on a pod\<close>

definition driverKeys :: "pod \<Rightarrow> string set" where
  "driverKeys p = {k. mlookup (pAnnotations p) k \<noteq> None \<and> HasPrefix k ''mosfs-''}"

lemma hasRef_driverKeys: "hasRef p \<longleftrightarrow> driverKeys p \<noteq> {}"
  unfolding hasRef_iff driverKeys_def mlookup_None_iff by force

lemma key_in_driverKeys:
  "GetReferenceKey t \<in> driverKeys p \<longleftrightarrow> mlookup (pAnnotations p) (GetReferenceKey t) \<noteq> None"
  using rk.key_prefix by (simp add: driverKeys_def)

lemma driverKeys_withRef:
  "withRef t (pAnnotations p) (pAnnotations q) \<Longrightarrow>
   driverKeys q = insert (GetReferenceKey t) (driverKeys p - {DeleteDelayAtKey})"
  using rk.key_prefix [of t] unfolding withRef_def driverKeys_def
  by (intro set_eqI) (simp, metis option.discI)

section \<open>What the API server promises\<close>

text \<open>
  \<open>pods w\<close> is the content of the server, by namespace and name. The laws speak about one pod: reading it;
  deleting it, after which it is gone or marked; replacing its annotations where there are some; removing one
  annotation that is there and whose name needs no escaping. What the server does besides, such as a
  new resource version, is left open.
\<close>

definition sameIdentity :: "pod \<Rightarrow> pod \<Rightarrow> bool" where
  "sameIdentity p q \<longleftrightarrow> pName q = pName p \<and> pNamespace q = pNamespace p \<and> pDeletionTimestamp q = pDeletionTimestamp p"

locale pod_server =
  fixes K :: "'w kube_ext" and pods :: "'w \<Rightarrow> string \<times> string \<rightharpoonup> pod"
  assumes get_law:
      "api_get K n ns w = (case pods w (ns, n) of None \<Rightarrow> Inl (ApiErr NotFound) | Some p \<Rightarrow> Inr p, w)"
    and delete_law:
      "pods w (ns, n) = Some p \<Longrightarrow>
       \<exists>w'. api_delete K ns n w = (Inr (), w') \<and> (\<forall>i. i \<noteq> (ns, n) \<longrightarrow> pods w' i = pods w i) \<and>
         (\<forall>q. pods w' (ns, n) = Some q \<longrightarrow> pDeletionTimestamp q \<noteq> None)"

locale ref_store = pod_server +
  assumes replace_law:
      "pods w (ns, n) = Some p \<Longrightarrow> entries (pAnnotations p) \<noteq> [] \<Longrightarrow>
       \<exists>w' q. api_patch K ns n (JSONPatch [PatchMapValue ''replace'' ''/metadata/annotations'' a]) w = (Inr (), w') \<and>
         pods w' = (pods w)((ns, n) \<mapsto> q) \<and> sameIdentity p q \<and> pAnnotations q = a"
    and remove_law:
      "pods w (ns, n) = Some p \<Longrightarrow> mlookup (pAnnotations p) k \<noteq> None \<Longrightarrow> set k \<inter> {CHR ''/'', CHR ''~''} = {} \<Longrightarrow>
       \<exists>w' q. api_patch K ns n (JSONPatch (delPayload [k])) w = (Inr (), w') \<and>
         pods w' = (pods w)((ns, n) \<mapsto> q) \<and> sameIdentity p q \<and>
         (\<forall>k'. mlookup (pAnnotations q) k' = (if k' = k then None else mlookup (pAnnotations p) k'))"

text \<open>The pod is there, is not being deleted, and has exactly these keys of the driver.\<close>

definition alive :: "('w \<Rightarrow> string \<times> string \<rightharpoonup> pod) \<Rightarrow> string \<Rightarrow> string \<Rightarrow> string set \<Rightarrow> 'w \<Rightarrow> bool" where
  "alive pods ns n S w \<longleftrightarrow> S \<noteq> {} \<and> (\<exists>p. pods w (ns, n) = Some p \<and> pName p = n \<and> pNamespace p = ns \<and>
     pDeletionTimestamp p = None \<and> driverKeys p = S)"

text \<open>The pod was deleted: it is no longer there, or marked for deletion.\<close>

definition deleted :: "('w \<Rightarrow> string \<times> string \<rightharpoonup> pod) \<Rightarrow> string \<Rightarrow> string \<Rightarrow> 'w \<Rightarrow> bool" where
  "deleted pods ns n w \<longleftrightarrow> (case pods w (ns, n) of None \<Rightarrow> True | Some q \<Rightarrow> pDeletionTimestamp q \<noteq> None)"

text \<open>The pod carries the keys \<open>S\<close>; without keys it has to be deleted.\<close>

definition keeps :: "('w \<Rightarrow> string \<times> string \<rightharpoonup> pod) \<Rightarrow> string \<Rightarrow> string \<Rightarrow> string set \<Rightarrow> 'w \<Rightarrow> bool" where
  "keeps pods ns n S w \<longleftrightarrow> (if S = {} then deleted pods ns n w else alive pods ns n S w)"

lemma keeps_simps [simp]:
  "keeps pods ns n {} w \<longleftrightarrow> deleted pods ns n w"
  "S \<noteq> {} \<Longrightarrow> keeps pods ns n S w \<longleftrightarrow> alive pods ns n S w"
  by (simp_all add: keeps_def)

section \<open>The abstract operations\<close>

datatype refOp = AddRef string | DelRef string

definition specAdd :: "string \<Rightarrow> string set \<Rightarrow> string set" where
  "specAdd t S = (if GetReferenceKey t \<in> S then S else insert (GetReferenceKey t) (S - {DeleteDelayAtKey}))"

definition specDel :: "string \<Rightarrow> string set \<Rightarrow> string set" where
  "specDel t S = S - {GetReferenceKey t}"

fun specOp :: "refOp \<Rightarrow> string set \<Rightarrow> string set" where
  "specOp (AddRef t) S = specAdd t S"
| "specOp (DelRef t) S = specDel t S"

fun specRun :: "refOp list \<Rightarrow> string set \<Rightarrow> string set" where
  "specRun [] S = S"
| "specRun (x # xs) S = specRun xs (specOp x S)"

text \<open>The last reference is not given back before the last operation.\<close>

fun inUse :: "refOp list \<Rightarrow> string set \<Rightarrow> bool" where
  "inUse [] S \<longleftrightarrow> S \<noteq> {}"
| "inUse [x] S \<longleftrightarrow> S \<noteq> {}"
| "inUse (x # y # xs) S \<longleftrightarrow> S \<noteq> {} \<and> inUse (y # xs) (specOp x S)"

text \<open>The operations of the code on the mount pod of a volume.\<close>

definition runOp :: "'w ext \<Rightarrow> string \<Rightarrow> refOp \<Rightarrow> ('w, gerr + unit) go" where
  "runOp E volumeId x =
     (case x of
        AddRef t \<Rightarrow> AddRefOfMount E t (GeneratePodNameByVolumeId E volumeId)
      | DelRef t \<Rightarrow> JUmount E volumeId t)"

fun runOps :: "'w ext \<Rightarrow> string \<Rightarrow> refOp list \<Rightarrow> ('w, gerr + unit) go" where
  "runOps E volumeId [] = ret (Inr ())"
| "runOps E volumeId (x # xs) = tryM (runOp E volumeId x) (\<lambda>_. runOps E volumeId xs)"

lemma delay_keys_differ: "DeleteDelayTimeKey \<noteq> DeleteDelayAtKey"
  by (simp add: DeleteDelayTimeKey_def DeleteDelayAtKey_def)

text \<open>A configured delay is a key of the driver that no operation takes away.\<close>

lemma specRun_delay: "DeleteDelayTimeKey \<in> S \<Longrightarrow> DeleteDelayTimeKey \<in> specRun xs S"
proof (induction xs arbitrary: S)
  case (Cons x xs)
  have "DeleteDelayTimeKey \<in> specOp x S"
    using Cons.prems key_not_delay(1) [symmetric] delay_keys_differ by (cases x) (auto simp: specAdd_def specDel_def)
  then show ?case by (simp add: Cons.IH)
qed simp

lemma inUse_delay: "DeleteDelayTimeKey \<in> S \<Longrightarrow> inUse xs S"
proof (induction xs S rule: inUse.induct)
  case (3 x y xs S)
  then show ?case using specRun_delay [of S "[x]"] by auto
qed auto

text \<open>The annotations after a new reference.\<close>

definition refAdded :: "string \<Rightarrow> smap \<Rightarrow> smap" where
  "refAdded t a = Some (mdelete (mput (entries a) (GetReferenceKey t) t) DeleteDelayAtKey)"

section \<open>The refinement\<close>

context pod_server
begin

lemma yields_GetPod: "kube E = K \<Longrightarrow> pods w (ns, n) = Some p \<Longrightarrow> yields (GetPod E n ns) w (Inr p) w"
  unfolding GetPod_def by (rule yields_call) (simp add: get_law)

end

context ref_store
begin

text \<open>A reference that the pod does not have yet.\<close>

lemma yields_addRefOnce_new:
  assumes "kube E = K" and "ns = cfgNamespace (cfg E)" and "pods w (ns, n) = Some p" and "pName p = n" and "pNamespace p = ns"
    and "entries (pAnnotations p) \<noteq> []" and "mlookup (pAnnotations p) (GetReferenceKey t) = None"
  shows "\<exists>w' q. yields (addRefOnce E t n) w (Inr ()) w' \<and> pods w' = (pods w)((ns, n) \<mapsto> q) \<and> sameIdentity p q \<and>
    pAnnotations q = refAdded t (pAnnotations p)"
proof -
  let ?a = "refAdded t (pAnnotations p)"
  have get: "yields (GetPod E n ns) w (Inr p) w" using assms(1,3) by (rule yields_GetPod)
  from replace_law [OF assms(3,6), of ?a] obtain w' q where
    w': "api_patch K ns n (JSONPatch [PatchMapValue ''replace'' ''/metadata/annotations'' ?a]) w = (Inr (), w')"
    and q: "pods w' = (pods w)((ns, n) \<mapsto> q)" "sameIdentity p q" "pAnnotations q = ?a" by blast
  have patch: "yields (ReplacePodAnnotation E p ?a) w (Inr ()) w'"
    unfolding ReplacePodAnnotation_def PatchPod_def Let_def option.case
    using w' assms(1,4,5) by (auto intro!: yields_tryM [where x = "()"] yields_call intro: yields_return)
  have "yields (addRefOnce E t n) w (Inr ()) w'"
    unfolding addRefOnce_def Let_def using get assms(2,7)
    by (intro yields_withLock yields_tryM [where x = p])
      (auto intro!: yields_bind [OF patch [unfolded refAdded_def]] yields_return)
  with q show ?thesis by blast
qed

lemma yields_addRefOnce:
  assumes "kube E = K" and "ns = cfgNamespace (cfg E)" and "alive pods ns n S w"
  shows "\<exists>w'. yields (addRefOnce E t n) w (Inr ()) w' \<and> alive pods ns n (specAdd t S) w'"
proof -
  obtain p where p: "pods w (ns, n) = Some p" "pName p = n" "pNamespace p = ns" "pDeletionTimestamp p = None"
    "driverKeys p = S" and S: "S \<noteq> {}" using assms(3) by (auto simp: alive_def)
  have get: "yields (GetPod E n ns) w (Inr p) w" using assms(1) p(1) by (rule yields_GetPod)
  show ?thesis
  proof (cases "GetReferenceKey t \<in> S")
    case True
    then have "mlookup (pAnnotations p) (GetReferenceKey t) \<noteq> None" using p(5) key_in_driverKeys by blast
    then have "yields (addRefOnce E t n) w (Inr ()) w"
      unfolding addRefOnce_def Let_def using get assms(2)
      by (intro yields_withLock yields_tryM [where x = p]) (auto intro: yields_return)
    with True assms(3) show ?thesis by (auto simp: specAdd_def)
  next
    case False
    then have absent: "mlookup (pAnnotations p) (GetReferenceKey t) = None" using p(5) key_in_driverKeys by blast
    have "entries (pAnnotations p) \<noteq> []" using S p(5) by (auto simp: driverKeys_def mlookup_def)
    from yields_addRefOnce_new [OF assms(1,2) p(1-3) this absent] obtain w' q where
      "yields (addRefOnce E t n) w (Inr ()) w'" and q: "pods w' = (pods w)((ns, n) \<mapsto> q)" "sameIdentity p q"
      "pAnnotations q = refAdded t (pAnnotations p)" by blast
    moreover have "driverKeys q = specAdd t S"
      using driverKeys_withRef [of t p q] withRef_update [of t "pAnnotations p"] q(3) False p(5)
      by (simp add: specAdd_def refAdded_def)
    ultimately show ?thesis
      using p by (auto simp: alive_def sameIdentity_def specAdd_def intro!: exI [of _ w'])
  qed
qed

lemma yields_AddRefOfMount:
  assumes "kube E = K" and "ns = cfgNamespace (cfg E)" and "fuel E = Suc k" and "alive pods ns n S w"
  shows "\<exists>w'. yields (AddRefOfMount E t n) w (Inr ()) w' \<and> alive pods ns n (specAdd t S) w'"
proof -
  obtain w' where "yields (addRefOnce E t n) w (Inr ()) w'" "alive pods ns n (specAdd t S) w'"
    using yields_addRefOnce [OF assms(1,2,4)] by blast
  moreover from this(1) have "yields (AddRefOfMount E t n) w (Inr ()) w'"
    unfolding AddRefOfMount_def assms(3) addRefLoop.simps
    by (rule yields_bind) (simp add: yields_return)
  ultimately show ?thesis by blast
qed

text \<open>Taking a reference off: afterwards the pod has the remaining keys, possibly none.\<close>

lemma yields_delRefOnce:
  assumes "kube E = K" and "pods w (ns, n) = Some p" and "pName p = n" and "pNamespace p = ns"
    and "pName r = n" and "pNamespace r = ns"
  shows "\<exists>w' q. yields (delRefOnce E t r) w (Inr ()) w' \<and> pods w' (ns, n) = Some q \<and> sameIdentity p q \<and>
    driverKeys q = specDel t (driverKeys p)"
proof -
  have get: "yields (GetPod E n ns) w (Inr p) w" using assms(1,2) by (rule yields_GetPod)
  show ?thesis
  proof (cases "mlookup (pAnnotations p) (GetReferenceKey t)")
    case None
    then have "yields (delRefOnce E t r) w (Inr ()) w"
      unfolding delRefOnce_def using get assms(5,6)
      by (intro yields_withLock yields_tryM [where x = p]) (auto intro: yields_return)
    moreover have "driverKeys p = specDel t (driverKeys p)"
      using None key_in_driverKeys [of t p] by (auto simp: specDel_def)
    ultimately show ?thesis using assms(2) by (auto simp: sameIdentity_def)
  next
    case (Some v)
    have "set (GetReferenceKey t) \<inter> {CHR ''/'', CHR ''~''} = {}" using rk.key_plain [of _ t] by blast
    from remove_law [OF assms(2) _ this] Some obtain w' q where
      w': "api_patch K ns n (JSONPatch (delPayload [GetReferenceKey t])) w = (Inr (), w')"
      and q: "pods w' = (pods w)((ns, n) \<mapsto> q)" "sameIdentity p q"
        "\<And>k'. mlookup (pAnnotations q) k' = (if k' = GetReferenceKey t then None else mlookup (pAnnotations p) k')"
      by auto
    have "yields (DelPodAnnotation E p [GetReferenceKey t]) w (Inr ()) w'"
      unfolding DelPodAnnotation_def PatchPod_def Let_def option.case
      using w' assms(1,3,4) by (auto intro!: yields_tryM [where x = "()"] yields_call intro: yields_return)
    then have "yields (delRefOnce E t r) w (Inr ()) w'"
      unfolding delRefOnce_def using get Some assms(5,6)
      by (intro yields_withLock yields_tryM [where x = p]) auto
    moreover have "driverKeys q = specDel t (driverKeys p)" by (auto simp: driverKeys_def specDel_def q(3))
    ultimately show ?thesis using q by auto
  qed
qed

lemma yields_deleteMountPod:
  assumes "kube E = K" and "pods w (ns, n) = Some p" and "pName p = n" and "pNamespace p = ns" and "driverKeys p = {}"
  shows "\<exists>w'. yields (deleteMountPod E n ns) w (Inr ()) w' \<and> deleted pods ns n w'"
proof -
  have get: "yields (GetPod E n ns) w (Inr p) w" using assms(1,2) by (rule yields_GetPod)
  have noRef: "\<not> hasRef p" using assms(5) hasRef_driverKeys by blast
  obtain w' where w': "api_delete K ns n w = (Inr (), w')"
    and q: "\<And>q. pods w' (ns, n) = Some q \<Longrightarrow> pDeletionTimestamp q \<noteq> None"
    using delete_law [OF assms(2)] by blast
  have "yields (DeletePod E p) w (Inr ()) w'"
    unfolding DeletePod_def using w' assms(1,3,4) by (intro yields_call) simp
  then have "yields (deleteMountPod E n ns) w (Inr ()) w'"
    unfolding deleteMountPod_def using noRef ShouldDelay_unreferenced [OF noRef, of E]
    by (intro yields_withLock yields_tryM [OF get]) (auto intro!: yields_tryM yields_bind [OF yields_return] yields_return)
  then show ?thesis using q by (auto simp: deleted_def split: option.splits)
qed

lemma yields_JUmount:
  assumes "kube E = K" and "ns = cfgNamespace (cfg E)" and "n = GeneratePodNameByVolumeId E volumeId"
    and "fuel E = Suc k" and "alive pods ns n S w"
  shows "\<exists>w'. yields (JUmount E volumeId t) w (Inr ()) w' \<and>
    keeps pods ns n (specDel t S) w'"
proof -
  obtain p where p: "pods w (ns, n) = Some p" "pName p = n" "pNamespace p = ns" "pDeletionTimestamp p = None"
    "driverKeys p = S" using assms(5) by (auto simp: alive_def)
  have get: "yields (GetPod E n ns) w (Inr p) w" using assms(1) p(1) by (rule yields_GetPod)
  obtain w1 q where del: "yields (delRefOnce E t p) w (Inr ()) w1" and q: "pods w1 (ns, n) = Some q"
    "sameIdentity p q" "driverKeys q = specDel t S"
    using yields_delRefOnce [OF assms(1) p(1-3) p(2,3)] p(5) by blast
  have loop: "yields (delRefLoop E t p (fuel E)) w (Inr ()) w1"
    unfolding assms(4) delRefLoop.simps by (rule yields_bind [OF del]) (simp add: yields_return)
  have get1: "yields (GetPod E (pName p) (pNamespace p)) w1 (Inr q) w1"
    using yields_GetPod [OF assms(1) q(1)] p(2,3) by simp
  have id: "pName q = n" "pNamespace q = ns" "pDeletionTimestamp q = None"
    using q(2) p(2-4) by (simp_all add: sameIdentity_def)
  have rest: "yields (JUmount E volumeId t) w (Inr ()) w'"
    if "yields (if hasRef q then ret (Inr ()) else deleteMountPod E (pName p) (pNamespace p)) w1 (Inr ()) w'" for w'
  proof -
    have "yields (tryM (delRefLoop E t p (fuel E)) (\<lambda>_. tryM (GetPod E (pName p) (pNamespace p)) (\<lambda>po.
      if hasRef po then ret (Inr ()) else deleteMountPod E (pName p) (pNamespace p)))) w (Inr ()) w'"
      by (rule yields_tryM [OF loop], rule yields_tryM [OF get1], rule that)
    with get assms(2,3) show ?thesis
      unfolding JUmount_def by (intro yields_bind [where x = "Inr p"]) simp_all
  qed
  show ?thesis
  proof (cases "specDel t S = {}")
    case True
    then have "\<not> hasRef q" using hasRef_driverKeys q(3) by simp
    moreover obtain w' where "yields (deleteMountPod E n ns) w1 (Inr ()) w'" "deleted pods ns n w'"
      using yields_deleteMountPod [OF assms(1) q(1) id(1,2)] q(3) True by blast
    ultimately have "yields (JUmount E volumeId t) w (Inr ()) w' \<and> keeps pods ns n (specDel t S) w'"
      using True rest [of w'] p(2,3) by simp
    then show ?thesis by blast
  next
    case False
    then have "hasRef q" using hasRef_driverKeys q(3) by simp
    then have "yields (JUmount E volumeId t) w (Inr ()) w1" using rest [of w1] by (simp add: yields_return)
    moreover have "keeps pods ns n (specDel t S) w1" using False q id by (simp add: alive_def)
    ultimately show ?thesis by blast
  qed
qed

lemma yields_runOp:
  assumes "kube E = K" and "ns = cfgNamespace (cfg E)" and "n = GeneratePodNameByVolumeId E volumeId"
    and "fuel E = Suc k" and "alive pods ns n S w"
  shows "\<exists>w'. yields (runOp E volumeId x) w (Inr ()) w' \<and>
    keeps pods ns n (specOp x S) w'"
proof (cases x)
  case (AddRef t)
  have "specAdd t S \<noteq> {}" by (auto simp: specAdd_def)
  with AddRef yields_AddRefOfMount [OF assms(1,2,4,5), of t] assms(3) show ?thesis by (simp add: runOp_def)
next
  case (DelRef t)
  with yields_JUmount [OF assms, of t] show ?thesis by (simp add: runOp_def)
qed

lemma runOps_refine:
  assumes "kube E = K" and "ns = cfgNamespace (cfg E)" and "n = GeneratePodNameByVolumeId E volumeId"
    and "fuel E = Suc k" and "alive pods ns n S w" and "inUse xs S"
  shows "\<exists>w'. yields (runOps E volumeId xs) w (Inr ()) w' \<and>
    keeps pods ns n (specRun xs S) w'"
  using assms(5,6)
proof (induction xs S arbitrary: w rule: inUse.induct)
  case (1 S)
  then show ?case by (auto intro!: exI [of _ w] yields_return)
next
  case (2 x S)
  then obtain w' where "yields (runOp E volumeId x) w (Inr ()) w'"
    "keeps pods ns n (specOp x S) w'"
    using yields_runOp [OF assms(1-4)] by blast
  then show ?case by (auto intro!: exI [of _ w'] yields_tryM yields_return)
next
  case (3 x y xs S)
  then have ne: "specOp x S \<noteq> {}" by (cases xs) auto
  obtain w1 where w1: "yields (runOp E volumeId x) w (Inr ()) w1" "alive pods ns n (specOp x S) w1"
    using yields_runOp [OF assms(1-4) "3.prems"(1), of x] ne by auto
  from "3.IH" [OF w1(2)] "3.prems"(2) obtain w2 where "yields (runOps E volumeId (y # xs)) w1 (Inr ()) w2"
    "keeps pods ns n (specRun (y # xs) (specOp x S)) w2"
    by auto
  with yields_tryM [OF w1(1), of "\<lambda>_. runOps E volumeId (y # xs)"] show ?case by auto
qed

end

section \<open>A store with the semantics of JSON Patch\<close>

text \<open>
  The server as a map of pods. As the JSON Patch package of the API server does, \<open>replace\<close> sets a member of the
  metadata whether it was there or not, and \<open>remove\<close> of a member that is not there is refused, and with it
  the whole patch. A deleted pod with finalizers stays and is marked, here with the time 0.
\<close>

definition applyValue :: "patch_value \<Rightarrow> pod \<Rightarrow> gerr + pod" where
  "applyValue v p =
     (case v of
        PatchMapValue op path a \<Rightarrow>
          if op = ''replace'' \<and> path = ''/metadata/annotations''
          then Inr (p\<lparr>pAnnotations := a\<rparr>) else Inl (ApiErr (OtherReason ''Invalid''))
      | PatchListValue op path a \<Rightarrow>
          if op = ''replace'' \<and> path = ''/metadata/finalizers''
          then Inr (p\<lparr>pFinalizers := a\<rparr>) else Inl (ApiErr (OtherReason ''Invalid''))
      | PatchDelValue op path \<Rightarrow>
          (let k = unescape (drop (length annotationsPath) path) in
           if op = ''remove'' \<and> take (length annotationsPath) path = annotationsPath \<and> mlookup (pAnnotations p) k \<noteq> None
           then Inr (p\<lparr>pAnnotations := Some (mdelete (entries (pAnnotations p)) k)\<rparr>) else Inl (ApiErr (OtherReason ''Invalid'')))
      | PatchStringValue op path s \<Rightarrow> Inl (ApiErr (OtherReason ''Invalid'')))"

fun applyValues :: "patch_value list \<Rightarrow> pod \<Rightarrow> gerr + pod" where
  "applyValues [] p = Inr p"
| "applyValues (v # vs) p = (case applyValue v p of Inl e \<Rightarrow> Inl e | Inr q \<Rightarrow> applyValues vs q)"

fun mergeMap :: "smap \<Rightarrow> (string \<times> string) list \<Rightarrow> smap" where
  "mergeMap m [] = m"
| "mergeMap m ((k, v) # xs) = mergeMap (Some (mput (entries m) k v)) xs"

definition applyPatch :: "patch \<Rightarrow> pod \<Rightarrow> gerr + pod" where
  "applyPatch d p =
     (case d of
        JSONPatch vs \<Rightarrow> applyValues vs p
      | StrategicMergeLabels a \<Rightarrow> Inr (p\<lparr>pLabels := mergeMap (pLabels p) (entries a)\<rparr>)
      | StrategicMergeAnnotations a \<Rightarrow> Inr (p\<lparr>pAnnotations := mergeMap (pAnnotations p) (entries a)\<rparr>))"

text \<open>A marked pod without finalizers is in its grace period; the store keeps it until the next pause.\<close>

definition ended :: "pod \<Rightarrow> bool" where
  "ended p \<longleftrightarrow> pDeletionTimestamp p \<noteq> None \<and> elems (pFinalizers p) = []"

type_synonym pod_store = "string \<times> string \<Rightarrow> pod option"

definition store_kube :: "pod_store kube_ext" where
  "store_kube = kube0\<lparr>
     api_create := \<lambda>p m. if m (pNamespace p, pName p) = None then (Inr p, m((pNamespace p, pName p) \<mapsto> p))
       else (Inl (ApiErr AlreadyExists), m),
     api_get := \<lambda>n ns m. (case m (ns, n) of None \<Rightarrow> Inl (ApiErr NotFound) | Some p \<Rightarrow> Inr p, m),
     api_patch := \<lambda>ns n d m.
       (case m (ns, n) of
          None \<Rightarrow> (Inl (ApiErr NotFound), m)
        | Some p \<Rightarrow>
            (case applyPatch d p of
               Inl e \<Rightarrow> (Inl e, m)
             | Inr q \<Rightarrow> (Inr (), m((ns, n) \<mapsto> q)))),
     api_delete := \<lambda>ns n m.
       (case m (ns, n) of
          None \<Rightarrow> (Inl (ApiErr NotFound), m)
        | Some p \<Rightarrow> if elems (pFinalizers p) = [] then (Inr (), m((ns, n) := None))
            else (Inr (), m((ns, n) \<mapsto> p\<lparr>pDeletionTimestamp := Some 0\<rparr>)))\<rparr>"

definition store_clk :: "pod_store clock_ext" where
  "store_clk = clk0\<lparr>clock_sleep := \<lambda>ms m. ((), \<lambda>i. case m i of None \<Rightarrow> None | Some p \<Rightarrow> if ended p then None else Some p)\<rparr>"

text \<open>The patches that leave an annotation alone do so on this server.\<close>

lemma mergeMap_other: "mlookup (Some xs) k = None \<Longrightarrow> mlookup (mergeMap m xs) k = mlookup m k"
  by (induction m xs rule: mergeMap.induct) (auto simp: mlookup_def mput_def update_conv' split: if_splits)

lemma keepsValue_sound: "keepsValue k v \<Longrightarrow> applyValue v p = Inr q \<Longrightarrow> mlookup (pAnnotations q) k = mlookup (pAnnotations p) k"
  by (auto simp: keepsValue_def applyValue_def Let_def mlookup_def mdelete_def delete_conv' split: patch_value.splits if_splits)

lemma keepsAnnotation_sound:
  assumes "keepsAnnotation k d" and "applyPatch d p = Inr q"
  shows "mlookup (pAnnotations q) k = mlookup (pAnnotations p) k"
proof -
  have vals: "list_all (keepsValue k) vs \<Longrightarrow> applyValues vs r = Inr q \<Longrightarrow> mlookup (pAnnotations q) k = mlookup (pAnnotations r) k" for vs r
    by (induction vs arbitrary: r) (auto split: sum.splits dest: keepsValue_sound)
  show ?thesis
    using assms mergeMap_other [of _ k] by (auto simp: keepsAnnotation_def applyPatch_def mlookup_def split: patch.splits dest: vals)
qed

lemma applyPatch_replace:
  "applyPatch (JSONPatch [PatchMapValue ''replace'' ''/metadata/annotations'' a]) p = Inr (p\<lparr>pAnnotations := a\<rparr>)"
  by (simp add: applyPatch_def applyValue_def)

lemma applyPatch_remove:
  "mlookup (pAnnotations p) k \<noteq> None \<Longrightarrow> CHR ''~'' \<notin> set k \<Longrightarrow>
   applyPatch (JSONPatch (delPayload [k])) p = Inr (p\<lparr>pAnnotations := Some (mdelete (entries (pAnnotations p)) k)\<rparr>)"
  by (simp add: applyPatch_def applyValue_def delPayload_def annotationsPath_def unescape_plain)

interpretation store: ref_store store_kube "\<lambda>m. m"
proof
  fix w :: pod_store and ns n p
  show "api_get store_kube n ns w = (case w (ns, n) of None \<Rightarrow> Inl (ApiErr NotFound) | Some p \<Rightarrow> Inr p, w)"
    by (simp add: store_kube_def)
  assume p: "w (ns, n) = Some p"
  show "\<exists>w'. api_delete store_kube ns n w = (Inr (), w') \<and> (\<forall>i. i \<noteq> (ns, n) \<longrightarrow> w' i = w i) \<and>
      (\<forall>q. w' (ns, n) = Some q \<longrightarrow> pDeletionTimestamp q \<noteq> None)"
    using p by (cases "elems (pFinalizers p) = []") (auto simp: store_kube_def)
  show "\<exists>w' q. api_patch store_kube ns n (JSONPatch [PatchMapValue ''replace'' ''/metadata/annotations'' a]) w = (Inr (), w') \<and>
      w' = w((ns, n) \<mapsto> q) \<and> sameIdentity p q \<and> pAnnotations q = a" if "entries (pAnnotations p) \<noteq> []" for a
    using p that
    by (intro exI [of _ "w((ns, n) \<mapsto> p\<lparr>pAnnotations := a\<rparr>)"] exI [of _ "p\<lparr>pAnnotations := a\<rparr>"])
      (auto simp: store_kube_def applyPatch_replace sameIdentity_def)
  show "\<exists>w' q. api_patch store_kube ns n (JSONPatch (delPayload [k])) w = (Inr (), w') \<and>
      w' = w((ns, n) \<mapsto> q) \<and> sameIdentity p q \<and>
      (\<forall>k'. mlookup (pAnnotations q) k' = (if k' = k then None else mlookup (pAnnotations p) k'))"
    if "mlookup (pAnnotations p) k \<noteq> None" and "set k \<inter> {CHR ''/'', CHR ''~''} = {}" for k
  proof -
    have "CHR ''~'' \<notin> set k" using that(2) by blast
    with p that(1) have "applyPatch (JSONPatch (delPayload [k])) p =
      Inr (p\<lparr>pAnnotations := Some (mdelete (entries (pAnnotations p)) k)\<rparr>)" by (simp add: applyPatch_remove)
    then have "api_patch store_kube ns n (JSONPatch (delPayload [k])) w =
      (Inr (), w((ns, n) \<mapsto> p\<lparr>pAnnotations := Some (mdelete (entries (pAnnotations p)) k)\<rparr>))"
      using p by (simp add: store_kube_def)
    moreover have "mlookup (Some (mdelete (entries (pAnnotations p)) k)) k' =
      (if k' = k then None else mlookup (pAnnotations p) k')" for k'
      unfolding mlookup_mdelete by (simp add: mlookup_def)
    ultimately show ?thesis
      by (intro exI [of _ "p\<lparr>pAnnotations := Some (mdelete (entries (pAnnotations p)) k)\<rparr>"] exI)
        (simp del: mlookup_mdelete add: sameIdentity_def)
  qed
qed

section \<open>Properties\<close>

text \<open>
  C2: The reference counting of a mount pod refines a set of keys, the annotations that begin with \<open>mosfs-\<close>. On
  every API server that keeps the laws of reading, patching and deleting a pod, every sequence of adding
  references (\<open>AddRefOfMount\<close>) and giving them back (\<open>JUmount\<close>) in which no operation but the last one takes the
  last key succeeds, and afterwards the pod carries exactly the keys the abstract operations leave; it is
  deleted when and only when they leave none.
\<close>

theorem refcount_refines:
  assumes "ref_store (kube E) pods" and "fuel E = Suc k"
    and "alive pods (cfgNamespace (cfg E)) (GeneratePodNameByVolumeId E volumeId) S w" and "inUse xs S"
  shows "\<exists>w'. yields (runOps E volumeId xs) w (Inr ()) w' \<and>
    keeps pods (cfgNamespace (cfg E)) (GeneratePodNameByVolumeId E volumeId) (specRun xs S) w'"
  using ref_store.runOps_refine [OF assms(1) refl refl refl assms(2-4)] .

definition exStoreExt :: "pod_store ext" where
  "exStoreExt = \<lparr>fuel = 1, cfg = cfg0, lib = lib0, kube = store_kube, sys = sys0, clk = store_clk, net = net0, cch = cch0\<rparr>"

definition exStore :: "(string \<times> string) list \<Rightarrow> pod_store" where
  "exStore as = [(''kube-system'', ''mosfs-node1-pv1'') \<mapsto>
     zero_pod\<lparr>pName := ''mosfs-node1-pv1'', pNamespace := ''kube-system'', pAnnotations := Some as\<rparr>]"

lemma exStore_simps [simp]:
  "kube exStoreExt = store_kube" "fuel exStoreExt = Suc 0" "cfgNamespace (cfg exStoreExt) = ''kube-system''"
  "GeneratePodNameByVolumeId exStoreExt ''pv1'' = ''mosfs-node1-pv1''"
  by (simp_all add: exStoreExt_def cfg0_def GeneratePodNameByVolumeId_def)

lemma exStore_alive:
  "driverKeys (zero_pod\<lparr>pAnnotations := Some as\<rparr>) \<noteq> {} \<Longrightarrow>
   alive (\<lambda>m. m) ''kube-system'' ''mosfs-node1-pv1'' (driverKeys (zero_pod\<lparr>pAnnotations := Some as\<rparr>)) (exStore as)"
  by (simp add: alive_def exStore_def driverKeys_def zero_pod_def)

lemma exStore_keys:
  "driverKeys (zero_pod\<lparr>pAnnotations := Some [(DeleteDelayAtKey, v)]\<rparr>) = {DeleteDelayAtKey}"
  by (auto simp: driverKeys_def mlookup_def DeleteDelayAtKey_def HasPrefix_def)

theorem refcount_refines_witness:
  "\<exists>w'. yields (runOps exStoreExt ''pv1'' [AddRef ''/t'', DelRef ''/t'']) (exStore [(DeleteDelayAtKey, ''x'')]) (Inr ()) w' \<and>
     deleted (\<lambda>m. m) ''kube-system'' ''mosfs-node1-pv1'' w'"
proof -
  let ?S = "{DeleteDelayAtKey}" and ?xs = "[AddRef ''/t'', DelRef ''/t'']"
  have "alive (\<lambda>m. m) ''kube-system'' ''mosfs-node1-pv1'' ?S (exStore [(DeleteDelayAtKey, ''x'')])"
    using exStore_alive [of "[(DeleteDelayAtKey, ''x'')]"] unfolding exStore_keys by simp
  moreover have "inUse ?xs ?S" "specRun ?xs ?S = {}"
    using key_not_delay(2) [of "''/t''"] by (auto simp: specAdd_def specDel_def)
  ultimately show ?thesis
    using refcount_refines [of exStoreExt "\<lambda>m. m" 0 "''pv1''" ?S "exStore [(DeleteDelayAtKey, ''x'')]" ?xs]
      store.ref_store_axioms by simp
qed

text \<open>
  C16: A mount pod with a configured deletion delay survives every sequence of adding and giving
  back references: \<open>JUmount\<close> counts the delay's own annotation as a reference, so the pod
  is still alive after the last target has gone and only the poller can delete it.
\<close>

theorem delayed_survives:
  assumes "ref_store (kube E) pods" and "fuel E = Suc k"
    and "alive pods (cfgNamespace (cfg E)) (GeneratePodNameByVolumeId E volumeId) S w" and "DeleteDelayTimeKey \<in> S"
  shows "\<exists>w'. yields (runOps E volumeId xs) w (Inr ()) w' \<and>
    alive pods (cfgNamespace (cfg E)) (GeneratePodNameByVolumeId E volumeId) (specRun xs S) w'"
proof -
  have "specRun xs S \<noteq> {}" using specRun_delay [OF assms(4)] by blast
  with ref_store.runOps_refine [OF assms(1) refl refl refl assms(2,3) inUse_delay [OF assms(4)], of xs]
  show ?thesis by simp
qed

theorem delayed_survives_witness:
  "\<exists>w'. yields (runOps exStoreExt ''pv1'' [AddRef ''/t'', DelRef ''/t'']) (exStore [(DeleteDelayTimeKey, ''1h'')]) (Inr ()) w' \<and>
     alive (\<lambda>m. m) ''kube-system'' ''mosfs-node1-pv1'' {DeleteDelayTimeKey} w'"
proof -
  let ?S = "{DeleteDelayTimeKey}" and ?xs = "[AddRef ''/t'', DelRef ''/t'']"
  have "driverKeys (zero_pod\<lparr>pAnnotations := Some [(DeleteDelayTimeKey, ''1h'')]\<rparr>) = ?S"
    by (auto simp: driverKeys_def mlookup_def DeleteDelayTimeKey_def HasPrefix_def)
  then have "alive (\<lambda>m. m) ''kube-system'' ''mosfs-node1-pv1'' ?S (exStore [(DeleteDelayTimeKey, ''1h'')])"
    using exStore_alive [of "[(DeleteDelayTimeKey, ''1h'')]"] by simp
  moreover have "specRun ?xs ?S = ?S"
    using key_not_delay(1) [of "''/t''"] by (auto simp: specAdd_def specDel_def DeleteDelayTimeKey_def DeleteDelayAtKey_def)
  ultimately show ?thesis
    using delayed_survives [of exStoreExt "\<lambda>m. m" 0 "''pv1''" ?S "exStore [(DeleteDelayTimeKey, ''1h'')]" ?xs]
      store.ref_store_axioms by simp
qed

end
