(* ===== verification/Pod_Life.thy ===== *)
theory Pod_Life
  imports Pod_Mount Pod_Driver
begin

text \<open>
  The life of a mount pod across the components: \<open>JMount\<close> creates it, the API server and the kubelet
  change its status and metadata, and \<open>Run\<close> creates it again under the conditions of its handlers. The
  predicate \<open>mountPodOf\<close> is the type of the mount pods of a volume: what the poller, the handlers and the
  clean-up rely on when they read a pod back. It holds of every pod that is ever created.
\<close>

section \<open>The type of mount pods\<close>

definition mountsDeclared :: "pod_spec \<Rightarrow> bool" where
  "mountsDeclared sp \<longleftrightarrow> (\<forall>cn \<in> set (Containers sp). \<forall>m \<in> set (cVolumeMounts cn). \<exists>v \<in> set (Volumes sp). vName v = vmName m)"

definition mountPodOf :: "config \<Rightarrow> string \<Rightarrow> pod \<Rightarrow> bool" where
  "mountPodOf c vol p \<longleftrightarrow>
     pName p = ''mosfs-'' @ cfgNodeName c @ ''-'' @ vol \<and> pNamespace p = cfgNamespace c \<and>
     mlookup (pLabels p) PodTypeKey = Some PodTypeValue \<and>
     NodeName (pSpec p) = cfgNodeName c \<and> RestartPolicy (pSpec p) = ''Never'' \<and>
     length (Containers (pSpec p)) = 1 \<and> mountsDeclared (pSpec p) \<and>
     GetMountPathOfPod p = Inr (PodMountBase @ ''/'' @ vol, vol)"

text \<open>A volume whose names survive the way through the shell command of the pod.\<close>

definition plainVolume :: "JfsSetting \<Rightarrow> string \<Rightarrow> string list \<Rightarrow> bool" where
  "plainVolume setting vol opts \<longleftrightarrow>
     sSource setting \<noteq> '''' \<and> list_all (\<lambda>x. \<not> isSpace x) (sSource setting @ vol) \<and> CHR ''/'' \<notin> set vol \<and>
     list_all (\<lambda>x. x \<noteq> CHR ''('' \<and> x \<noteq> CHR '')'') (mountCommand setting (PodMountBase @ ''/'' @ vol) opts)"

section \<open>A new pod has the type\<close>

lemma configVolumes_names: "map vmName (snd (configVolumes i cs)) = map vName (fst (configVolumes i cs))"
  by (induction i cs rule: configVolumes.induct) (auto simp: Let_def split: prod.splits)

lemma getCacheDirVolumes_names: "map vmName (snd (getCacheDirVolumes cmd)) = map vName (fst (getCacheDirVolumes cmd))"
  by (auto simp: getCacheDirVolumes_def cacheVolume_def Let_def split: list.splits)

lemma same_names: "map f xs = map g ys \<Longrightarrow> x \<in> set xs \<Longrightarrow> \<exists>y \<in> set ys. g y = f x"
  by (metis imageE imageI list.set_map)

lemma mountsDeclared_NewMountPod: "mountsDeclared (pSpec (NewMountPod E n cmd m res cs env))"
proof -
  obtain cv cm where cache: "(if Contains (quoteForShell cmd) ''cache-dir'' then getCacheDirVolumes (quoteForShell cmd)
      else ([hostVolume ''jfs-default-cache'' ''/var/jfsCache''], [sharedMount ''jfs-default-cache'' ''/var/jfsCache''])) = (cv, cm)"
    by fastforce
  obtain fv fm where conf: "configVolumes 1 (entries cs) = (fv, fm)" by fastforce
  have "map vmName cm = map vName cv"
    using cache getCacheDirVolumes_names [of "quoteForShell cmd"]
    by (auto simp: hostVolume_def sharedMount_def split: if_splits)
  moreover have "map vmName fm = map vName fv" using configVolumes_names [of 1 "entries cs"] conf by simp
  ultimately show ?thesis
    unfolding NewMountPod_def Let_def cache conf prod.case
    by (auto simp: mountsDeclared_def AddFinalizer_def hostVolume_def sharedMount_def zero_pod_def dest!: same_names)
qed

lemma NewMountPod_spec:
  "NodeName (pSpec (NewMountPod E n cmd m res cs env)) = cfgNodeName (cfg E)"
  "RestartPolicy (pSpec (NewMountPod E n cmd m res cs env)) = ''Never''"
  "length (Containers (pSpec (NewMountPod E n cmd m res cs env))) = 1"
  by (simp_all add: NewMountPod_def AddFinalizer_def zero_pod_def Let_def split: prod.splits)

lemma podForTarget_meta:
  "pName (podForTarget E st n t m cmd res) = n" "pNamespace (podForTarget E st n t m cmd res) = cfgNamespace (cfg E)"
  "mlookup (pLabels (podForTarget E st n t m cmd res)) PodTypeKey = Some PodTypeValue"
  by (simp_all add: podForTarget_def Let_def NewMountPod_meta mlookup_def)

lemma mountPodOf_podForTarget:
  assumes "plainVolume setting vol opts"
  shows "mountPodOf (cfg E) vol (podForTarget E setting (GeneratePodNameByVolumeId E vol) target (PodMountBase @ ''/'' @ vol)
    (mountCommand setting (PodMountBase @ ''/'' @ vol) opts) res)"
proof -
  have "GetMountPathOfPod (podForTarget E setting (GeneratePodNameByVolumeId E vol) target (PodMountBase @ ''/'' @ vol)
      (mountCommand setting (PodMountBase @ ''/'' @ vol) opts) res) = Inr (PodMountBase @ ''/'' @ vol, vol)"
    by (rule mount_path_roundtrip) (use assms in \<open>auto simp: plainVolume_def list_all_iff\<close>)
  then show ?thesis
    by (simp add: mountPodOf_def podForTarget_meta podForTarget_spec NewMountPod_spec mountsDeclared_NewMountPod
        GeneratePodNameByVolumeId_def)
qed

section \<open>Copies keep the type\<close>

lemma GetMountPathOfPod_copy:
  "GetMountPathOfPod (AddFinalizer (copyOfPod p) f) = GetMountPathOfPod p"
  "GetMountPathOfPod (DeleteResourceOfPod p) = GetMountPathOfPod p"
  by (cases "Containers (pSpec p)"; simp add: GetMountPathOfPod_def AddFinalizer_def copyOfPod_def DeleteResourceOfPod_def dropResources_def)+

lemma mountPodOf_copy: "mountPodOf c vol p \<Longrightarrow> mountPodOf c vol (AddFinalizer (copyOfPod p) f)"
  unfolding mountPodOf_def GetMountPathOfPod_copy
  by (simp add: AddFinalizer_def copyOfPod_def)

lemma mountPodOf_DeleteResource: "mountPodOf c vol p \<Longrightarrow> mountPodOf c vol (DeleteResourceOfPod p)"
  unfolding mountPodOf_def GetMountPathOfPod_copy
  by (auto simp: DeleteResourceOfPod_def mountsDeclared_def dropResources_def)

text \<open>
  What the API server, the scheduler and the kubelet leave alone in a pod. Admission may add volumes, such as
  the token of the service account, and mounts of them to the containers; status, annotations, finalizers and the
  identifiers of the server are free.
\<close>

definition admittedContainer :: "volume list \<Rightarrow> container \<Rightarrow> container \<Rightarrow> bool" where
  "admittedContainer vs cn cn' \<longleftrightarrow> cCommand cn' = cCommand cn \<and> prefix (cVolumeMounts cn) (cVolumeMounts cn') \<and>
     list_all (\<lambda>m. vmName m \<in> vName ` set vs) (drop (length (cVolumeMounts cn)) (cVolumeMounts cn'))"

definition admittedSpec :: "pod_spec \<Rightarrow> pod_spec \<Rightarrow> bool" where
  "admittedSpec sp sp' \<longleftrightarrow> NodeName sp' = NodeName sp \<and> RestartPolicy sp' = RestartPolicy sp \<and>
     prefix (Volumes sp) (Volumes sp') \<and> list_all2 (admittedContainer (Volumes sp')) (Containers sp) (Containers sp')"

definition sameObject :: "pod \<Rightarrow> pod \<Rightarrow> bool" where
  "sameObject p q \<longleftrightarrow> pName q = pName p \<and> pNamespace q = pNamespace p \<and> pLabels q = pLabels p \<and> admittedSpec (pSpec p) (pSpec q)"

lemma admittedSpec_refl [simp]: "admittedSpec sp sp"
  by (simp add: admittedSpec_def admittedContainer_def list_all2_same)

lemma mountsDeclared_admitted:
  assumes "mountsDeclared sp" and "admittedSpec sp sp'"
  shows "mountsDeclared sp'"
  unfolding mountsDeclared_def
proof (intro ballI)
  fix cn' m assume cn': "cn' \<in> set (Containers sp')" and m: "m \<in> set (cVolumeMounts cn')"
  obtain cn where cn: "cn \<in> set (Containers sp)" "admittedContainer (Volumes sp') cn cn'"
    using assms(2) cn' unfolding admittedSpec_def by (metis in_set_conv_nth list_all2_conv_all_nth)
  then obtain ms where ms: "cVolumeMounts cn' = cVolumeMounts cn @ ms" "\<forall>m \<in> set ms. vmName m \<in> vName ` set (Volumes sp')"
    by (auto simp: admittedContainer_def list_all_iff prefix_def)
  have "set (Volumes sp) \<subseteq> set (Volumes sp')" using assms(2) by (simp add: admittedSpec_def set_mono_prefix)
  then show "\<exists>v \<in> set (Volumes sp'). vName v = vmName m"
    using m ms cn(1) assms(1) unfolding mountsDeclared_def by fastforce
qed

lemma GetMountPathOfPod_admitted:
  assumes "admittedSpec (pSpec p) (pSpec q)" and "pName q = pName p"
  shows "GetMountPathOfPod q = GetMountPathOfPod p"
proof -
  have "list_all2 (admittedContainer (Volumes (pSpec q))) (Containers (pSpec p)) (Containers (pSpec q))"
    using assms by (simp add: admittedSpec_def)
  then show ?thesis
    by (cases "Containers (pSpec p)"; cases "Containers (pSpec q)") (auto simp: GetMountPathOfPod_def admittedContainer_def assms)
qed

lemma mountPodOf_sameObject: "mountPodOf c vol p \<Longrightarrow> sameObject p q \<Longrightarrow> mountPodOf c vol q"
  using GetMountPathOfPod_admitted [of p q] mountsDeclared_admitted [of "pSpec p" "pSpec q"]
  by (auto simp: mountPodOf_def sameObject_def admittedSpec_def dest: list_all2_lengthD)

section \<open>The pods that are created\<close>

definition creates :: "(pod \<Rightarrow> bool) \<Rightarrow> event \<Rightarrow> bool" where
  "creates Q e = (case e of EvCreatePod p r \<Rightarrow> Q p | _ \<Rightarrow> True)"

lemma creates_simps [simp]: "creates Q (EvCreatePod p r) = Q p" "(\<And>p r. e \<noteq> EvCreatePod p r) \<Longrightarrow> creates Q e"
  by (auto simp: creates_def split: event.splits)

lemma emits_creates_AddRef: "emits (creates Q) (AddRefOfMount E target n)"
proof -
  have "emits (creates Q) (addRefLoop E target n k)" for k
    by (induction k) (auto intro!: emits_intros simp: addRefOnce_def ReplacePodAnnotation_def PatchPod_def Sleep_def)
  then show ?thesis by (simp add: AddRefOfMount_def)
qed

lemma emits_creates_wait: "emits (creates Q) (waitUtilMountReady E n m)"
proof -
  have "emits (creates Q) (pollMount E m k)" for k
    by (induction k) (auto intro!: emits_intros simp: DoWithTimeout_def DoWithContext_def Stat_def Timer_def Sleep_def)
  then show ?thesis
    unfolding waitUtilMountReady_def getErrContainerLog_def GetPodLog_def by (intro emits_intros) auto
qed

lemma emits_creates_mountLoop:
  "(\<And>res. Q (podForTarget E st n t m cmd res)) \<Longrightarrow> emits (creates Q) (mountLoop E st n t m cmd res k)"
  by (induction k) (auto intro!: emits_intros emits_creates_AddRef emits_creates_wait simp: Sleep_def)

lemma emits_creates_JMount:
  assumes "\<And>res. Q (podForTarget E st (GeneratePodNameByVolumeId E vol) t m (mountCommand st m opts) res)"
  shows "emits (creates Q) (JMount E (Some st) vol m t opts)"
  unfolding JMount_def waitUntilMount_def option.case Let_def GetLoopTimeout_def Getenv_def LookupEnv_def
  by (intro emits_intros emits_creates_mountLoop assms) auto

lemma emits_creates_handlers:
  assumes "Q (AddFinalizer (copyOfPod p) Finalizer)" and "Q (DeleteResourceOfPod (AddFinalizer (copyOfPod p) Finalizer))"
  shows "emits (creates Q) (handlers E s (Some p))"
proof (cases s)
  case podError
  then show ?thesis
    unfolding handlers_def podErrorHandler_def redeployWithoutResources_def podError podStatus.case option.case Let_def
    by (intro emits_intros) (auto simp: assms)
next
  case podDeletedS
  then show ?thesis
    unfolding handlers_def podDeletedHandler_def recreatePod_def podDeletedS podStatus.case option.case
    by (intro emits_intros) (auto simp: assms)
qed (auto simp: handlers_def intro!: emits_podReadyHandler emits_podPendingHandler)

lemma emits_creates_Run:
  assumes "Q (AddFinalizer (copyOfPod p) Finalizer)" and "Q (DeleteResourceOfPod (AddFinalizer (copyOfPod p) Finalizer))"
  shows "emits (creates Q) (Run E mit p)"
  unfolding Run_refs by (intro emits_intros emits_creates_handlers assms) auto

lemma created_pod: "emits (creates Q) m \<Longrightarrow> EvCreatePod p r \<in> set (events m w) \<Longrightarrow> Q p"
  using emits_events [of "creates Q" m w] by (fastforce simp: list_all_iff)

section \<open>The life of a mount pod\<close>

text \<open>
  The states of the mount pods of a volume: created by \<open>JMount\<close> for some target, changed by the cluster,
  created again by \<open>Run\<close>, whatever the mount table and the answers of the outside are.
\<close>

inductive livingPod :: "'w ext \<Rightarrow> string \<Rightarrow> pod \<Rightarrow> bool" for E :: "'w ext" and vol :: string where
  mounted: "plainVolume setting vol opts \<Longrightarrow>
    EvCreatePod p r \<in> set (events (JMount E (Some setting) vol (PodMountBase @ ''/'' @ vol) target opts) w) \<Longrightarrow> livingPod E vol p"
| served: "livingPod E vol p \<Longrightarrow> sameObject p q \<Longrightarrow> livingPod E vol q"
| handled: "livingPod E vol p \<Longrightarrow> EvCreatePod q r \<in> set (events (Run E mit p) w) \<Longrightarrow> livingPod E vol q"

lemma livingPod_type: "livingPod E vol p \<Longrightarrow> mountPodOf (cfg E) vol p"
proof (induction rule: livingPod.induct)
  case (mounted setting opts p r target w)
  show ?case
    by (rule created_pod [OF emits_creates_JMount mounted(2)]) (rule mountPodOf_podForTarget [OF mounted(1)])
next
  case (served p q)
  then show ?case by (blast intro: mountPodOf_sameObject)
next
  case (handled p q r mit w)
  show ?case
    by (rule created_pod [OF emits_creates_Run handled(2)])
      (intro mountPodOf_copy mountPodOf_DeleteResource handled.IH)+
qed

section \<open>An example\<close>

text \<open>A run of \<open>JMount\<close> against a server that does not have the mount pod.\<close>

abbreviation noResources :: resource_requirements where
  "noResources \<equiv> \<lparr>Limits = Some [], Requests = Some []\<rparr>"

definition exNewPod :: "'w ext \<Rightarrow> string \<Rightarrow> pod" where
  "exNewPod E target = podForTarget E exSetting (GeneratePodNameByVolumeId E ''pv1'') target ''/mosfs/pv1''
     (mountCommand exSetting ''/mosfs/pv1'' []) noResources"

lemma mountLoop_creates:
  assumes "api_get (kube E) n (cfgNamespace (cfg E)) w = (Inl (ApiErr NotFound), w1)"
    and "api_create (kube E) (podForTarget E st n tg m cmd res) w1 = (r, w2)"
  shows "wp (mountLoop E st n tg m cmd res (Suc k))
    (\<lambda>_ s. EvCreatePod (podForTarget E st n tg m cmd res) r \<in> set (snd s)) (w, t)"
proof -
  let ?e = "EvCreatePod (podForTarget E st n tg m cmd res) r"
  have "wp (mountLoop E st n tg m cmd res k) (\<lambda>_ s. ?e \<in> set (snd s)) (w', t')" if "?e \<in> set t'" for w' t'
    by (rule wp_mono [OF wp_emits [OF emits_creates_mountLoop [of "\<lambda>_. True"]]]) (use that in auto)
  then show ?thesis using assms by (cases r) (auto simp: wp_simps CreatePod_def IsNotFound_def)
qed

lemma living_example:
  assumes "os_lookup_env (sys E) ''LOOP_TIMEOUT'' w = (None, w)"
    and "api_get (kube E) (GeneratePodNameByVolumeId E ''pv1'') (cfgNamespace (cfg E)) w = (Inl (ApiErr NotFound), w1)"
    and "api_create (kube E) (exNewPod E target) w1 = (r, w2)"
  shows "livingPod E ''pv1'' (exNewPod E target)"
proof (rule livingPod.mounted)
  show "plainVolume exSetting ''pv1'' []"
    by (simp add: plainVolume_def exSetting_def zero_setting_def isSpace_def PodMountBase_def mountCommand_def JfsMountPath_def Let_def)
  have "parsePodResources E '''' '''' '''' '''' = Inr noResources"
    by (simp add: parsePodResources_def putQuantity_def sumBind_def)
  moreover have "run_state (GetLoopTimeout E) (w, t) = (60, w, t @ [EvLookupEnv ''LOOP_TIMEOUT'' None])" for t
    unfolding run_state_iff_wp by (simp add: run_defs assms(1) defaultLoopTimeout_def)
  moreover have "MountPodCpuLimit exSetting = ''''" "MountPodMemLimit exSetting = ''''"
      "MountPodCpuRequest exSetting = ''''" "MountPodMemRequest exSetting = ''''"
    by (simp_all add: exSetting_def zero_setting_def)
  ultimately have "wp (JMount E (Some exSetting) ''pv1'' ''/mosfs/pv1'' target [])
      (\<lambda>_ s. EvCreatePod (exNewPod E target) r \<in> set (snd s)) (w, [])"
    using wp_mono [OF mountLoop_creates [where k = 59, OF assms(2) assms(3) [unfolded exNewPod_def]]]
    by (simp add: JMount_def waitUntilMount_def wp_simps withLock_def lockE_def unlockE_def run_state_wp Let_def
      split_paired_all exNewPod_def del: mountLoop.simps)
  then show "EvCreatePod (exNewPod E target) r \<in> set (events (JMount E (Some exSetting) ''pv1'' (PodMountBase @ ''/'' @ ''pv1'') target []) w)"
    by (simp add: wp_events [where Q = "\<lambda>_ es. EvCreatePod (exNewPod E target) r \<in> set es"] PodMountBase_def)
qed

section \<open>Properties\<close>

text \<open>
  C15: Every mount pod of a volume, at any point of its life, has the type of a mount pod: it has the
  volume's name on this node, the driver's namespace, label and restart policy, one container each of
  whose volume mounts names a volume of the pod, and the mount path and the volume id can be read
  back from its command.
\<close>

theorem mount_pod_typed: "livingPod E vol p \<Longrightarrow> mountPodOf (cfg E) vol p"
  by (rule livingPod_type)

theorem mount_pod_typed_witness: "mountPodOf cfg0 ''pv1'' (exNewPod E0 ''/t'')"
proof -
  have "livingPod E0 ''pv1'' (exNewPod E0 ''/t'')" by (rule living_example [where w = "()"]) (simp_all add: env0_defs)
  from mount_pod_typed [OF this] show ?thesis by (simp add: E0_def)
qed

end
