(* ===== verification/Ref_Poller.thy ===== *)
theory Ref_Poller
  imports Ref_Store Pod_Life
begin

text \<open>
  Publishing a target and the next round of the poller on one API server: \<open>AddRefOfMount\<close> of
  \<open>pkg/juicefs/mount/pod_mount.go\<close> followed by \<open>Run\<close> of \<open>pkg/controller/pod_driver.go\<close> on the pod that
  is in the server then. A recorded reference protects the pod; a reference that the server has refused, for
  another reason than a conflict, does not, although \<open>AddRefOfMount\<close> reports success.
\<close>

section \<open>A server that refuses a reference\<close>

context pod_server
begin

lemma yields_addRef_refused:
  assumes "kube E = K" and "ns = cfgNamespace (cfg E)" and "fuel E = Suc k" and "pods w (ns, n) = Some p"
    and "pName p = n" and "pNamespace p = ns" and "mlookup (pAnnotations p) (GetReferenceKey t) = None"
    and "api_patch K ns n (JSONPatch [PatchMapValue ''replace'' ''/metadata/annotations'' (refAdded t (pAnnotations p))]) w = (Inl e, w1)"
    and "\<not> IsConflict e"
  shows "yields (AddRefOfMount E t n) w (Inr ()) w1"
proof -
  let ?a = "refAdded t (pAnnotations p)"
  have get: "yields (GetPod E n ns) w (Inr p) w" using assms(1,4) by (rule yields_GetPod)
  have "yields (PatchPod E (Some p) (JSONPatch [PatchMapValue ''replace'' ''/metadata/annotations'' ?a])) w (Inl e) w1"
    unfolding PatchPod_def option.case by (rule yields_call) (use assms(1,5,6,8) in simp)
  then have patch: "yields (ReplacePodAnnotation E p ?a) w (Inl e) w1"
    unfolding ReplacePodAnnotation_def tryM_def Let_def by (rule yields_bind) (simp add: yields_return)
  have "yields (addRefOnce E t n) w (Inr ()) w1"
    unfolding addRefOnce_def Let_def using get assms(2,7,9)
    by (intro yields_withLock yields_tryM [where x = p])
      (auto intro!: yields_bind [OF patch [unfolded refAdded_def]] yields_return)
  then show ?thesis
    unfolding AddRefOfMount_def assms(3) addRefLoop.simps by (rule yields_bind) (simp add: yields_return)
qed

lemma yields_Run_unreferenced:
  assumes "kube E = K" and "pods w (ns, n) = Some p" and "pName p = n" and "pNamespace p = ns"
    and "liveRefs (deletedPods mit) (entries (pAnnotations p)) = []" and "droppedKeys mit p = []"
    and "pDeletionTimestamp p = None" and "mlookup (pAnnotations p) DeleteDelayTimeKey = None"
  shows "\<exists>w'. yields (Run E mit p) w (Inr ()) w' \<and> deleted pods ns n w'"
proof -
  obtain w' where w': "api_delete K ns n w = (Inr (), w')"
    and q: "\<And>q. pods w' (ns, n) = Some q \<Longrightarrow> pDeletionTimestamp q \<noteq> None"
    using delete_law [OF assms(2)] by blast
  have "Run E mit p = tryM (DeletePod E p) (\<lambda>_. ret (Inr ()))"
    unfolding Run_refs dropAnnotations_def using assms(5-8) by (simp add: ShouldDelay_unset tryM_def)
  moreover have "yields (DeletePod E p) w (Inr ()) w'"
    unfolding DeletePod_def using w' assms(1,3,4) by (intro yields_call) simp
  ultimately have "yields (Run E mit p) w (Inr ()) w'" using yields_tryM [where k = "\<lambda>_. ret (Inr ())", OF _ yields_return] by simp
  then show ?thesis using q by (auto simp: deleted_def split: option.splits)
qed

end

text \<open>The executable store behind a rule that allows reading and deleting only.\<close>

definition refusing_kube :: "pod_store kube_ext" where
  "refusing_kube = store_kube\<lparr>api_patch := \<lambda>ns n d m. (Inl (ApiErr (OtherReason ''Forbidden'')), m)\<rparr>"

interpretation refusing: pod_server refusing_kube "\<lambda>m. m"
proof
  fix w :: pod_store and ns n p
  show "api_get refusing_kube n ns w = (case w (ns, n) of None \<Rightarrow> Inl (ApiErr NotFound) | Some p \<Rightarrow> Inr p, w)"
    using store.get_law [of n ns w] by (simp add: refusing_kube_def)
  assume "w (ns, n) = Some p"
  then show "\<exists>w'. api_delete refusing_kube ns n w = (Inr (), w') \<and> (\<forall>i. i \<noteq> (ns, n) \<longrightarrow> w' i = w i) \<and>
      (\<forall>q. w' (ns, n) = Some q \<longrightarrow> pDeletionTimestamp q \<noteq> None)"
    using store.delete_law [of w ns n p] by (simp add: refusing_kube_def)
qed

section \<open>A request beside a round\<close>

text \<open>
  \<open>Run\<close> holds no lock between its calls, so a request of the same process can do its work there. Here the
  program \<open>m\<close> runs after each patch that \<open>Run\<close> sends.
\<close>

definition worldAfter :: "('w, 'a) go \<Rightarrow> 'w \<Rightarrow> 'w" where
  "worldAfter m w = fst (snd (run_state m (w, [])))"

definition withRival :: "('w, 'a) go \<Rightarrow> 'w ext \<Rightarrow> 'w ext" where
  "withRival m E = E\<lparr>kube := (kube E)\<lparr>api_patch := \<lambda>ns n d w.
     (case api_patch (kube E) ns n d w of (r, w') \<Rightarrow> (r, worldAfter m w'))\<rparr>\<rparr>"

lemma worldAfter_yields: "yields m w r w' \<Longrightarrow> worldAfter m w = w'"
  unfolding yields_def worldAfter_def by (metis fst_conv snd_conv)

lemma withRival_simps [simp]:
  "api_get (kube (withRival m E)) = api_get (kube E)" "api_delete (kube (withRival m E)) = api_delete (kube E)"
  "api_patch (kube E) ns n d w = (r, w') \<Longrightarrow> api_patch (kube (withRival m E)) ns n d w = (r, worldAfter m w')"
  by (simp_all add: withRival_def)

context ref_store
begin

text \<open>One reference goes, another one comes, while a third annotation stays.\<close>

lemma remove_then_add:
  assumes "kube E = K" and "ns = cfgNamespace (cfg E)" and "fuel E = Suc k" and "pods w (ns, n) = Some p" and "pName p = n"
    and "pNamespace p = ns" and "mlookup (pAnnotations p) (GetReferenceKey d) \<noteq> None"
    and "mlookup (pAnnotations p) other \<noteq> None" and "other \<noteq> GetReferenceKey d"
    and "t = d \<or> mlookup (pAnnotations p) (GetReferenceKey t) = None"
  shows "\<exists>w1 w2 q. api_patch K ns n (JSONPatch (delPayload [GetReferenceKey d])) w = (Inr (), w1) \<and>
    yields (AddRefOfMount E t n) w1 (Inr ()) w2 \<and> pods w2 (ns, n) = Some q \<and> mlookup (pAnnotations q) (GetReferenceKey t) = Some t"
proof -
  have plain: "set (GetReferenceKey d) \<inter> {CHR ''/'', CHR ''~''} = {}" using rk.key_plain [of _ d] by blast
  from remove_law [OF assms(4,7) plain] obtain w1 q1 where
    w1: "api_patch K ns n (JSONPatch (delPayload [GetReferenceKey d])) w = (Inr (), w1)" and
    q1: "pods w1 = (pods w)((ns, n) \<mapsto> q1)" "sameIdentity p q1"
      "\<And>k'. mlookup (pAnnotations q1) k' = (if k' = GetReferenceKey d then None else mlookup (pAnnotations p) k')" by blast
  have q1': "pods w1 (ns, n) = Some q1" "pName q1 = n" "pNamespace q1 = ns" "entries (pAnnotations q1) \<noteq> []"
      "mlookup (pAnnotations q1) (GetReferenceKey t) = None"
    using q1(1,2) assms(5,6,10) q1(3) [of other] q1(3) [of "GetReferenceKey t"] assms(8,9)
    by (auto simp: sameIdentity_def mlookup_def)
  obtain w2 q where w2: "yields (addRefOnce E t n) w1 (Inr ()) w2" and
    q: "pods w2 = (pods w1)((ns, n) \<mapsto> q)" "pAnnotations q = refAdded t (pAnnotations q1)"
    using yields_addRefOnce_new [OF assms(1,2) q1'] by blast
  have "yields (AddRefOfMount E t n) w1 (Inr ()) w2"
    unfolding AddRefOfMount_def assms(3) addRefLoop.simps by (rule yields_bind [OF w2]) (simp add: yields_return)
  moreover have "mlookup (pAnnotations q) (GetReferenceKey t) = Some t"
    using withRef_update [of t "pAnnotations q1"] q(2) by (simp add: withRef_def refAdded_def)
  ultimately show ?thesis using w1 q(1) by auto
qed

lemma yields_Run_rival:
  assumes "kube E = K" and "ns = cfgNamespace (cfg E)" and "fuel E = Suc k" and "pods w (ns, n) = Some p" and "pName p = n"
    and "pNamespace p = ns" and "pDeletionTimestamp p = None" and "mlookup (pAnnotations p) DeleteDelayTimeKey = None"
    and "liveRefs (deletedPods mit) (entries (pAnnotations p)) = []"
    and "deadRefs (deletedPods mit) (entries (pAnnotations p)) = [(GetReferenceKey d, d)]"
    and "mlookup (pAnnotations p) other \<noteq> None" and "other \<noteq> GetReferenceKey d"
    and "t = d \<or> mlookup (pAnnotations p) (GetReferenceKey t) = None"
  shows "\<exists>w1 w2 w3 q. yields (AddRefOfMount E t n) w1 (Inr ()) w2 \<and> pods w2 (ns, n) = Some q \<and>
    mlookup (pAnnotations q) (GetReferenceKey t) = Some t \<and> api_delete (kube E) ns n w2 = (Inr (), w3) \<and>
    yields (Run (withRival (AddRefOfMount E t n) E) mit p) w (Inr ()) w3"
proof -
  let ?R = "withRival (AddRefOfMount E t n) E" and ?k = "GetReferenceKey d"
  have "(?k, d) \<in> set (deadRefs (deletedPods mit) (entries (pAnnotations p)))" using assms(10) by simp
  then have "(?k, d) \<in> set (entries (pAnnotations p))" by (simp add: deadRefs_def)
  then have "mlookup (pAnnotations p) ?k \<noteq> None" by (metis mlookup_None_iff fst_conv image_eqI)
  from remove_then_add [OF assms(1-6) this assms(11-13)] obtain w1 w2 q where
    w1: "api_patch K ns n (JSONPatch (delPayload [?k])) w = (Inr (), w1)" and add: "yields (AddRefOfMount E t n) w1 (Inr ()) w2"
    and q: "pods w2 (ns, n) = Some q" "mlookup (pAnnotations q) (GetReferenceKey t) = Some t" by blast
  obtain w3 where w3: "api_delete K ns n w2 = (Inr (), w3)" using delete_law [OF q(1)] by blast
  have get: "yields (GetPod ?R n ns) w (Inr p) w"
    unfolding GetPod_def by (rule yields_call) (simp add: assms(1,4) get_law)
  have patch: "yields (DelPodAnnotation ?R p [?k]) w (Inr ()) w2"
    unfolding DelPodAnnotation_def PatchPod_def Let_def option.case
    using w1 assms(1,5,6) worldAfter_yields [OF add]
    by (auto intro!: yields_tryM [where x = "()"] yields_call intro: yields_return)
  have del: "yields (DeletePod ?R p) w2 (Inr ()) w3"
    unfolding DeletePod_def using w3 assms(1,5,6) by (intro yields_call) simp
  have keys: "droppedKeys mit p = [?k]" by (simp add: droppedKeys_def assms(9,10))
  have "yields (dropAnnotations ?R p [?k]) w (Inr ()) w2"
    unfolding dropAnnotations_def using get patch assms(5,6) by (auto intro!: yields_tryM [where x = p])
  then have "yields (Run ?R mit p) w (Inr ()) w3"
    unfolding Run_refs keys
    by (rule yields_tryM) (use yields_tryM [OF del yields_return] in \<open>simp add: assms(7,9) ShouldDelay_unset [OF assms(8)]\<close>)
  then show ?thesis using add q w3 assms(1) by blast
qed

end

section \<open>The reference in the next round\<close>

lemma refAdded_live:
  assumes "dp (getPodUid t) \<noteq> None"
  shows "(GetReferenceKey t, t) \<in> set (liveRefs dp (entries (refAdded t a)))"
proof -
  have "mlookup (refAdded t a) (GetReferenceKey t) = Some t"
    using withRef_update [of t a] by (simp add: withRef_def refAdded_def)
  then have "(GetReferenceKey t, t) \<in> set (entries (refAdded t a))" by (rule mlookup_mem)
  then show ?thesis using assms by (simp add: liveRefs_def)
qed

text \<open>
  A call that neither deletes a ready mount pod nor can take the reference of the target off it, be it by a patch,
  by creating a pod without it or by overwriting the pod.
\<close>

definition sparesTarget :: "pod \<Rightarrow> string \<Rightarrow> event \<Rightarrow> bool" where
  "sparesTarget q t e =
     (case e of
        EvDeletePod ns n r \<Rightarrow> IsPodError q \<or> \<not> IsPodReady q
      | EvPatchPod ns n d r \<Rightarrow> keepsAnnotation (GetReferenceKey t) d
      | EvCreatePod q' r \<Rightarrow> mlookup (pAnnotations q') (GetReferenceKey t) = mlookup (pAnnotations q) (GetReferenceKey t)
      | EvUpdatePod q' r \<Rightarrow> False
      | _ \<Rightarrow> True)"

lemma sparesTarget_live:
  assumes "deleteJustified mit q e" and "keepsLiveRefs mit q e"
    and "(GetReferenceKey t, t) \<in> set (liveRefs (deletedPods mit) (entries (pAnnotations q)))"
  shows "sparesTarget q t e"
  using assms by (cases e) (auto simp: sparesTarget_def deleteJustified_def keepsLiveRefs_def list_all_iff restores_def)

definition exNewTarget :: string where
  "exNewTarget = ''/var/lib/kubelet/pods/u1/volumes/kubernetes.io~csi/v/mount''"

section \<open>Properties\<close>

text \<open>
  C7: A target that is published before a round keeps its mount pod: after \<open>AddRefOfMount\<close> has recorded the
  reference, \<open>Run\<close> on the pod as it is then in the server deletes nothing while the target's pod exists
  and the mount pod is ready; no patch of the round can change or remove the reference, and a pod that is created
  again has it.
\<close>

theorem published_kept:
  assumes "ref_store (kube E) pods" and "fuel E = Suc k" and "pods w (cfgNamespace (cfg E), n) = Some p" and "pName p = n"
    and "pNamespace p = cfgNamespace (cfg E)" and "entries (pAnnotations p) \<noteq> []" and "map_ok (pAnnotations p)"
    and "mlookup (pAnnotations p) (GetReferenceKey t) = None" and "deletedPods mit (getPodUid t) \<noteq> None"
  shows "\<exists>w' q. yields (AddRefOfMount E t n) w (Inr ()) w' \<and> pods w' (cfgNamespace (cfg E), n) = Some q \<and>
    mlookup (pAnnotations q) (GetReferenceKey t) = Some t \<and>
    list_all (sparesTarget q t) (events (Run E mit q) w')"
proof -
  obtain w' q where w': "yields (addRefOnce E t n) w (Inr ()) w'" and q: "pods w' = (pods w)((cfgNamespace (cfg E), n) \<mapsto> q)"
      "sameIdentity p q" "pAnnotations q = refAdded t (pAnnotations p)"
    using ref_store.yields_addRefOnce_new [OF assms(1) refl refl assms(3-6,8)] by blast
  have add: "yields (AddRefOfMount E t n) w (Inr ()) w'"
    unfolding AddRefOfMount_def assms(2) addRefLoop.simps by (rule yields_bind [OF w']) (simp add: yields_return)
  have live: "(GetReferenceKey t, t) \<in> set (liveRefs (deletedPods mit) (entries (pAnnotations q)))"
    unfolding q(3) by (rule refAdded_live) (rule assms(9))
  have ok: "map_ok (pAnnotations q)" using assms(7) unfolding q(3) refAdded_def by (intro map_ok_mdelete map_ok_mput) (simp add: map_ok_def)
  have "list_all (deleteJustified mit q) (events (Run E mit q) w')" "list_all (keepsLiveRefs mit q) (events (Run E mit q) w')"
    by (rule emits_events [OF emits_Run_delete], rule emits_events [OF emits_Run_patch [OF ok]])
  then have "list_all (sparesTarget q t) (events (Run E mit q) w')"
    using sparesTarget_live [OF _ _ live] by (simp add: list_all_iff)
  moreover have "mlookup (pAnnotations q) (GetReferenceKey t) = Some t"
    using withRef_update [of t "pAnnotations p"] q(3) by (simp add: withRef_def refAdded_def)
  ultimately show ?thesis using add q(1) by (intro exI [of _ w'] exI [of _ q]) simp
qed

theorem published_kept_witness:
  "\<exists>w' q. yields (AddRefOfMount exStoreExt exNewTarget ''mosfs-node1-pv1'') (exStore [(''a'', ''b'')]) (Inr ()) w' \<and>
     list_all (sparesTarget q exNewTarget) (events (Run exStoreExt (exMit [getPodUid exNewTarget]) q) w')"
proof -
  let ?p = "zero_pod\<lparr>pName := ''mosfs-node1-pv1'', pNamespace := ''kube-system'', pAnnotations := Some [(''a'', ''b'')]\<rparr>"
  have "mlookup (Some [(''a'', ''b'')]) (GetReferenceKey exNewTarget) = None"
    using rk.key_prefix [of exNewTarget] by (auto simp: mlookup_def HasPrefix_def)
  moreover have "deletedPods (exMit [getPodUid exNewTarget]) (getPodUid exNewTarget) \<noteq> None" by (simp add: exMit_def)
  moreover have "exStore [(''a'', ''b'')] (''kube-system'', ''mosfs-node1-pv1'') = Some ?p" by (simp add: exStore_def)
  ultimately show ?thesis
    using published_kept [of exStoreExt "\<lambda>m. m" 0 "exStore [(''a'', ''b'')]" "''mosfs-node1-pv1''" ?p exNewTarget
        "exMit [getPodUid exNewTarget]"] store.ref_store_axioms
    by (auto simp: map_ok_def simp del: not_None_eq)
qed

text \<open>
  C17: A refused reference is lost: when the server refuses the patch that records a target, for another reason
  than a conflict, \<open>AddRefOfMount\<close> reports success all the same, and the next \<open>Run\<close> on a mount pod without other
  references deletes it under the target that was just published, whatever the mount table says of the target.
\<close>

theorem lost_reference:
  assumes "pod_server (kube E) pods" and "fuel E = Suc k" and "pods w (cfgNamespace (cfg E), n) = Some p" and "pName p = n"
    and "pNamespace p = cfgNamespace (cfg E)" and "mlookup (pAnnotations p) (GetReferenceKey t) = None"
    and "api_patch (kube E) (cfgNamespace (cfg E)) n
      (JSONPatch [PatchMapValue ''replace'' ''/metadata/annotations'' (refAdded t (pAnnotations p))]) w = (Inl e, w1)"
    and "\<not> IsConflict e" and "pods w1 = pods w"
    and "liveRefs (deletedPods mit) (entries (pAnnotations p)) = []" and "droppedKeys mit p = []"
    and "pDeletionTimestamp p = None" and "mlookup (pAnnotations p) DeleteDelayTimeKey = None"
  shows "yields (AddRefOfMount E t n) w (Inr ()) w1 \<and>
    (\<exists>w'. yields (Run E mit p) w1 (Inr ()) w' \<and> deleted pods (cfgNamespace (cfg E)) n w')"
proof -
  have "pods w1 (cfgNamespace (cfg E), n) = Some p" using assms(3,9) by simp
  from pod_server.yields_Run_unreferenced [OF assms(1) refl this assms(4,5,10-13)]
    pod_server.yields_addRef_refused [OF assms(1) refl refl assms(2-8)] show ?thesis by blast
qed

theorem lost_reference_witness:
  "yields (AddRefOfMount (exStoreExt\<lparr>kube := refusing_kube\<rparr>) exNewTarget ''mosfs-node1-pv1'') (exStore []) (Inr ()) (exStore []) \<and>
   (\<exists>w'. yields (Run (exStoreExt\<lparr>kube := refusing_kube\<rparr>) (exMit [getPodUid exNewTarget])
        (zero_pod\<lparr>pName := ''mosfs-node1-pv1'', pNamespace := ''kube-system'', pAnnotations := Some []\<rparr>))
      (exStore []) (Inr ()) w' \<and> deleted (\<lambda>m. m) ''kube-system'' ''mosfs-node1-pv1'' w')"
proof -
  let ?E = "exStoreExt\<lparr>kube := refusing_kube\<rparr>"
  let ?p = "zero_pod\<lparr>pName := ''mosfs-node1-pv1'', pNamespace := ''kube-system'', pAnnotations := Some []\<rparr>"
  have "exStore [] (''kube-system'', ''mosfs-node1-pv1'') = Some ?p" "fuel ?E = Suc 0" "cfgNamespace (cfg ?E) = ''kube-system''"
    by (simp_all add: exStore_def exStoreExt_def cfg0_def)
  moreover have "droppedKeys (exMit [getPodUid exNewTarget]) ?p = []" "liveRefs (deletedPods (exMit [getPodUid exNewTarget])) (entries (pAnnotations ?p)) = []"
    by (simp_all add: droppedKeys_def deadRefs_def liveRefs_def)
  ultimately show ?thesis
    using lost_reference [of ?E "\<lambda>m. m" 0 "exStore []" "''mosfs-node1-pv1''" ?p exNewTarget "ApiErr (OtherReason ''Forbidden'')" "exStore []"
        "exMit [getPodUid exNewTarget]"] refusing.pod_server_axioms
    by (simp add: refusing_kube_def IsConflict_def mlookup_def zero_pod_def)
qed

text \<open>
  C18: \<open>Run\<close> works without a lock between its calls. When a request records a new target after \<open>Run\<close> has taken the
  last dead reference off the mount pod, \<open>Run\<close> deletes the pod all the same: at the moment of the deletion the
  server's pod carries the reference of the target whose publishing was just confirmed.
\<close>

theorem Run_races_publish:
  assumes "ref_store (kube E) pods" and "fuel E = Suc k" and "pods w (cfgNamespace (cfg E), n) = Some p" and "pName p = n"
    and "pNamespace p = cfgNamespace (cfg E)" and "pDeletionTimestamp p = None" and "mlookup (pAnnotations p) DeleteDelayTimeKey = None"
    and "liveRefs (deletedPods mit) (entries (pAnnotations p)) = []"
    and "deadRefs (deletedPods mit) (entries (pAnnotations p)) = [(GetReferenceKey d, d)]"
    and "mlookup (pAnnotations p) other \<noteq> None" and "other \<noteq> GetReferenceKey d"
    and "t = d \<or> mlookup (pAnnotations p) (GetReferenceKey t) = None"
  shows "\<exists>w1 w2 w3 q. yields (AddRefOfMount E t n) w1 (Inr ()) w2 \<and> pods w2 (cfgNamespace (cfg E), n) = Some q \<and>
    mlookup (pAnnotations q) (GetReferenceKey t) = Some t \<and> api_delete (kube E) (cfgNamespace (cfg E)) n w2 = (Inr (), w3) \<and>
    yields (Run (withRival (AddRefOfMount E t n) E) mit p) w (Inr ()) w3"
  by (rule ref_store.yields_Run_rival [OF assms(1) refl refl assms(2-12)])

theorem Run_races_publish_witness:
  "\<exists>w1 w2 w3 q. yields (AddRefOfMount exStoreExt exNewTarget ''mosfs-node1-pv1'') w1 (Inr ()) w2 \<and>
     w2 (''kube-system'', ''mosfs-node1-pv1'') = Some q \<and> mlookup (pAnnotations q) (GetReferenceKey exNewTarget) = Some exNewTarget \<and>
     api_delete store_kube ''kube-system'' ''mosfs-node1-pv1'' w2 = (Inr (), w3) \<and>
     yields (Run (withRival (AddRefOfMount exStoreExt exNewTarget ''mosfs-node1-pv1'') exStoreExt) (exMit [])
       (zero_pod\<lparr>pName := ''mosfs-node1-pv1'', pNamespace := ''kube-system'', pAnnotations := Some [(''a'', ''b''), (GetReferenceKey exNewTarget, exNewTarget)]\<rparr>))
       (exStore [(''a'', ''b''), (GetReferenceKey exNewTarget, exNewTarget)]) (Inr ()) w3"
proof -
  let ?as = "[(''a'', ''b''), (GetReferenceKey exNewTarget, exNewTarget)]"
  let ?p = "zero_pod\<lparr>pName := ''mosfs-node1-pv1'', pNamespace := ''kube-system'', pAnnotations := Some ?as\<rparr>"
  have a: "''a'' \<noteq> GetReferenceKey t" for t using rk.key_neq [of "''a''" t] by auto
  have "exStore ?as (''kube-system'', ''mosfs-node1-pv1'') = Some ?p" by (simp add: exStore_def)
  moreover have "mlookup (Some ?as) DeleteDelayTimeKey = None"
    using key_not_delay(1) [of exNewTarget] by (simp add: mlookup_def DeleteDelayTimeKey_def)
  moreover have "liveRefs (deletedPods (exMit [])) ?as = []" "deadRefs (deletedPods (exMit [])) ?as = [(GetReferenceKey exNewTarget, exNewTarget)]"
    using a [of "''b''"] by (simp_all add: liveRefs_def deadRefs_def exMit_def)
  moreover have "mlookup (Some ?as) ''a'' \<noteq> None"
    by (simp add: mlookup_def)
  ultimately show ?thesis
    using Run_races_publish [of exStoreExt "\<lambda>m. m" 0 "exStore ?as" "''mosfs-node1-pv1''" ?p "exMit []" exNewTarget "''a''" exNewTarget]
      store.ref_store_axioms a [of exNewTarget]
    by (simp add: zero_pod_def del: not_None_eq)
qed

end
