(* ===== verification/Pod_Recovery.thy ===== *)
theory Pod_Recovery
  imports Ref_Poller
begin

text \<open>
  Recovery on one API server: a mount pod that somebody deletes while targets use it is held by the driver's
  finalizer; the next \<open>Run\<close> lets it go, unmounts what is left of it and creates it again with its
  references. The locale \<open>healing_store\<close> adds to \<open>ref_store\<close> what the server promises about finalizers and
  about creating a pod; \<open>graceful\<close> is the time a marked pod may stay.
\<close>

section \<open>Finalizers and creation\<close>

text \<open>A created pod is the object that was sent, with a status and identifiers of the server.\<close>

definition createdFrom :: "pod \<Rightarrow> pod \<Rightarrow> bool" where
  "createdFrom p q \<longleftrightarrow> sameObject p q \<and> pAnnotations q = pAnnotations p \<and> pFinalizers q = pFinalizers p \<and>
     pDeletionTimestamp q = pDeletionTimestamp p"

text \<open>Commands on the node leave the server alone.\<close>

definition quietNode :: "'w ext \<Rightarrow> ('w \<Rightarrow> string \<times> string \<rightharpoonup> pod) \<Rightarrow> bool" where
  "quietNode E pods \<longleftrightarrow> (\<forall>c e w. pods (snd (run_cmd (sys E) c e w)) = pods w)"

text \<open>
  A pod that is marked and has no finalizers stays for its grace period, and is gone after fewer than the thirty
  pauses of five seconds that \<open>waitPodDeleted\<close> makes.
\<close>

fun paused :: "'w ext \<Rightarrow> nat \<Rightarrow> 'w \<Rightarrow> 'w" where
  "paused E 0 w = w"
| "paused E (Suc k) w = paused E k (snd (clock_sleep (clk E) 5000 w))"

definition graceful :: "'w ext \<Rightarrow> ('w \<Rightarrow> string \<times> string \<rightharpoonup> pod) \<Rightarrow> bool" where
  "graceful E pods \<longleftrightarrow> (\<forall>w i q. pods w i = Some q \<longrightarrow> ended q \<longrightarrow> (\<exists>k<30. pods (paused E k w) i = None))"

lemma graceful_gone:
  "graceful E pods \<Longrightarrow> (\<And>q. pods w i = Some q \<Longrightarrow> ended q) \<Longrightarrow> \<exists>k<30. pods (paused E k w) i = None"
proof (cases "pods w i")
  case None
  then show ?thesis by (intro exI [of _ 0]) simp
qed (unfold graceful_def, blast)

locale healing_store = ref_store +
  assumes finalize_law:
      "pods w (ns, n) = Some p \<Longrightarrow> pDeletionTimestamp p \<noteq> None \<Longrightarrow> elems (pFinalizers p) \<noteq> [] \<Longrightarrow>
       \<exists>w'. api_patch K ns n (JSONPatch [PatchListValue ''replace'' ''/metadata/finalizers'' (Some [])]) w = (Inr (), w') \<and>
         (\<forall>i. i \<noteq> (ns, n) \<longrightarrow> pods w' i = pods w i) \<and> (\<forall>q. pods w' (ns, n) = Some q \<longrightarrow> ended q)"
    and create_law:
      "pods w (pNamespace p, pName p) = None \<Longrightarrow>
       \<exists>w' q. api_create K p w = (Inr q, w') \<and> pods w' = (pods w)((pNamespace p, pName p) \<mapsto> q) \<and> createdFrom p q"
begin

text \<open>The loop of \<open>waitPodDeleted\<close> ends when the pod is gone.\<close>

lemma yields_waitPodDeleted:
  assumes "kube E = K"
  shows "k < m \<Longrightarrow> pods (paused E k w) (pNamespace p, pName p) = None \<Longrightarrow>
    \<exists>w'. yields (waitPodDeleted E p m) w () w' \<and> pods w' (pNamespace p, pName p) = None"
proof (induction m arbitrary: k w)
  case (Suc m)
  let ?w1 = "snd (clock_sleep (clk E) 5000 w)"
  have get: "yields (GetPod E (pName p) (pNamespace p)) w
      (case pods w (pNamespace p, pName p) of None \<Rightarrow> Inl (ApiErr NotFound) | Some q \<Rightarrow> Inr q) w"
    unfolding GetPod_def by (rule yields_call) (simp add: assms get_law)
  show ?case
  proof (cases "pods w (pNamespace p, pName p)")
    case None
    with get show ?thesis
      by (auto intro!: exI [of _ w] yields_bind [where x = "Inl (ApiErr NotFound)"] yields_return)
  next
    case (Some q)
    then obtain k' where k: "k = Suc k'" using Suc.prems(2) by (cases k) auto
    obtain w' where w': "yields (waitPodDeleted E p m) ?w1 () w'" "pods w' (pNamespace p, pName p) = None"
      using Suc.IH [of k' ?w1] Suc.prems unfolding k by auto
    have "yields (Sleep E 5000) w () ?w1"
      unfolding Sleep_def by (rule yields_call) (simp add: prod_eq_iff)
    with get Some w' show ?thesis
      by (auto intro!: exI [of _ w'] yields_bind [where x = "Inr q"] yields_bind [where m = "Sleep E 5000"])
  qed
qed simp

lemma yields_UmountPath:
  assumes "quietNode E pods"
  shows "\<exists>w'. yields (UmountPath E src) w () w' \<and> pods w' = pods w"
proof -
  have exec: "\<exists>o' r w'. yields (Exec E c []) w (o', r) w' \<and> pods w' = pods w" for c w
  proof -
    obtain o' r w' where "run_cmd (sys E) c [] w = ((o', r), w')" by (metis surj_pair)
    moreover from this have "pods w' = pods w" using assms unfolding quietNode_def by (metis snd_conv)
    ultimately show ?thesis unfolding Exec_def by (blast intro: yields_call)
  qed
  obtain o1 r1 w1 where e1: "yields (Exec E [''umount'', src] []) w (o1, r1) w1" "pods w1 = pods w" using exec by blast
  obtain o2 r2 w2 where e2: "yields (Exec E [''umount'', ''-l'', src] []) w1 (o2, r2) w2" "pods w2 = pods w1" using exec by blast
  have "\<exists>w'. yields (case r1 of None \<Rightarrow> ret () | Some _ \<Rightarrow>
      if \<not> notMountedOutput o1 then do { _ \<leftarrow> Exec E [''umount'', ''-l'', src] []; ret () } else ret ()) w1 () w' \<and> pods w' = pods w"
    using e1(2) e2 yields_bind [where f = "\<lambda>_. ret ()", OF e2(1) yields_return]
    by (cases r1; cases "notMountedOutput o1") (auto intro: yields_return)
  then obtain w' where "yields (case r1 of None \<Rightarrow> ret () | Some _ \<Rightarrow>
      if \<not> notMountedOutput o1 then do { _ \<leftarrow> Exec E [''umount'', ''-l'', src] []; ret () } else ret ()) w1 () w'" "pods w' = pods w"
    by blast
  moreover from this(1) have "yields (UmountPath E src) w () w'"
    unfolding UmountPath_def by (intro yields_bind [OF e1(1)]) simp
  ultimately show ?thesis by blast
qed

lemma yields_recreatePod:
  assumes "kube E = K" and "graceful E pods" and "\<And>q. pods w (pNamespace p, pName p) = Some q \<Longrightarrow> ended q"
  shows "\<exists>w' q. yields (recreatePod E p) w () w' \<and> pods w' (pNamespace p, pName p) = Some q \<and>
    createdFrom (AddFinalizer (copyOfPod p) Finalizer) q"
proof -
  let ?c = "AddFinalizer (copyOfPod p) Finalizer"
  have id: "pNamespace ?c = pNamespace p" "pName ?c = pName p" by (simp_all add: AddFinalizer_def copyOfPod_def)
  obtain w1 where wait: "yields (waitPodDeleted E p 30) w () w1" "pods w1 (pNamespace p, pName p) = None"
    using graceful_gone [where i = "(pNamespace p, pName p)", OF assms(2,3)] yields_waitPodDeleted [OF assms(1)] by blast
  obtain w' q where c: "api_create K ?c w1 = (Inr q, w')" "pods w' = (pods w1)((pNamespace ?c, pName ?c) \<mapsto> q)" "createdFrom ?c q"
    using create_law [of w1 ?c] wait(2) unfolding id by blast
  have "yields (call (api_create (kube E) ?c) (EvCreatePod ?c)) w1 (Inr q) w'" by (rule yields_call) (simp add: assms(1) c(1))
  then have "yields (CreatePod E ?c) w1 (Inr q) w'"
    unfolding CreatePod_def by (rule yields_bind) (simp add: yields_return)
  then have "yields (do { _ \<leftarrow> CreatePod E ?c; ret () }) w1 () w'" by (rule yields_bind) (rule yields_return)
  then have "yields (recreatePod E p) w () w'"
    unfolding recreatePod_def by (rule yields_bind [OF wait(1)])
  then show ?thesis using c id by auto
qed

lemma yields_podDeletedHandler:
  assumes "kube E = K" and "quietNode E pods" and "graceful E pods" and "pods w (pNamespace p, pName p) = Some p"
    and "pDeletionTimestamp p \<noteq> None" and "pFinalizers p = Some [Finalizer]" and "\<not> IsPodResourceError p"
    and "refTargets (entries (pAnnotations p)) \<noteq> []" and "GetMountPathOfPod p = Inr (src, vol)"
  shows "\<exists>w' q. yields (podDeletedHandler E (Some p)) w (Inr ()) w' \<and> pods w' (pNamespace p, pName p) = Some q \<and>
    createdFrom (AddFinalizer (copyOfPod p) Finalizer) q"
proof -
  have f: "elems (pFinalizers p) \<noteq> []" "withoutFinalizer (pFinalizers p) Finalizer = Some []"
    using assms(6) withoutFinalizer_filter [of "pFinalizers p" Finalizer] by simp_all
  obtain w1 where w1: "api_patch K (pNamespace p) (pName p) (JSONPatch [PatchListValue ''replace'' ''/metadata/finalizers'' (Some [])]) w = (Inr (), w1)"
    "\<And>q. pods w1 (pNamespace p, pName p) = Some q \<Longrightarrow> ended q"
    using finalize_law [OF assms(4,5) f(1)] by blast
  have fin: "yields (RemoveFinalizer E p Finalizer) w (Inr ()) w1"
    unfolding RemoveFinalizer_def PatchPod_def Let_def option.case f(2)
    using w1(1) assms(1) by (auto intro!: yields_tryM [where x = "()"] yields_call intro: yields_return)
  obtain w2 where w2: "yields (UmountPath E src) w1 () w2" "pods w2 = pods w1" using yields_UmountPath [OF assms(2)] by blast
  have "pods w2 (pNamespace p, pName p) = Some q \<Longrightarrow> ended q" for q using w1(2) w2(2) by simp
  from yields_recreatePod [OF assms(1,3) this] obtain w3 q where w3: "yields (recreatePod E p) w2 () w3"
    and q: "pods w3 (pNamespace p, pName p) = Some q" "createdFrom (AddFinalizer (copyOfPod p) Finalizer) q" by blast
  have "yields (withLock (PodLock (GetPodLock (pName p))) (do { UmountPath E src; recreatePod E p; ret (Inr ()) })) w1 (Inr ()) w3"
    by (intro yields_withLock yields_bind [OF w2(1)] yields_bind [OF w3] yields_return)
  then have "yields (podDeletedHandler E (Some p)) w (Inr ()) w3"
    unfolding podDeletedHandler_def using assms(6-9)
    by (cases "pAnnotations p") (auto intro!: yields_tryM [OF fin])
  with q show ?thesis by blast
qed

end

interpretation hstore: healing_store store_kube "\<lambda>m. m"
proof
  fix w :: pod_store and ns n and p :: pod
  show "\<exists>w'. api_patch store_kube ns n (JSONPatch [PatchListValue ''replace'' ''/metadata/finalizers'' (Some [])]) w = (Inr (), w') \<and>
      (\<forall>i. i \<noteq> (ns, n) \<longrightarrow> w' i = w i) \<and> (\<forall>q. w' (ns, n) = Some q \<longrightarrow> ended q)"
    if "w (ns, n) = Some p" "pDeletionTimestamp p \<noteq> None" "elems (pFinalizers p) \<noteq> []"
    using that by (cases "pFinalizers p") (auto simp: store_kube_def applyPatch_def applyValue_def ended_def)
  show "\<exists>w' q. api_create store_kube p w = (Inr q, w') \<and> w' = w((pNamespace p, pName p) \<mapsto> q) \<and> createdFrom p q"
    if "w (pNamespace p, pName p) = None"
    using that by (simp add: store_kube_def createdFrom_def sameObject_def)
qed

text \<open>The store lets a pod go at the first pause.\<close>

lemma store_clk_graceful:
  assumes "\<And>w. pods (snd (clock_sleep (clk E) 5000 w)) = snd (clock_sleep store_clk 5000 (pods w))"
  shows "graceful E pods"
  unfolding graceful_def
  by (intro allI impI exI [of _ 1]) (simp add: assms store_clk_def)

section \<open>A deleted pod in the next round\<close>

lemma refTargets_live: "liveRefs dp as \<noteq> [] \<Longrightarrow> refTargets as \<noteq> []"
  by (induction as rule: refTargets.induct) (auto simp: liveRefs_def split: if_splits)

lemma Run_deleted:
  assumes "pDeletionTimestamp p \<noteq> None" and "droppedKeys mit p = []"
  shows "Run E mit p = podDeletedHandler E (Some p)"
  using assms by (cases "pDeletionTimestamp p") (simp_all add: Run_refs dropAnnotations_def tryM_def handlers_def getPodStatus_def)

lemma createdFrom_copy:
  assumes "createdFrom (AddFinalizer (copyOfPod p) Finalizer) q" and "mountPodOf c vol p"
  shows "mountPodOf c vol q" "pAnnotations q = pAnnotations p" "pDeletionTimestamp q = None" "pFinalizers q = Some [Finalizer]"
proof -
  show "mountPodOf c vol q"
    using assms mountPodOf_copy mountPodOf_sameObject unfolding createdFrom_def by blast
qed (use assms(1) in \<open>simp_all add: createdFrom_def AddFinalizer_def copyOfPod_def zero_pod_def\<close>)

lemma Run_restores:
  assumes "healing_store (kube E) pods" and "quietNode E pods" and "graceful E pods" and "livingPod E vol p"
    and "pods w (pNamespace p, pName p) = Some p" and "pDeletionTimestamp p \<noteq> None" and "pFinalizers p = Some [Finalizer]"
    and "\<not> IsPodResourceError p" and "liveRefs (deletedPods mit) (entries (pAnnotations p)) \<noteq> []" and "droppedKeys mit p = []"
  shows "\<exists>w' q. yields (Run E mit p) w (Inr ()) w' \<and> pods w' (pNamespace p, pName p) = Some q \<and> mountPodOf (cfg E) vol q \<and>
    pAnnotations q = pAnnotations p \<and> pDeletionTimestamp q = None \<and> pFinalizers q = Some [Finalizer]"
proof -
  have typed: "mountPodOf (cfg E) vol p" using assms(4) by (rule livingPod_type)
  then have "GetMountPathOfPod p = Inr (PodMountBase @ ''/'' @ vol, vol)" by (simp add: mountPodOf_def)
  from healing_store.yields_podDeletedHandler [OF assms(1) refl assms(2,3,5-8) refTargets_live [OF assms(9)] this]
  show ?thesis
    unfolding Run_deleted [OF assms(6,10)] using createdFrom_copy [OF _ typed] by blast
qed

section \<open>An example\<close>

text \<open>The pod of an example, marked by a deletion, on a server that has it.\<close>

definition exMarked :: pod where
  "exMarked = (exNewPod exStoreExt exNewTarget)\<lparr>pDeletionTimestamp := Some 0\<rparr>"

lemma exMarked_living: "livingPod exStoreExt ''pv1'' exMarked"
proof (rule livingPod.served)
  have "os_lookup_env (sys exStoreExt) k w = (None, w)" for k w by (simp add: exStoreExt_def sys0_def)
  moreover have "api_get (kube exStoreExt) n ns (\<lambda>_. None) = (Inl (ApiErr NotFound), \<lambda>_. None)"
    "api_create (kube exStoreExt) p (\<lambda>_. None) = (Inr p, [(pNamespace p, pName p) \<mapsto> p])" for n ns p
    by (simp_all add: store_kube_def)
  ultimately show "livingPod exStoreExt ''pv1'' (exNewPod exStoreExt exNewTarget)" by (rule living_example)
qed (simp add: exMarked_def sameObject_def)

lemma exMarked_fields:
  "entries (pAnnotations exMarked) = [(GetReferenceKey exNewTarget, exNewTarget)]"
  "pFinalizers exMarked = Some [Finalizer]" "pDeletionTimestamp exMarked = Some 0" "\<not> IsPodResourceError exMarked"
  by (simp_all add: exMarked_def exNewPod_def podForTarget_def NewMountPod_def exSetting_def zero_setting_def Let_def
      AddFinalizer_def zero_pod_def mput_def IsPodResourceError_def zero_status_def split: prod.splits)

section \<open>Properties\<close>

text \<open>
  C8: A mount pod that is deleted while targets use it comes back: on every API server with the laws of
  finalizers and creation that lets a pod without finalizers go within the time \<open>waitPodDeleted\<close> waits, the next
  \<open>Run\<close> succeeds and leaves a mount pod of the volume in the server that is not being deleted and has all
  references and the finalizer of the old one. The deleted pod has no finalizer but the driver's, is not
  in a resource error, and no annotation of it is dropped in this round.
\<close>

theorem deleted_pod_restored:
  assumes "healing_store (kube E) pods" and "quietNode E pods" and "graceful E pods" and "livingPod E vol p"
    and "pods w (pNamespace p, pName p) = Some p" and "pDeletionTimestamp p \<noteq> None" and "pFinalizers p = Some [Finalizer]"
    and "\<not> IsPodResourceError p" and "liveRefs (deletedPods mit) (entries (pAnnotations p)) \<noteq> []" and "droppedKeys mit p = []"
  shows "\<exists>w' q. yields (Run E mit p) w (Inr ()) w' \<and> pods w' (pNamespace p, pName p) = Some q \<and> mountPodOf (cfg E) vol q \<and>
    pAnnotations q = pAnnotations p \<and> pDeletionTimestamp q = None \<and> pFinalizers q = Some [Finalizer]"
  by (rule Run_restores [OF assms])

theorem deleted_pod_restored_witness:
  "\<exists>w' q. yields (Run exStoreExt (exMit [getPodUid exNewTarget]) exMarked) [(pNamespace exMarked, pName exMarked) \<mapsto> exMarked] (Inr ()) w' \<and>
     w' (pNamespace exMarked, pName exMarked) = Some q \<and> pAnnotations q = pAnnotations exMarked \<and> pDeletionTimestamp q = None"
proof -
  have "quietNode exStoreExt (\<lambda>m. m)" by (simp add: quietNode_def exStoreExt_def sys0_def)
  moreover have "graceful exStoreExt (\<lambda>m. m)" by (rule store_clk_graceful) (simp add: exStoreExt_def)
  moreover have "liveRefs (deletedPods (exMit [getPodUid exNewTarget])) (entries (pAnnotations exMarked)) \<noteq> []"
    by (simp add: exMarked_fields liveRefs_def exMit_def del: not_None_eq not_Some_eq)
  moreover have "droppedKeys (exMit [getPodUid exNewTarget]) exMarked = []"
    using key_not_delay(2) [of exNewTarget]
    by (simp add: droppedKeys_def deadRefs_def exMarked_fields exMit_def mindex_def mlookup_def)
  ultimately show ?thesis
    using deleted_pod_restored [of exStoreExt "\<lambda>m. m" "''pv1''" exMarked "[(pNamespace exMarked, pName exMarked) \<mapsto> exMarked]"
        "exMit [getPodUid exNewTarget]"] hstore.healing_store_axioms exMarked_living
    by (auto simp: exMarked_fields)
qed

end
