(* ===== verification/Target_Recovery.thy ===== *)
theory Target_Recovery
  imports Pod_Recovery Node_Service
begin

text \<open>
  The last step of a recovery, on the state of the node: when the mount pod of a volume is ready again, \<open>Run\<close>
  binds the targets that cannot be read any more. The locale \<open>node_files\<close> says what the kernel promises about
  reading the status of a path and about a bind mount; the executable node binds whole subtrees.
\<close>

section \<open>Paths and bind mounts\<close>

text \<open>A path that is there but cannot be read: the file system behind it is gone.\<close>

definition broken :: "gerr + file_info \<Rightarrow> bool" where
  "broken r = (case r of Inr _ \<Rightarrow> False | Inl e \<Rightarrow> \<not> IsNotExist e)"

lemma broken_simps [simp]: "\<not> broken (Inr fi)" "broken (Inl e) \<longleftrightarrow> \<not> IsNotExist e"
  by (simp_all add: broken_def)

text \<open>
  A bind mount changes what is seen at the target and below it, and under every other name these paths have.
  The relation \<open>sep\<close> is of the node: \<open>sep t q\<close> when the path \<open>q\<close> is neither at nor below \<open>t\<close> under any name.
\<close>

text \<open>
  The broken targets have lost the server of their file system, which is what a dead mount pod leaves behind, and
  a mount on one of them covers neither the source nor another target.
\<close>

definition repairable :: "('w \<Rightarrow> string \<Rightarrow> gerr + file_info) \<Rightarrow> (string \<Rightarrow> string \<Rightarrow> bool) \<Rightarrow> string \<Rightarrow> string list \<Rightarrow> 'w \<Rightarrow> bool" where
  "repairable stat sep src ts w \<longleftrightarrow> list_all (\<lambda>t. broken (stat w t) \<longrightarrow>
     stat w t = Inl (PathErr ENOTCONN) \<and> sep t src \<and> list_all (\<lambda>u. u = t \<or> sep t u) ts) ts"

text \<open>
  The node after the broken paths of a list were bound to \<open>src\<close>: each of them is bound to the source and shows its
  status, and what is apart from all of them is as before; so is the server.
\<close>

definition rebound :: "('w \<Rightarrow> string \<Rightarrow> gerr + file_info) \<Rightarrow> ('w \<Rightarrow> string \<rightharpoonup> string) \<Rightarrow>
    ('w \<Rightarrow> string \<times> string \<rightharpoonup> pod) \<Rightarrow> (string \<Rightarrow> string \<Rightarrow> bool) \<Rightarrow> string \<Rightarrow> file_info \<Rightarrow> string list \<Rightarrow> 'w \<Rightarrow> 'w \<Rightarrow> bool" where
  "rebound stat bound pods sep src fi ts w w' \<longleftrightarrow> pods w' = pods w \<and>
     (\<forall>t \<in> set ts. broken (stat w t) \<longrightarrow> stat w' t = Inr fi \<and> bound w' t = Some src) \<and>
     (\<forall>q. (\<forall>t \<in> set ts. broken (stat w t) \<longrightarrow> sep t q) \<longrightarrow> stat w' q = stat w q \<and> bound w' q = bound w q)"

lemma rebound_repaired:
  assumes "repairable stat sep src ts w" and "rebound stat bound pods sep src fi ts w w'"
  shows "list_all (\<lambda>t. \<not> broken (stat w' t)) ts"
  unfolding list_all_iff
proof
  fix t assume t: "t \<in> set ts"
  show "\<not> broken (stat w' t)"
  proof (cases "broken (stat w t)")
    case True
    with assms(2) t show ?thesis by (simp add: rebound_def)
  next
    case False
    have "sep u t" if "u \<in> set ts" "broken (stat w u)" for u
      using assms(1) t False that unfolding repairable_def list_all_iff by metis
    then have "stat w' t = stat w t" using assms(2) unfolding rebound_def by blast
    with False show ?thesis by simp
  qed
qed

text \<open>One target more.\<close>

lemma repairable_Cons:
  assumes "repairable stat sep src (v # ts) w" and "broken (stat w v)" and "stat w1 v = Inr fi"
    and "\<And>q. sep v q \<Longrightarrow> stat w1 q = stat w q"
  shows "repairable stat sep src ts w1" "\<And>t. t \<in> set ts \<Longrightarrow> broken (stat w1 t) \<longleftrightarrow> broken (stat w t) \<and> t \<noteq> v"
    "\<forall>t \<in> set ts. broken (stat w1 t) \<longrightarrow> sep t v"
proof -
  have sep: "t = v \<or> sep v t" if "t \<in> set ts" for t
    using assms(1,2) that by (auto simp: repairable_def list_all_iff)
  then show same: "broken (stat w1 t) \<longleftrightarrow> broken (stat w t) \<and> t \<noteq> v" if "t \<in> set ts" for t
    using assms(3) assms(4) [of t] sep [OF that] that by (cases "t = v") auto
  then show "\<forall>t \<in> set ts. broken (stat w1 t) \<longrightarrow> sep t v"
    using assms(1) by (auto simp: repairable_def list_all_iff)
  show "repairable stat sep src ts w1"
    using assms(1,4) sep same unfolding repairable_def list_all_iff by (metis list.set_intros(2))
qed

lemma rebound_Cons:
  assumes "repairable stat sep src (v # ts) w" and "broken (stat w v)" and "stat w1 v = Inr fi" and "bound w1 v = Some src"
    and "\<And>q. sep v q \<Longrightarrow> stat w1 q = stat w q \<and> bound w1 q = bound w q" and "pods w1 = pods w"
    and "rebound stat bound pods sep src fi ts w1 w2"
  shows "rebound stat bound pods sep src fi (v # ts) w w2"
proof -
  have step: "stat w1 q = stat w q" if "sep v q" for q using assms(5) that by blast
  note rest = repairable_Cons [OF assms(1-3) step]
  have "stat w2 v = Inr fi \<and> bound w2 v = Some src"
    using assms(3,4,7) rest(3) by (simp add: rebound_def)
  moreover have "stat w2 t = Inr fi \<and> bound w2 t = Some src" if "t \<in> set ts" "broken (stat w t)" "t \<noteq> v" for t
    using assms(7) rest(2) that by (simp add: rebound_def)
  moreover have "stat w2 q = stat w q \<and> bound w2 q = bound w q" if "\<forall>t \<in> set (v # ts). broken (stat w t) \<longrightarrow> sep t q" for q
    using assms(2,5,7) rest(2) that by (simp add: rebound_def)
  moreover have "pods w2 = pods w" using assms(6,7) by (simp add: rebound_def)
  ultimately show ?thesis unfolding rebound_def by (metis set_ConsD)
qed

lemma rebound_skip:
  "\<not> broken (stat w v) \<Longrightarrow> rebound stat bound pods sep src fi (v # ts) w w' = rebound stat bound pods sep src fi ts w w'"
  by (auto simp: rebound_def)

text \<open>
  Where the targets of a volume are bound to: the directory of the volume's name in the mount or, when there
  is none, the mount itself.
\<close>

definition sourceOf :: "(string \<Rightarrow> gerr + file_info) \<Rightarrow> string \<Rightarrow> string \<Rightarrow> string option" where
  "sourceOf f mnt vol =
     (case f (mnt @ ''/'' @ vol) of
        Inr _ \<Rightarrow> Some (mnt @ ''/'' @ vol)
      | Inl e \<Rightarrow> if IsNotExist e then (case f mnt of Inr _ \<Rightarrow> Some mnt | Inl _ \<Rightarrow> None) else None)"

lemma sourceOf_readable: "sourceOf f mnt vol = Some src \<Longrightarrow> \<exists>fi. f src = Inr fi"
  by (auto simp: sourceOf_def split: sum.splits if_splits)

text \<open>
  \<open>stat w p\<close> is the status of the path \<open>p\<close>, \<open>bound w p\<close> the source of the last bind mount on it. A bind mount on
  a path whose file system has lost its server succeeds and shows the source there; nothing is said of the paths
  below the target.
\<close>

locale node_files =
  fixes S :: "'w os_ext" and stat :: "'w \<Rightarrow> string \<Rightarrow> gerr + file_info" and bound :: "'w \<Rightarrow> string \<rightharpoonup> string"
    and pods :: "'w \<Rightarrow> string \<times> string \<rightharpoonup> pod" and sep :: "string \<Rightarrow> string \<Rightarrow> bool"
  assumes stat_law: "os_stat S p w = (stat w p, w)"
    and bind_law: "stat w src = Inr fi \<Longrightarrow> stat w tgt = Inl (PathErr ENOTCONN) \<Longrightarrow> sep tgt src \<Longrightarrow>
      \<exists>w'. mnt_mount S src tgt ''none'' [''bind''] w = (Inr (), w') \<and> stat w' tgt = Inr fi \<and> bound w' tgt = Some src \<and>
        pods w' = pods w \<and> (\<forall>q. sep tgt q \<longrightarrow> stat w' q = stat w q \<and> bound w' q = bound w q)"
begin

lemma yields_Stat: "sys E = S \<Longrightarrow> yields (Stat E p) w (stat w p) w"
  unfolding Stat_def by (rule yields_call) (simp add: stat_law)

lemma yields_recoverTargets:
  assumes "sys E = S"
  shows "stat w src = Inr fi \<Longrightarrow> repairable stat sep src (refTargets as) w \<Longrightarrow>
    \<exists>w'. yields (recoverTargets E src as) w () w' \<and> rebound stat bound pods sep src fi (refTargets as) w w'"
proof (induction as arbitrary: w rule: refTargets.induct)
  case 1
  then show ?case by (auto simp: rebound_def intro!: exI [of _ w] yields_return)
next
  case (2 k v rest)
  show ?case
  proof (cases "k = GetReferenceKey v \<and> broken (stat w v)")
    case True
    then have r: "repairable stat sep src (v # refTargets rest) w" using "2.prems"(2) by simp
    with True have e: "stat w v = Inl (PathErr ENOTCONN)" "sep v src" by (simp_all add: repairable_def)
    obtain w1 where m: "mnt_mount S src v ''none'' [''bind''] w = (Inr (), w1)"
      and w1: "stat w1 v = Inr fi" "bound w1 v = Some src" "pods w1 = pods w"
        "\<And>q. sep v q \<Longrightarrow> stat w1 q = stat w q \<and> bound w1 q = bound w q"
      using bind_law [OF "2.prems"(1) e] by blast
    have "repairable stat sep src (refTargets rest) w1"
      using repairable_Cons(1) [of stat sep src v "refTargets rest" w w1 fi] r True w1(1,4) by blast
    then obtain w2 where w2: "yields (recoverTargets E src rest) w1 () w2" "rebound stat bound pods sep src fi (refTargets rest) w1 w2"
      using "2.IH"(1) [of w1] True "2.prems"(1) w1(4) e(2) by auto
    have "yields (Mount E src v ''none'' [''bind'']) w (Inr ()) w1"
      unfolding Mount_def using m assms by (intro yields_call) simp
    then have "yields (do { _ \<leftarrow> Mount E src v ''none'' [''bind'']; ret () }) w () w1" by (rule yields_bind) (rule yields_return)
    then have "yields (recoverTargets E src ((k, v) # rest)) w () w2"
      using True e by (auto intro!: yields_bind [OF yields_Stat [OF assms]] yields_bind [where f = "\<lambda>_. recoverTargets E src rest", OF _ w2(1)])
    moreover have "rebound stat bound pods sep src fi (v # refTargets rest) w w2"
      by (rule rebound_Cons [where ?w1.0 = w1]) (use r True w1 w2(2) in auto)
    ultimately show ?thesis using True by auto
  next
    case False
    have "repairable stat sep src (refTargets rest) w"
      using "2.prems"(2) by (auto simp: repairable_def list_all_iff split: if_splits)
    then obtain w2 where w2: "yields (recoverTargets E src rest) w () w2" "rebound stat bound pods sep src fi (refTargets rest) w w2"
      using "2.IH" "2.prems"(1) by blast
    have "yields (recoverTargets E src ((k, v) # rest)) w () w2"
      using False w2(1) yields_return
      by (cases "stat w v") (auto intro!: yields_bind [OF yields_Stat [OF assms]] yields_bind [where f = "\<lambda>_. recoverTargets E src rest", OF yields_return w2(1)])
    with w2(2) False show ?thesis by (auto simp: rebound_skip)
  qed
qed

lemma yields_bindSourceOf:
  assumes "sys E = S"
  shows "yields (bindSourceOf E mnt vol) w (sourceOf (stat w) mnt vol) w"
proof (cases "stat w (mnt @ ''/'' @ vol)")
  case (Inr fi)
  then show ?thesis
    unfolding bindSourceOf_def sourceOf_def Let_def by (auto intro!: yields_bind [OF yields_Stat [OF assms]] yields_return)
next
  case (Inl e)
  have "yields (do { r2 \<leftarrow> Stat E mnt; case r2 of Inl _ \<Rightarrow> ret None | Inr _ \<Rightarrow> ret (Some mnt) }) w
      (case stat w mnt of Inr _ \<Rightarrow> Some mnt | Inl _ \<Rightarrow> None) w"
    by (rule yields_bind [OF yields_Stat [OF assms]]) (auto intro: yields_return split: sum.splits)
  with Inl show ?thesis
    unfolding bindSourceOf_def sourceOf_def Let_def by (auto intro!: yields_bind [OF yields_Stat [OF assms]] yields_return)
qed

lemma yields_podReadyHandler:
  assumes "sys E = S" and "GetMountPathOfPod p = Inr (mnt, vol)" and "sourceOf (stat w) mnt vol = Some src"
    and "stat w src = Inr fi" and "repairable stat sep src (refTargets (entries (pAnnotations p))) w"
  shows "\<exists>w'. yields (podReadyHandler E (Some p)) w (Inr ()) w' \<and>
    rebound stat bound pods sep src fi (refTargets (entries (pAnnotations p))) w w'"
proof (cases "pAnnotations p")
  case None
  then show ?thesis by (auto simp: podReadyHandler_def rebound_def intro!: exI [of _ w] yields_return)
next
  case (Some as)
  obtain w' where w': "yields (recoverTargets E src as) w () w'" "rebound stat bound pods sep src fi (refTargets as) w w'"
    using yields_recoverTargets [OF assms(1,4)] assms(5) Some by auto
  have "yields (bindSourceOf E mnt vol) w (Some src) w" using yields_bindSourceOf [OF assms(1)] assms(3) by metis
  moreover have "yields (do { recoverTargets E src as; ret (Inr ()) }) w (Inr ()) w'"
    by (rule yields_bind [OF w'(1)]) (rule yields_return)
  ultimately have "yields (podReadyHandler E (Some p)) w (Inr ()) w'"
    unfolding podReadyHandler_def using assms(2) Some by (auto intro!: yields_bind [where x = "Some src"])
  then show ?thesis using w'(2) Some by auto
qed

end

section \<open>A ready pod in the next round\<close>

definition serving :: "pod \<Rightarrow> bool" where
  "serving p \<longleftrightarrow> pDeletionTimestamp p = None \<and> \<not> IsPodError p \<and> IsPodReady p"

lemma Run_ready:
  assumes "serving p" and "droppedKeys mit p = []" and "liveRefs (deletedPods mit) (entries (pAnnotations p)) \<noteq> []"
  shows "Run E mit p = podReadyHandler E (Some p)"
  using assms by (simp add: Run_refs dropAnnotations_def tryM_def handlers_def getPodStatus_def serving_def)

lemma Run_recovers:
  assumes "node_files (sys E) stat bound pods sep" and "mountPodOf c vol p" and "serving p" and "droppedKeys mit p = []"
    and "liveRefs (deletedPods mit) (entries (pAnnotations p)) \<noteq> []"
    and "sourceOf (stat w) (PodMountBase @ ''/'' @ vol) vol = Some src"
    and "repairable stat sep src (refTargets (entries (pAnnotations p))) w" and "stat w src = Inr fi"
  shows "\<exists>w'. yields (Run E mit p) w (Inr ()) w' \<and>
    rebound stat bound pods sep src fi (refTargets (entries (pAnnotations p))) w w'"
proof -
  have "GetMountPathOfPod p = Inr (PodMountBase @ ''/'' @ vol, vol)"
    using assms(2) by (simp add: mountPodOf_def)
  from node_files.yields_podReadyHandler [OF assms(1) refl this assms(6,8,7)] show ?thesis
    unfolding Run_ready [OF assms(3-5)] .
qed

lemma Run_repairs:
  assumes "node_files (sys E) stat bound pods sep" and "mountPodOf c vol p" and "serving p" and "droppedKeys mit p = []"
    and "liveRefs (deletedPods mit) (entries (pAnnotations p)) \<noteq> []"
    and "sourceOf (stat w) (PodMountBase @ ''/'' @ vol) vol = Some src"
    and "repairable stat sep src (refTargets (entries (pAnnotations p))) w"
  shows "\<exists>w' fi. yields (Run E mit p) w (Inr ()) w' \<and> stat w src = Inr fi \<and>
    rebound stat bound pods sep src fi (refTargets (entries (pAnnotations p))) w w' \<and>
    list_all (\<lambda>t. \<not> broken (stat w' t)) (refTargets (entries (pAnnotations p)))"
proof -
  obtain fi where fi: "stat w src = Inr fi" using sourceOf_readable [OF assms(6)] by blast
  from Run_recovers [OF assms fi] obtain w' where "yields (Run E mit p) w (Inr ()) w'"
    "rebound stat bound pods sep src fi (refTargets (entries (pAnnotations p))) w w'" by blast
  with fi rebound_repaired [OF assms(7)] show ?thesis by blast
qed

section \<open>A cluster of one node\<close>

text \<open>
  The executable store beside the files and bind mounts of a node. A bind mount shows the source and what is
  below it in place of the target and what was below that. The driver shares the mounts of a storage class, and
  the volumes of the cluster belong to the class \<open>pv1\<close>.
\<close>

type_synonym node = "(string \<Rightarrow> gerr + file_info) \<times> (string \<rightharpoonup> string)"
type_synonym cluster = "pod_store \<times> node"

definition onServer :: "(pod_store \<Rightarrow> 'r \<times> pod_store) \<Rightarrow> cluster \<Rightarrow> 'r \<times> cluster" where
  "onServer f w = (case f (fst w) of (r, m) \<Rightarrow> (r, (m, snd w)))"

definition cluster_kube :: "cluster kube_ext" where
  "cluster_kube = kube0\<lparr>api_create := \<lambda>p. onServer (api_create store_kube p),
     api_get := \<lambda>n ns. onServer (api_get store_kube n ns), api_patch := \<lambda>ns n d. onServer (api_patch store_kube ns n d),
     api_delete := \<lambda>ns n. onServer (api_delete store_kube ns n),
     api_get_pv := \<lambda>n w. (Inr \<lparr>pvStorageClassName = ''pv1'', pvCSIDriver = None, pvClaimNamespace = None\<rparr>, w)\<rparr>"

definition cluster_clk :: "cluster clock_ext" where
  "cluster_clk = clk0\<lparr>clock_sleep := \<lambda>ms. onServer (clock_sleep store_clk ms)\<rparr>"

definition under :: "string \<Rightarrow> string \<Rightarrow> bool" where
  "under t q \<longleftrightarrow> q = t \<or> prefix (t @ ''/'') q"

definition bindMount :: "string \<Rightarrow> string \<Rightarrow> node \<Rightarrow> node" where
  "bindMount src tgt nd =
     (\<lambda>q. if under tgt q then fst nd (src @ drop (length tgt) q) else fst nd q,
      \<lambda>q. if q = tgt then Some src else if under tgt q then None else snd nd q)"

definition node_sys :: "cluster os_ext" where
  "node_sys = sys0\<lparr>os_stat := \<lambda>p w. (fst (snd w) p, w),
     os_lookup_env := \<lambda>k w. (if k = ''STORAGE_CLASS_SHARE_MOUNT'' then Some ''true'' else None, w),
     mnt_mount := \<lambda>src tgt fstype opts w. (Inr (), (fst w, bindMount src tgt (snd w)))\<rparr>"

lemma cluster_kube_simps:
  "api_create cluster_kube p = onServer (api_create store_kube p)"
  "api_get cluster_kube n ns = onServer (api_get store_kube n ns)"
  "api_patch cluster_kube ns n d = onServer (api_patch store_kube ns n d)"
  "api_delete cluster_kube ns n = onServer (api_delete store_kube ns n)"
  by (simp_all add: cluster_kube_def)

interpretation cstore: healing_store cluster_kube fst
proof (unfold_locales, unfold cluster_kube_simps)
  fix w :: cluster and ns n and p :: pod
  show "onServer (api_get store_kube n ns) w = (case fst w (ns, n) of None \<Rightarrow> Inl (ApiErr NotFound) | Some p \<Rightarrow> Inr p, w)"
    by (simp add: onServer_def store.get_law)
  show "\<exists>w' q. onServer (api_create store_kube p) w = (Inr q, w') \<and> fst w' = (fst w)((pNamespace p, pName p) \<mapsto> q) \<and> createdFrom p q"
    if "fst w (pNamespace p, pName p) = None"
    using hstore.create_law [of "fst w" p] that by (auto simp: onServer_def)
  assume p: "fst w (ns, n) = Some p"
  show "\<exists>w' q. onServer (api_patch store_kube ns n (JSONPatch [PatchMapValue ''replace'' ''/metadata/annotations'' a])) w = (Inr (), w') \<and>
      fst w' = (fst w)((ns, n) \<mapsto> q) \<and> sameIdentity p q \<and> pAnnotations q = a" if "entries (pAnnotations p) \<noteq> []" for a
    using store.replace_law [of "fst w" ns n p a] p that by (auto simp: onServer_def)
  show "\<exists>w' q. onServer (api_patch store_kube ns n (JSONPatch (delPayload [k]))) w = (Inr (), w') \<and>
      fst w' = (fst w)((ns, n) \<mapsto> q) \<and> sameIdentity p q \<and>
      (\<forall>k'. mlookup (pAnnotations q) k' = (if k' = k then None else mlookup (pAnnotations p) k'))"
    if k: "mlookup (pAnnotations p) k \<noteq> None" "set k \<inter> {CHR ''/'', CHR ''~''} = {}" for k
  proof -
    obtain m q where "api_patch store_kube ns n (JSONPatch (delPayload [k])) (fst w) = (Inr (), m)" "m = (fst w)((ns, n) \<mapsto> q)"
      "sameIdentity p q" "\<forall>k'. mlookup (pAnnotations q) k' = (if k' = k then None else mlookup (pAnnotations p) k')"
      using store.remove_law [of "fst w" ns n p k] p k by blast
    then show ?thesis by (intro exI [of _ "(m, snd w)"] exI [of _ q]) (simp add: onServer_def)
  qed
  show "\<exists>w'. onServer (api_delete store_kube ns n) w = (Inr (), w') \<and> (\<forall>i. i \<noteq> (ns, n) \<longrightarrow> fst w' i = fst w i) \<and>
      (\<forall>q. fst w' (ns, n) = Some q \<longrightarrow> pDeletionTimestamp q \<noteq> None)"
    using store.delete_law [of "fst w" ns n p] p by (auto simp: onServer_def)
  show "\<exists>w'. onServer (api_patch store_kube ns n (JSONPatch [PatchListValue ''replace'' ''/metadata/finalizers'' (Some [])])) w = (Inr (), w') \<and>
      (\<forall>i. i \<noteq> (ns, n) \<longrightarrow> fst w' i = fst w i) \<and> (\<forall>q. fst w' (ns, n) = Some q \<longrightarrow> ended q)"
    if "pDeletionTimestamp p \<noteq> None" "elems (pFinalizers p) \<noteq> []"
    using hstore.finalize_law [of "fst w" ns n p] p that by (auto simp: onServer_def)
qed

abbreviation apart :: "string \<Rightarrow> string \<Rightarrow> bool" where
  "apart t q \<equiv> \<not> under t q"

interpretation cnode: node_files node_sys "\<lambda>w. fst (snd w)" "\<lambda>w. snd (snd w)" fst apart
  by unfold_locales (auto simp: node_sys_def bindMount_def under_def)

definition exCluster :: "cluster ext" where
  "exCluster = \<lparr>fuel = 1, cfg = cfg0, lib = lib0, kube = cluster_kube, sys = node_sys, clk = cluster_clk, net = net0, cch = cch0\<rparr>"

text \<open>The mount pod of an example after its container has become ready.\<close>

definition exServing :: pod where
  "exServing = (exNewPod exCluster exNewTarget)\<lparr>pStatus := zero_status\<lparr>Phase := PodRunning,
     Conditions := [\<lparr>condType = ''ContainersReady'', condStatus = ''True'', condReason = '''', condMessage = ''''\<rparr>,
       \<lparr>condType = ''Ready'', condStatus = ''True'', condReason = '''', condMessage = ''''\<rparr>]\<rparr>\<rparr>"

lemma exServing_living: "livingPod exCluster ''pv1'' exServing"
proof (rule livingPod.served)
  let ?w = "((\<lambda>_. None), (\<lambda>_. Inl (PathErr ENOENT)), Map.empty) :: cluster"
  have "os_lookup_env (sys exCluster) ''LOOP_TIMEOUT'' w = (None, w)" for w by (simp add: exCluster_def node_sys_def)
  moreover have "api_get (kube exCluster) n ns ?w = (Inl (ApiErr NotFound), ?w)"
    "api_create (kube exCluster) p ?w = (Inr p, ([(pNamespace p, pName p) \<mapsto> p], snd ?w))" for n ns p
    by (simp_all add: exCluster_def cluster_kube_simps onServer_def store_kube_def)
  ultimately show "livingPod exCluster ''pv1'' (exNewPod exCluster exNewTarget)" by (rule living_example)
qed (simp add: exServing_def sameObject_def)

lemma exServing_refs:
  "entries (pAnnotations exServing) = [(GetReferenceKey exNewTarget, exNewTarget)]"
  "refTargets (entries (pAnnotations exServing)) = [exNewTarget]" "serving exServing"
  "liveRefs (deletedPods (exMit [getPodUid exNewTarget])) (entries (pAnnotations exServing)) \<noteq> []"
  "droppedKeys (exMit [getPodUid exNewTarget]) exServing = []"
proof -
  show as: "entries (pAnnotations exServing) = [(GetReferenceKey exNewTarget, exNewTarget)]"
    by (simp add: exServing_def exNewPod_def podForTarget_def NewMountPod_meta exSetting_def zero_setting_def Let_def mput_def)
  then show "refTargets (entries (pAnnotations exServing)) = [exNewTarget]"
    "liveRefs (deletedPods (exMit [getPodUid exNewTarget])) (entries (pAnnotations exServing)) \<noteq> []"
    by (simp_all add: liveRefs_def exMit_def del: not_None_eq not_Some_eq)
  show "droppedKeys (exMit [getPodUid exNewTarget]) exServing = []"
    using key_not_delay(2) [of exNewTarget] by (simp add: droppedKeys_def deadRefs_def as exMit_def mindex_def mlookup_def)
  show "serving exServing"
    by (simp add: serving_def exServing_def exNewPod_def podForTarget_def NewMountPod_meta Let_def IsPodError_def IsPodReady_def zero_status_def)
qed

text \<open>A node on which only the given paths are there, with the example's target bound to \<open>src\<close>.\<close>

definition exNode :: "pod \<Rightarrow> (string \<times> (gerr + file_info)) list \<Rightarrow> string \<Rightarrow> cluster" where
  "exNode p fs src = ([(pNamespace p, pName p) \<mapsto> p],
     ((\<lambda>p. case map_of fs p of Some r \<Rightarrow> r | None \<Rightarrow> Inl (PathErr ENOENT)), [exNewTarget \<mapsto> src]))"

abbreviation exFile :: file_info where
  "exFile \<equiv> \<lparr>fiIno = 1, fiPerm = 493\<rparr>"

abbreviation exBroken :: "(string \<times> (gerr + file_info)) list" where
  "exBroken \<equiv> [(''/mosfs/pv1/pv1'', Inr exFile), (exNewTarget, Inl (PathErr ENOTCONN))]"

text \<open>The same pod, marked by a deletion.\<close>

definition exLost :: pod where
  "exLost = exServing\<lparr>pDeletionTimestamp := Some 0\<rparr>"

lemma exLost_living: "livingPod exCluster ''pv1'' exLost"
  by (rule livingPod.served [OF exServing_living]) (simp add: exLost_def sameObject_def)

lemma exLost_fields:
  "pAnnotations exLost = pAnnotations exServing" "pDeletionTimestamp exLost = Some 0" "pFinalizers exLost = Some [Finalizer]"
  "\<not> IsPodResourceError exLost" "refTargets (entries (pAnnotations exLost)) = [exNewTarget]"
  "liveRefs (deletedPods (exMit [getPodUid exNewTarget])) (entries (pAnnotations exLost)) \<noteq> []"
  "droppedKeys (exMit [getPodUid exNewTarget]) exLost = []"
proof -
  show a: "pAnnotations exLost = pAnnotations exServing" by (simp add: exLost_def)
  then show "refTargets (entries (pAnnotations exLost)) = [exNewTarget]"
    "liveRefs (deletedPods (exMit [getPodUid exNewTarget])) (entries (pAnnotations exLost)) \<noteq> []"
    "droppedKeys (exMit [getPodUid exNewTarget]) exLost = []"
    using exServing_refs(2,4,5) by (simp_all add: droppedKeys_def)
qed (simp_all add: exLost_def exServing_def exNewPod_def podForTarget_def NewMountPod_def Let_def AddFinalizer_def zero_pod_def
    IsPodResourceError_def zero_status_def split: prod.splits)

lemma exCluster_laws:
  "healing_store (kube exCluster) fst" "node_files (sys exCluster) (\<lambda>w. fst (snd w)) (\<lambda>w. snd (snd w)) fst apart"
  using cstore.healing_store_axioms cnode.node_files_axioms by (simp_all add: exCluster_def)

lemma exCluster_graceful: "graceful exCluster fst"
  by (rule store_clk_graceful) (simp add: exCluster_def cluster_clk_def onServer_def split: prod.splits)

lemma exNode_repairable: "src \<in> {''/mosfs/pv1'', ''/mosfs/pv1/pv1''} \<Longrightarrow>
  fst (snd w) exNewTarget = Inl (PathErr ENOTCONN) \<Longrightarrow> repairable (\<lambda>w. fst (snd w)) apart src [exNewTarget] w"
  by (auto simp: repairable_def under_def exNewTarget_def)

section \<open>Shared mounts\<close>

text \<open>Mounts are shared, and the persistent volume of \<open>volumeId\<close> belongs to the storage class \<open>sc\<close>.\<close>

definition sharesClass :: "'w ext \<Rightarrow> string \<Rightarrow> string \<Rightarrow> bool" where
  "sharesClass E volumeId sc \<longleftrightarrow> (\<forall>w. fst (os_lookup_env (sys E) ''STORAGE_CLASS_SHARE_MOUNT'' w) = Some ''true'') \<and>
     (\<forall>w. \<exists>pv. fst (api_get_pv (kube E) volumeId w) = Inr pv \<and> pvStorageClassName pv = sc)"

lemma GetUniqueId_shared:
  assumes "sharesClass E volumeId sc" and "sc \<noteq> ''''" and "canReturn (GetUniqueId E volumeId) (Inr uid)"
  shows "uid = sc"
proof -
  obtain w t where run: "fst (run_state (GetUniqueId E volumeId) (w, t)) = Inr uid"
    using assms(3) unfolding canReturn_def by force
  obtain w1 where env: "os_lookup_env (sys E) ''STORAGE_CLASS_SHARE_MOUNT'' w = (Some ''true'', w1)"
    using assms(1) unfolding sharesClass_def by (metis prod.collapse)
  obtain pv w2 where pv: "api_get_pv (kube E) volumeId w1 = (Inr pv, w2)" "pvStorageClassName pv = sc"
    using assms(1) unfolding sharesClass_def by (metis prod.collapse)
  show ?thesis
    using run assms(2) by (simp add: GetUniqueId_def Getenv_def LookupEnv_def GetPersistentVolume_def call_def env pv)
qed

lemma PathJoin_plain:
  assumes "plain_name a" and "plain_name b"
  shows "PathJoin [PodMountBase, a] = PodMountBase @ ''/'' @ a" "PathJoin [PodMountBase @ ''/'' @ a, b] = PodMountBase @ ''/'' @ a @ ''/'' @ b"
  using Clean_rooted [of "[''mosfs'', a]"] Clean_rooted [of "[''mosfs'', a, b]"] assms
  by (simp_all add: PathJoin_def PodMountBase_def plain_name_def)

text \<open>Publishing a volume of the class binds the target to the directory of the volume in the mount of the class.\<close>

lemma published_shared:
  assumes "sharesClass E (npVolumeId req) sc" and "plain_name sc" and "plain_name (mindex (npVolumeContext req) ''subPath'')"
    and "published E req es"
  shows "\<exists>pre bnd. es = pre @ bnd \<and> boundAt (PodMountBase @ ''/'' @ sc)
    (PodMountBase @ ''/'' @ sc @ ''/'' @ mindex (npVolumeContext req) ''subPath'') (npTargetPath req) bnd"
proof -
  let ?sub = "mindex (npVolumeContext req) ''subPath''"
  obtain path pre fs vol bnd where es: "es = pre @ fs @ vol @ bnd" "podMounted E (npVolumeId req) (npTargetPath req) path fs"
    "boundAt path (PathJoin [path, ?sub]) (npTargetPath req) bnd"
    using assms(4) unfolding published_def by blast
  from es(2) obtain uid where "canReturn (GetUniqueId E (npVolumeId req)) (Inr uid)" "path = PathJoin [PodMountBase, uid]"
    unfolding podMounted_def by blast
  with GetUniqueId_shared [OF assms(1)] assms(2) have "path = PodMountBase @ ''/'' @ sc"
    by (metis PathJoin_plain(1) plain_name_def)
  with es PathJoin_plain(2) [OF assms(2,3)] show ?thesis by (metis append_assoc)
qed

text \<open>A request of the example cluster.\<close>

definition exShared :: publish_request where
  "exShared = \<lparr>npVolumeId = ''pvc-1'', npTargetPath = exNewTarget, npVolumeCapability = None, npReadonly = False,
     npVolumeContext = Some [(''subPath'', ''pvc-1'')], npSecrets = None\<rparr>"

section \<open>Properties\<close>

text \<open>
  C10: When the mount pod of a volume serves again and the file system can be read, one \<open>Run\<close> repairs the targets
  that have lost the server of their file system: afterwards no target is broken, those that were are bound to the
  volume's directory and show its status, and nothing in the server and no path apart from them has changed.
\<close>

theorem targets_recovered:
  assumes "node_files (sys E) stat bound pods sep" and "livingPod E vol p" and "serving p" and "droppedKeys mit p = []"
    and "liveRefs (deletedPods mit) (entries (pAnnotations p)) \<noteq> []"
    and "sourceOf (stat w) (PodMountBase @ ''/'' @ vol) vol = Some src"
    and "repairable stat sep src (refTargets (entries (pAnnotations p))) w"
  shows "\<exists>w' fi. yields (Run E mit p) w (Inr ()) w' \<and> stat w src = Inr fi \<and>
    rebound stat bound pods sep src fi (refTargets (entries (pAnnotations p))) w w' \<and>
    list_all (\<lambda>t. \<not> broken (stat w' t)) (refTargets (entries (pAnnotations p)))"
  by (rule Run_repairs [OF assms(1) livingPod_type [OF assms(2)] assms(3-7)])

theorem targets_recovered_witness:
  "\<exists>w' fi. yields (Run exCluster (exMit [getPodUid exNewTarget]) exServing)
      (exNode exServing exBroken ''/mosfs/pv1/pv1'') (Inr ()) w' \<and>
    rebound (\<lambda>w. fst (snd w)) (\<lambda>w. snd (snd w)) fst apart ''/mosfs/pv1/pv1'' fi [exNewTarget]
      (exNode exServing exBroken ''/mosfs/pv1/pv1'') w' \<and>
    \<not> broken (fst (snd w') exNewTarget)"
proof -
  let ?w = "exNode exServing exBroken ''/mosfs/pv1/pv1''"
  have src: "sourceOf (fst (snd ?w)) (PodMountBase @ ''/'' @ ''pv1'') ''pv1'' = Some ''/mosfs/pv1/pv1''"
    by (simp add: sourceOf_def exNode_def PodMountBase_def)
  have "repairable (\<lambda>w. fst (snd w)) apart ''/mosfs/pv1/pv1'' [exNewTarget] ?w"
    by (rule exNode_repairable) (simp_all add: exNode_def exNewTarget_def)
  then show ?thesis
    using targets_recovered [where E = exCluster and stat = "\<lambda>w. fst (snd w)" and bound = "\<lambda>w. snd (snd w)" and pods = fst and sep = apart
        and w = ?w and p = exServing and mit = "exMit [getPodUid exNewTarget]" and vol = "''pv1''" and src = "''/mosfs/pv1/pv1''"]
      exCluster_laws(2) exServing_living exServing_refs src by auto
qed

text \<open>
  C9: A mount pod that is deleted under its targets is brought back together with them: one \<open>Run\<close> leaves a pod in
  the server, and when the cluster has made that pod ready and the file system can be read, the next \<open>Run\<close> leaves
  no target of the deleted pod broken: those that have lost the server of their file system are bound again, and
  nothing apart from them has changed.
\<close>

theorem volume_recovers:
  assumes "healing_store (kube E) pods" and "quietNode E pods" and "graceful E pods" and "node_files (sys E) stat bound pods sep"
    and "livingPod E vol p" and "pods w (pNamespace p, pName p) = Some p" and "pDeletionTimestamp p \<noteq> None"
    and "pFinalizers p = Some [Finalizer]" and "\<not> IsPodResourceError p"
    and "liveRefs (deletedPods mit) (entries (pAnnotations p)) \<noteq> []" and "droppedKeys mit p = []"
  shows "\<exists>w1 q. yields (Run E mit p) w (Inr ()) w1 \<and> pods w1 (pNamespace p, pName p) = Some q \<and> pDeletionTimestamp q = None \<and>
    pAnnotations q = pAnnotations p \<and>
    (\<forall>q' w2 src. sameObject q q' \<longrightarrow> pAnnotations q' = pAnnotations q \<longrightarrow> serving q' \<longrightarrow>
      sourceOf (stat w2) (PodMountBase @ ''/'' @ vol) vol = Some src \<longrightarrow>
      repairable stat sep src (refTargets (entries (pAnnotations p))) w2 \<longrightarrow>
      (\<exists>w3 fi. yields (Run E mit q') w2 (Inr ()) w3 \<and> stat w2 src = Inr fi \<and>
        rebound stat bound pods sep src fi (refTargets (entries (pAnnotations p))) w2 w3 \<and>
        list_all (\<lambda>t. \<not> broken (stat w3 t)) (refTargets (entries (pAnnotations p)))))"
proof -
  obtain w1 q where run: "yields (Run E mit p) w (Inr ()) w1" "pods w1 (pNamespace p, pName p) = Some q"
    and q: "mountPodOf (cfg E) vol q" "pAnnotations q = pAnnotations p" "pDeletionTimestamp q = None"
    using Run_restores [OF assms(1-3,5-11)] by blast
  have "\<exists>w3 fi. yields (Run E mit q') w2 (Inr ()) w3 \<and> stat w2 src = Inr fi \<and>
      rebound stat bound pods sep src fi (refTargets (entries (pAnnotations p))) w2 w3 \<and>
      list_all (\<lambda>t. \<not> broken (stat w3 t)) (refTargets (entries (pAnnotations p)))"
    if "sameObject q q'" "pAnnotations q' = pAnnotations q" "serving q'"
      "sourceOf (stat w2) (PodMountBase @ ''/'' @ vol) vol = Some src"
      "repairable stat sep src (refTargets (entries (pAnnotations p))) w2" for q' w2 src
  proof -
    have "mountPodOf (cfg E) vol q'" using q(1) that(1) by (rule mountPodOf_sameObject)
    moreover have "droppedKeys mit q' = []" using assms(11) that(2) q(2) by (simp add: droppedKeys_def)
    ultimately show ?thesis
      using Run_repairs [OF assms(4) _ that(3) _ _ that(4)] assms(10) that(2,5) q(2) by simp
  qed
  with run q(2,3) show ?thesis by blast
qed

theorem volume_recovers_witness:
  "\<exists>w1 w3 q. yields (Run exCluster (exMit [getPodUid exNewTarget]) exLost) (exNode exLost [] ''/mosfs/pv1/pv1'') (Inr ()) w1 \<and>
    fst w1 (pNamespace exLost, pName exLost) = Some q \<and>
    yields (Run exCluster (exMit [getPodUid exNewTarget]) (q\<lparr>pStatus := pStatus exServing\<rparr>))
      (exNode (q\<lparr>pStatus := pStatus exServing\<rparr>) exBroken ''/mosfs/pv1/pv1'') (Inr ()) w3 \<and>
    \<not> broken (fst (snd w3) exNewTarget)"
proof -
  let ?mit = "exMit [getPodUid exNewTarget]" and ?w = "\<lambda>q. exNode q exBroken ''/mosfs/pv1/pv1''"
  have quiet: "quietNode exCluster fst" by (simp add: quietNode_def exCluster_def node_sys_def sys0_def)
  have src: "sourceOf (fst (snd (?w q))) (PodMountBase @ ''/'' @ ''pv1'') ''pv1'' = Some ''/mosfs/pv1/pv1''" for q
    by (simp add: sourceOf_def exNode_def PodMountBase_def)
  have "repairable (\<lambda>w. fst (snd w)) apart ''/mosfs/pv1/pv1'' [exNewTarget] (?w q)" for q
    by (rule exNode_repairable) (simp_all add: exNode_def exNewTarget_def)
  then have repairs: "repairable (\<lambda>w. fst (snd w)) apart ''/mosfs/pv1/pv1'' (refTargets (entries (pAnnotations exLost))) (?w q)" for q
    by (simp add: exLost_fields(5))
  have ready: "serving (q\<lparr>pStatus := pStatus exServing\<rparr>)" if "pDeletionTimestamp q = None" for q
    using that exServing_refs(3) by (simp add: serving_def IsPodError_def IsPodReady_def split: if_splits)
  have stored: "fst (exNode exLost [] ''/mosfs/pv1/pv1'') (pNamespace exLost, pName exLost) = Some exLost" by (simp add: exNode_def)
  have marked: "pDeletionTimestamp exLost \<noteq> None" by (simp add: exLost_fields(2))
  note recovered = volume_recovers [where stat = "\<lambda>w. fst (snd w)" and bound = "\<lambda>w. snd (snd w)" and pods = fst and sep = apart
      and w = "exNode exLost [] ''/mosfs/pv1/pv1''" and mit = ?mit,
      OF exCluster_laws(1) quiet exCluster_graceful exCluster_laws(2) exLost_living stored marked exLost_fields(3,4,6,7)]
  then obtain w1 q where run: "yields (Run exCluster ?mit exLost) (exNode exLost [] ''/mosfs/pv1/pv1'') (Inr ()) w1"
      "fst w1 (pNamespace exLost, pName exLost) = Some q" "pDeletionTimestamp q = None"
    and next_run: "sameObject q q' \<Longrightarrow> pAnnotations q' = pAnnotations q \<Longrightarrow> serving q' \<Longrightarrow>
      sourceOf (fst (snd w2)) (PodMountBase @ ''/'' @ ''pv1'') ''pv1'' = Some src \<Longrightarrow>
      repairable (\<lambda>w. fst (snd w)) apart src (refTargets (entries (pAnnotations exLost))) w2 \<Longrightarrow>
      \<exists>w3. yields (Run exCluster ?mit q') w2 (Inr ()) w3 \<and>
        list_all (\<lambda>t. \<not> broken (fst (snd w3) t)) (refTargets (entries (pAnnotations exLost)))" for q' w2 src
    by meson
  have "sameObject q (q\<lparr>pStatus := pStatus exServing\<rparr>)" "pAnnotations (q\<lparr>pStatus := pStatus exServing\<rparr>) = pAnnotations q"
    by (simp_all add: sameObject_def)
  note again = next_run [OF this ready [OF run(3)] src repairs, of "q\<lparr>pStatus := pStatus exServing\<rparr>"]
  have "\<not> broken (fst (snd w3) exNewTarget)" if "list_all (\<lambda>t. \<not> broken (fst (snd w3) t)) (refTargets (entries (pAnnotations exLost)))" for w3 :: cluster
    using that by (simp add: exLost_fields(5))
  with again run show ?thesis by meson
qed

text \<open>
  C19: When the volumes of a storage class share its mount, a volume of the class is published by binding the
  target to the directory of the volume in that mount (unless the target was found mounted already). The command of the mount pod names
  the class, so a recovery looks for a directory of the name of the class. Where there is none, it binds every target
  that has lost its file system to the root of the shared mount, where the data of every volume of the class is.
\<close>

theorem shared_recovery_root:
  assumes "node_files (sys E) stat bound pods sep" and "sharesClass E (npVolumeId req) sc" and "plain_name sc"
    and "plain_name (mindex (npVolumeContext req) ''subPath'')" and "livingPod E sc p" and "serving p" and "droppedKeys mit p = []"
    and "liveRefs (deletedPods mit) (entries (pAnnotations p)) \<noteq> []"
    and "stat w (PodMountBase @ ''/'' @ sc @ ''/'' @ sc) = Inl (PathErr ENOENT)" and "stat w (PodMountBase @ ''/'' @ sc) = Inr fi"
    and "repairable stat sep (PodMountBase @ ''/'' @ sc) (refTargets (entries (pAnnotations p))) w"
    and "npTargetPath req \<in> set (refTargets (entries (pAnnotations p)))" and "broken (stat w (npTargetPath req))"
  shows "traces (NodePublishVolume E req) (onSuccess (\<lambda>_ es. \<exists>pre bnd. es = pre @ bnd \<and> boundAt (PodMountBase @ ''/'' @ sc)
      (PodMountBase @ ''/'' @ sc @ ''/'' @ mindex (npVolumeContext req) ''subPath'') (npTargetPath req) bnd)) \<and>
    (\<exists>w'. yields (Run E mit p) w (Inr ()) w' \<and> bound w' (npTargetPath req) = Some (PodMountBase @ ''/'' @ sc) \<and>
      stat w' (npTargetPath req) = Inr fi)"
proof
  show "traces (NodePublishVolume E req) (onSuccess (\<lambda>_ es. \<exists>pre bnd. es = pre @ bnd \<and> boundAt (PodMountBase @ ''/'' @ sc)
      (PodMountBase @ ''/'' @ sc @ ''/'' @ mindex (npVolumeContext req) ''subPath'') (npTargetPath req) bnd))"
    by (rule traces_mono [OF traces_NodePublishVolume])
      (use published_shared [OF assms(2-4)] in \<open>auto simp: onSuccess_def split: sum.splits\<close>)
  have "sourceOf (stat w) (PodMountBase @ ''/'' @ sc) sc = Some (PodMountBase @ ''/'' @ sc)"
    using assms(9,10) by (simp add: sourceOf_def IsNotExist_def)
  from Run_recovers [OF assms(1) livingPod_type [OF assms(5)] assms(6-8) this assms(11,10)]
  show "\<exists>w'. yields (Run E mit p) w (Inr ()) w' \<and> bound w' (npTargetPath req) = Some (PodMountBase @ ''/'' @ sc) \<and>
      stat w' (npTargetPath req) = Inr fi"
    using assms(12,13) by (auto simp: rebound_def)
qed

theorem shared_recovery_root_witness:
  "\<exists>w'. yields (Run exCluster (exMit [getPodUid exNewTarget]) exServing)
      (exNode exServing [(''/mosfs/pv1'', Inr exFile), (exNewTarget, Inl (PathErr ENOTCONN))] ''/mosfs/pv1/pvc-1'') (Inr ()) w' \<and>
    snd (snd w') exNewTarget = Some ''/mosfs/pv1''"
proof -
  let ?w = "exNode exServing [(''/mosfs/pv1'', Inr exFile), (exNewTarget, Inl (PathErr ENOTCONN))] ''/mosfs/pv1/pvc-1''"
  have req: "npTargetPath exShared = exNewTarget" "plain_name (mindex (npVolumeContext exShared) ''subPath'')" "plain_name ''pv1''"
    by (simp_all add: exShared_def plain_name_def mindex_def mlookup_def)
  have share: "sharesClass exCluster (npVolumeId exShared) ''pv1''"
    by (simp add: sharesClass_def exCluster_def node_sys_def cluster_kube_def)
  have w: "fst (snd ?w) (PodMountBase @ ''/'' @ ''pv1'' @ ''/'' @ ''pv1'') = Inl (PathErr ENOENT)"
    "fst (snd ?w) (PodMountBase @ ''/'' @ ''pv1'') = Inr exFile" "fst (snd ?w) exNewTarget = Inl (PathErr ENOTCONN)"
    by (simp_all add: exNode_def PodMountBase_def exNewTarget_def)
  have repairs: "repairable (\<lambda>w. fst (snd w)) apart (PodMountBase @ ''/'' @ ''pv1'') (refTargets (entries (pAnnotations exServing))) ?w"
    using exNode_repairable [OF _ w(3), of "''/mosfs/pv1''"] by (simp add: PodMountBase_def exServing_refs(2))
  have t: "npTargetPath exShared \<in> set (refTargets (entries (pAnnotations exServing)))" "broken (fst (snd ?w) (npTargetPath exShared))"
    using w(3) by (simp_all add: exServing_refs(2) req(1) IsNotExist_def)
  show ?thesis
    using shared_recovery_root [where E = exCluster and stat = "\<lambda>w. fst (snd w)" and bound = "\<lambda>w. snd (snd w)" and pods = fst and sep = apart
        and w = ?w and p = exServing and mit = "exMit [getPodUid exNewTarget]" and sc = "''pv1''" and req = exShared and fi = exFile]
      exCluster_laws(2) share req(2,3) exServing_living exServing_refs(3-5) w(1,2) repairs t
    by (auto simp: PodMountBase_def req(1))
qed

end
